(* ===== verification/Prelude.thy ===== *)
theory Prelude
  imports Main "HOL-Library.Sublist"
begin

text \<open>
  Shared vocabulary of the development: the \<open>error\<close> type (one constructor per
  exception class the Python sources can raise), the result type \<open>error + 'a\<close> with its
  sequencing \<open>rbind\<close>, the effectful computations \<open>('s, 'a) run\<close> (a state that survives
  an exception, as the side effects of a Python coroutine do) with \<open>ebind\<close>, the string
  operations of Python the sources use (\<open>startswith\<close>, slicing, \<open>in\<close> on strings,
  \<open>x or ''\<close>), and the lemma collections that carry the component proofs.
\<close>

section \<open>Lemma collections\<close>

named_theorems run_simps "unfolding rules of the result and run combinators"
named_theorems py_simps "evaluation rules of the Python operations"
named_theorems trace_simps "rules of the views of an event trace"

section \<open>Exceptions as values\<close>

datatype error =
    JSONDecodeError
  | TypeError
  | KeyError
  | IndexError
  | AttributeError
  | ValidationError
  | ConnectError
  | HTTPStatusError nat
  | ReadError

type_synonym 'a result = "error + 'a"

definition rbind :: "'a result \<Rightarrow> ('a \<Rightarrow> 'b result) \<Rightarrow> 'b result" where
  "rbind m f = (case m of Inl e \<Rightarrow> Inl e | Inr x \<Rightarrow> f x)"

definition settle :: "error option \<Rightarrow> 'a \<Rightarrow> 'a result" where
  "settle failed x = (case failed of None \<Rightarrow> Inr x | Some e \<Rightarrow> Inl e)"

section \<open>Computations with effects\<close>

text \<open>
  A computation of type \<open>('s, 'a) run\<close> takes the state before and returns the outcome
  together with the state after. The state is returned on the error branch too: what a
  coroutine wrote before it raised stays written.
\<close>

type_synonym ('s, 'a) run = "'s \<Rightarrow> 'a result \<times> 's"

definition returnE :: "'a \<Rightarrow> ('s, 'a) run" where
  "returnE x = (\<lambda>s. (Inr x, s))"

definition raiseE :: "error \<Rightarrow> ('s, 'a) run" where
  "raiseE e = (\<lambda>s. (Inl e, s))"

definition liftE :: "'a result \<Rightarrow> ('s, 'a) run" where
  "liftE r = (\<lambda>s. (r, s))"

definition ebind :: "('s, 'a) run \<Rightarrow> ('a \<Rightarrow> ('s, 'b) run) \<Rightarrow> ('s, 'b) run" where
  "ebind m f = (\<lambda>s. case m s of (Inl e, s') \<Rightarrow> (Inl e, s') | (Inr x, s') \<Rightarrow> f x s')"

definition ethen :: "('s, 'a) run \<Rightarrow> ('s, 'b) run \<Rightarrow> ('s, 'b) run" where
  "ethen m k = ebind m (\<lambda>_. k)"

definition efinally :: "('s, 'a) run \<Rightarrow> ('s, unit) run \<Rightarrow> ('s, 'a) run" where
  "efinally body cleanup =
     (\<lambda>s. case body s of
        (r, s1) \<Rightarrow>
          (case cleanup s1 of
             (Inl e, s2) \<Rightarrow> (Inl e, s2)
           | (Inr u, s2) \<Rightarrow> (r, s2)))"

section \<open>Python strings\<close>

text \<open>
  A Python \<open>str\<close> is modelled as a HOL \<open>string\<close>. The sources only compare strings,
  test a prefix, slice a prefix off, concatenate and test for emptiness; on valid UTF-8
  these operations agree on code points and on bytes, so the element type is immaterial.
\<close>

definition startswith :: "string \<Rightarrow> string \<Rightarrow> bool" where
  "startswith s p \<longleftrightarrow> take (length p) s = p"

definition or_empty :: "string option \<Rightarrow> string" where
  "or_empty x = (case x of None \<Rightarrow> [] | Some s \<Rightarrow> s)"

fun str_contains :: "string \<Rightarrow> string \<Rightarrow> bool" where
  "str_contains needle [] \<longleftrightarrow> needle = []"
| "str_contains needle (c # cs) \<longleftrightarrow> startswith (c # cs) needle \<or> str_contains needle cs"

section \<open>Sequencing results\<close>

lemma rbind_Inl [simp, run_simps]: "rbind (Inl e) f = Inl e"
  by (simp add: rbind_def)

lemma rbind_Inr [simp, run_simps]: "rbind (Inr x) f = f x"
  by (simp add: rbind_def)

lemma rbind_return [simp]: "rbind m Inr = m"
  by (cases m) simp_all

lemma rbind_assoc: "rbind (rbind m f) g = rbind m (\<lambda>x. rbind (f x) g)"
  by (cases m) simp_all

lemma rbind_eq_Inr_iff [run_simps]:
  "rbind m f = Inr y \<longleftrightarrow> (\<exists>x. m = Inr x \<and> f x = Inr y)"
  by (cases m) simp_all

lemma rbind_eq_Inl_iff [run_simps]:
  "rbind m f = Inl e \<longleftrightarrow> m = Inl e \<or> (\<exists>x. m = Inr x \<and> f x = Inl e)"
  by (cases m) simp_all

lemma settle_simps [simp, run_simps]:
  "settle None x = Inr x" "settle (Some e) x = Inl e"
  by (simp_all add: settle_def)

lemma settle_eq_Inr_iff [simp]: "settle failed x = Inr y \<longleftrightarrow> failed = None \<and> y = x"
  by (cases failed) auto

lemma settle_eq_Inl_iff [simp]: "settle failed x = Inl e \<longleftrightarrow> failed = Some e"
  by (cases failed) auto

lemma rbind_cong [fundef_cong]:
  "m = m' \<Longrightarrow> (\<And>x. m' = Inr x \<Longrightarrow> f x = f' x) \<Longrightarrow> rbind m f = rbind m' f'"
  by (cases m') simp_all

section \<open>Sequencing computations\<close>

lemma returnE_apply [simp, run_simps]: "returnE x s = (Inr x, s)"
  by (simp add: returnE_def)

lemma raiseE_apply [simp, run_simps]: "raiseE e s = (Inl e, s)"
  by (simp add: raiseE_def)

lemma liftE_apply [simp, run_simps]: "liftE r s = (r, s)"
  by (simp add: liftE_def)

lemma ebind_apply_Inr [run_simps]: "m s = (Inr x, s') \<Longrightarrow> ebind m f s = f x s'"
  by (simp add: ebind_def)

lemma ebind_apply_Inl [run_simps]: "m s = (Inl e, s') \<Longrightarrow> ebind m f s = (Inl e, s')"
  by (simp add: ebind_def)

lemma ebind_returnE [simp]: "ebind (returnE x) f = f x"
  by (simp add: ebind_def fun_eq_iff)

lemma ebind_raiseE [simp]: "ebind (raiseE e) f = raiseE e"
  by (simp add: ebind_def fun_eq_iff)

lemma ebind_liftE_Inr [simp]: "ebind (liftE (Inr x)) f = f x"
  by (simp add: ebind_def fun_eq_iff)

lemma ebind_liftE_Inl [simp]: "ebind (liftE (Inl e)) f = raiseE e"
  by (simp add: ebind_def fun_eq_iff)

lemma ebind_right_unit [simp]: "ebind m returnE = m"
  by (auto simp: ebind_def fun_eq_iff split: prod.splits sum.splits)

lemma ebind_assoc: "ebind (ebind m f) g = ebind m (\<lambda>x. ebind (f x) g)"
  by (auto simp: ebind_def fun_eq_iff split: prod.splits sum.splits)

lemma ethen_apply_Inr [run_simps]: "m s = (Inr x, s') \<Longrightarrow> ethen m k s = k s'"
  by (simp add: ethen_def ebind_def)

lemma ethen_apply_Inl [run_simps]: "m s = (Inl e, s') \<Longrightarrow> ethen m k s = (Inl e, s')"
  by (simp add: ethen_def ebind_def)

lemma efinally_apply [run_simps]:
  "body s = (r, s1) \<Longrightarrow> cleanup s1 = (Inr u, s2) \<Longrightarrow> efinally body cleanup s = (r, s2)"
  by (simp add: efinally_def)

lemma efinally_cleanup_fails [run_simps]:
  "body s = (r, s1) \<Longrightarrow> cleanup s1 = (Inl e, s2) \<Longrightarrow> efinally body cleanup s = (Inl e, s2)"
  by (simp add: efinally_def)

lemma ebind_cases:
  obtains (fails) e s' where "m s = (Inl e, s')" "ebind m f s = (Inl e, s')"
  | (returns) x s' where "m s = (Inr x, s')" "ebind m f s = f x s'"
proof (cases "m s")
  case (Pair r s')
  then show ?thesis
    by (cases r) (auto simp: ebind_def intro: fails returns)
qed

section \<open>Prefixes and substrings\<close>

lemma startswith_iff_prefix: "startswith s p \<longleftrightarrow> prefix p s"
  unfolding startswith_def prefix_def
  by (metis append_eq_conv_conj append_take_drop_id)

lemma startswith_append [simp, py_simps]: "startswith (p @ s) p"
  by (simp add: startswith_def)

lemma startswith_drop: "startswith s p \<Longrightarrow> p @ drop (length p) s = s"
  by (metis append_take_drop_id startswith_def)

lemma startswith_Nil [simp]: "startswith s []"
  by (simp add: startswith_def)

lemma startswith_Nil_left [simp]: "startswith [] p \<longleftrightarrow> p = []"
  by (auto simp: startswith_def)

lemma str_contains_iff_sublist: "str_contains needle hay \<longleftrightarrow> sublist needle hay"
  by (induction hay) (auto simp: sublist_Cons_right startswith_iff_prefix)

lemma or_empty_simps [simp, py_simps]:
  "or_empty None = []" "or_empty (Some s) = s"
  by (simp_all add: or_empty_def)

section \<open>Lists\<close>

lemma filter_map_filter_append:
  "List.map_filter f (xs @ ys) = List.map_filter f xs @ List.map_filter f ys"
  by (simp add: List.map_filter_def)

lemma map_filter_Cons_Some: "f x = Some y \<Longrightarrow> List.map_filter f (x # xs) = y # List.map_filter f xs"
  by (simp add: List.map_filter_def)

lemma map_filter_Cons_None: "f x = None \<Longrightarrow> List.map_filter f (x # xs) = List.map_filter f xs"
  by (simp add: List.map_filter_def)

lemma find_append:
  "List.find P (xs @ ys) = (case List.find P xs of None \<Rightarrow> List.find P ys | Some x \<Rightarrow> Some x)"
  by (induction xs) auto

lemma find_None_append: "List.find P xs = None \<Longrightarrow> List.find P (xs @ ys) = List.find P ys"
  by (simp add: find_append)

lemma ex_map_eq [simp]: "\<exists>ys. map f xs = map f ys"
  by (rule exI [of _ xs]) simp

end
