(* ===== verification/PyJson.thy ===== *)
theory PyJson
  imports Prelude "HOL-Library.AList"
begin

text \<open>
  The values \<open>json.loads\<close> returns and the Python operations the sources apply to
  them: truth value (\<open>if x:\<close>), membership (\<open>k in x\<close>), subscription (\<open>x[k]\<close>,
  \<open>x[0]\<close>), \<open>x.get(k, d)\<close>, item assignment and \<open>s += x\<close>. Each operation is total
  here and returns the exception Python raises on an operand of the wrong type as a
  value. A dictionary is an association list in insertion order whose keys are
  distinct (\<open>wf_json\<close>); the lemmas show that every operation keeps that invariant and
  how membership, subscription and \<open>get\<close> agree.
\<close>

section \<open>Values\<close>

text \<open>
  A float is kept as the decimal number its literal denotes, \<open>JFloat m e\<close> for
  \<open>m * 10 ^ e\<close>; Python rounds that number to the nearest double. The sources only
  ask whether a float is zero, which is so when the number is zero or rounds to zero:
  the smallest positive double is \<open>2 ^ - 1074\<close>, and a number of magnitude at most half
  of it rounds to zero (\<open>rounds_to_zero\<close>). Two literals of the same double are different
  values here; no operation of the sources compares floats. The literals \<open>NaN\<close>,
  \<open>Infinity\<close> and \<open>-Infinity\<close>, which \<open>json.loads\<close> accepts, are the floats
  \<open>JConst\<close>.
\<close>

datatype float_const = NaN | PosInfinity | NegInfinity

datatype json =
    JNull
  | JBool bool
  | JInt int
  | JFloat int int
  | JConst float_const
  | JStr string
  | JArr "json list"
  | JObj "(string \<times> json) list"

type_synonym pydict = "(string \<times> json) list"

fun wf_json :: "json \<Rightarrow> bool" where
  "wf_json (JArr xs) \<longleftrightarrow> list_all wf_json xs"
| "wf_json (JObj kvs) \<longleftrightarrow> distinct (map fst kvs) \<and> list_all (\<lambda>kv. wf_json (snd kv)) kvs"
| "wf_json _ \<longleftrightarrow> True"

section \<open>Operations\<close>

definition rounds_to_zero :: "int \<Rightarrow> int \<Rightarrow> bool" where
  "rounds_to_zero m e \<longleftrightarrow> m = 0 \<or> (e < 0 \<and> \<bar>m\<bar> * 2 ^ 1075 \<le> 10 ^ nat (- e))"

fun py_truthy :: "json \<Rightarrow> bool" where
  "py_truthy JNull \<longleftrightarrow> False"
| "py_truthy (JBool b) \<longleftrightarrow> b"
| "py_truthy (JInt n) \<longleftrightarrow> n \<noteq> 0"
| "py_truthy (JFloat m e) \<longleftrightarrow> \<not> rounds_to_zero m e"
| "py_truthy (JConst c) \<longleftrightarrow> True"
| "py_truthy (JStr s) \<longleftrightarrow> s \<noteq> []"
| "py_truthy (JArr xs) \<longleftrightarrow> xs \<noteq> []"
| "py_truthy (JObj kvs) \<longleftrightarrow> kvs \<noteq> []"

fun py_contains :: "string \<Rightarrow> json \<Rightarrow> bool result" where
  "py_contains k (JObj kvs) = Inr (map_of kvs k \<noteq> None)"
| "py_contains k (JArr xs) = Inr (JStr k \<in> set xs)"
| "py_contains k (JStr s) = Inr (str_contains k s)"
| "py_contains k _ = Inl TypeError"

fun py_getitem :: "json \<Rightarrow> string \<Rightarrow> json result" where
  "py_getitem (JObj kvs) k = (case map_of kvs k of None \<Rightarrow> Inl KeyError | Some v \<Rightarrow> Inr v)"
| "py_getitem _ k = Inl TypeError"

fun py_index0 :: "json \<Rightarrow> json result" where
  "py_index0 (JArr []) = Inl IndexError"
| "py_index0 (JArr (x # xs)) = Inr x"
| "py_index0 (JStr []) = Inl IndexError"
| "py_index0 (JStr (c # cs)) = Inr (JStr [c])"
| "py_index0 (JObj kvs) = Inl KeyError"
| "py_index0 _ = Inl TypeError"

fun py_get :: "json \<Rightarrow> string \<Rightarrow> json \<Rightarrow> json result" where
  "py_get (JObj kvs) k d = Inr (case map_of kvs k of None \<Rightarrow> d | Some v \<Rightarrow> v)"
| "py_get _ k d = Inl AttributeError"

fun py_iadd_str :: "string \<Rightarrow> json \<Rightarrow> string result" where
  "py_iadd_str acc (JStr s) = Inr (acc @ s)"
| "py_iadd_str acc _ = Inl TypeError"

definition py_setitem :: "pydict \<Rightarrow> string \<Rightarrow> json \<Rightarrow> pydict" where
  "py_setitem kvs k v = AList.update k v kvs"

fun py_store :: "json \<Rightarrow> string \<Rightarrow> json \<Rightarrow> json result" where
  "py_store (JObj kvs) k v = Inr (JObj (py_setitem kvs k v))"
| "py_store _ k v = Inl TypeError"

fun is_dict :: "json \<Rightarrow> bool" where
  "is_dict (JObj kvs) \<longleftrightarrow> True"
| "is_dict _ \<longleftrightarrow> False"

fun_cases py_getitem_InrE: "py_getitem j k = Inr v"
fun_cases py_get_InrE: "py_get j k d = Inr v"
fun_cases py_index0_InrE: "py_index0 j = Inr v"
fun_cases py_iadd_str_InrE: "py_iadd_str acc j = Inr s"

section \<open>Floats that are zero\<close>

lemma rounds_to_zero_simps [simp]:
  "rounds_to_zero 0 e"
  "0 \<le> e \<Longrightarrow> rounds_to_zero m e \<longleftrightarrow> m = 0"
  by (simp_all add: rounds_to_zero_def)

text \<open>A number of magnitude at least \<open>10 ^ - 323\<close> is not rounded to zero.\<close>

lemma rounds_to_zero_small_exponent:
  assumes "m \<noteq> 0" and "- 323 \<le> e"
  shows "\<not> rounds_to_zero m e"
proof (cases "e < 0")
  case True
  have "(10::int) ^ nat (- e) \<le> 10 ^ 323"
    using assms(2) by (intro power_increasing) simp_all
  also have "\<dots> < 2 ^ 1075" by simp
  also have "\<dots> \<le> \<bar>m\<bar> * 2 ^ 1075"
    using assms(1) by (simp add: mult_le_cancel_right1)
  finally show ?thesis
    using assms(1) True by (simp add: rounds_to_zero_def del: power_numeral)
qed (use assms in simp)

section \<open>Which operands an operation accepts\<close>

lemma py_getitem_Inr_iff:
  "py_getitem j k = Inr v \<longleftrightarrow> (\<exists>kvs. j = JObj kvs \<and> map_of kvs k = Some v)"
  by (cases j) (auto split: option.splits)

lemma py_get_Inr_iff:
  "py_get j k d = Inr v \<longleftrightarrow>
     (\<exists>kvs. j = JObj kvs \<and> v = (case map_of kvs k of None \<Rightarrow> d | Some w \<Rightarrow> w))"
  by (cases j) auto

lemma py_get_dict [simp]: "is_dict j \<Longrightarrow> \<exists>v. py_get j k d = Inr v"
  by (cases j) auto

lemma py_get_not_dict [simp]: "\<not> is_dict j \<Longrightarrow> py_get j k d = Inl AttributeError"
  by (cases j) auto

lemma py_iadd_str_Inr_iff: "py_iadd_str acc j = Inr r \<longleftrightarrow> (\<exists>s. j = JStr s \<and> r = acc @ s)"
  by (cases j) auto

lemma py_contains_TypeError_iff:
  "py_contains k j = Inl e \<longleftrightarrow>
     e = TypeError \<and> (j = JNull \<or> (\<exists>b. j = JBool b) \<or> (\<exists>n. j = JInt n) \<or> (\<exists>m x. j = JFloat m x)
       \<or> (\<exists>c. j = JConst c))"
  by (cases j) auto

text \<open>A key that \<open>in\<close> reports present can be subscripted: no \<open>KeyError\<close> follows.\<close>

lemma py_contains_dict_getitem:
  "py_contains k (JObj kvs) = Inr True \<Longrightarrow> \<exists>v. py_getitem (JObj kvs) k = Inr v"
  by auto

text \<open>On a list or a string the same test succeeds, and the subscription then fails.\<close>

lemma py_contains_not_dict_getitem:
  "\<not> is_dict j \<Longrightarrow> py_getitem j k = Inl TypeError"
  by (cases j) auto

lemma py_get_agrees_getitem:
  "py_getitem j k = Inr v \<Longrightarrow> py_get j k d = Inr v"
  by (auto elim!: py_getitem_InrE split: option.splits)

section \<open>Dictionaries keep their keys distinct\<close>

lemma wf_values:
  "list_all (\<lambda>kv. wf_json (snd kv)) kvs \<Longrightarrow> (k, v) \<in> set kvs \<Longrightarrow> wf_json v"
  by (auto simp: list_all_iff)

lemma map_of_wf:
  "list_all (\<lambda>kv. wf_json (snd kv)) kvs \<Longrightarrow> map_of kvs k = Some v \<Longrightarrow> wf_json v"
  by (blast dest: map_of_SomeD wf_values)

lemma wf_py_getitem: "wf_json j \<Longrightarrow> py_getitem j k = Inr v \<Longrightarrow> wf_json v"
  by (auto simp: py_getitem_Inr_iff dest: wf_values)

lemma wf_py_get: "wf_json j \<Longrightarrow> wf_json d \<Longrightarrow> py_get j k d = Inr v \<Longrightarrow> wf_json v"
  by (auto simp: py_get_Inr_iff dest: wf_values split: option.splits)

lemma wf_py_index0: "wf_json j \<Longrightarrow> py_index0 j = Inr v \<Longrightarrow> wf_json v"
  by (erule py_index0_InrE) auto

lemma list_all_update:
  "list_all (\<lambda>kv. P (snd kv)) kvs \<Longrightarrow> P v \<Longrightarrow> list_all (\<lambda>kv. P (snd kv)) (AList.update k v kvs)"
  by (induction kvs) auto

lemma wf_py_setitem:
  "wf_json (JObj kvs) \<Longrightarrow> wf_json v \<Longrightarrow> wf_json (JObj (py_setitem kvs k v))"
  by (simp add: py_setitem_def distinct_update list_all_update)

lemma py_setitem_lookup [simp, py_simps]:
  "map_of (py_setitem kvs k v) k' = (if k' = k then Some v else map_of kvs k')"
  by (simp add: py_setitem_def update_conv')

lemma py_setitem_keys:
  "map fst (py_setitem kvs k v) = (if k \<in> set (map fst kvs) then map fst kvs else map fst kvs @ [k])"
  by (simp add: py_setitem_def update_keys)

lemma py_get_setitem [simp, py_simps]:
  "py_get (JObj (py_setitem kvs k v)) k d = Inr v"
  by simp

lemma py_get_setitem_other:
  "k' \<noteq> k \<Longrightarrow> py_get (JObj (py_setitem kvs k v)) k' d = py_get (JObj kvs) k' d"
  by simp

lemma py_store_Inr_iff [py_simps]:
  "py_store d k v = Inr d' \<longleftrightarrow> (\<exists>kvs. d = JObj kvs \<and> d' = JObj (py_setitem kvs k v))"
  by (cases d) auto

lemma py_store_dict: "is_dict d \<Longrightarrow> \<exists>d'. py_store d k v = Inr d' \<and> is_dict d'"
  by (cases d) simp_all

lemma py_get_store [simp, py_simps]:
  "py_store d k v = Inr d' \<Longrightarrow> py_get d' k dflt = Inr v"
  "py_store d k v = Inr d' \<Longrightarrow> k' \<noteq> k \<Longrightarrow> py_get d' k' dflt = py_get d k' dflt"
  by (auto simp: py_store_Inr_iff py_get_setitem py_get_setitem_other)

lemma wf_py_store: "wf_json d \<Longrightarrow> wf_json v \<Longrightarrow> py_store d k v = Inr d' \<Longrightarrow> wf_json d'"
  using wf_py_setitem by (cases d) auto

lemma py_store_dict_simp [simp, py_simps]:
  "py_store (JObj kvs) k v = Inr d' \<longleftrightarrow> d' = JObj (py_setitem kvs k v)"
  by auto

end
