(* ===== verification/Effects.thy ===== *)
theory Effects
  imports PyJson
begin

text \<open>
  What a run does to the outside, as an append-only trace of events: the log surfaces
  (stages) it opens, writes and closes, the fragments it appends to the caller's
  answer channel, the state it attaches to the reply, and the requests it sends. The
  operations of the stage helper and of the choice object are computations over the
  trace. The views read a trace back (the text of a stage, the text of the answer, the
  status of a stage), and \<open>wf_trace\<close> is the protocol of the surfaces: indices are
  handed out in order, and a surface is written and closed only while it is open.
\<close>

section \<open>Events and traces\<close>

datatype request_mode = Structured | Streaming

datatype event =
    StageOpened nat string
  | StageAppended nat string
  | StageClosed nat
  | ChoiceAppended string
  | StateSet json
  | ModelRequested request_mode "json list"
  | ConversationPosted
  | ChatPosted json string
  | AgentRequested "string option"
  | ChoiceOpened
  | ChoiceClosed

type_synonym trace = "event list"

datatype stage_status = Unopened | Open | Closed

definition emit :: "event \<Rightarrow> (trace, unit) run" where
  "emit e = (\<lambda>tr. (Inr (), tr @ [e]))"

section \<open>Views of a trace\<close>

fun is_opening :: "event \<Rightarrow> bool" where
  "is_opening (StageOpened i n) \<longleftrightarrow> True"
| "is_opening _ \<longleftrightarrow> False"

fun is_stage_event :: "event \<Rightarrow> bool" where
  "is_stage_event (StageOpened i n) \<longleftrightarrow> True"
| "is_stage_event (StageAppended i c) \<longleftrightarrow> True"
| "is_stage_event (StageClosed i) \<longleftrightarrow> True"
| "is_stage_event _ \<longleftrightarrow> False"

definition stage_count :: "trace \<Rightarrow> nat" where
  "stage_count tr = length (filter is_opening tr)"

fun stage_step :: "nat \<Rightarrow> stage_status \<Rightarrow> event \<Rightarrow> stage_status" where
  "stage_step i s (StageOpened j n) = (if j = i then Open else s)"
| "stage_step i s (StageClosed j) = (if j = i then Closed else s)"
| "stage_step i s _ = s"

definition stage_status :: "trace \<Rightarrow> nat \<Rightarrow> stage_status" where
  "stage_status tr i = foldl (stage_step i) Unopened tr"

fun stage_chunk :: "nat \<Rightarrow> event \<Rightarrow> string option" where
  "stage_chunk i (StageAppended j c) = (if j = i then Some c else None)"
| "stage_chunk i _ = None"

fun choice_chunk :: "event \<Rightarrow> string option" where
  "choice_chunk (ChoiceAppended c) = Some c"
| "choice_chunk _ = None"

fun state_of :: "event \<Rightarrow> json option" where
  "state_of (StateSet s) = Some s"
| "state_of _ = None"

fun is_post :: "event \<Rightarrow> bool" where
  "is_post (ModelRequested m ms) \<longleftrightarrow> True"
| "is_post ConversationPosted \<longleftrightarrow> True"
| "is_post (ChatPosted c u) \<longleftrightarrow> True"
| "is_post (AgentRequested a) \<longleftrightarrow> True"
| "is_post _ \<longleftrightarrow> False"

fun is_quiet :: "event \<Rightarrow> bool" where
  "is_quiet (StageOpened i n) \<longleftrightarrow> False"
| "is_quiet (StageAppended i c) \<longleftrightarrow> False"
| "is_quiet (StageClosed i) \<longleftrightarrow> False"
| "is_quiet (ChoiceAppended c) \<longleftrightarrow> False"
| "is_quiet (ModelRequested m ms) \<longleftrightarrow> False"
| "is_quiet ChoiceOpened \<longleftrightarrow> False"
| "is_quiet ChoiceClosed \<longleftrightarrow> False"
| "is_quiet _ \<longleftrightarrow> True"

definition stage_chunks :: "nat \<Rightarrow> trace \<Rightarrow> string list" where
  "stage_chunks i tr = List.map_filter (stage_chunk i) tr"

definition stage_text :: "nat \<Rightarrow> trace \<Rightarrow> string" where
  "stage_text i tr = concat (stage_chunks i tr)"

definition choice_chunks :: "trace \<Rightarrow> string list" where
  "choice_chunks tr = List.map_filter choice_chunk tr"

definition choice_text :: "trace \<Rightarrow> string" where
  "choice_text tr = concat (choice_chunks tr)"

definition states_set :: "trace \<Rightarrow> json list" where
  "states_set tr = List.map_filter state_of tr"

definition posts :: "trace \<Rightarrow> event list" where
  "posts tr = filter is_post tr"

fun is_model_call :: "event \<Rightarrow> bool" where
  "is_model_call (ModelRequested m ms) \<longleftrightarrow> True"
| "is_model_call _ \<longleftrightarrow> False"

definition model_calls :: "trace \<Rightarrow> event list" where
  "model_calls tr = filter is_model_call tr"

fun choice_step :: "stage_status \<Rightarrow> event \<Rightarrow> stage_status" where
  "choice_step s ChoiceOpened = Open"
| "choice_step s ChoiceClosed = Closed"
| "choice_step s _ = s"

definition choice_status :: "trace \<Rightarrow> stage_status" where
  "choice_status tr = foldl choice_step Unopened tr"

fun is_scope_event :: "event \<Rightarrow> bool" where
  "is_scope_event ChoiceOpened \<longleftrightarrow> True"
| "is_scope_event ChoiceClosed \<longleftrightarrow> True"
| "is_scope_event _ \<longleftrightarrow> False"

definition scope_events :: "trace \<Rightarrow> event list" where
  "scope_events tr = filter is_scope_event tr"

definition grows :: "trace \<Rightarrow> trace \<Rightarrow> bool" where
  "grows tr tr' \<longleftrightarrow>
     take (length tr) tr' = tr \<and> scope_events (drop (length tr) tr') = []"

definition all_closed :: "trace \<Rightarrow> bool" where
  "all_closed tr \<longleftrightarrow> list_all (\<lambda>i. stage_status tr i = Closed) [0..<stage_count tr]"

section \<open>The stage helper and the choice object\<close>

definition open_stage :: "string \<Rightarrow> (trace, nat) run" where
  "open_stage name = (\<lambda>tr. (Inr (stage_count tr), tr @ [StageOpened (stage_count tr) name]))"

definition append_content :: "nat \<Rightarrow> string \<Rightarrow> (trace, unit) run" where
  "append_content stage c = emit (StageAppended stage c)"

definition close_stage_safely :: "nat \<Rightarrow> (trace, unit) run" where
  "close_stage_safely stage =
     (\<lambda>tr. (Inr (), if stage_status tr stage = Open then tr @ [StageClosed stage] else tr))"

definition choice_append_content :: "string \<Rightarrow> (trace, unit) run" where
  "choice_append_content c = emit (ChoiceAppended c)"

definition set_state :: "json \<Rightarrow> (trace, unit) run" where
  "set_state s = emit (StateSet s)"

section \<open>The protocol of the log surfaces\<close>

inductive wf_trace :: "trace \<Rightarrow> bool" where
  wf_empty: "wf_trace []"
| wf_opened: "wf_trace tr \<Longrightarrow> i = stage_count tr \<Longrightarrow> wf_trace (tr @ [StageOpened i name])"
| wf_appended: "wf_trace tr \<Longrightarrow> stage_status tr i = Open \<Longrightarrow> wf_trace (tr @ [StageAppended i c])"
| wf_closed: "wf_trace tr \<Longrightarrow> stage_status tr i = Open \<Longrightarrow> wf_trace (tr @ [StageClosed i])"
| wf_other: "wf_trace tr \<Longrightarrow> \<not> is_stage_event e \<Longrightarrow> wf_trace (tr @ [e])"

text \<open>The executable form of the protocol: one pass over the trace.\<close>

fun event_ok :: "trace \<Rightarrow> event \<Rightarrow> bool" where
  "event_ok tr (StageOpened i n) \<longleftrightarrow> i = stage_count tr"
| "event_ok tr (StageAppended i c) \<longleftrightarrow> stage_status tr i = Open"
| "event_ok tr (StageClosed i) \<longleftrightarrow> stage_status tr i = Open"
| "event_ok tr _ \<longleftrightarrow> True"

fun check_from :: "trace \<Rightarrow> trace \<Rightarrow> bool" where
  "check_from done [] \<longleftrightarrow> True"
| "check_from done (e # es) \<longleftrightarrow> event_ok done e \<and> check_from (done @ [e]) es"

definition check_trace :: "trace \<Rightarrow> bool" where
  "check_trace tr = check_from [] tr"

section \<open>The operations, applied\<close>

lemma emit_apply [simp, run_simps]: "emit e tr = (Inr (), tr @ [e])"
  by (simp add: emit_def)

lemma open_stage_apply [run_simps]:
  "open_stage name tr = (Inr (stage_count tr), tr @ [StageOpened (stage_count tr) name])"
  by (simp add: open_stage_def)

lemma append_content_apply [simp, run_simps]:
  "append_content stage c tr = (Inr (), tr @ [StageAppended stage c])"
  by (simp add: append_content_def)

lemma close_stage_safely_apply [run_simps]:
  "close_stage_safely stage tr =
     (Inr (), if stage_status tr stage = Open then tr @ [StageClosed stage] else tr)"
  by (simp add: close_stage_safely_def)

lemma choice_append_content_apply [simp, run_simps]:
  "choice_append_content c tr = (Inr (), tr @ [ChoiceAppended c])"
  by (simp add: choice_append_content_def)

lemma set_state_apply [simp, run_simps]: "set_state s tr = (Inr (), tr @ [StateSet s])"
  by (simp add: set_state_def)

section \<open>The views distribute over the trace\<close>

lemma stage_count_Nil [simp, trace_simps]: "stage_count [] = 0"
  by (simp add: stage_count_def)

lemma stage_count_append [simp, trace_simps]:
  "stage_count (tr @ tr') = stage_count tr + stage_count tr'"
  by (simp add: stage_count_def)

lemma stage_count_Cons [simp, trace_simps]:
  "stage_count (e # tr) = (if is_opening e then Suc (stage_count tr) else stage_count tr)"
  by (simp add: stage_count_def)

lemma stage_status_Nil [simp, trace_simps]: "stage_status [] i = Unopened"
  by (simp add: stage_status_def)

lemma stage_status_snoc [simp, trace_simps]:
  "stage_status (tr @ [e]) i = stage_step i (stage_status tr i) e"
  by (simp add: stage_status_def)

lemma stage_status_Cons [trace_simps]:
  "stage_status (e # tr) i = foldl (stage_step i) (stage_step i Unopened e) tr"
  by (simp add: stage_status_def)

lemma stage_status_append:
  "stage_status (tr @ tr') i = foldl (stage_step i) (stage_status tr i) tr'"
  by (simp add: stage_status_def)

lemma stage_chunks_Nil [simp, trace_simps]: "stage_chunks i [] = []"
  by (simp add: stage_chunks_def)

lemma stage_chunks_append [simp, trace_simps]:
  "stage_chunks i (tr @ tr') = stage_chunks i tr @ stage_chunks i tr'"
  by (simp add: stage_chunks_def filter_map_filter_append)

lemma stage_chunks_Cons [simp, trace_simps]:
  "stage_chunks i (e # tr) =
     (case stage_chunk i e of None \<Rightarrow> stage_chunks i tr | Some c \<Rightarrow> c # stage_chunks i tr)"
  by (simp add: stage_chunks_def List.map_filter_def split: option.splits)

lemma stage_chunks_map_appended [simp, trace_simps]:
  "stage_chunks i (map (StageAppended j) cs) = (if j = i then cs else [])"
  by (induction cs) auto

lemma stage_chunks_map_choice [simp, trace_simps]:
  "stage_chunks i (map ChoiceAppended cs) = []"
  by (induction cs) simp_all

lemma stage_text_Nil [simp, trace_simps]: "stage_text i [] = []"
  by (simp add: stage_text_def)

lemma stage_text_append [simp, trace_simps]:
  "stage_text i (tr @ tr') = stage_text i tr @ stage_text i tr'"
  by (simp add: stage_text_def)

lemma choice_chunks_Nil [simp, trace_simps]: "choice_chunks [] = []"
  by (simp add: choice_chunks_def)

lemma choice_chunks_append [simp, trace_simps]:
  "choice_chunks (tr @ tr') = choice_chunks tr @ choice_chunks tr'"
  by (simp add: choice_chunks_def filter_map_filter_append)

lemma choice_chunks_Cons [simp, trace_simps]:
  "choice_chunks (e # tr) =
     (case choice_chunk e of None \<Rightarrow> choice_chunks tr | Some c \<Rightarrow> c # choice_chunks tr)"
  by (simp add: choice_chunks_def List.map_filter_def split: option.splits)

lemma choice_chunks_map_appended [simp, trace_simps]:
  "choice_chunks (map ChoiceAppended cs) = cs"
  by (induction cs) auto

lemma choice_chunks_map_stage [simp, trace_simps]:
  "choice_chunks (map (StageAppended i) cs) = []"
  by (induction cs) auto

lemma choice_text_Nil [simp, trace_simps]: "choice_text [] = []"
  by (simp add: choice_text_def)

lemma choice_text_append [simp, trace_simps]:
  "choice_text (tr @ tr') = choice_text tr @ choice_text tr'"
  by (simp add: choice_text_def)

lemma states_set_Nil [simp, trace_simps]: "states_set [] = []"
  by (simp add: states_set_def)

lemma states_set_append [simp, trace_simps]:
  "states_set (tr @ tr') = states_set tr @ states_set tr'"
  by (simp add: states_set_def filter_map_filter_append)

lemma states_set_Cons [simp, trace_simps]:
  "states_set (e # tr) =
     (case state_of e of None \<Rightarrow> states_set tr | Some s \<Rightarrow> s # states_set tr)"
  by (simp add: states_set_def List.map_filter_def split: option.splits)

lemma posts_Nil [simp, trace_simps]: "posts [] = []"
  by (simp add: posts_def)

lemma posts_append [simp, trace_simps]: "posts (tr @ tr') = posts tr @ posts tr'"
  by (simp add: posts_def)

lemma posts_Cons [simp, trace_simps]:
  "posts (e # tr) = (if is_post e then e # posts tr else posts tr)"
  by (simp add: posts_def)

lemma stage_count_map_appended [simp, trace_simps]:
  "stage_count (map (StageAppended i) cs) = 0"
  by (induction cs) auto

lemma stage_count_map_choice [simp, trace_simps]:
  "stage_count (map ChoiceAppended cs) = 0"
  by (induction cs) auto

lemma posts_map_appended [simp, trace_simps]: "posts (map (StageAppended i) cs) = []"
  by (induction cs) auto

lemma posts_map_choice [simp, trace_simps]: "posts (map ChoiceAppended cs) = []"
  by (induction cs) auto

lemma states_set_map_appended [simp, trace_simps]:
  "states_set (map (StageAppended i) cs) = []"
  by (induction cs) auto

lemma states_set_map_choice [simp, trace_simps]: "states_set (map ChoiceAppended cs) = []"
  by (induction cs) auto

lemma foldl_stage_step_map_appended [simp]:
  "foldl (stage_step i) s (map (StageAppended j) cs) = s"
  by (induction cs) auto

lemma foldl_stage_step_map_choice [simp]:
  "foldl (stage_step i) s (map ChoiceAppended cs) = s"
  by (induction cs) auto

lemma stage_status_Cons_append:
  "stage_status (tr @ e # tr') i = foldl (stage_step i) (stage_step i (stage_status tr i) e) tr'"
  by (simp add: stage_status_append)

lemma stage_status_map_appended [simp, trace_simps]:
  "stage_status (tr @ map (StageAppended j) cs) i = stage_status tr i"
  by (induction cs rule: rev_induct) (simp_all flip: append_assoc)

lemma stage_status_map_choice [simp, trace_simps]:
  "stage_status (tr @ map ChoiceAppended cs) i = stage_status tr i"
  by (induction cs rule: rev_induct) (simp_all flip: append_assoc)

section \<open>The protocol is kept\<close>

inductive_cases wf_snocE: "wf_trace (tr @ [e])"

lemma wf_trace_snoc_iff: "wf_trace (tr @ [e]) \<longleftrightarrow> wf_trace tr \<and> event_ok tr e"
proof
  assume "wf_trace (tr @ [e])"
  then show "wf_trace tr \<and> event_ok tr e"
    by (rule wf_snocE) (auto elim: is_stage_event.elims)
next
  assume "wf_trace tr \<and> event_ok tr e"
  then show "wf_trace (tr @ [e])"
    by (cases e) (auto intro: wf_trace.intros)
qed

lemma check_from_append:
  "check_from done (es @ [e]) \<longleftrightarrow> check_from done es \<and> event_ok (done @ es) e"
  by (induction es arbitrary: "done") auto

lemma wf_trace_iff_check: "wf_trace tr \<longleftrightarrow> check_trace tr"
  unfolding check_trace_def
  by (induction tr rule: rev_induct) (simp_all add: wf_empty wf_trace_snoc_iff check_from_append)

lemma wf_emit_other [simp]: "\<not> is_stage_event e \<Longrightarrow> wf_trace (tr @ [e]) \<longleftrightarrow> wf_trace tr"
  by (cases e) (simp_all add: wf_trace_snoc_iff)

lemma wf_append_map_appended:
  "wf_trace tr \<Longrightarrow> stage_status tr i = Open \<Longrightarrow> wf_trace (tr @ map (StageAppended i) cs)"
  by (induction cs rule: rev_induct) (simp_all add: wf_trace_snoc_iff flip: append_assoc)

lemma wf_append_map_choice: "wf_trace tr \<Longrightarrow> wf_trace (tr @ map ChoiceAppended cs)"
  by (induction cs rule: rev_induct) (simp_all flip: append_assoc)

lemma foldl_stage_step_other [simp]:
  "list_all (\<lambda>e. \<not> is_stage_event e) es \<Longrightarrow> foldl (stage_step i) s es = s"
  by (induction es) (auto elim: is_stage_event.elims)

lemma stage_count_other [simp]:
  "list_all (\<lambda>e. \<not> is_stage_event e) es \<Longrightarrow> stage_count es = 0"
  by (induction es) (auto elim: is_stage_event.elims)

lemma stage_status_append_other [simp]:
  "list_all (\<lambda>e. \<not> is_stage_event e) es \<Longrightarrow> stage_status (tr @ es) i = stage_status tr i"
  by (simp add: stage_status_append)

lemma wf_append_other:
  "wf_trace tr \<Longrightarrow> list_all (\<lambda>e. \<not> is_stage_event e) es \<Longrightarrow> wf_trace (tr @ es)"
  by (induction es rule: rev_induct) (simp_all flip: append_assoc)

text \<open>
  The shape of what a gateway adds to the trace: requests and state first, then
  fragments for its own stage. Such an extension keeps the protocol and leaves every
  stage as it was.
\<close>

lemma gateway_extension:
  assumes "wf_trace tr" and "stage_status tr stage = Open"
    and "list_all (\<lambda>e. \<not> is_stage_event e) es"
  shows "wf_trace (tr @ es @ map (StageAppended stage) cs)"
    and "stage_status (tr @ es @ map (StageAppended stage) cs) i = stage_status tr i"
    and "stage_count (tr @ es @ map (StageAppended stage) cs) = stage_count tr"
proof -
  have "wf_trace (tr @ es)" and "stage_status (tr @ es) stage = Open"
    using assms by (simp_all add: wf_append_other)
  then have "wf_trace ((tr @ es) @ map (StageAppended stage) cs)"
    by (rule wf_append_map_appended)
  then show "wf_trace (tr @ es @ map (StageAppended stage) cs)"
    by simp
  show "stage_status (tr @ es @ map (StageAppended stage) cs) i = stage_status tr i"
    using assms(3) by (simp flip: append_assoc)
  show "stage_count (tr @ es @ map (StageAppended stage) cs) = stage_count tr"
    using assms(3) by simp
qed

text \<open>Every operation of the stage helper and of the choice keeps the protocol.\<close>

lemma open_stage_wf: "wf_trace tr \<Longrightarrow> wf_trace (snd (open_stage name tr))"
  by (simp add: open_stage_def wf_trace_snoc_iff)

lemma open_stage_status:
  "wf_trace tr \<Longrightarrow> open_stage name tr = (r, tr') \<Longrightarrow> \<exists>i. r = Inr i \<and> stage_status tr' i = Open"
  by (auto simp: open_stage_def)

lemma close_stage_safely_wf: "wf_trace tr \<Longrightarrow> wf_trace (snd (close_stage_safely i tr))"
  by (simp add: close_stage_safely_def wf_trace_snoc_iff)

lemma close_stage_safely_returns: "fst (close_stage_safely i tr) = Inr ()"
  by (simp add: close_stage_safely_def)

lemma close_stage_safely_closes:
  "stage_status tr i = Open \<Longrightarrow> stage_status (snd (close_stage_safely i tr)) i = Closed"
  by (simp add: close_stage_safely_def)

lemma close_stage_safely_idem:
  "snd (close_stage_safely i (snd (close_stage_safely i tr))) = snd (close_stage_safely i tr)"
  by (simp add: close_stage_safely_def)

lemma append_content_wf:
  "wf_trace tr \<Longrightarrow> stage_status tr i = Open \<Longrightarrow> wf_trace (snd (append_content i c tr))"
  by (simp add: wf_trace_snoc_iff)

lemma choice_append_content_wf: "wf_trace tr \<Longrightarrow> wf_trace (snd (choice_append_content c tr))"
  by simp

lemma set_state_wf: "wf_trace tr \<Longrightarrow> wf_trace (snd (set_state s tr))"
  by simp

text \<open>A stage index that has not been handed out yet has never been opened.\<close>

lemma stage_status_fresh: "wf_trace tr \<Longrightarrow> stage_count tr \<le> i \<Longrightarrow> stage_status tr i = Unopened"
  by (induction rule: wf_trace.induct) (auto elim: is_stage_event.elims)

lemma stage_status_opened: "wf_trace tr \<Longrightarrow> i < stage_count tr \<Longrightarrow> stage_status tr i \<noteq> Unopened"
  by (induction rule: wf_trace.induct) (auto elim: is_stage_event.elims simp: less_Suc_eq)

text \<open>The protocol of an extended trace, checked on the extension alone.\<close>

lemma check_from_append_iff:
  "check_from done (es @ es') \<longleftrightarrow> check_from done es \<and> check_from (done @ es) es'"
  by (induction es arbitrary: "done") simp_all

lemma wf_trace_append_iff: "wf_trace (tr @ es) \<longleftrightarrow> wf_trace tr \<and> check_from tr es"
  by (simp add: wf_trace_iff_check check_trace_def check_from_append_iff)

section \<open>Events that touch neither a stage nor the answer\<close>

lemma quiet_not_stage_event: "is_quiet e \<Longrightarrow> \<not> is_stage_event e"
  by (cases e) simp_all

lemma list_all_quiet [simp]:
  "list_all is_quiet es \<Longrightarrow> list_all (\<lambda>e. \<not> is_stage_event e) es"
  by (induction es) (simp_all add: quiet_not_stage_event)

lemma choice_chunks_quiet [simp]: "list_all is_quiet es \<Longrightarrow> choice_chunks es = []"
  by (induction es) (auto elim: is_quiet.elims)

lemma stage_chunks_quiet [simp]: "list_all is_quiet es \<Longrightarrow> stage_chunks i es = []"
  by (induction es) (auto elim: is_quiet.elims)

lemma model_calls_simps [simp, trace_simps]:
  "model_calls [] = []" "model_calls (tr @ tr') = model_calls tr @ model_calls tr'"
  "model_calls (e # tr) = (if is_model_call e then e # model_calls tr else model_calls tr)"
  by (simp_all add: model_calls_def)

lemma model_calls_quiet [simp]: "list_all is_quiet es \<Longrightarrow> model_calls es = []"
  by (induction es) (auto elim: is_quiet.elims)

lemma model_calls_map [simp, trace_simps]:
  "model_calls (map (StageAppended i) cs) = []" "model_calls (map ChoiceAppended cs) = []"
  by (induction cs) simp_all

lemma scope_events_simps [simp, trace_simps]:
  "scope_events [] = []" "scope_events (tr @ tr') = scope_events tr @ scope_events tr'"
  "scope_events (e # tr) = (if is_scope_event e then e # scope_events tr else scope_events tr)"
  by (simp_all add: scope_events_def)

lemma scope_events_quiet [simp]: "list_all is_quiet es \<Longrightarrow> scope_events es = []"
  by (induction es) (auto elim: is_quiet.elims)

lemma scope_events_map [simp, trace_simps]:
  "scope_events (map (StageAppended i) cs) = []" "scope_events (map ChoiceAppended cs) = []"
  by (induction cs) simp_all

lemma choice_status_simps [simp, trace_simps]:
  "choice_status [] = Unopened"
  "choice_status (tr @ [e]) = choice_step (choice_status tr) e"
  by (simp_all add: choice_status_def)

lemma choice_status_scope: "choice_status tr = choice_status (scope_events tr)"
  by (induction tr rule: rev_induct) (simp_all, case_tac x, simp_all)

text \<open>A trace grows when events are appended to it and none of them opens or closes the choice.\<close>

lemma grows_iff: "grows tr tr' \<longleftrightarrow> (\<exists>es. tr' = tr @ es \<and> scope_events es = [])"
proof
  assume "grows tr tr'"
  then have "tr' = tr @ drop (length tr) tr' \<and> scope_events (drop (length tr) tr') = []"
    by (metis append_take_drop_id grows_def)
  then show "\<exists>es. tr' = tr @ es \<and> scope_events es = []" ..
next
  assume "\<exists>es. tr' = tr @ es \<and> scope_events es = []"
  then show "grows tr tr'"
    by (auto simp: grows_def)
qed

lemma grows_append [simp]: "scope_events es = [] \<Longrightarrow> grows tr (tr @ es)"
  by (auto simp: grows_iff)

lemma grows_refl [simp]: "grows tr tr"
  using grows_append [of "[]" tr] by simp

lemma grows_trans: "grows tr tr' \<Longrightarrow> grows tr' tr'' \<Longrightarrow> grows tr tr''"
  by (auto simp: grows_iff)

lemma grows_scope: "grows tr tr' \<Longrightarrow> scope_events tr' = scope_events tr"
  by (auto simp: grows_iff)

lemma gateway_extension_texts:
  assumes "list_all is_quiet es"
  shows "choice_chunks (tr @ es @ map (StageAppended stage) cs) = choice_chunks tr"
    and "i \<noteq> stage \<Longrightarrow> stage_chunks i (tr @ es @ map (StageAppended stage) cs) = stage_chunks i tr"
    and "stage_chunks stage (tr @ es @ map (StageAppended stage) cs) = stage_chunks stage tr @ cs"
  using assms by simp_all

end
