(* ===== verification/Messages.thy ===== *)
theory Messages
  imports Effects
begin

text \<open>
  The conversation a request carries and the message adapter of the coordinator
  (\<open>MASCoordinator.__prepare_messages\<close> in \<open>src/task/agent.py\<close>). The message types
  belong to the chat SDK, which is not part of the sources; they are modelled from the
  interface the specification gives: a role, an optional text, and an optional custom
  content that may hold attachments and a persisted state. \<open>message_dict\<close> is the
  dictionary \<open>msg.dict(exclude_none=True)\<close> produces. The lemmas show what the
  adapter sends to the model: the system entry first, one entry per message in order,
  and nothing but role and text for a user message that carries custom content.
\<close>

section \<open>Messages of the chat interface\<close>

datatype role = System | User | Assistant

record custom_content =
  attachments :: "json option"
  state :: "json option"

record message =
  msg_role :: role
  msg_content :: "string option"
  msg_custom :: "custom_content option"

type_synonym request = "message list"

fun role_str :: "role \<Rightarrow> string" where
  "role_str System = ''system''"
| "role_str User = ''user''"
| "role_str Assistant = ''assistant''"

definition opt_field :: "string \<Rightarrow> json option \<Rightarrow> pydict" where
  "opt_field k v = (case v of None \<Rightarrow> [] | Some j \<Rightarrow> [(k, j)])"

definition custom_dict :: "custom_content \<Rightarrow> json" where
  "custom_dict c = JObj (opt_field ''attachments'' (attachments c) @ opt_field ''state'' (state c))"

definition message_dict :: "message \<Rightarrow> json" where
  "message_dict m = JObj ([(''role'', JStr (role_str (msg_role m)))]
     @ opt_field ''content'' (map_option JStr (msg_content m))
     @ opt_field ''custom_content'' (map_option custom_dict (msg_custom m)))"

definition assistant_message :: "string \<Rightarrow> message" where
  "assistant_message c = \<lparr>msg_role = Assistant, msg_content = Some c, msg_custom = None\<rparr>"

section \<open>The message adapter\<close>

definition role_content :: "string \<Rightarrow> string \<Rightarrow> json" where
  "role_content r c = JObj [(''role'', JStr r), (''content'', JStr c)]"

definition prepare_entry :: "message \<Rightarrow> json" where
  "prepare_entry msg =
     (if msg_role msg = User \<and> msg_custom msg \<noteq> None
      then role_content ''user'' (or_empty (msg_content msg))
      else message_dict msg)"

definition prepare_messages :: "request \<Rightarrow> string \<Rightarrow> json list" where
  "prepare_messages request system_prompt =
     role_content ''system'' system_prompt # map prepare_entry request"

section \<open>Shape of the dictionaries\<close>

lemma opt_field_simps [simp, py_simps]:
  "opt_field k None = []" "opt_field k (Some j) = [(k, j)]"
  by (simp_all add: opt_field_def)

lemma role_str_inject [simp]: "role_str r = role_str r' \<longleftrightarrow> r = r'"
  by (cases r; cases r') simp_all

lemma wf_custom_dict: "wf_json (custom_dict c) \<longleftrightarrow>
    (\<forall>a. attachments c = Some a \<longrightarrow> wf_json a) \<and> (\<forall>s. state c = Some s \<longrightarrow> wf_json s)"
  by (cases "attachments c"; cases "state c") (simp_all add: custom_dict_def)

lemma message_dict_role [simp, py_simps]:
  "py_getitem (message_dict m) ''role'' = Inr (JStr (role_str (msg_role m)))"
  by (simp add: message_dict_def)

lemma message_dict_content [simp, py_simps]:
  "py_get (message_dict m) ''content'' d = Inr (case msg_content m of None \<Rightarrow> d | Some c \<Rightarrow> JStr c)"
  by (cases "msg_content m"; cases "msg_custom m") (simp_all add: message_dict_def)

lemma role_content_get [simp, py_simps]:
  "py_getitem (role_content r c) ''role'' = Inr (JStr r)"
  "py_get (role_content r c) ''content'' d = Inr (JStr c)"
  by (simp_all add: role_content_def)

lemma wf_role_content [simp]: "wf_json (role_content r c)"
  by (simp add: role_content_def)

lemma is_dict_role_content [simp]: "is_dict (role_content r c)"
  by (simp add: role_content_def)

lemma is_dict_message_dict [simp]: "is_dict (message_dict m)"
  by (simp add: message_dict_def)

lemma is_dict_prepare_entry [simp]: "is_dict (prepare_entry m)"
  by (simp add: prepare_entry_def)

section \<open>What the adapter sends\<close>

lemma prepare_messages_Nil [simp]:
  "prepare_messages [] p = [role_content ''system'' p]"
  by (simp add: prepare_messages_def)

lemma prepare_messages_length [simp]:
  "length (prepare_messages request p) = Suc (length request)"
  by (simp add: prepare_messages_def)

lemma prepare_messages_nonempty [simp]: "prepare_messages request p \<noteq> []"
  by (simp add: prepare_messages_def)

lemma prepare_messages_hd [simp]:
  "hd (prepare_messages request p) = role_content ''system'' p"
  by (simp add: prepare_messages_def)

lemma prepare_messages_nth:
  "i < length request \<Longrightarrow> prepare_messages request p ! Suc i = prepare_entry (request ! i)"
  by (simp add: prepare_messages_def)

lemma prepare_messages_append:
  "prepare_messages (r1 @ r2) p = prepare_messages r1 p @ map prepare_entry r2"
  by (simp add: prepare_messages_def)

lemma prepare_messages_last:
  "request \<noteq> [] \<Longrightarrow> last (prepare_messages request p) = prepare_entry (last request)"
  by (simp add: prepare_messages_def last_map)

lemma prepare_entry_user_custom:
  "msg_role m = User \<Longrightarrow> msg_custom m = Some c \<Longrightarrow>
     prepare_entry m = role_content ''user'' (or_empty (msg_content m))"
  by (simp add: prepare_entry_def)

lemma prepare_entry_plain:
  "msg_role m \<noteq> User \<or> msg_custom m = None \<Longrightarrow> prepare_entry m = message_dict m"
  by (auto simp: prepare_entry_def)

lemma prepare_entry_role [simp, py_simps]:
  "py_getitem (prepare_entry m) ''role'' = Inr (JStr (role_str (msg_role m)))"
  by (simp add: prepare_entry_def)

lemma custom_dict_state [simp, py_simps]:
  "state c = Some st \<Longrightarrow> py_getitem (custom_dict c) ''state'' = Inr st"
  by (cases "attachments c") (simp_all add: custom_dict_def)

lemma message_dict_custom [simp, py_simps]:
  "py_contains ''custom_content'' (message_dict m) = Inr (msg_custom m \<noteq> None)"
  "msg_custom m = Some c \<Longrightarrow> py_getitem (message_dict m) ''custom_content'' = Inr (custom_dict c)"
  by (cases "msg_content m"; cases "msg_custom m"; simp add: message_dict_def)+

lemma role_content_custom [simp, py_simps]:
  "py_contains ''custom_content'' (role_content r c) = Inr False"
  by (simp add: role_content_def)

section \<open>Properties of the message adapter\<close>

text \<open>
  C32. The system entry comes first and the history follows in order. Whatever the
  history, the first entry \<open>__prepare_messages\<close> returns is the system entry with the
  given prompt, and entry \<open>i + 1\<close> carries the role of message \<open>i\<close>: there is one entry
  per message, in the order of the history.
\<close>

theorem system_entry_first:
  "hd (prepare_messages request p) = role_content ''system'' p
   \<and> length (prepare_messages request p) = Suc (length request)
   \<and> (\<forall>i < length request.
        py_getitem (prepare_messages request p ! Suc i) ''role'' =
          Inr (JStr (role_str (msg_role (request ! i)))))"
  by (simp add: prepare_messages_nth)

theorem system_entry_first_witness:
  "map (\<lambda>e. py_getitem e ''role'')
     (prepare_messages
        [\<lparr>msg_role = Assistant, msg_content = Some ''hello'', msg_custom = None\<rparr>,
         \<lparr>msg_role = User, msg_content = Some ''hi'', msg_custom = None\<rparr>] ''prompt'') =
   [Inr (JStr ''system''), Inr (JStr ''assistant''), Inr (JStr ''user'')]"
  using system_entry_first [of
      "[\<lparr>msg_role = Assistant, msg_content = Some ''hello'', msg_custom = None\<rparr>,
        \<lparr>msg_role = User, msg_content = Some ''hi'', msg_custom = None\<rparr>]" "''prompt''"]
  by (simp add: prepare_messages_def)

text \<open>
  C33. A user message never carries custom content to the model. The entry built for a
  user message has no \<open>custom_content\<close> key; when the message has custom content the
  entry is exactly the role \<open>user\<close> and the text of the message (the empty text when
  there is none), so attachments and state do not reach the payload.
\<close>

theorem user_custom_content_is_reduced:
  assumes "msg_role m = User"
  shows "py_contains ''custom_content'' (prepare_entry m) = Inr False
       \<and> (msg_custom m \<noteq> None \<longrightarrow>
            prepare_entry m = role_content ''user'' (or_empty (msg_content m)))"
  using assms by (simp add: prepare_entry_def)

theorem user_custom_content_is_reduced_witness:
  "prepare_entry \<lparr>msg_role = User, msg_content = None,
      msg_custom = Some \<lparr>attachments = Some (JArr [JStr ''file'']), state = Some (JInt 1)\<rparr>\<rparr> =
   JObj [(''role'', JStr ''user''), (''content'', JStr [])]"
  using user_custom_content_is_reduced [of "\<lparr>msg_role = User, msg_content = None,
      msg_custom = Some \<lparr>attachments = Some (JArr [JStr ''file'']), state = Some (JInt 1)\<rparr>\<rparr>"]
  by (simp add: role_content_def)

text \<open>
  The state of an assistant message is forwarded to the model. For a message that
  is not a user message the adapter sends the whole dictionary of the message: the
  custom content of an assistant message, and with it the persisted state, is part of
  the entry sent in both model calls.
\<close>

theorem assistant_state_is_forwarded:
  assumes "msg_role m = Assistant" and "msg_custom m = Some c" and "state c = Some st"
  shows "rbind (py_getitem (prepare_entry m) ''custom_content'') (\<lambda>d. py_getitem d ''state'') = Inr st"
  using assms by (simp add: prepare_entry_def)

theorem assistant_state_is_forwarded_witness:
  "prepare_entry \<lparr>msg_role = Assistant, msg_content = Some ''Created.'',
      msg_custom = Some \<lparr>attachments = None, state = Some (JStr ''s'')\<rparr>\<rparr> =
   JObj [(''role'', JStr ''assistant''), (''content'', JStr ''Created.''),
         (''custom_content'', JObj [(''state'', JStr ''s'')])]"
  using assistant_state_is_forwarded [of "\<lparr>msg_role = Assistant, msg_content = Some ''Created.'',
      msg_custom = Some \<lparr>attachments = None, state = Some (JStr ''s'')\<rparr>\<rparr>"
      "\<lparr>attachments = None, state = Some (JStr ''s'')\<rparr>" "JStr ''s''"]
  by (simp add: prepare_entry_def message_dict_def custom_dict_def)

end
