(* ===== verification/Environment.thy ===== *)
theory Environment
  imports Messages
begin

text \<open>
  The collaborators the sources call and do not define: \<open>json.loads\<close>, the chat
  completion client, the HTTP client that talks to the stateful agent, and the
  general-purpose agent. Each is a field of the record \<open>env\<close> that answers a request
  with a result; a transport failure is the \<open>Inl\<close> branch. A streamed answer is the
  list of items that arrive and the failure that ends it, if one does.
\<close>

record 'a stream =
  items :: "'a list"
  failure :: "error option"

record 'b http_response =
  status_code :: nat
  payload :: 'b

type_synonym chunk = "string option list"

record env =
  json_loads :: "string \<Rightarrow> json option"
  completions_create :: "json list \<Rightarrow> string option list result"
  completions_stream :: "json list \<Rightarrow> chunk stream result"
  post_conversations :: "string http_response result"
  post_chat :: "json \<Rightarrow> string \<Rightarrow> string stream http_response result"
  gpa_answer :: "request \<Rightarrow> string option \<Rightarrow> string stream result"

definition whole :: "'a list \<Rightarrow> 'a stream" where
  "whole xs = \<lparr>items = xs, failure = None\<rparr>"

definition delta_chunk :: "string \<Rightarrow> json" where
  "delta_chunk c = JObj [(''choices'', JArr [JObj [(''delta'', JObj [(''content'', JStr c)])]])]"

definition raise_for_status :: "nat \<Rightarrow> unit result" where
  "raise_for_status code =
     (if 200 \<le> code \<and> code \<le> 299 then Inr () else Inl (HTTPStatusError code))"

lemma whole_simps [simp]: "items (whole xs) = xs" "failure (whole xs) = None"
  by (simp_all add: whole_def)

lemma raise_for_status_Inr_iff [simp]:
  "raise_for_status code = Inr u \<longleftrightarrow> 200 \<le> code \<and> code \<le> 299"
  by (simp add: raise_for_status_def)

lemma raise_for_status_Inl_iff [simp]:
  "raise_for_status code = Inl e \<longleftrightarrow> e = HTTPStatusError code \<and> \<not> (200 \<le> code \<and> code \<le> 299)"
  by (auto simp: raise_for_status_def)

lemma raise_for_status_200 [simp]: "raise_for_status 200 = Inr ()"
  by (simp add: raise_for_status_def)

end
