(* ===== verification/Fixtures.thy ===== *)
theory Fixtures
  imports Environment
begin

text \<open>
  Concrete inputs for the witnesses of the development: the conversation and the event
  stream of the specification's scenarios, and an environment that answers them.
  \<open>sample_loads\<close> stands for \<open>json.loads\<close> on the texts that occur in these
  scenarios and rejects every other text.
\<close>

definition sample_loads :: "string \<Rightarrow> json option" where
  \<open>sample_loads s =
     (if s = ''{"choices":[{"delta":{"content":"Hel"}}]}'' then Some (delta_chunk ''Hel'')
      else if s = ''{"choices":[{"delta":{"content":"lo"}}]}'' then Some (delta_chunk ''lo'')
      else if s = ''{"conversation_id":"abc"}'' then Some (JObj [(''conversation_id'', JStr ''abc'')])
      else if s = ''{"id":"abc"}'' then Some (JObj [(''id'', JStr ''abc'')])
      else if s = ''{"agent_name":"UMS"}'' then Some (JObj [(''agent_name'', JStr ''UMS'')])
      else if s = ''{"agent_name":"GPA"}'' then Some (JObj [(''agent_name'', JStr ''GPA'')])
      else if s = ''42'' then Some (JInt 42)
      else None)\<close>

definition sample_lines :: "string list" where
  \<open>sample_lines =
     [''data: {"choices":[{"delta":{"content":"Hel"}}]}'',
      ''data: {"choices":[{"delta":{"content":"lo"}}]}'',
      ''data: {"conversation_id":"abc"}'',
      ''data: [DONE]'',
      ''trailing garbage'']\<close>

definition sample_request :: request where
  "sample_request =
     [\<lparr>msg_role = User, msg_content = Some ''create user Alice'', msg_custom = None\<rparr>]"

definition sample_env :: env where
  \<open>sample_env =
     \<lparr>json_loads = sample_loads,
      completions_create = (\<lambda>messages. Inr [Some ''{"agent_name":"UMS"}'']),
      completions_stream = (\<lambda>messages. Inr (whole [[Some ''User ''], [], [None], [Some ''created.'']])),
      post_conversations = Inr \<lparr>status_code = 200, payload = ''{"id":"abc"}''\<rparr>,
      post_chat = (\<lambda>conversation_id user_message.
        Inr \<lparr>status_code = 200, payload = whole sample_lines\<rparr>),
      gpa_answer = (\<lambda>request instructions. Inr (whole [''It is '', ''sunny.'']))\<rparr>\<close>

lemma sample_loads_simps [simp]:
  \<open>sample_loads ''{"choices":[{"delta":{"content":"Hel"}}]}'' = Some (delta_chunk ''Hel'')\<close>
  \<open>sample_loads ''{"choices":[{"delta":{"content":"lo"}}]}'' = Some (delta_chunk ''lo'')\<close>
  \<open>sample_loads ''{"conversation_id":"abc"}'' = Some (JObj [(''conversation_id'', JStr ''abc'')])\<close>
  \<open>sample_loads ''{"id":"abc"}'' = Some (JObj [(''id'', JStr ''abc'')])\<close>
  \<open>sample_loads ''{"agent_name":"UMS"}'' = Some (JObj [(''agent_name'', JStr ''UMS'')])\<close>
  \<open>sample_loads ''{"agent_name":"GPA"}'' = Some (JObj [(''agent_name'', JStr ''GPA'')])\<close>
  \<open>sample_loads ''42'' = Some (JInt 42)\<close>
  \<open>sample_loads ''trailing garbage'' = None\<close>
  \<open>sample_loads ''not json'' = None\<close>
  by (simp_all add: sample_loads_def)

lemma sample_env_simps [simp]:
  \<open>json_loads sample_env = sample_loads\<close>
  \<open>completions_create sample_env messages = Inr [Some ''{"agent_name":"UMS"}'']\<close>
  \<open>completions_stream sample_env messages =
     Inr (whole [[Some ''User ''], [], [None], [Some ''created.'']])\<close>
  \<open>post_conversations sample_env = Inr \<lparr>status_code = 200, payload = ''{"id":"abc"}''\<rparr>\<close>
  \<open>post_chat sample_env conversation_id user_message =
     Inr \<lparr>status_code = 200, payload = whole sample_lines\<rparr>\<close>
  \<open>gpa_answer sample_env request instructions = Inr (whole [''It is '', ''sunny.''])\<close>
  by (simp_all add: sample_env_def)

end
