(* ===== verification/UmsStream.thy ===== *)
theory UmsStream
  imports Fixtures
begin

text \<open>
  The reader of the stateful agent's event stream: \<open>UMSAgentGateway.__call_ums_agent\<close>
  in \<open>src/task/coordination/ums_agent.py\<close>. \<open>handle_line\<close> is the body of its loop
  over the lines of the response, \<open>consume_lines\<close> the loop, \<open>call_ums_agent\<close> the
  request and the loop together. \<open>stream_fragments\<close> and \<open>stream_outcome\<close> say what the
  loop is meant to compute, as list operations with no accumulator; the refinement
  lemma \<open>consume_lines_refines\<close> shows that the loop computes exactly that, on every
  branch, and the other properties follow from it.
\<close>

section \<open>One line\<close>

datatype line_action = Skip | Break | Emit string | Fail error

definition sse_payload :: "string \<Rightarrow> string" where
  "sse_payload line = (if startswith line ''data: '' then drop 6 line else line)"

definition chunk_content :: "json \<Rightarrow> json option result" where
  "chunk_content chunk_data =
     rbind (py_contains ''choices'' chunk_data) (\<lambda>present.
       if \<not> present then Inr None
       else rbind (py_getitem chunk_data ''choices'') (\<lambda>choices.
            rbind (py_index0 choices) (\<lambda>choice.
            rbind (py_get choice ''delta'' (JObj [])) (\<lambda>delta.
            rbind (py_get delta ''content'' (JStr [])) (\<lambda>content.
            Inr (Some content))))))"

fun content_action :: "json \<Rightarrow> line_action" where
  "content_action (JStr c) = (if c \<noteq> [] then Emit c else Skip)"
| "content_action content = (if py_truthy content then Fail TypeError else Skip)"

definition chunk_action :: "json \<Rightarrow> line_action" where
  "chunk_action chunk_data =
     (case chunk_content chunk_data of
        Inl e \<Rightarrow> Fail e
      | Inr None \<Rightarrow> Skip
      | Inr (Some content) \<Rightarrow> content_action content)"

definition handle_line :: "(string \<Rightarrow> json option) \<Rightarrow> string \<Rightarrow> line_action" where
  "handle_line loads line =
     (if line = [] then Skip
      else if sse_payload line = ''[DONE]'' then Break
      else case loads (sse_payload line) of
             None \<Rightarrow> Skip
           | Some chunk_data \<Rightarrow> chunk_action chunk_data)"

section \<open>The loop and the call\<close>

fun consume_lines ::
  "(string \<Rightarrow> json option) \<Rightarrow> nat \<Rightarrow> error option \<Rightarrow> string list \<Rightarrow> string \<Rightarrow> (trace, string) run"
where
  "consume_lines loads stage fail [] acc =
     (case fail of None \<Rightarrow> returnE acc | Some e \<Rightarrow> raiseE e)"
| "consume_lines loads stage fail (line # rest) acc =
     (case handle_line loads line of
        Skip \<Rightarrow> consume_lines loads stage fail rest acc
      | Break \<Rightarrow> returnE acc
      | Emit content \<Rightarrow>
          ethen (append_content stage content)
            (consume_lines loads stage fail rest (acc @ content))
      | Fail e \<Rightarrow> raiseE e)"

definition call_ums_agent :: "env \<Rightarrow> json \<Rightarrow> string \<Rightarrow> nat \<Rightarrow> (trace, string) run" where
  "call_ums_agent environ conversation_id user_message stage =
     ethen (emit (ChatPosted conversation_id user_message))
       (ebind (liftE (post_chat environ conversation_id user_message)) (\<lambda>response.
          ethen (liftE (raise_for_status (status_code response)))
            (consume_lines (json_loads environ) stage (failure (payload response))
               (items (payload response)) [])))"

section \<open>What the loop is meant to compute\<close>

fun stops :: "line_action \<Rightarrow> bool" where
  "stops Break \<longleftrightarrow> True"
| "stops (Fail e) \<longleftrightarrow> True"
| "stops _ \<longleftrightarrow> False"

fun emitted :: "line_action \<Rightarrow> string option" where
  "emitted (Emit c) = Some c"
| "emitted _ = None"

definition stream_fragments :: "(string \<Rightarrow> json option) \<Rightarrow> string list \<Rightarrow> string list" where
  "stream_fragments loads lines =
     List.map_filter (\<lambda>l. emitted (handle_line loads l))
       (takeWhile (\<lambda>l. \<not> stops (handle_line loads l)) lines)"

definition stream_outcome ::
  "(string \<Rightarrow> json option) \<Rightarrow> error option \<Rightarrow> string list \<Rightarrow> error option" where
  "stream_outcome loads fail lines =
     (case dropWhile (\<lambda>l. \<not> stops (handle_line loads l)) lines of
        [] \<Rightarrow> fail
      | l # rest \<Rightarrow> (case handle_line loads l of Fail e \<Rightarrow> Some e | _ \<Rightarrow> None))"

section \<open>Reading one line\<close>

lemma sse_payload_data [simp, py_simps]: "sse_payload (''data: '' @ rest) = rest"
  by (simp add: sse_payload_def startswith_def)

lemma sse_payload_other [py_simps]: "\<not> startswith line ''data: '' \<Longrightarrow> sse_payload line = line"
  by (simp add: sse_payload_def)

lemma sse_payload_length: "length (sse_payload line) \<le> length line"
  by (simp add: sse_payload_def)

lemma sse_payload_done [simp, py_simps]:
  "sse_payload ''data: [DONE]'' = ''[DONE]''" "sse_payload ''[DONE]'' = ''[DONE]''"
  by (simp_all add: sse_payload_def startswith_def)

lemma content_action_not_Break [simp]: "content_action content \<noteq> Break"
  by (cases content) simp_all

lemma content_action_Emit_iff:
  "content_action content = Emit c \<longleftrightarrow> content = JStr c \<and> c \<noteq> []"
  by (cases content) auto

lemma content_action_Skip_iff: "content_action content = Skip \<longleftrightarrow> \<not> py_truthy content"
  by (cases content) auto

lemma content_action_Fail_iff:
  "content_action content = Fail e \<longleftrightarrow>
     e = TypeError \<and> py_truthy content \<and> (\<forall>c. content \<noteq> JStr c)"
  by (cases content) auto

lemma chunk_action_not_Break [simp]: "chunk_action chunk_data \<noteq> Break"
  by (simp add: chunk_action_def split: sum.splits option.splits)

lemma chunk_action_Emit_iff:
  "chunk_action chunk_data = Emit c \<longleftrightarrow> chunk_content chunk_data = Inr (Some (JStr c)) \<and> c \<noteq> []"
  by (auto simp: chunk_action_def content_action_Emit_iff split: sum.splits option.splits)

lemma handle_line_blank [simp, py_simps]: "handle_line loads [] = Skip"
  by (simp add: handle_line_def)

lemma handle_line_done [simp, py_simps]:
  "handle_line loads ''data: [DONE]'' = Break" "handle_line loads ''[DONE]'' = Break"
  by (simp_all add: handle_line_def)

lemma handle_line_Break_iff: "handle_line loads line = Break \<longleftrightarrow> sse_payload line = ''[DONE]''"
  by (auto simp: handle_line_def sse_payload_def split: option.splits)

lemma handle_line_not_json:
  "line \<noteq> [] \<Longrightarrow> sse_payload line \<noteq> ''[DONE]'' \<Longrightarrow> loads (sse_payload line) = None \<Longrightarrow>
     handle_line loads line = Skip"
  by (simp add: handle_line_def)

lemma handle_line_json:
  "line \<noteq> [] \<Longrightarrow> sse_payload line \<noteq> ''[DONE]'' \<Longrightarrow> loads (sse_payload line) = Some j \<Longrightarrow>
     handle_line loads line = chunk_action j"
  by (simp add: handle_line_def)

lemma chunk_content_delta [simp, py_simps]:
  "chunk_content (JObj [(''choices'', JArr [JObj [(''delta'', JObj [(''content'', c)])]])]) =
     Inr (Some c)"
  by (simp add: chunk_content_def)

lemma chunk_content_no_choices [py_simps]:
  "map_of kvs ''choices'' = None \<Longrightarrow> chunk_content (JObj kvs) = Inr None"
  by (simp add: chunk_content_def)

lemma chunk_content_scalar:
  "j = JNull \<or> j = JBool b \<or> j = JInt n \<or> j = JFloat m x \<or> j = JConst c \<Longrightarrow> chunk_content j = Inl TypeError"
  by (auto simp: chunk_content_def)

lemma chunk_action_delta [simp, py_simps]:
  "chunk_action (delta_chunk c) = (if c \<noteq> [] then Emit c else Skip)"
  by (simp add: chunk_action_def delta_chunk_def)

lemma chunk_action_no_choices [simp, py_simps]:
  "map_of kvs ''choices'' = None \<Longrightarrow> chunk_action (JObj kvs) = Skip"
  by (simp add: chunk_action_def chunk_content_no_choices)

lemma chunk_action_scalar:
  "j = JNull \<or> j = JBool b \<or> j = JInt n \<or> j = JFloat m x \<or> j = JConst c \<Longrightarrow> chunk_action j = Fail TypeError"
  using chunk_content_scalar [of j b n m x c] by (simp add: chunk_action_def)

lemma handle_line_Emit_nonempty: "handle_line loads line = Emit c \<Longrightarrow> c \<noteq> []"
  by (auto simp: handle_line_def chunk_action_Emit_iff split: option.splits if_splits)

section \<open>The loop computes the fragments and the outcome\<close>

lemma stream_fragments_Nil [simp]: "stream_fragments loads [] = []"
  by (simp add: stream_fragments_def)

lemma stream_outcome_Nil [simp]: "stream_outcome loads fail [] = fail"
  by (simp add: stream_outcome_def)

lemma stream_fragments_Cons:
  "stream_fragments loads (l # ls) =
     (case handle_line loads l of
        Skip \<Rightarrow> stream_fragments loads ls
      | Break \<Rightarrow> []
      | Emit c \<Rightarrow> c # stream_fragments loads ls
      | Fail e \<Rightarrow> [])"
  by (cases "handle_line loads l")
     (simp_all add: stream_fragments_def map_filter_Cons_Some map_filter_Cons_None)

lemma stream_outcome_Cons:
  "stream_outcome loads fail (l # ls) =
     (case handle_line loads l of
        Skip \<Rightarrow> stream_outcome loads fail ls
      | Break \<Rightarrow> None
      | Emit c \<Rightarrow> stream_outcome loads fail ls
      | Fail e \<Rightarrow> Some e)"
  by (cases "handle_line loads l") (simp_all add: stream_outcome_def)

lemma consume_lines_refines:
  "consume_lines loads stage fail lines acc tr =
     (settle (stream_outcome loads fail lines) (acc @ concat (stream_fragments loads lines)),
      tr @ map (StageAppended stage) (stream_fragments loads lines))"
proof (induction lines arbitrary: acc tr)
  case Nil
  show ?case by (cases fail) simp_all
next
  case (Cons l ls)
  show ?case
    by (cases "handle_line loads l")
       (simp_all add: Cons.IH stream_fragments_Cons stream_outcome_Cons ethen_def ebind_def
          split: option.splits)
qed

lemmas stream_Cons = stream_fragments_Cons stream_outcome_Cons

lemma stream_fragments_append:
  "stream_fragments loads (pre @ post) =
     (if list_ex (\<lambda>l. stops (handle_line loads l)) pre then stream_fragments loads pre
      else stream_fragments loads pre @ stream_fragments loads post)"
  by (induction pre) (auto simp: stream_Cons split: line_action.splits)

lemma stream_outcome_append:
  "stream_outcome loads fail (pre @ post) =
     (if list_ex (\<lambda>l. stops (handle_line loads l)) pre then stream_outcome loads None pre
      else stream_outcome loads fail post)"
  by (induction pre) (auto simp: stream_Cons split: line_action.splits)

lemma stream_outcome_no_stop:
  "\<not> list_ex (\<lambda>l. stops (handle_line loads l)) lines \<Longrightarrow> stream_outcome loads fail lines = fail"
  by (induction lines) (auto simp: stream_Cons split: line_action.splits)

lemma stream_skip:
  assumes "handle_line loads l = Skip"
  shows "stream_fragments loads (pre @ l # post) = stream_fragments loads (pre @ post)"
    and "stream_outcome loads fail (pre @ l # post) = stream_outcome loads fail (pre @ post)"
  using assms by (simp_all add: stream_fragments_append stream_outcome_append stream_Cons)

lemma stream_done:
  "stream_fragments loads (pre @ ''data: [DONE]'' # post) = stream_fragments loads pre"
  "stream_outcome loads fail (pre @ ''data: [DONE]'' # post) = stream_outcome loads None pre"
  by (simp_all add: stream_fragments_append stream_outcome_append stream_Cons
      stream_outcome_no_stop)

lemma stream_fragments_nonempty: "c \<in> set (stream_fragments loads lines) \<Longrightarrow> c \<noteq> []"
  by (induction lines)
     (auto simp: stream_Cons dest: handle_line_Emit_nonempty split: line_action.splits)

section \<open>The request and the loop together\<close>

lemma call_ums_agent_apply:
  "call_ums_agent environ cid msg stage tr =
     (case post_chat environ cid msg of
        Inl e \<Rightarrow> (Inl e, tr @ [ChatPosted cid msg])
      | Inr response \<Rightarrow>
          (case raise_for_status (status_code response) of
             Inl e \<Rightarrow> (Inl e, tr @ [ChatPosted cid msg])
           | Inr u \<Rightarrow>
               consume_lines (json_loads environ) stage (failure (payload response))
                 (items (payload response)) [] (tr @ [ChatPosted cid msg])))"
  by (simp add: call_ums_agent_def ethen_def ebind_def split: sum.splits)

lemma call_ums_agent_trace:
  "\<exists>cs. snd (call_ums_agent environ cid msg stage tr) =
     tr @ ChatPosted cid msg # map (StageAppended stage) cs"
  by (auto simp: call_ums_agent_apply consume_lines_refines split: sum.splits)

lemma call_ums_agent_wf:
  "wf_trace tr \<Longrightarrow> stage_status tr stage = Open \<Longrightarrow>
     wf_trace (snd (call_ums_agent environ cid msg stage tr))"
proof -
  assume wf: "wf_trace tr" and "open": "stage_status tr stage = Open"
  obtain cs where tr': "snd (call_ums_agent environ cid msg stage tr) =
      (tr @ [ChatPosted cid msg]) @ map (StageAppended stage) cs"
    using call_ums_agent_trace [of environ cid msg stage tr] by auto
  from wf "open" show ?thesis
    unfolding tr' by (intro wf_append_map_appended) simp_all
qed

section \<open>The example stream\<close>

lemma sample_actions [simp]:
  "map (handle_line sample_loads) sample_lines = [Emit ''Hel'', Emit ''lo'', Skip, Break, Skip]"
  by (simp add: sample_lines_def handle_line_def sse_payload_def startswith_def)

lemma sample_stream [simp]:
  "stream_fragments sample_loads sample_lines = [''Hel'', ''lo'']"
  "stream_outcome sample_loads fail sample_lines = None"
  using sample_actions by (simp_all add: sample_lines_def stream_Cons)

lemmas line_eval = handle_line_def sse_payload_def startswith_def ethen_def ebind_def

lemma consume_lines_prefix:
  "snd (consume_lines loads stage fail (pre @ post) acc tr) =
     snd (consume_lines loads stage None pre acc tr)
       @ map (StageAppended stage)
           (if list_ex (\<lambda>l. stops (handle_line loads l)) pre then []
            else stream_fragments loads post)"
  by (simp add: consume_lines_refines stream_fragments_append)

lemma consume_lines_text:
  "fst (consume_lines loads stage None pre acc tr) = Inr text \<Longrightarrow>
     text = acc @ concat (stage_chunks stage
              (drop (length tr) (snd (consume_lines loads stage None pre acc tr))))"
  by (cases "stream_outcome loads None pre") (simp_all add: consume_lines_refines settle_def)

section \<open>Properties of the stream reader\<close>

text \<open>
  C1. Refinement of the streaming call. When the chat endpoint answers with a 2xx
  status, \<open>__call_ums_agent\<close> returns the concatenation, in arrival order, of the
  content fragments that precede the first stopping line (the sentinel or a line that
  raises), or the exception of that line or of the transport; and it appends exactly
  those fragments, in that order, to the stage, after recording the request.
\<close>

theorem call_ums_agent_refinement:
  assumes "post_chat environ cid msg = Inr response"
    and "200 \<le> status_code response" and "status_code response \<le> 299"
  shows "call_ums_agent environ cid msg stage tr =
     (settle (stream_outcome (json_loads environ) (failure (payload response))
                (items (payload response)))
        (concat (stream_fragments (json_loads environ) (items (payload response)))),
      tr @ ChatPosted cid msg #
        map (StageAppended stage) (stream_fragments (json_loads environ) (items (payload response))))"
  using assms
  by (simp add: call_ums_agent_apply consume_lines_refines raise_for_status_def)

theorem call_ums_agent_refinement_witness:
  "call_ums_agent sample_env (JStr ''abc'') ''create user Alice'' 1 [] =
     (Inr ''Hello'',
      [ChatPosted (JStr ''abc'') ''create user Alice'',
       StageAppended 1 ''Hel'', StageAppended 1 ''lo''])"
  using call_ums_agent_refinement [of sample_env "JStr ''abc''" "''create user Alice''"
      "\<lparr>status_code = 200, payload = whole sample_lines\<rparr>" 1 "[]"]
  by simp

text \<open>
  C5. Truncation at the sentinel. Whatever follows the line \<open>data: [DONE]\<close>, and
  however the transport ends after it, the loop returns what it returns on the stream
  cut right after the sentinel: later fragments are never included and a later
  transport failure is never seen.
\<close>

theorem done_truncates_stream:
  "consume_lines loads stage fail (pre @ ''data: [DONE]'' # post) acc tr =
   consume_lines loads stage None (pre @ [''data: [DONE]'']) acc tr"
  by (simp add: consume_lines_refines stream_done)

theorem done_truncates_stream_witness:
  \<open>consume_lines sample_loads 0 (Some ReadError)
     ([''data: {"choices":[{"delta":{"content":"Hel"}}]}''] @ ''data: [DONE]'' # [''data: 42''])
     [] [] =
   (Inr ''Hel'', [StageAppended 0 ''Hel''])\<close>
  using done_truncates_stream [of sample_loads 0 "Some ReadError"
      \<open>[''data: {"choices":[{"delta":{"content":"Hel"}}]}'']\<close> "[''data: 42'']" "[]" "[]"]
  by (simp add: line_eval)

text \<open>
  C31. A line that is not JSON is skipped. A line whose payload \<open>json.loads\<close> rejects,
  and that is not the sentinel, changes neither the accumulated text nor what the stage
  receives nor the outcome: the loop behaves as if the line were not in the stream.
\<close>

theorem non_json_line_is_skipped:
  assumes "sse_payload line \<noteq> ''[DONE]''" and "loads (sse_payload line) = None"
  shows "consume_lines loads stage fail (pre @ line # post) acc tr =
         consume_lines loads stage fail (pre @ post) acc tr"
proof -
  have "handle_line loads line = Skip"
    using assms by (simp add: handle_line_def)
  then show ?thesis
    by (simp add: consume_lines_refines stream_skip)
qed

theorem non_json_line_is_skipped_witness:
  \<open>sse_payload ''trailing garbage'' \<noteq> ''[DONE]'' \<and>
   sample_loads (sse_payload ''trailing garbage'') = None \<and>
   consume_lines sample_loads 0 None
     ([''data: {"choices":[{"delta":{"content":"Hel"}}]}''] @ ''trailing garbage'' #
      [''data: {"choices":[{"delta":{"content":"lo"}}]}'']) [] [] =
   (Inr ''Hello'', [StageAppended 0 ''Hel'', StageAppended 0 ''lo''])\<close>
proof -
  have p: \<open>sse_payload ''trailing garbage'' = ''trailing garbage''\<close>
    by (simp add: sse_payload_def startswith_def)
  show ?thesis
    using non_json_line_is_skipped [of "''trailing garbage''" sample_loads 0 None
      \<open>[''data: {"choices":[{"delta":{"content":"Hel"}}]}'']\<close>
      \<open>[''data: {"choices":[{"delta":{"content":"lo"}}]}'']\<close> "[]" "[]"]
    by (simp add: p line_eval)
qed

text \<open>
  The stage shows what is returned. When the streaming call returns, the text it
  returns is exactly the text it appended to its stage during the call.
\<close>

theorem stage_shows_what_is_returned:
  assumes "call_ums_agent environ cid msg stage tr = (Inr answer, tr')"
  shows "stage_text stage tr' = stage_text stage tr @ answer"
  using assms
  by (auto simp: call_ums_agent_apply consume_lines_refines stage_text_def split: sum.splits)

theorem stage_shows_what_is_returned_witness:
  "stage_text 1 (snd (call_ums_agent sample_env (JStr ''abc'') ''hi'' 1
     [StageOpened 0 ''a'', StageOpened 1 ''b''])) = ''Hello''"
  using stage_shows_what_is_returned [of sample_env "JStr ''abc''" "''hi''" 1
     "[StageOpened 0 ''a'', StageOpened 1 ''b'']" "''Hello''"
     "[StageOpened 0 ''a'', StageOpened 1 ''b'', ChatPosted (JStr ''abc'') ''hi'',
       StageAppended 1 ''Hel'', StageAppended 1 ''lo'']"]
  by (simp add: call_ums_agent_apply consume_lines_refines stage_text_def)

text \<open>
  C20. A JSON scalar aborts the stream. A line whose payload parses to \<open>null\<close>, a
  boolean or a number makes the membership test \<open>"choices" in chunk_data\<close> raise
  \<open>TypeError\<close>, which the handler for \<open>JSONDecodeError\<close> does not catch: the call fails
  although the line carries no content.
\<close>

theorem scalar_event_aborts_stream:
  assumes "line \<noteq> []" and "sse_payload line \<noteq> ''[DONE]''"
    and "loads (sse_payload line) = Some j"
    and "j = JNull \<or> j = JBool b \<or> j = JInt n \<or> j = JFloat m x \<or> j = JConst c"
    and "\<not> list_ex (\<lambda>l. stops (handle_line loads l)) pre"
  shows "fst (consume_lines loads stage fail (pre @ line # post) acc tr) = Inl TypeError"
proof -
  have "handle_line loads line = Fail TypeError"
    using assms(1-4) by (simp add: handle_line_def chunk_action_scalar [of j b n m x c])
  with assms(5) show ?thesis
    by (simp add: consume_lines_refines stream_outcome_append stream_Cons)
qed

theorem scalar_event_aborts_stream_witness:
  \<open>fst (consume_lines sample_loads 0 None
     ([''data: {"choices":[{"delta":{"content":"Hel"}}]}''] @ ''data: 42'' # [''data: [DONE]''])
     [] []) = Inl TypeError\<close>
proof -
  have p: \<open>sse_payload ''data: 42'' = ''42''\<close>
    by (simp add: sse_payload_def startswith_def)
  have q: \<open>handle_line sample_loads ''data: {"choices":[{"delta":{"content":"Hel"}}]}'' =
      Emit ''Hel''\<close>
    by (simp add: handle_line_def sse_payload_def startswith_def)
  show ?thesis
    using scalar_event_aborts_stream [of "''data: 42''" sample_loads "JInt 42" _ 42 _ _ _
      \<open>[''data: {"choices":[{"delta":{"content":"Hel"}}]}'']\<close> 0 None "[''data: [DONE]'']" "[]" "[]"]
    by (simp add: p q)
qed

text \<open>
  C27. The stream is forwarded in the order of arrival, line by line. What the loop has
  written to the stage after the first lines of a stream stays as it is whatever
  arrives later: the trace of the whole stream is the trace of its first part followed
  by the fragments of the rest, and by nothing if the first part ended the stream. If
  the stream had ended after those lines, the text returned would be the text already
  on the stage.
\<close>

theorem stream_is_forwarded_in_order:
  "snd (consume_lines loads stage fail (pre @ post) acc tr) =
     snd (consume_lines loads stage None pre acc tr)
       @ map (StageAppended stage)
           (if list_ex (\<lambda>l. stops (handle_line loads l)) pre then []
            else stream_fragments loads post)
   \<and> (\<forall>text. fst (consume_lines loads stage None pre acc tr) = Inr text \<longrightarrow>
         text = acc @ concat (stage_chunks stage
                  (drop (length tr) (snd (consume_lines loads stage None pre acc tr)))))"
  using consume_lines_prefix consume_lines_text by blast

theorem stream_is_forwarded_in_order_witness:
  \<open>snd (consume_lines sample_loads 0 None (take 1 sample_lines @ drop 1 sample_lines) [] []) =
     snd (consume_lines sample_loads 0 None (take 1 sample_lines) [] []) @ [StageAppended 0 ''lo'']
   \<and> fst (consume_lines sample_loads 0 None (take 1 sample_lines) [] []) = Inr ''Hel''\<close>
  using stream_is_forwarded_in_order [of sample_loads 0 None "take 1 sample_lines"
      "drop 1 sample_lines" "[]" "[]"]
  by (simp add: sample_lines_def line_eval consume_lines_refines stream_Cons)

end
