(* ===== verification/Gateway.thy ===== *)
theory Gateway
  imports Messages
begin

text \<open>
  The capability the coordinator asks of an agent gateway,
  \<open>response(choice, stage, request, additional_instructions)\<close>, as a type, and the
  contract the coordinator relies on: whatever a gateway does, what it adds to the
  trace is first requests and state, then fragments written to the stage it was
  given. The lemmas of this theory are the coordinator's side of the contract: they
  hold for every gateway that meets it. Each gateway discharges the contract in its
  own theory.
\<close>

type_synonym gateway = "nat \<Rightarrow> request \<Rightarrow> string option \<Rightarrow> (trace, message) run"

fun writes_to :: "nat \<Rightarrow> event \<Rightarrow> bool" where
  "writes_to stage (StageAppended i c) \<longleftrightarrow> i = stage"
| "writes_to stage _ \<longleftrightarrow> False"

definition gateway_adds :: "nat \<Rightarrow> trace \<Rightarrow> trace \<Rightarrow> bool" where
  "gateway_adds stage tr tr' \<longleftrightarrow>
     take (length tr) tr' = tr
     \<and> list_all (writes_to stage) (dropWhile is_quiet (drop (length tr) tr'))"

definition gateway_ok :: "gateway \<Rightarrow> bool" where
  "gateway_ok g \<longleftrightarrow>
     (\<forall>stage request instructions tr. gateway_adds stage tr (snd (g stage request instructions tr)))"

section \<open>The shape of what a gateway adds\<close>

lemma writes_to_iff: "writes_to stage e \<longleftrightarrow> (\<exists>c. e = StageAppended stage c)"
  by (cases e) auto

lemma writes_to_chunks:
  "list_all (writes_to stage) es \<Longrightarrow> es = map (StageAppended stage) (stage_chunks stage es)"
  by (induction es) (auto simp: writes_to_iff)

lemma list_all_writes_to_map [simp]: "list_all (writes_to stage) (map (StageAppended stage) cs)"
  by (induction cs) simp_all

lemma list_all_writes_to_iff:
  "list_all (writes_to stage) es \<longleftrightarrow> (\<exists>cs. es = map (StageAppended stage) cs)"
proof
  assume "list_all (writes_to stage) es"
  then have "es = map (StageAppended stage) (stage_chunks stage es)"
    by (rule writes_to_chunks)
  then show "\<exists>cs. es = map (StageAppended stage) cs" ..
next
  assume "\<exists>cs. es = map (StageAppended stage) cs"
  then show "list_all (writes_to stage) es"
    by auto
qed

lemma dropWhile_quiet_map [simp]:
  "dropWhile is_quiet (map (StageAppended stage) cs) = map (StageAppended stage) cs"
  by (cases cs) simp_all

lemma dropWhile_quiet_append [simp]:
  "list_all is_quiet es \<Longrightarrow> dropWhile is_quiet (es @ xs) = dropWhile is_quiet xs"
  by (induction es) simp_all

lemma gateway_adds_iff:
  "gateway_adds stage tr tr' \<longleftrightarrow>
     (\<exists>es cs. tr' = tr @ es @ map (StageAppended stage) cs \<and> list_all is_quiet es)"
proof
  assume adds: "gateway_adds stage tr tr'"
  define rest where "rest = drop (length tr) tr'"
  from adds have "take (length tr) tr' = tr"
    by (simp add: gateway_adds_def)
  then have tr': "tr' = tr @ rest"
    unfolding rest_def by (metis append_take_drop_id)
  from adds obtain cs where "dropWhile is_quiet rest = map (StageAppended stage) cs"
    unfolding rest_def gateway_adds_def list_all_writes_to_iff by blast
  then have "rest = takeWhile is_quiet rest @ map (StageAppended stage) cs"
    by (metis takeWhile_dropWhile_id)
  moreover have "list_all is_quiet (takeWhile is_quiet rest)"
    by (auto simp: list_all_iff dest: set_takeWhileD)
  ultimately have "tr' = tr @ takeWhile is_quiet rest @ map (StageAppended stage) cs
      \<and> list_all is_quiet (takeWhile is_quiet rest)"
    using tr' by simp
  then show "\<exists>es cs. tr' = tr @ es @ map (StageAppended stage) cs \<and> list_all is_quiet es"
    by blast
next
  assume "\<exists>es cs. tr' = tr @ es @ map (StageAppended stage) cs \<and> list_all is_quiet es"
  then obtain es cs where "tr' = tr @ es @ map (StageAppended stage) cs" "list_all is_quiet es"
    by blast
  then show "gateway_adds stage tr tr'"
    by (simp add: gateway_adds_def)
qed

lemma gateway_addsI:
  "tr' = tr @ es @ map (StageAppended stage) cs \<Longrightarrow> list_all is_quiet es \<Longrightarrow>
     gateway_adds stage tr tr'"
  by (auto simp: gateway_adds_iff)

lemma gateway_adds_refl [simp]: "gateway_adds stage tr tr"
  by (rule gateway_addsI [where es = "[]" and cs = "[]"]) simp_all

lemma gateway_okD:
  "gateway_ok g \<Longrightarrow>
     \<exists>es cs. snd (g stage request instr tr) = tr @ es @ map (StageAppended stage) cs
       \<and> list_all is_quiet es"
  by (simp add: gateway_ok_def gateway_adds_iff)

section \<open>What the coordinator may rely on\<close>

lemma gateway_adds_protocol:
  assumes "gateway_adds stage tr tr'" and "wf_trace tr" and "stage_status tr stage = Open"
  shows "wf_trace tr'" and "stage_status tr' i = stage_status tr i"
    and "stage_count tr' = stage_count tr"
  using assms gateway_extension [of tr stage]
  by (auto simp: gateway_adds_iff)

lemma gateway_adds_texts:
  assumes "gateway_adds stage tr tr'"
  shows "choice_chunks tr' = choice_chunks tr"
    and "i \<noteq> stage \<Longrightarrow> stage_chunks i tr' = stage_chunks i tr"
  using assms by (auto simp: gateway_adds_iff)

lemma gateway_adds_status:
  "gateway_adds stage tr tr' \<Longrightarrow> stage_status tr' i = stage_status tr i"
  by (auto simp: gateway_adds_iff simp flip: append_assoc)

lemma gateway_adds_count:
  "gateway_adds stage tr tr' \<Longrightarrow> stage_count tr' = stage_count tr"
  by (auto simp: gateway_adds_iff)

lemma gateway_adds_model_calls:
  "gateway_adds stage tr tr' \<Longrightarrow> model_calls tr' = model_calls tr"
  by (auto simp: gateway_adds_iff)

lemma gateway_adds_grows: "gateway_adds stage tr tr' \<Longrightarrow> grows tr tr'"
  by (auto simp: gateway_adds_iff grows_iff)

end
