(* ===== verification/UmsGateway.thy ===== *)
theory UmsGateway
  imports UmsStream Gateway
begin

text \<open>
  The gateway to the stateful agent: class \<open>UMSAgentGateway\<close> of
  \<open>src/task/coordination/ums_agent.py\<close>. \<open>get_ums_conversation_id\<close> scans the history
  for a session identifier, \<open>create_ums_conversation\<close> asks the agent for a new one,
  and \<open>ums_response\<close> is the method \<open>response\<close>: resolve or create the session, build the
  text to send from the last message and the coordinator's instructions, call the
  agent, and wrap the accumulated answer as an assistant message. Python's \<open>None\<close> is
  the value \<open>JNull\<close>, so an identifier that is \<open>null\<close> counts as absent, as it does in the
  source.
\<close>

section \<open>Finding the session in the history\<close>

definition UMS_CONVERSATION_ID :: string where
  "UMS_CONVERSATION_ID = ''ums_conversation_id''"

definition state_conversation_id :: "json \<Rightarrow> json option result" where
  "state_conversation_id st =
     (if \<not> py_truthy st then Inr None
      else rbind (py_contains UMS_CONVERSATION_ID st) (\<lambda>present.
             if present then rbind (py_getitem st UMS_CONVERSATION_ID) (\<lambda>v. Inr (Some v))
             else Inr None))"

definition message_conversation_id :: "message \<Rightarrow> json option result" where
  "message_conversation_id message =
     (if msg_role message = Assistant
      then (case msg_custom message of
              None \<Rightarrow> Inr None
            | Some custom \<Rightarrow>
                (case state custom of
                   None \<Rightarrow> Inr None
                 | Some st \<Rightarrow> state_conversation_id st))
      else Inr None)"

fun get_ums_conversation_id :: "request \<Rightarrow> json result" where
  "get_ums_conversation_id [] = Inr JNull"
| "get_ums_conversation_id (message # rest) =
     rbind (message_conversation_id message) (\<lambda>found.
       case found of
         Some v \<Rightarrow> Inr v
       | None \<Rightarrow> get_ums_conversation_id rest)"

section \<open>Creating a session\<close>

definition create_ums_conversation :: "env \<Rightarrow> (trace, json) run" where
  "create_ums_conversation environ =
     ethen (emit ConversationPosted)
       (ebind (liftE (post_conversations environ)) (\<lambda>response.
          ethen (liftE (raise_for_status (status_code response)))
            (case json_loads environ (payload response) of
               None \<Rightarrow> raiseE JSONDecodeError
             | Some data \<Rightarrow> liftE (py_getitem data ''id''))))"

section \<open>Answering a request\<close>

definition augment_user_content :: "string \<Rightarrow> string option \<Rightarrow> string" where
  "augment_user_content user_content additional_instructions =
     (case additional_instructions of
        None \<Rightarrow> user_content
      | Some instructions \<Rightarrow>
          if instructions \<noteq> []
          then user_content @ ''\<newline>\<newline>Additional context: '' @ instructions
          else user_content)"

definition resolve_conversation :: "env \<Rightarrow> request \<Rightarrow> (trace, json) run" where
  "resolve_conversation environ request =
     ebind (liftE (get_ums_conversation_id request)) (\<lambda>conversation_id.
       if conversation_id = JNull
       then ebind (create_ums_conversation environ) (\<lambda>created.
              ethen (set_state (JObj [(UMS_CONVERSATION_ID, created)])) (returnE created))
       else returnE conversation_id)"

definition sent_content :: "request \<Rightarrow> string option \<Rightarrow> string" where
  "sent_content request additional_instructions =
     augment_user_content (or_empty (msg_content (last request))) additional_instructions"

definition ums_response :: "env \<Rightarrow> nat \<Rightarrow> request \<Rightarrow> string option \<Rightarrow> (trace, message) run" where
  "ums_response environ stage request additional_instructions =
     ebind (resolve_conversation environ request) (\<lambda>conversation_id.
       if request = [] then raiseE IndexError
       else ebind (call_ums_agent environ conversation_id
                     (sent_content request additional_instructions) stage)
              (\<lambda>response_content. returnE (assistant_message response_content)))"

section \<open>Vocabulary of the properties\<close>

definition session_state :: "json \<Rightarrow> json" where
  "session_state cid = JObj [(UMS_CONVERSATION_ID, cid)]"

definition with_state :: "message \<Rightarrow> json \<Rightarrow> message" where
  "with_state m st = m\<lparr>msg_custom := Some \<lparr>attachments = None, state = Some st\<rparr>\<rparr>"

definition carries_no_session :: "message \<Rightarrow> bool" where
  "carries_no_session m \<longleftrightarrow> message_conversation_id m = Inr None"

text \<open>
  The caller's transport attaches the state a run has set to the reply it stores, and
  sends the stored history with the next user message.
\<close>

definition persisted_reply :: "message \<Rightarrow> trace \<Rightarrow> message" where
  "persisted_reply reply tr =
     (case states_set tr of [] \<Rightarrow> reply | s # ss \<Rightarrow> with_state reply (last (s # ss)))"

definition next_request :: "request \<Rightarrow> message \<Rightarrow> trace \<Rightarrow> message \<Rightarrow> request" where
  "next_request request reply tr user_message =
     request @ [persisted_reply reply tr, user_message]"

text \<open>A history of a later turn, with two stored session identifiers.\<close>

definition returning_request :: request where
  "returning_request =
     [\<lparr>msg_role = User, msg_content = Some ''create user Alice'', msg_custom = None\<rparr>,
      with_state (assistant_message ''Created.'') (session_state (JStr ''abc'')),
      with_state (assistant_message ''Nothing.'') (session_state (JStr ''xyz'')),
      \<lparr>msg_role = User, msg_content = Some ''list users'', msg_custom = None\<rparr>]"

section \<open>The scan returns the first match\<close>

lemma state_conversation_id_session [simp]:
  "state_conversation_id (session_state cid) = Inr (Some cid)"
  by (simp add: state_conversation_id_def session_state_def)

lemma state_conversation_id_dict:
  "state_conversation_id (JObj kvs) = Inr (map_of kvs UMS_CONVERSATION_ID)"
  by (cases "map_of kvs UMS_CONVERSATION_ID") (auto simp: state_conversation_id_def)

lemma state_conversation_id_falsy: "\<not> py_truthy st \<Longrightarrow> state_conversation_id st = Inr None"
  by (simp add: state_conversation_id_def)

lemma message_conversation_id_not_assistant [simp]:
  "msg_role m \<noteq> Assistant \<Longrightarrow> message_conversation_id m = Inr None"
  by (simp add: message_conversation_id_def)

lemma message_conversation_id_no_custom [simp]:
  "msg_custom m = None \<Longrightarrow> message_conversation_id m = Inr None"
  by (simp add: message_conversation_id_def)

lemma message_conversation_id_with_state [simp]:
  "msg_role m = Assistant \<Longrightarrow>
     message_conversation_id (with_state m st) = state_conversation_id st"
  by (simp add: message_conversation_id_def with_state_def)

lemma carries_no_session_simps [simp]:
  "msg_role m \<noteq> Assistant \<Longrightarrow> carries_no_session m"
  "msg_custom m = None \<Longrightarrow> carries_no_session m"
  by (simp_all add: carries_no_session_def)

lemma get_ums_conversation_id_skip:
  "list_all carries_no_session pre \<Longrightarrow>
     get_ums_conversation_id (pre @ rest) = get_ums_conversation_id rest"
  by (induction pre) (simp_all add: carries_no_session_def)

lemma get_ums_conversation_id_none:
  "list_all carries_no_session request \<Longrightarrow> get_ums_conversation_id request = Inr JNull"
  using get_ums_conversation_id_skip [of request "[]"] by simp

lemma get_ums_conversation_id_hit:
  "message_conversation_id m = Inr (Some v) \<Longrightarrow> get_ums_conversation_id (m # rest) = Inr v"
  by simp

lemma get_ums_conversation_id_raises:
  "message_conversation_id m = Inl e \<Longrightarrow> get_ums_conversation_id (m # rest) = Inl e"
  by simp

section \<open>Creating and resolving, step by step\<close>

lemma create_ums_conversation_apply:
  "create_ums_conversation environ tr =
     (case post_conversations environ of
        Inl e \<Rightarrow> Inl e
      | Inr response \<Rightarrow>
          rbind (raise_for_status (status_code response)) (\<lambda>u.
            case json_loads environ (payload response) of
              None \<Rightarrow> Inl JSONDecodeError
            | Some data \<Rightarrow> py_getitem data ''id''),
      tr @ [ConversationPosted])"
  by (cases "post_conversations environ")
     (simp_all add: create_ums_conversation_def ethen_def ebind_def raise_for_status_def
        split: option.splits)

lemma resolve_conversation_found:
  "get_ums_conversation_id request = Inr cid \<Longrightarrow> cid \<noteq> JNull \<Longrightarrow>
     resolve_conversation environ request tr = (Inr cid, tr)"
  by (simp add: resolve_conversation_def)

lemma resolve_conversation_raises:
  "get_ums_conversation_id request = Inl e \<Longrightarrow>
     resolve_conversation environ request tr = (Inl e, tr)"
  by (simp add: resolve_conversation_def)

lemma resolve_conversation_created:
  "get_ums_conversation_id request = Inr JNull \<Longrightarrow>
   fst (create_ums_conversation environ tr) = Inr cid \<Longrightarrow>
     resolve_conversation environ request tr =
       (Inr cid, tr @ [ConversationPosted, StateSet (session_state cid)])"
  by (auto simp: resolve_conversation_def create_ums_conversation_apply ethen_def ebind_def
      session_state_def split: sum.splits)

lemma resolve_conversation_create_fails:
  "get_ums_conversation_id request = Inr JNull \<Longrightarrow>
   fst (create_ums_conversation environ tr) = Inl e \<Longrightarrow>
     resolve_conversation environ request tr = (Inl e, tr @ [ConversationPosted])"
  by (auto simp: resolve_conversation_def create_ums_conversation_apply ethen_def ebind_def
      split: sum.splits)

lemma augment_user_content_simps [simp, py_simps]:
  "augment_user_content c None = c"
  "augment_user_content c (Some []) = c"
  "i \<noteq> [] \<Longrightarrow> augment_user_content c (Some i) = c @ ''\<newline>\<newline>Additional context: '' @ i"
  by (simp_all add: augment_user_content_def)

lemma create_ums_conversation_result:
  "fst (create_ums_conversation environ tr) = fst (create_ums_conversation environ tr')"
  by (simp add: create_ums_conversation_apply)

lemma resolve_conversation_trace:
  "\<exists>es. snd (resolve_conversation environ request tr) = tr @ es
        \<and> list_all is_quiet es"
proof (cases "get_ums_conversation_id request")
  case (Inl e)
  then show ?thesis by (simp add: resolve_conversation_raises)
next
  case (Inr cid)
  show ?thesis
  proof (cases "cid = JNull")
    case False
    with Inr show ?thesis by (simp add: resolve_conversation_found)
  next
    case True
    with Inr show ?thesis
      by (cases "fst (create_ums_conversation environ tr)")
         (simp_all add: resolve_conversation_created resolve_conversation_create_fails)
  qed
qed

section \<open>The method, step by step\<close>

lemma ums_response_apply:
  "ums_response environ stage request instr tr =
     (case resolve_conversation environ request tr of
        (Inl e, tr1) \<Rightarrow> (Inl e, tr1)
      | (Inr cid, tr1) \<Rightarrow>
          if request = [] then (Inl IndexError, tr1)
          else (case call_ums_agent environ cid (sent_content request instr) stage tr1 of
                  (Inl e, tr2) \<Rightarrow> (Inl e, tr2)
                | (Inr c, tr2) \<Rightarrow> (Inr (assistant_message c), tr2)))"
  by (simp add: ums_response_def ebind_def split: prod.splits sum.splits)

lemma snd_case_sum_pair [simp]:
  "snd (case p of (Inl e, t) \<Rightarrow> (Inl e, t) | (Inr c, t) \<Rightarrow> (Inr (f c), t)) = snd p"
  by (auto split: prod.splits sum.splits)

lemma call_ums_agent_views:
  "posts (snd (call_ums_agent environ cid msg stage tr)) = posts tr @ [ChatPosted cid msg]"
  "states_set (snd (call_ums_agent environ cid msg stage tr)) = states_set tr"
  "stage_count (snd (call_ums_agent environ cid msg stage tr)) = stage_count tr"
  "stage_status (snd (call_ums_agent environ cid msg stage tr)) i = stage_status tr i"
  using call_ums_agent_trace [of environ cid msg stage tr]
  by (auto simp: stage_status_Cons_append)

lemma ums_response_found:
  assumes "get_ums_conversation_id request = Inr cid" "cid \<noteq> JNull" "request \<noteq> []"
  shows "ums_response environ stage request instr tr =
     (case call_ums_agent environ cid (sent_content request instr) stage tr of
        (Inl e, tr2) \<Rightarrow> (Inl e, tr2)
      | (Inr c, tr2) \<Rightarrow> (Inr (assistant_message c), tr2))"
  using assms by (simp add: ums_response_apply resolve_conversation_found)

lemma ums_response_create_fails:
  assumes "get_ums_conversation_id request = Inr JNull"
    and "fst (create_ums_conversation environ tr) = Inl e"
  shows "ums_response environ stage request instr tr = (Inl e, tr @ [ConversationPosted])"
  using assms by (simp add: ums_response_apply resolve_conversation_create_fails)

lemma ums_response_empty:
  assumes "fst (create_ums_conversation environ tr) = Inr cid"
  shows "ums_response environ stage [] instr tr =
     (Inl IndexError, tr @ [ConversationPosted, StateSet (session_state cid)])"
  using assms by (simp add: ums_response_apply resolve_conversation_created)

lemma ums_response_reply_role:
  "ums_response environ stage request instr tr = (Inr reply, tr') \<Longrightarrow> msg_role reply = Assistant"
  by (auto simp: ums_response_apply assistant_message_def split: prod.splits sum.splits if_splits)

lemma ums_response_trace:
  "\<exists>es cs. snd (ums_response environ stage request instr tr) =
       tr @ es @ map (StageAppended stage) cs
     \<and> list_all is_quiet es"
proof -
  obtain r tr1 where res: "resolve_conversation environ request tr = (r, tr1)"
    by (cases "resolve_conversation environ request tr")
  obtain es where es: "tr1 = tr @ es" "list_all is_quiet es"
    using resolve_conversation_trace [of environ request tr] res by auto
  show ?thesis
  proof (cases "\<exists>cid. r = Inr cid \<and> request \<noteq> []")
    case False
    then have "snd (ums_response environ stage request instr tr) = tr @ es @ map (StageAppended stage) []"
      using res es by (cases r) (auto simp: ums_response_apply)
    with es show ?thesis by blast
  next
    case True
    then obtain cid where r: "r = Inr cid" "request \<noteq> []" by blast
    obtain cs where "snd (call_ums_agent environ cid (sent_content request instr) stage tr1) =
        tr1 @ ChatPosted cid (sent_content request instr) # map (StageAppended stage) cs"
      using call_ums_agent_trace by blast
    then have "snd (ums_response environ stage request instr tr) =
        tr @ (es @ [ChatPosted cid (sent_content request instr)]) @ map (StageAppended stage) cs"
      using res r es by (simp add: ums_response_apply)
    moreover have "list_all is_quiet (es @ [ChatPosted cid (sent_content request instr)])"
      using es by simp
    ultimately show ?thesis by blast
  qed
qed

lemma ums_response_gateway_ok: "gateway_ok (ums_response environ)"
  unfolding gateway_ok_def gateway_adds_iff using ums_response_trace by blast

lemma first_turn_views:
  assumes "get_ums_conversation_id request = Inr JNull" and "request \<noteq> []"
    and "ums_response environ stage request instr tr = (Inr reply, tr')"
  shows "\<exists>cid. fst (create_ums_conversation environ tr) = Inr cid
       \<and> posts tr' = posts tr @ [ConversationPosted, ChatPosted cid (sent_content request instr)]
       \<and> states_set tr' = states_set tr @ [session_state cid]"
proof (cases "fst (create_ums_conversation environ tr)")
  case (Inl e)
  with assms show ?thesis
    by (simp add: ums_response_create_fails)
next
  case (Inr cid)
  with assms(1,2) have "snd (ums_response environ stage request instr tr) =
      snd (call_ums_agent environ cid (sent_content request instr) stage
             (tr @ [ConversationPosted, StateSet (session_state cid)]))"
    by (simp add: ums_response_apply resolve_conversation_created)
  with assms(3) Inr show ?thesis
    by (simp add: call_ums_agent_views)
qed

lemma ums_response_posts:
  assumes "ums_response environ stage request instr tr = (Inr reply, tr')"
  shows "\<exists>cid. posts tr' = posts tr @ [ChatPosted cid (sent_content request instr)]
             \<or> posts tr' = posts tr @ [ConversationPosted, ChatPosted cid (sent_content request instr)]"
proof (cases "get_ums_conversation_id request")
  case (Inl e)
  with assms show ?thesis
    by (simp add: ums_response_apply resolve_conversation_raises)
next
  case (Inr cid)
  from assms have nonempty: "request \<noteq> []"
    by (auto simp: ums_response_apply split: prod.splits sum.splits if_splits)
  show ?thesis
  proof (cases "cid = JNull")
    case True
    with Inr nonempty assms show ?thesis
      using first_turn_views [of request environ stage instr tr reply tr'] by auto
  next
    case False
    from assms have "snd (ums_response environ stage request instr tr) = tr'"
      by simp
    with Inr False nonempty show ?thesis
      by (auto simp: ums_response_found call_ums_agent_views)
  qed
qed

section \<open>The example conversations\<close>

lemma sample_request_no_session [simp]:
  "get_ums_conversation_id sample_request = Inr JNull"
  "list_all carries_no_session sample_request" "sample_request \<noteq> []"
  "sent_content sample_request None = ''create user Alice''"
  by (simp_all add: sample_request_def sent_content_def)

lemma sample_create [simp]:
  "create_ums_conversation sample_env tr = (Inr (JStr ''abc''), tr @ [ConversationPosted])"
  by (simp add: create_ums_conversation_apply)

lemma sample_call [simp]:
  "call_ums_agent sample_env cid msg stage tr =
     (Inr ''Hello'',
      tr @ [ChatPosted cid msg, StageAppended stage ''Hel'', StageAppended stage ''lo''])"
  by (simp add: call_ums_agent_apply consume_lines_refines)

lemma sample_first_turn:
  "ums_response sample_env stage sample_request None tr =
     (Inr (assistant_message ''Hello''),
      tr @ [ConversationPosted, StateSet (session_state (JStr ''abc'')),
       ChatPosted (JStr ''abc'') ''create user Alice'',
       StageAppended stage ''Hel'', StageAppended stage ''lo''])"
  by (simp add: ums_response_apply resolve_conversation_created [where cid = "JStr ''abc''"])

lemma returning_request_simps [simp]:
  "get_ums_conversation_id returning_request = Inr (JStr ''abc'')" "returning_request \<noteq> []"
  "sent_content returning_request None = ''list users''"
  by (simp_all add: returning_request_def sent_content_def assistant_message_def)

section \<open>Properties of the gateway\<close>

text \<open>
  C3. A first turn creates exactly one session, before the chat call. When the history
  carries no session identifier and the gateway returns, the requests it sent are one
  session creation followed by one chat call that carries the created identifier and
  the text of the last message, and the state it attached to the reply is that
  identifier under the tracked key.
\<close>

theorem first_turn_creates_session_once:
  assumes "get_ums_conversation_id request = Inr JNull" and "request \<noteq> []"
    and "ums_response environ stage request instr tr = (Inr reply, tr')"
  shows "\<exists>cid. fst (create_ums_conversation environ tr) = Inr cid
       \<and> posts tr' = posts tr @ [ConversationPosted, ChatPosted cid (sent_content request instr)]
       \<and> states_set tr' = states_set tr @ [session_state cid]"
  using assms by (rule first_turn_views)

theorem first_turn_creates_session_once_witness:
  "posts (snd (ums_response sample_env 1 sample_request None [])) =
     [ConversationPosted, ChatPosted (JStr ''abc'') ''create user Alice'']
   \<and> states_set (snd (ums_response sample_env 1 sample_request None [])) =
     [session_state (JStr ''abc'')]"
  using first_turn_creates_session_once [of sample_request sample_env 1 None "[]",
      OF _ _ sample_first_turn]
  by (simp add: sample_first_turn)

text \<open>
  C21. A later turn reuses the session. When the history carries a session identifier,
  the gateway sends no session creation and attaches no state; its only request is the
  chat call, with the identifier found and the text of the last message of the
  history (whatever the role of that message), extended by the coordinator's
  instructions when they are given and not empty. This holds whether the call then
  succeeds or fails.
\<close>

theorem later_turn_reuses_session:
  assumes "get_ums_conversation_id request = Inr cid" and "cid \<noteq> JNull" and "request \<noteq> []"
  shows "posts (snd (ums_response environ stage request instr tr)) =
           posts tr @ [ChatPosted cid (sent_content request instr)]
       \<and> states_set (snd (ums_response environ stage request instr tr)) = states_set tr"
  using assms by (simp add: ums_response_found call_ums_agent_views)

theorem later_turn_reuses_session_witness:
  "posts (snd (ums_response sample_env 1 returning_request None [])) =
     [ChatPosted (JStr ''abc'') ''list users'']
   \<and> states_set (snd (ums_response sample_env 1 returning_request None [])) = []"
  using later_turn_reuses_session [of returning_request "JStr ''abc''" sample_env 1 None "[]"]
  by simp

text \<open>
  The scan returns the first match. The identifier \<open>__get_ums_conversation_id\<close>
  returns is the one stored on the earliest assistant message that carries one, whatever
  later messages carry: a more recent identifier in the history is never chosen.
\<close>

theorem conversation_id_is_first_match:
  assumes "list_all carries_no_session pre" and "msg_role m = Assistant"
  shows "get_ums_conversation_id (pre @ with_state m (session_state cid) # rest) = Inr cid"
  using assms by (simp add: get_ums_conversation_id_skip)

theorem conversation_id_is_first_match_witness:
  "get_ums_conversation_id returning_request = Inr (JStr ''abc'')"
  using conversation_id_is_first_match [of
      "[\<lparr>msg_role = User, msg_content = Some ''create user Alice'', msg_custom = None\<rparr>]"
      "assistant_message ''Created.''" "JStr ''abc''"
      "[with_state (assistant_message ''Nothing.'') (session_state (JStr ''xyz'')),
        \<lparr>msg_role = User, msg_content = Some ''list users'', msg_custom = None\<rparr>]"]
  by (simp add: returning_request_def assistant_message_def)

text \<open>
  The session survives the turn. After a first turn that returns, the history of
  the next request (the old history, the reply with the state of the run attached,
  the next user message) resolves to the very identifier the first turn's chat call
  used.
\<close>

theorem session_roundtrip:
  assumes "list_all carries_no_session request" and "request \<noteq> []" and "states_set tr = []"
    and "ums_response environ stage request instr tr = (Inr reply, tr')"
  shows "\<exists>cid. ChatPosted cid (sent_content request instr) \<in> set (posts tr')
       \<and> get_ums_conversation_id (next_request request reply tr' user_message) = Inr cid"
proof -
  have none: "get_ums_conversation_id request = Inr JNull"
    using assms(1) by (rule get_ums_conversation_id_none)
  have role: "msg_role reply = Assistant"
    using assms(4) by (rule ums_response_reply_role)
  obtain cid where
    p: "posts tr' = posts tr @ [ConversationPosted, ChatPosted cid (sent_content request instr)]"
    and s: "states_set tr' = states_set tr @ [session_state cid]"
    using first_turn_views [OF none assms(2,4)] by blast
  have "persisted_reply reply tr' = with_state reply (session_state cid)"
    using s assms(3) by (simp add: persisted_reply_def)
  then have "get_ums_conversation_id (next_request request reply tr' user_message) = Inr cid"
    using assms(1) role by (simp add: next_request_def get_ums_conversation_id_skip)
  with p show ?thesis by auto
qed

theorem session_roundtrip_witness:
  "get_ums_conversation_id
     (next_request sample_request (assistant_message ''Hello'')
        (snd (ums_response sample_env 1 sample_request None []))
        \<lparr>msg_role = User, msg_content = Some ''list users'', msg_custom = None\<rparr>) =
   Inr (JStr ''abc'')"
  using session_roundtrip [of sample_request "[]" sample_env 1 None "assistant_message ''Hello''" _
      "\<lparr>msg_role = User, msg_content = Some ''list users'', msg_custom = None\<rparr>",
      OF _ _ _ sample_first_turn]
  by (auto simp: sample_first_turn)

text \<open>
  C38. A failed session creation is fatal. When the history carries no identifier and
  the creation endpoint answers with a status outside 200 to 299, the gateway raises
  the status error: it sends no chat call, attaches no state and writes nothing to the
  stage.
\<close>

theorem session_creation_failure_is_fatal:
  assumes "get_ums_conversation_id request = Inr JNull"
    and "post_conversations environ = Inr response"
    and "\<not> (200 \<le> status_code response \<and> status_code response \<le> 299)"
  shows "ums_response environ stage request instr tr =
           (Inl (HTTPStatusError (status_code response)), tr @ [ConversationPosted])"
proof -
  have "fst (create_ums_conversation environ tr) = Inl (HTTPStatusError (status_code response))"
    using assms(2,3) by (auto simp: create_ums_conversation_apply raise_for_status_def)
  with assms(1) show ?thesis by (rule ums_response_create_fails)
qed

theorem session_creation_failure_is_fatal_witness:
  "ums_response (sample_env\<lparr>post_conversations := Inr \<lparr>status_code = 503, payload = []\<rparr>\<rparr>)
     1 sample_request None [] = (Inl (HTTPStatusError 503), [ConversationPosted])"
  using session_creation_failure_is_fatal [of sample_request
      "sample_env\<lparr>post_conversations := Inr \<lparr>status_code = 503, payload = []\<rparr>\<rparr>"
      "\<lparr>status_code = 503, payload = []\<rparr>" 1 None "[]"]
  by simp

text \<open>
  The gateway keeps the protocol of the log surfaces. Started on a well-formed
  trace with its stage open, \<open>response\<close> leaves a well-formed trace, opens and closes no
  stage, and writes to no stage but its own; this holds on every branch, the failing
  ones included.
\<close>

theorem ums_response_keeps_protocol:
  assumes "wf_trace tr" and "stage_status tr stage = Open"
  shows "wf_trace (snd (ums_response environ stage request instr tr))
       \<and> stage_status (snd (ums_response environ stage request instr tr)) i = stage_status tr i
       \<and> stage_count (snd (ums_response environ stage request instr tr)) = stage_count tr
       \<and> (i \<noteq> stage \<longrightarrow> stage_chunks i (snd (ums_response environ stage request instr tr)) =
                           stage_chunks i tr)"
proof -
  obtain es cs where tr': "snd (ums_response environ stage request instr tr) =
      tr @ es @ map (StageAppended stage) cs"
    and es: "list_all is_quiet es"
    using ums_response_trace by blast
  from es have "list_all (\<lambda>e. \<not> is_stage_event e) es"
    by (rule list_all_quiet)
  from gateway_extension [OF assms this] es show ?thesis
    unfolding tr' by simp
qed

theorem ums_response_keeps_protocol_witness:
  "check_trace (snd (ums_response sample_env 0 sample_request None [StageOpened 0 ''UMS'']))
   \<and> stage_status (snd (ums_response sample_env 0 sample_request None [StageOpened 0 ''UMS''])) 0 = Open"
  using ums_response_keeps_protocol [of "[StageOpened 0 ''UMS'']" 0 sample_env sample_request None 0]
  by (simp add: wf_trace_iff_check check_trace_def sample_first_turn stage_status_Cons)

end
