(* ===== verification/GpaGateway.thy ===== *)
theory GpaGateway
  imports Fixtures Gateway
begin

text \<open>
  The gateway to the general-purpose agent (\<open>task/coordination/gpa.py\<close>). The file is
  not among the sources, so the gateway is modelled from its contract in the
  specification: it forwards the request and the coordinator's instructions to the
  agent (the field \<open>gpa_answer\<close> of the environment), writes every fragment of the
  answer to its stage in the order of arrival, and returns the accumulated text as an
  assistant message. It keeps no session: it attaches no state. The lemmas give its
  result and its trace and discharge the gateway contract.
\<close>

fun forward_fragments :: "nat \<Rightarrow> error option \<Rightarrow> string list \<Rightarrow> string \<Rightarrow> (trace, string) run" where
  "forward_fragments stage fail [] content = liftE (settle fail content)"
| "forward_fragments stage fail (fragment # rest) content =
     ethen (append_content stage fragment)
       (forward_fragments stage fail rest (content @ fragment))"

definition gpa_response :: "env \<Rightarrow> gateway" where
  "gpa_response environ stage request instructions =
     ethen (emit (AgentRequested instructions))
       (ebind (liftE (gpa_answer environ request instructions)) (\<lambda>answer.
          ebind (forward_fragments stage (failure answer) (items answer) []) (\<lambda>content.
            returnE (assistant_message content))))"

lemma forward_fragments_apply:
  "forward_fragments stage fail fragments content tr =
     (settle fail (content @ concat fragments), tr @ map (StageAppended stage) fragments)"
  by (induction fragments arbitrary: content tr) (simp_all add: ethen_def ebind_def)

lemma gpa_response_apply:
  "gpa_response environ stage request instr tr =
     (case gpa_answer environ request instr of
        Inl e \<Rightarrow> (Inl e, tr @ [AgentRequested instr])
      | Inr answer \<Rightarrow>
          (rbind (settle (failure answer) (concat (items answer)))
             (\<lambda>content. Inr (assistant_message content)),
           tr @ AgentRequested instr # map (StageAppended stage) (items answer)))"
  by (cases "gpa_answer environ request instr"; cases "failure (projr (gpa_answer environ request instr))")
     (simp_all add: gpa_response_def ethen_def ebind_def forward_fragments_apply)

lemma gpa_response_trace:
  "\<exists>cs. snd (gpa_response environ stage request instr tr) =
     tr @ AgentRequested instr # map (StageAppended stage) cs"
  by (cases "gpa_answer environ request instr") (simp_all add: gpa_response_apply)

lemma gpa_response_gateway_ok: "gateway_ok (gpa_response environ)"
  unfolding gateway_ok_def
proof (intro allI)
  fix stage request instr tr
  obtain cs where "snd (gpa_response environ stage request instr tr) =
      tr @ [AgentRequested instr] @ map (StageAppended stage) cs"
    using gpa_response_trace [of environ stage request instr tr] by auto
  then show "gateway_adds stage tr (snd (gpa_response environ stage request instr tr))"
    by (rule gateway_addsI) simp
qed

lemma gpa_response_views:
  "posts (snd (gpa_response environ stage request instr tr)) = posts tr @ [AgentRequested instr]"
  "states_set (snd (gpa_response environ stage request instr tr)) = states_set tr"
  using gpa_response_trace [of environ stage request instr tr] by auto

lemma gpa_response_returns:
  "gpa_response environ stage request instr tr = (Inr reply, tr') \<Longrightarrow>
     \<exists>answer. gpa_answer environ request instr = Inr answer \<and> failure answer = None
       \<and> reply = assistant_message (concat (items answer))
       \<and> stage_chunks stage tr' = stage_chunks stage tr @ items answer"
  by (cases "gpa_answer environ request instr")
     (auto simp: gpa_response_apply rbind_eq_Inr_iff)

lemma sample_gpa_response [simp]:
  "gpa_response sample_env stage request instr tr =
     (Inr (assistant_message ''It is sunny.''),
      tr @ [AgentRequested instr, StageAppended stage ''It is '', StageAppended stage ''sunny.''])"
  by (simp add: gpa_response_apply)

end
