(* ===== verification/Classifier.thy ===== *)
theory Classifier
  imports Fixtures Prompts
begin

text \<open>
  The routing classifier: \<open>MASCoordinator.__prepare_coordination_request\<close> in
  \<open>src/task/agent.py\<close>. It sends the adapted history with the coordination prompt in
  one structured model call, takes the text of the first choice, parses it as JSON and
  validates it as a decision. The decision type and its validation belong to
  \<open>task/models.py\<close>, which is not among the sources; they are modelled from the schema
  the specification gives (an agent out of \<open>GPA\<close> and \<open>UMS\<close>, and optional
  instructions). The lemmas show that a decision is returned only for a text that
  parses and validates, that every other outcome is an error of the run, and that
  validation inverts the serialisation of a decision.
\<close>

section \<open>The decision\<close>

datatype agent_name = GPA | UMS

record coordination_request =
  agent_name :: agent_name
  additional_instructions :: "string option"

instantiation agent_name :: enum
begin

definition "enum_agent_name = [GPA, UMS]"

definition "enum_all_agent_name P \<longleftrightarrow> P GPA \<and> P UMS"

definition "enum_ex_agent_name P \<longleftrightarrow> P GPA \<or> P UMS"

instance
proof
  have univ: "(UNIV :: agent_name set) = {GPA, UMS}"
  proof -
    have "a \<in> {GPA, UMS}" for a
      by (cases a) simp_all
    then show ?thesis by blast
  qed
  show "(UNIV :: agent_name set) = set enum_class.enum"
    by (simp add: univ enum_agent_name_def)
  show "distinct (enum_class.enum :: agent_name list)"
    by (simp add: enum_agent_name_def)
  show "enum_class.enum_all P = Ball UNIV P" for P :: "agent_name \<Rightarrow> bool"
    by (simp add: univ enum_all_agent_name_def)
  show "enum_class.enum_ex P = Bex UNIV P" for P :: "agent_name \<Rightarrow> bool"
    by (simp add: univ enum_ex_agent_name_def)
qed

end

fun agent_name_str :: "agent_name \<Rightarrow> string" where
  "agent_name_str GPA = ''GPA''"
| "agent_name_str UMS = ''UMS''"

fun validate_agent_name :: "json \<Rightarrow> agent_name result" where
  "validate_agent_name (JStr s) =
     (if s = ''GPA'' then Inr GPA else if s = ''UMS'' then Inr UMS else Inl ValidationError)"
| "validate_agent_name _ = Inl ValidationError"

fun validate_instructions :: "json option \<Rightarrow> string option result" where
  "validate_instructions None = Inr None"
| "validate_instructions (Some JNull) = Inr None"
| "validate_instructions (Some (JStr s)) = Inr (Some s)"
| "validate_instructions (Some _) = Inl ValidationError"

fun model_validate :: "json \<Rightarrow> coordination_request result" where
  "model_validate (JObj kvs) =
     (case map_of kvs ''agent_name'' of
        None \<Rightarrow> Inl ValidationError
      | Some a \<Rightarrow>
          rbind (validate_agent_name a) (\<lambda>name.
          rbind (validate_instructions (map_of kvs ''additional_instructions'')) (\<lambda>instructions.
            Inr \<lparr>agent_name = name, additional_instructions = instructions\<rparr>)))"
| "model_validate _ = Inl ValidationError"

definition model_dump :: "coordination_request \<Rightarrow> json" where
  "model_dump d =
     JObj [(''agent_name'', JStr (agent_name_str (agent_name d))),
           (''additional_instructions'',
              (case additional_instructions d of None \<Rightarrow> JNull | Some s \<Rightarrow> JStr s))]"

section \<open>The classifier\<close>

definition first_choice :: "'a list \<Rightarrow> 'a result" where
  "first_choice choices = (case choices of [] \<Rightarrow> Inl IndexError | c # rest \<Rightarrow> Inr c)"

definition loads_content :: "env \<Rightarrow> string option \<Rightarrow> json result" where
  "loads_content environ content =
     (case content of
        None \<Rightarrow> Inl TypeError
      | Some text \<Rightarrow>
          (case json_loads environ text of
             None \<Rightarrow> Inl JSONDecodeError
           | Some data \<Rightarrow> Inr data))"

definition parse_decision :: "env \<Rightarrow> string option list \<Rightarrow> coordination_request result" where
  "parse_decision environ choices =
     rbind (first_choice choices) (\<lambda>content.
     rbind (loads_content environ content) model_validate)"

definition coordination_messages :: "request \<Rightarrow> json list" where
  "coordination_messages request = prepare_messages request COORDINATION_REQUEST_SYSTEM_PROMPT"

definition prepare_coordination_request :: "env \<Rightarrow> request \<Rightarrow> (trace, coordination_request) run" where
  "prepare_coordination_request environ request =
     ethen (emit (ModelRequested Structured (coordination_messages request)))
       (ebind (liftE (completions_create environ (coordination_messages request)))
          (\<lambda>choices. liftE (parse_decision environ choices)))"

text \<open>The outcome of the classifier as a value: what the model call and the parse give.\<close>

definition decision :: "env \<Rightarrow> request \<Rightarrow> coordination_request result" where
  "decision environ request =
     rbind (completions_create environ (coordination_messages request)) (parse_decision environ)"

section \<open>Validation\<close>

declare validate_agent_name.simps [simp del]

lemma validate_agent_name_simps [simp]:
  "validate_agent_name (JStr ''GPA'') = Inr GPA"
  "validate_agent_name (JStr ''UMS'') = Inr UMS"
  by (simp_all add: validate_agent_name.simps)

lemma agent_name_str_inject [simp]: "agent_name_str a = agent_name_str b \<longleftrightarrow> a = b"
  by (cases a; cases b) simp_all

lemma validate_agent_name_str [simp]: "validate_agent_name (JStr (agent_name_str a)) = Inr a"
  by (cases a) simp_all

lemma validate_agent_name_Inr_iff:
  "validate_agent_name j = Inr a \<longleftrightarrow> j = JStr (agent_name_str a)"
  by (cases j; cases a) (auto simp: validate_agent_name.simps split: if_splits)

lemma validate_agent_name_Inl: "validate_agent_name j = Inl e \<Longrightarrow> e = ValidationError"
  by (cases j) (auto simp: validate_agent_name.simps split: if_splits)

lemma validate_instructions_Inr_iff:
  "validate_instructions v = Inr i \<longleftrightarrow>
     (v = None \<or> v = Some JNull) \<and> i = None \<or> (\<exists>s. v = Some (JStr s) \<and> i = Some s)"
  by (cases "(v)" rule: validate_instructions.cases) auto

lemma validate_instructions_Inl: "validate_instructions v = Inl e \<Longrightarrow> e = ValidationError"
  by (cases "(v)" rule: validate_instructions.cases) auto

lemma model_validate_Inl: "model_validate data = Inl e \<Longrightarrow> e = ValidationError"
  by (cases data)
     (auto simp: rbind_eq_Inl_iff split: option.splits
        dest: validate_agent_name_Inl validate_instructions_Inl)

lemma model_validate_Inr_iff:
  "model_validate data = Inr d \<longleftrightarrow>
     (\<exists>kvs. data = JObj kvs
        \<and> map_of kvs ''agent_name'' = Some (JStr (agent_name_str (agent_name d)))
        \<and> validate_instructions (map_of kvs ''additional_instructions'') =
            Inr (additional_instructions d))"
  by (cases data)
     (auto simp: rbind_eq_Inr_iff validate_agent_name_Inr_iff split: option.splits)

lemma model_validate_dump [simp]: "model_validate (model_dump d) = Inr d"
  by (cases "additional_instructions d") (simp_all add: model_dump_def)

lemma model_validate_ignores_other_keys:
  "k \<noteq> ''agent_name'' \<Longrightarrow> k \<noteq> ''additional_instructions'' \<Longrightarrow>
     model_validate (JObj ((k, v) # kvs)) = model_validate (JObj kvs)"
  by (simp split: option.splits)

section \<open>The classifier, step by step\<close>

lemma first_choice_simps [simp]:
  "first_choice [] = Inl IndexError" "first_choice (c # rest) = Inr c"
  by (simp_all add: first_choice_def)

lemma loads_content_simps [simp]:
  "loads_content environ None = Inl TypeError"
  "json_loads environ text = None \<Longrightarrow> loads_content environ (Some text) = Inl JSONDecodeError"
  "json_loads environ text = Some data \<Longrightarrow> loads_content environ (Some text) = Inr data"
  by (simp_all add: loads_content_def)

lemma loads_content_Inr_iff:
  "loads_content environ content = Inr data \<longleftrightarrow>
     (\<exists>text. content = Some text \<and> json_loads environ text = Some data)"
  by (auto simp: loads_content_def split: option.splits)

lemma parse_decision_Inr_iff:
  "parse_decision environ choices = Inr d \<longleftrightarrow>
     (\<exists>text rest data. choices = Some text # rest \<and> json_loads environ text = Some data
        \<and> model_validate data = Inr d)"
  by (cases choices) (auto simp: parse_decision_def rbind_eq_Inr_iff loads_content_Inr_iff)

lemma parse_decision_Inl:
  "parse_decision environ choices = Inl e \<Longrightarrow>
     e \<in> {IndexError, TypeError, JSONDecodeError, ValidationError}"
  by (cases choices)
     (auto simp: parse_decision_def loads_content_def rbind_eq_Inl_iff split: option.splits
        dest: model_validate_Inl)

lemma prepare_coordination_request_apply:
  "prepare_coordination_request environ request tr =
     (decision environ request, tr @ [ModelRequested Structured (coordination_messages request)])"
  by (cases "completions_create environ (coordination_messages request)")
     (simp_all add: prepare_coordination_request_def decision_def ethen_def ebind_def
        emit_def liftE_def)

lemma coordination_messages_hd [simp]:
  "hd (coordination_messages request) = role_content ''system'' COORDINATION_REQUEST_SYSTEM_PROMPT"
  "coordination_messages request \<noteq> []"
  by (simp_all add: coordination_messages_def)

lemma prepare_coordination_request_wf:
  "wf_trace tr \<Longrightarrow> wf_trace (snd (prepare_coordination_request environ request tr))"
  by (simp add: prepare_coordination_request_apply wf_emit_other)

lemma prepare_coordination_request_grows:
  "grows tr (snd (prepare_coordination_request environ request tr))"
  by (simp add: prepare_coordination_request_apply)

lemma sample_decision [simp]:
  "decision sample_env request = Inr \<lparr>agent_name = UMS, additional_instructions = None\<rparr>"
  by (simp add: decision_def parse_decision_def)

section \<open>Properties of the classifier\<close>

text \<open>
  C7. The classifier never guesses a route. It returns a decision exactly when the
  model call succeeds, the text of its first choice parses as JSON, and the parsed
  value validates as that decision; whatever the outcome it has sent one structured
  request, whose first entry is the coordination prompt, and nothing else.
\<close>

theorem classifier_never_guesses:
  "(fst (prepare_coordination_request environ request tr) = Inr d \<longleftrightarrow>
      (\<exists>text rest data.
          completions_create environ (coordination_messages request) = Inr (Some text # rest)
        \<and> json_loads environ text = Some data \<and> model_validate data = Inr d))
   \<and> snd (prepare_coordination_request environ request tr) =
       tr @ [ModelRequested Structured (coordination_messages request)]"
  by (cases "completions_create environ (coordination_messages request)")
     (auto simp: prepare_coordination_request_apply decision_def parse_decision_Inr_iff)

theorem classifier_never_guesses_witness:
  "fst (prepare_coordination_request sample_env sample_request []) =
     Inr \<lparr>agent_name = UMS, additional_instructions = None\<rparr>
   \<and> posts (snd (prepare_coordination_request sample_env sample_request [])) =
     [ModelRequested Structured (coordination_messages sample_request)]"
  using classifier_never_guesses [of sample_env sample_request "[]"
      "\<lparr>agent_name = UMS, additional_instructions = None\<rparr>"]
  by (simp add: posts_def)

text \<open>
  A text that is not JSON is a fatal error. When the first choice of the model's
  answer is a text that \<open>json.loads\<close> rejects, the classifier raises the decoding error
  after its one request: there is no retry and no default agent.
\<close>

theorem malformed_decision_aborts:
  assumes "completions_create environ (coordination_messages request) = Inr (Some text # rest)"
    and "json_loads environ text = None"
  shows "prepare_coordination_request environ request tr =
           (Inl JSONDecodeError, tr @ [ModelRequested Structured (coordination_messages request)])"
  using assms by (simp add: prepare_coordination_request_apply decision_def parse_decision_def)

theorem malformed_decision_aborts_witness:
  "prepare_coordination_request
     (sample_env\<lparr>completions_create := \<lambda>messages. Inr [Some ''not json'']\<rparr>) sample_request [] =
   (Inl JSONDecodeError, [ModelRequested Structured (coordination_messages sample_request)])"
  using malformed_decision_aborts [of
      "sample_env\<lparr>completions_create := \<lambda>messages. Inr [Some ''not json'']\<rparr>"
      sample_request "''not json''" "[]" "[]"]
  by (simp add: sample_env_def)

text \<open>
  Validation inverts serialisation. Every decision, written as the dictionary of
  its two fields, validates to itself; and a dictionary validates only if its agent is
  one of the two names, so the decision determines one of the two gateways.
\<close>

theorem decision_roundtrip:
  "model_validate (model_dump d) = Inr d
   \<and> (\<forall>data d'. model_validate data = Inr d' \<longrightarrow>
         py_getitem data ''agent_name'' = Inr (JStr (agent_name_str (agent_name d')))
       \<and> agent_name_str (agent_name d') \<in> {''GPA'', ''UMS''})"
proof -
  have "agent_name_str a \<in> {''GPA'', ''UMS''}" for a
    by (cases a) simp_all
  then show ?thesis
    by (auto simp: model_validate_Inr_iff)
qed

theorem decision_roundtrip_witness:
  "model_validate (JObj [(''agent_name'', JStr ''GPA''),
      (''additional_instructions'', JStr ''search the web'')]) =
   Inr \<lparr>agent_name = GPA, additional_instructions = Some ''search the web''\<rparr>"
  using decision_roundtrip [of "\<lparr>agent_name = GPA, additional_instructions = Some ''search the web''\<rparr>"]
  by (simp add: model_dump_def)

end
