(* ===== verification/Dispatch.thy ===== *)
theory Dispatch
  imports UmsGateway GpaGateway Classifier
begin

text \<open>
  The dispatch of a decision to a gateway:
  \<open>MASCoordinator.__handle_coordination_request\<close> in \<open>src/task/agent.py\<close>. The agent
  named \<open>UMS\<close> selects the gateway of the stateful agent; every other decision selects
  the gateway of the general-purpose agent. The lemmas show that one run of the
  dispatch talks to one agent only, and that the dispatch meets the gateway contract
  because both gateways do.
\<close>

definition handle_coordination_request ::
  "env \<Rightarrow> coordination_request \<Rightarrow> nat \<Rightarrow> request \<Rightarrow> (trace, message) run" where
  "handle_coordination_request environ coordination_request stage request =
     (if agent_name coordination_request = UMS
      then ums_response environ stage request (additional_instructions coordination_request)
      else gpa_response environ stage request (additional_instructions coordination_request))"

section \<open>Which agent a request went to\<close>

fun is_ums_call :: "event \<Rightarrow> bool" where
  "is_ums_call ConversationPosted \<longleftrightarrow> True"
| "is_ums_call (ChatPosted c u) \<longleftrightarrow> True"
| "is_ums_call _ \<longleftrightarrow> False"

fun is_gpa_call :: "event \<Rightarrow> bool" where
  "is_gpa_call (AgentRequested i) \<longleftrightarrow> True"
| "is_gpa_call _ \<longleftrightarrow> False"

definition ums_calls :: "trace \<Rightarrow> event list" where
  "ums_calls tr = filter is_ums_call (posts tr)"

definition gpa_calls :: "trace \<Rightarrow> event list" where
  "gpa_calls tr = filter is_gpa_call (posts tr)"

section \<open>The dispatch, branch by branch\<close>

lemma handle_coordination_request_ums [simp]:
  "agent_name d = UMS \<Longrightarrow>
     handle_coordination_request environ d stage request =
       ums_response environ stage request (additional_instructions d)"
  by (simp add: handle_coordination_request_def)

lemma handle_coordination_request_gpa [simp]:
  "agent_name d = GPA \<Longrightarrow>
     handle_coordination_request environ d stage request =
       gpa_response environ stage request (additional_instructions d)"
  by (simp add: handle_coordination_request_def)

lemma handle_coordination_request_adds:
  "gateway_adds stage tr (snd (handle_coordination_request environ d stage request tr))"
  using ums_response_gateway_ok [of environ] gpa_response_gateway_ok [of environ]
  by (cases "agent_name d") (simp_all add: gateway_ok_def)

lemma dispatch_gateway_ok:
  "gateway_ok (\<lambda>stage request instr.
     handle_coordination_request environ \<lparr>agent_name = a, additional_instructions = instr\<rparr> stage request)"
  by (simp add: gateway_ok_def handle_coordination_request_adds)

lemma calls_simps [simp]:
  "ums_calls [] = []" "gpa_calls [] = []"
  "ums_calls (tr @ tr') = ums_calls tr @ ums_calls tr'"
  "gpa_calls (tr @ tr') = gpa_calls tr @ gpa_calls tr'"
  by (simp_all add: ums_calls_def gpa_calls_def)

lemma calls_of_posts:
  "posts tr' = posts tr @ ps \<Longrightarrow> ums_calls tr' = ums_calls tr @ filter is_ums_call ps"
  "posts tr' = posts tr @ ps \<Longrightarrow> gpa_calls tr' = gpa_calls tr @ filter is_gpa_call ps"
  by (simp_all add: ums_calls_def gpa_calls_def)

lemma ums_response_no_gpa_call:
  "gpa_calls (snd (ums_response environ stage request instr tr)) = gpa_calls tr"
proof -
  obtain r tr1 where res: "resolve_conversation environ request tr = (r, tr1)"
    by (cases "resolve_conversation environ request tr")
  have g1: "gpa_calls tr1 = gpa_calls tr"
  proof (cases "get_ums_conversation_id request")
    case (Inl e)
    with res show ?thesis by (simp add: resolve_conversation_raises)
  next
    case (Inr cid)
    with res show ?thesis
      by (cases "cid = JNull"; cases "fst (create_ums_conversation environ tr)")
         (auto simp: resolve_conversation_found resolve_conversation_created
            resolve_conversation_create_fails gpa_calls_def)
  qed
  have "gpa_calls (snd (call_ums_agent environ cid msg stage tr1)) = gpa_calls tr1" for cid msg
    by (simp add: gpa_calls_def call_ums_agent_views)
  with g1 res show ?thesis
    by (cases r) (auto simp: ums_response_apply)
qed

lemma gpa_response_calls:
  "ums_calls (snd (gpa_response environ stage request instr tr)) = ums_calls tr"
  "gpa_calls (snd (gpa_response environ stage request instr tr)) = gpa_calls tr @ [AgentRequested instr]"
  by (simp_all add: ums_calls_def gpa_calls_def gpa_response_views)

lemma ums_response_chat_call:
  assumes "ums_response environ stage request instr tr = (Inr reply, tr')"
  shows "\<exists>cid. filter (\<lambda>e. e \<noteq> ConversationPosted) (drop (length (ums_calls tr)) (ums_calls tr')) =
           [ChatPosted cid (sent_content request instr)]"
  using ums_response_posts [OF assms] by (auto simp: ums_calls_def)

section \<open>Properties of the dispatch\<close>

text \<open>
  C8. One run talks to one agent. A decision for \<open>UMS\<close> sends nothing to the
  general-purpose agent, and when it returns it has sent exactly one chat call to the
  stateful agent. Any other decision sends exactly one request to the general-purpose
  agent, with the instructions of the decision, sends nothing to the stateful agent
  and attaches no state.
\<close>

theorem exactly_one_gateway:
  "(agent_name d = UMS \<longrightarrow>
      gpa_calls (snd (handle_coordination_request environ d stage request tr)) = gpa_calls tr
    \<and> (\<forall>reply tr'. handle_coordination_request environ d stage request tr = (Inr reply, tr') \<longrightarrow>
         (\<exists>cid. filter (\<lambda>e. e \<noteq> ConversationPosted) (drop (length (ums_calls tr)) (ums_calls tr')) =
            [ChatPosted cid (sent_content request (additional_instructions d))])))
   \<and> (agent_name d \<noteq> UMS \<longrightarrow>
      ums_calls (snd (handle_coordination_request environ d stage request tr)) = ums_calls tr
    \<and> states_set (snd (handle_coordination_request environ d stage request tr)) = states_set tr
    \<and> gpa_calls (snd (handle_coordination_request environ d stage request tr)) =
        gpa_calls tr @ [AgentRequested (additional_instructions d)])"
  by (cases "agent_name d")
     (auto simp: gpa_response_calls gpa_response_views ums_response_no_gpa_call
        dest: ums_response_chat_call)

theorem exactly_one_gateway_witness:
  "posts (snd (handle_coordination_request sample_env
       \<lparr>agent_name = UMS, additional_instructions = None\<rparr> 1 sample_request [])) =
     [ConversationPosted, ChatPosted (JStr ''abc'') ''create user Alice'']
   \<and> posts (snd (handle_coordination_request sample_env
       \<lparr>agent_name = GPA, additional_instructions = Some ''be brief''\<rparr> 1 sample_request [])) =
     [AgentRequested (Some ''be brief'')]"
  using exactly_one_gateway [of "\<lparr>agent_name = UMS, additional_instructions = None\<rparr>"
      sample_env 1 sample_request "[]"]
  by (simp add: sample_first_turn)

text \<open>
  The dispatch keeps the protocol of the log surfaces. Whichever gateway is
  selected and whether it returns or raises, started on a well-formed trace with its
  stage open it leaves a well-formed trace, opens and closes no stage, writes to no
  stage but its own and appends nothing to the answer.
\<close>

theorem dispatch_keeps_protocol:
  assumes "wf_trace tr" and "stage_status tr stage = Open"
  shows "wf_trace (snd (handle_coordination_request environ d stage request tr))
       \<and> stage_status (snd (handle_coordination_request environ d stage request tr)) i =
           stage_status tr i
       \<and> stage_count (snd (handle_coordination_request environ d stage request tr)) = stage_count tr
       \<and> choice_chunks (snd (handle_coordination_request environ d stage request tr)) =
           choice_chunks tr
       \<and> (i \<noteq> stage \<longrightarrow>
            stage_chunks i (snd (handle_coordination_request environ d stage request tr)) =
              stage_chunks i tr)"
  using gateway_adds_protocol [OF handle_coordination_request_adds assms]
    gateway_adds_texts [OF handle_coordination_request_adds]
  by simp

theorem dispatch_keeps_protocol_witness:
  "check_trace (snd (handle_coordination_request sample_env
       \<lparr>agent_name = GPA, additional_instructions = None\<rparr> 0 sample_request [StageOpened 0 ''GPA'']))
   \<and> choice_chunks (snd (handle_coordination_request sample_env
       \<lparr>agent_name = GPA, additional_instructions = None\<rparr> 0 sample_request [StageOpened 0 ''GPA''])) = []"
  using dispatch_keeps_protocol [of "[StageOpened 0 ''GPA'']" 0 sample_env
      "\<lparr>agent_name = GPA, additional_instructions = None\<rparr>" sample_request 0]
  by (simp add: wf_trace_iff_check check_trace_def stage_status_Cons)

end
