(* ===== verification/Synthesis.thy ===== *)
theory Synthesis
  imports Fixtures Prompts
begin

text \<open>
  The synthesis stage: \<open>MASCoordinator.__final_response\<close> in \<open>src/task/agent.py\<close>. It
  adapts the history with the synthesis prompt, replaces the text of the last entry
  by a composite of that text and the agent's answer, sends the entries in one
  streaming model call, appends every fragment that arrives to the caller's answer
  and returns the accumulated text as an assistant message. An f-string formats a
  string as itself; the entries the adapter builds hold a string under \<open>content\<close>
  (lemma \<open>entry_content_text\<close>), so \<open>text_of\<close> is applied to strings only and its value
  on other values (the empty text) is never used. The lemmas show that the loop
  computes the concatenation of the fragments, what the request to the model holds,
  and that the answer channel shows exactly what is returned.
\<close>

section \<open>The composite of request and answer\<close>

fun text_of :: "json \<Rightarrow> string" where
  "text_of (JStr s) = s"
| "text_of _ = []"

definition composite :: "string \<Rightarrow> string \<Rightarrow> string" where
  "composite original_content agent_content =
     ''## Original User Request\<newline>'' @ original_content @ ''\<newline>\<newline>''
     @ ''## Agent Response\<newline>'' @ agent_content"

definition augment_last :: "json list \<Rightarrow> string option \<Rightarrow> json list result" where
  "augment_last messages agent_content =
     (if messages = [] then Inr messages
      else rbind (py_get (last messages) ''content'' (JStr [])) (\<lambda>original_content.
           rbind (py_store (last messages) ''content''
                    (JStr (composite (text_of original_content) (or_empty agent_content))))
             (\<lambda>last_msg. Inr (butlast messages @ [last_msg]))))"

definition synthesis_messages :: "request \<Rightarrow> message \<Rightarrow> json list result" where
  "synthesis_messages request agent_message =
     augment_last (prepare_messages request FINAL_RESPONSE_SYSTEM_PROMPT) (msg_content agent_message)"

section \<open>Reading the streamed answer\<close>

fun chunk_fragment :: "chunk \<Rightarrow> string option" where
  "chunk_fragment [] = None"
| "chunk_fragment (None # rest) = None"
| "chunk_fragment (Some chunk_content # rest) =
     (if chunk_content = [] then None else Some chunk_content)"

fun consume_chunks :: "error option \<Rightarrow> chunk list \<Rightarrow> string \<Rightarrow> (trace, string) run" where
  "consume_chunks fail [] content = liftE (settle fail content)"
| "consume_chunks fail (chunk # rest) content =
     (case chunk_fragment chunk of
        None \<Rightarrow> consume_chunks fail rest content
      | Some chunk_content \<Rightarrow>
          ethen (choice_append_content chunk_content)
            (consume_chunks fail rest (content @ chunk_content)))"

definition final_response :: "env \<Rightarrow> request \<Rightarrow> message \<Rightarrow> (trace, message) run" where
  "final_response environ request agent_message =
     ebind (liftE (synthesis_messages request agent_message)) (\<lambda>messages.
       ethen (emit (ModelRequested Streaming messages))
         (ebind (liftE (completions_stream environ messages)) (\<lambda>stream.
            ebind (consume_chunks (failure stream) (items stream) []) (\<lambda>content.
              returnE (assistant_message content)))))"

section \<open>What the loop is meant to compute\<close>

definition fragments :: "chunk list \<Rightarrow> string list" where
  "fragments chunks = List.map_filter chunk_fragment chunks"

text \<open>The entries sent when the history is not empty, written without mutation.\<close>

definition composite_entry :: "message \<Rightarrow> message \<Rightarrow> json" where
  "composite_entry last_message agent_message =
     (case prepare_entry last_message of
        JObj kvs \<Rightarrow>
          JObj (py_setitem kvs ''content''
            (JStr (composite (or_empty (msg_content last_message))
               (or_empty (msg_content agent_message)))))
      | other \<Rightarrow> other)"

section \<open>The entries sent\<close>

lemma entry_content_text:
  "py_get (prepare_entry m) ''content'' (JStr []) = Inr (JStr (or_empty (msg_content m)))"
  by (cases "msg_content m") (simp_all add: prepare_entry_def)

lemma composite_inject [simp]: "composite a b = composite a' b \<longleftrightarrow> a = a'"
  by (simp add: composite_def)

lemma composite_nonempty [simp]: "composite a b \<noteq> []"
  by (simp add: composite_def)

lemma augment_last_Nil [simp]: "augment_last [] c = Inr []"
  by (simp add: augment_last_def)

lemma augment_last_snoc:
  "py_get e ''content'' (JStr []) = Inr v \<Longrightarrow>
   py_store e ''content'' (JStr (composite (text_of v) (or_empty c))) = Inr e' \<Longrightarrow>
     augment_last (es @ [e]) c = Inr (es @ [e'])"
  by (simp add: augment_last_def)

lemma store_prepare_entry:
  "py_store (prepare_entry m) ''content''
     (JStr (composite (or_empty (msg_content m)) (or_empty (msg_content agent_message)))) =
   Inr (composite_entry m agent_message)"
  by (cases "prepare_entry m") (use is_dict_prepare_entry [of m] in \<open>simp_all add: composite_entry_def\<close>)

lemma synthesis_messages_nonempty:
  assumes "request \<noteq> []"
  shows "synthesis_messages request agent_message =
     Inr (prepare_messages (butlast request) FINAL_RESPONSE_SYSTEM_PROMPT
            @ [composite_entry (last request) agent_message])"
proof -
  have split: "prepare_messages request FINAL_RESPONSE_SYSTEM_PROMPT =
      prepare_messages (butlast request) FINAL_RESPONSE_SYSTEM_PROMPT @ [prepare_entry (last request)]"
    using assms prepare_messages_append [of "butlast request" "[last request]"] by simp
  show ?thesis
    unfolding synthesis_messages_def split
    by (rule augment_last_snoc [OF entry_content_text]) (simp add: store_prepare_entry)
qed

lemma synthesis_messages_empty:
  "synthesis_messages [] agent_message =
     Inr [role_content ''system''
            (composite FINAL_RESPONSE_SYSTEM_PROMPT (or_empty (msg_content agent_message)))]"
  by (simp add: synthesis_messages_def augment_last_def role_content_def py_setitem_def)

lemma synthesis_messages_total: "\<exists>messages. synthesis_messages request agent_message = Inr messages"
  by (cases "request = []") (simp_all add: synthesis_messages_empty synthesis_messages_nonempty)

lemma composite_entry_content [simp]:
  "py_get (composite_entry m a) ''content'' d =
     Inr (JStr (composite (or_empty (msg_content m)) (or_empty (msg_content a))))"
  using store_prepare_entry [of m a] by (auto dest: py_get_store(1))

lemma composite_entry_role [simp]:
  "py_get (composite_entry m a) ''role'' d = Inr (JStr (role_str (msg_role m)))"
proof -
  have "py_get (composite_entry m a) ''role'' d = py_get (prepare_entry m) ''role'' d"
    using store_prepare_entry [of m a] by (auto dest: py_get_store(2))
  also have "\<dots> = Inr (JStr (role_str (msg_role m)))"
    using prepare_entry_role [of m] by (simp add: py_get_agrees_getitem)
  finally show ?thesis .
qed

section \<open>The loop computes the concatenation of the fragments\<close>

lemma fragments_simps [simp]:
  "fragments [] = []"
  "fragments (chunk # rest) =
     (case chunk_fragment chunk of None \<Rightarrow> fragments rest | Some c \<Rightarrow> c # fragments rest)"
  by (simp_all add: fragments_def List.map_filter_def split: option.splits)

lemma fragments_append [simp]: "fragments (xs @ ys) = fragments xs @ fragments ys"
  by (simp add: fragments_def List.map_filter_def)

lemma chunk_fragment_Some_iff:
  "chunk_fragment chunk = Some c \<longleftrightarrow> (\<exists>rest. chunk = Some c # rest) \<and> c \<noteq> []"
  by (cases "(chunk)" rule: chunk_fragment.cases) auto

lemma fragments_nonempty: "c \<in> set (fragments chunks) \<Longrightarrow> c \<noteq> []"
  by (induction chunks) (auto simp: chunk_fragment_Some_iff split: option.splits)

lemma consume_chunks_refines:
  "consume_chunks fail chunks content tr =
     (settle fail (content @ concat (fragments chunks)),
      tr @ map ChoiceAppended (fragments chunks))"
  by (induction chunks arbitrary: content tr)
     (simp_all add: ethen_def ebind_def split: option.splits)

section \<open>The stage, step by step\<close>

lemma final_response_apply:
  assumes "synthesis_messages request agent_message = Inr messages"
  shows "final_response environ request agent_message tr =
     (case completions_stream environ messages of
        Inl e \<Rightarrow> (Inl e, tr @ [ModelRequested Streaming messages])
      | Inr stream \<Rightarrow>
          (rbind (settle (failure stream) (concat (fragments (items stream))))
             (\<lambda>content. Inr (assistant_message content)),
           tr @ ModelRequested Streaming messages # map ChoiceAppended (fragments (items stream))))"
  using assms
  by (cases "completions_stream environ messages";
      cases "failure (projr (completions_stream environ messages))")
     (simp_all add: final_response_def ethen_def ebind_def consume_chunks_refines)

lemma final_response_trace:
  "\<exists>messages cs. synthesis_messages request agent_message = Inr messages
     \<and> snd (final_response environ request agent_message tr) =
         tr @ ModelRequested Streaming messages # map ChoiceAppended cs"
proof -
  obtain messages where m: "synthesis_messages request agent_message = Inr messages"
    using synthesis_messages_total by blast
  then show ?thesis
    by (cases "completions_stream environ messages") (simp_all add: final_response_apply [OF m])
qed

lemma final_response_wf:
  "wf_trace tr \<Longrightarrow> wf_trace (snd (final_response environ request agent_message tr))"
proof -
  assume wf: "wf_trace tr"
  obtain messages cs where "snd (final_response environ request agent_message tr) =
      (tr @ [ModelRequested Streaming messages]) @ map ChoiceAppended cs"
    using final_response_trace [of request agent_message environ tr] by auto
  with wf show ?thesis
    by (simp only: wf_append_map_choice wf_emit_other is_stage_event.simps not_False_eq_True)
qed

lemma final_response_stages:
  "stage_status (snd (final_response environ request agent_message tr)) i = stage_status tr i"
  "stage_count (snd (final_response environ request agent_message tr)) = stage_count tr"
  "stage_chunks i (snd (final_response environ request agent_message tr)) = stage_chunks i tr"
  "states_set (snd (final_response environ request agent_message tr)) = states_set tr"
  using final_response_trace [of request agent_message environ tr]
  by (auto simp: stage_status_Cons_append)

lemma final_response_grows: "grows tr (snd (final_response environ request agent_message tr))"
  using final_response_trace [of request agent_message environ tr] by auto

lemma final_response_returns:
  assumes "final_response environ request agent_message tr = (Inr reply, tr')"
  shows "\<exists>messages stream. synthesis_messages request agent_message = Inr messages
     \<and> completions_stream environ messages = Inr stream \<and> failure stream = None
     \<and> reply = assistant_message (concat (fragments (items stream)))
     \<and> tr' = tr @ ModelRequested Streaming messages # map ChoiceAppended (fragments (items stream))"
proof -
  obtain messages where m: "synthesis_messages request agent_message = Inr messages"
    using synthesis_messages_total by blast
  with assms show ?thesis
    by (cases "completions_stream environ messages")
       (auto simp: final_response_apply [OF m] rbind_eq_Inr_iff)
qed

lemma sample_fragments [simp]:
  "fragments [[Some ''User ''], [], [None], [Some ''created.'']] = [''User '', ''created.'']"
  by simp

lemma sample_final_response:
  "final_response sample_env sample_request agent_message tr =
     (Inr (assistant_message ''User created.''),
      tr @ [ModelRequested Streaming
              [role_content ''system'' FINAL_RESPONSE_SYSTEM_PROMPT,
               composite_entry (last sample_request) agent_message],
            ChoiceAppended ''User '', ChoiceAppended ''created.''])"
  by (simp add: final_response_apply [OF synthesis_messages_nonempty] sample_request_def)

lemma sample_composite_entry:
  "composite_entry (last sample_request) (assistant_message answer) =
     JObj [(''role'', JStr ''user''),
           (''content'', JStr (composite ''create user Alice'' answer))]"
  by (simp add: sample_request_def composite_entry_def prepare_entry_def message_dict_def
      py_setitem_def assistant_message_def)

section \<open>Properties of the synthesis stage\<close>

text \<open>
  C9. The answer channel shows exactly what is returned. When the synthesis stage
  returns, its message is an assistant message whose text is the concatenation, in
  the order of arrival, of the non-empty fragments of the stream, and the text of the
  answer channel has grown by that same text: no fragment is lost, repeated or
  reordered, and chunks without choices or without content add nothing.
\<close>

theorem final_response_shows_what_it_returns:
  assumes "final_response environ request agent_message tr = (Inr reply, tr')"
  shows "\<exists>messages stream.
           completions_stream environ messages = Inr stream
         \<and> reply = assistant_message (concat (fragments (items stream)))
         \<and> choice_chunks tr' = choice_chunks tr @ fragments (items stream)
         \<and> choice_text tr' = choice_text tr @ or_empty (msg_content reply)"
proof -
  obtain messages stream where "completions_stream environ messages = Inr stream"
    and "reply = assistant_message (concat (fragments (items stream)))"
    and "tr' = tr @ ModelRequested Streaming messages # map ChoiceAppended (fragments (items stream))"
    using final_response_returns [OF assms] by blast
  then have "completions_stream environ messages = Inr stream
      \<and> reply = assistant_message (concat (fragments (items stream)))
      \<and> choice_chunks tr' = choice_chunks tr @ fragments (items stream)
      \<and> choice_text tr' = choice_text tr @ or_empty (msg_content reply)"
    by (simp add: choice_text_def assistant_message_def)
  then show ?thesis by blast
qed

theorem final_response_shows_what_it_returns_witness:
  "fst (final_response sample_env sample_request (assistant_message ''Hello'') []) =
     Inr (assistant_message ''User created.'')
   \<and> choice_text (snd (final_response sample_env sample_request (assistant_message ''Hello'') [])) =
     ''User created.''"
  using final_response_shows_what_it_returns [of sample_env sample_request
      "assistant_message ''Hello''" "[]", OF sample_final_response]
  by (simp add: sample_final_response choice_text_def)

text \<open>
  C34. The request of the synthesis holds the composite. For a history that is not
  empty the stage sends one streaming request, whatever happens afterwards: the
  system entry with the synthesis prompt, the entries of the earlier messages
  unchanged, and the entry of the last message with its text replaced by the
  composite of that text and the agent's answer, its role kept.
\<close>

theorem synthesis_request_holds_composite:
  assumes "request \<noteq> []"
  shows "\<exists>messages.
           posts (snd (final_response environ request agent_message tr)) =
             posts tr @ [ModelRequested Streaming messages]
         \<and> butlast messages = prepare_messages (butlast request) FINAL_RESPONSE_SYSTEM_PROMPT
         \<and> py_get (last messages) ''content'' JNull =
             Inr (JStr (composite (or_empty (msg_content (last request)))
                          (or_empty (msg_content agent_message))))
         \<and> py_get (last messages) ''role'' JNull = Inr (JStr (role_str (msg_role (last request))))"
proof -
  let ?messages = "prepare_messages (butlast request) FINAL_RESPONSE_SYSTEM_PROMPT
      @ [composite_entry (last request) agent_message]"
  have m: "synthesis_messages request agent_message = Inr ?messages"
    using assms by (rule synthesis_messages_nonempty)
  have "posts (snd (final_response environ request agent_message tr)) =
      posts tr @ [ModelRequested Streaming ?messages]"
    by (cases "completions_stream environ ?messages") (simp_all add: final_response_apply [OF m])
  then show ?thesis
    by (intro exI [of _ ?messages]) simp
qed

theorem synthesis_request_holds_composite_witness:
  "posts (snd (final_response sample_env sample_request (assistant_message ''Hello'') [])) =
     [ModelRequested Streaming
        [role_content ''system'' FINAL_RESPONSE_SYSTEM_PROMPT,
         JObj [(''role'', JStr ''user''),
               (''content'', JStr (composite ''create user Alice'' ''Hello''))]]]"
  using synthesis_request_holds_composite [of sample_request sample_env
      "assistant_message ''Hello''" "[]"]
  by (simp add: sample_final_response sample_composite_entry)

text \<open>
  With an empty history the system prompt itself is rewritten. The entry that is
  replaced is the last of the entries, and for an empty history that is the system
  entry: the model then receives no system prompt of its own, but one entry whose text
  presents the synthesis prompt as the user's request.
\<close>

theorem empty_history_rewrites_system_prompt:
  "posts (snd (final_response environ [] agent_message tr)) =
     posts tr @ [ModelRequested Streaming
       [role_content ''system''
          (composite FINAL_RESPONSE_SYSTEM_PROMPT (or_empty (msg_content agent_message)))]]"
  by (cases "completions_stream environ [role_content ''system''
          (composite FINAL_RESPONSE_SYSTEM_PROMPT (or_empty (msg_content agent_message)))]")
     (simp_all add: final_response_apply [OF synthesis_messages_empty])

text \<open>
  C40. A failure of the stream is fatal after the partial output. The stage raises
  exactly when the model call fails or the stream ends with a failure; the fragments
  that arrived before the failure have then already been appended to the answer
  channel, and no message is returned.
\<close>

theorem synthesis_failure_after_partial_output:
  assumes "synthesis_messages request agent_message = Inr messages"
  shows "(fst (final_response environ request agent_message tr) = Inl e \<longleftrightarrow>
            completions_stream environ messages = Inl e
          \<or> (\<exists>stream. completions_stream environ messages = Inr stream \<and> failure stream = Some e))
       \<and> (\<forall>stream. completions_stream environ messages = Inr stream \<longrightarrow>
            choice_chunks (snd (final_response environ request agent_message tr)) =
              choice_chunks tr @ fragments (items stream))"
  by (cases "completions_stream environ messages")
     (auto simp: final_response_apply [OF assms] rbind_eq_Inl_iff)

theorem synthesis_failure_after_partial_output_witness:
  "final_response
     (sample_env\<lparr>completions_stream := \<lambda>messages.
        Inr \<lparr>items = [[Some ''User '']], failure = Some ReadError\<rparr>\<rparr>) [] (assistant_message ''Hello'') [] =
   (Inl ReadError,
    [ModelRequested Streaming
       [role_content ''system'' (composite FINAL_RESPONSE_SYSTEM_PROMPT ''Hello'')],
     ChoiceAppended ''User ''])"
  using synthesis_failure_after_partial_output [of "[]" "assistant_message ''Hello''"
      "[role_content ''system'' (composite FINAL_RESPONSE_SYSTEM_PROMPT ''Hello'')]"
      "sample_env\<lparr>completions_stream := \<lambda>messages.
        Inr \<lparr>items = [[Some ''User '']], failure = Some ReadError\<rparr>\<rparr>" "[]" ReadError]
  by (simp add: final_response_apply [OF synthesis_messages_empty] assistant_message_def)

end
