(* ===== verification/Coordinator.thy ===== *)
theory Coordinator
  imports Dispatch Synthesis
begin

text \<open>
  The coordinator: \<open>MASCoordinator.handle_request\<close> in \<open>src/task/agent.py\<close>. One run
  opens the coordination stage, asks the classifier, writes the decision to the stage
  and closes it (\<open>routing_step\<close>); opens the stage of the chosen agent, dispatches and
  closes that stage (\<open>delegating_step\<close>); and runs the synthesis. \<open>handle_request\<close> is
  the sequence of the three. The same run is given as a machine over the phases
  \<open>Idle\<close>, \<open>Routing\<close>, \<open>Delegating\<close>, \<open>Synthesizing\<close>, \<open>Done\<close> of the design, with
  \<open>Aborted\<close> for a run that raised: an inductive step relation, its executable form
  \<open>step_of\<close>, and \<open>run_for\<close>, which iterates it. Four steps are enough for every run,
  because each step moves to a later phase. The two pictures outside ASCII in the
  names of the stages are written as their UTF-8 bytes.
\<close>

section \<open>What the coordinator writes\<close>

definition compass :: string where
  "compass = [CHR 0xF0, CHR 0x9F, CHR 0xA7, CHR 0xAD]"

definition robot :: string where
  "robot = [CHR 0xF0, CHR 0x9F, CHR 0xA4, CHR 0x96]"

definition coordination_stage_name :: string where
  "coordination_stage_name = compass @ '' Coordination''"

definition agent_stage_name :: "coordination_request \<Rightarrow> string" where
  "agent_stage_name d = robot @ '' '' @ agent_name_str (agent_name d) @ '' Agent''"

definition routing_note :: "coordination_request \<Rightarrow> string" where
  "routing_note d =
     ''Routing to: **'' @ agent_name_str (agent_name d) @ ''**\<newline>''
     @ ''Instructions: ''
     @ (case additional_instructions d of
          None \<Rightarrow> ''None''
        | Some instructions \<Rightarrow> if instructions = [] then ''None'' else instructions)"

section \<open>The run\<close>

definition routing_step :: "env \<Rightarrow> request \<Rightarrow> (trace, coordination_request) run" where
  "routing_step environ request =
     ebind (open_stage coordination_stage_name) (\<lambda>coordination_stage.
       ebind (prepare_coordination_request environ request) (\<lambda>coordination_request.
         ethen (append_content coordination_stage (routing_note coordination_request))
           (ethen (close_stage_safely coordination_stage)
              (returnE coordination_request))))"

definition delegating_step :: "env \<Rightarrow> request \<Rightarrow> coordination_request \<Rightarrow> (trace, message) run" where
  "delegating_step environ request coordination_request =
     ebind (open_stage (agent_stage_name coordination_request)) (\<lambda>agent_stage.
       ebind (handle_coordination_request environ coordination_request agent_stage request)
         (\<lambda>agent_message.
           ethen (close_stage_safely agent_stage) (returnE agent_message)))"

definition handle_request :: "env \<Rightarrow> request \<Rightarrow> (trace, message) run" where
  "handle_request environ request =
     ebind (routing_step environ request) (\<lambda>coordination_request.
       ebind (delegating_step environ request coordination_request) (\<lambda>agent_message.
         final_response environ request agent_message))"

section \<open>The run as a machine\<close>

datatype phase =
    Idle
  | Routing coordination_request
  | Delegating message
  | Synthesizing message
  | Done message
  | Aborted error

type_synonym config = "phase \<times> trace"

inductive coordinator_step :: "env \<Rightarrow> request \<Rightarrow> config \<Rightarrow> config \<Rightarrow> bool"
  for environ :: env and request :: request where
  routed:
    "routing_step environ request tr = (Inr d, tr') \<Longrightarrow>
       coordinator_step environ request (Idle, tr) (Routing d, tr')"
| routing_failed:
    "routing_step environ request tr = (Inl e, tr') \<Longrightarrow>
       coordinator_step environ request (Idle, tr) (Aborted e, tr')"
| delegated:
    "delegating_step environ request d tr = (Inr m, tr') \<Longrightarrow>
       coordinator_step environ request (Routing d, tr) (Delegating m, tr')"
| delegation_failed:
    "delegating_step environ request d tr = (Inl e, tr') \<Longrightarrow>
       coordinator_step environ request (Routing d, tr) (Aborted e, tr')"
| synthesized:
    "final_response environ request m tr = (Inr f, tr') \<Longrightarrow>
       coordinator_step environ request (Delegating m, tr) (Synthesizing f, tr')"
| synthesis_failed:
    "final_response environ request m tr = (Inl e, tr') \<Longrightarrow>
       coordinator_step environ request (Delegating m, tr) (Aborted e, tr')"
| returned:
    "coordinator_step environ request (Synthesizing f, tr) (Done f, tr)"

abbreviation reaches :: "env \<Rightarrow> request \<Rightarrow> config \<Rightarrow> config \<Rightarrow> bool" where
  "reaches environ request \<equiv> rtranclp (coordinator_step environ request)"

definition enter :: "('a \<Rightarrow> phase) \<Rightarrow> 'a result \<times> trace \<Rightarrow> config" where
  "enter next_phase outcome =
     (case fst outcome of
        Inl e \<Rightarrow> (Aborted e, snd outcome)
      | Inr x \<Rightarrow> (next_phase x, snd outcome))"

fun step_of :: "env \<Rightarrow> request \<Rightarrow> config \<Rightarrow> config option" where
  "step_of environ request (Idle, tr) = Some (enter Routing (routing_step environ request tr))"
| "step_of environ request (Routing d, tr) =
     Some (enter Delegating (delegating_step environ request d tr))"
| "step_of environ request (Delegating m, tr) =
     Some (enter Synthesizing (final_response environ request m tr))"
| "step_of environ request (Synthesizing f, tr) = Some (Done f, tr)"
| "step_of environ request (Done f, tr) = None"
| "step_of environ request (Aborted e, tr) = None"

fun run_for :: "nat \<Rightarrow> env \<Rightarrow> request \<Rightarrow> config \<Rightarrow> config" where
  "run_for 0 environ request c = c"
| "run_for (Suc n) environ request c =
     (case step_of environ request c of
        None \<Rightarrow> c
      | Some c' \<Rightarrow> run_for n environ request c')"

fun is_final :: "phase \<Rightarrow> bool" where
  "is_final (Done f) \<longleftrightarrow> True"
| "is_final (Aborted e) \<longleftrightarrow> True"
| "is_final _ \<longleftrightarrow> False"

fun phase_rank :: "phase \<Rightarrow> nat" where
  "phase_rank Idle = 0"
| "phase_rank (Routing d) = 1"
| "phase_rank (Delegating m) = 2"
| "phase_rank (Synthesizing f) = 3"
| "phase_rank (Done f) = 4"
| "phase_rank (Aborted e) = 4"

definition result_config :: "message result \<times> trace \<Rightarrow> config" where
  "result_config outcome = enter Done outcome"

section \<open>The invariant of a run\<close>

definition closed_from :: "nat \<Rightarrow> trace \<Rightarrow> bool" where
  "closed_from n tr \<longleftrightarrow> list_all (\<lambda>i. stage_status tr i = Closed) [n..<stage_count tr]"

definition keeps_stages :: "trace \<Rightarrow> trace \<Rightarrow> bool" where
  "keeps_stages tr0 tr \<longleftrightarrow>
     list_all (\<lambda>i. stage_status tr i = stage_status tr0 i) [0..<stage_count tr0]"

fun stages_opened :: "phase \<Rightarrow> nat" where
  "stages_opened Idle = 0"
| "stages_opened (Routing d) = 1"
| "stages_opened _ = 2"

definition coordinator_inv :: "trace \<Rightarrow> config \<Rightarrow> bool" where
  "coordinator_inv tr0 c \<longleftrightarrow>
     check_trace (snd c) \<and> keeps_stages tr0 (snd c)
     \<and> (case fst c of
          Aborted e \<Rightarrow> True
        | ph \<Rightarrow> stage_count (snd c) = stage_count tr0 + stages_opened ph
               \<and> closed_from (stage_count tr0) (snd c))"

section \<open>The steps, applied\<close>

lemma routing_step_returns:
  "decision environ request = Inr d \<Longrightarrow>
     routing_step environ request tr =
       (Inr d, tr @ [StageOpened (stage_count tr) coordination_stage_name,
                     ModelRequested Structured (coordination_messages request),
                     StageAppended (stage_count tr) (routing_note d),
                     StageClosed (stage_count tr)])"
  by (simp add: routing_step_def ebind_def ethen_def open_stage_def
      prepare_coordination_request_apply close_stage_safely_def stage_status_append)

lemma routing_step_raises:
  "decision environ request = Inl e \<Longrightarrow>
     routing_step environ request tr =
       (Inl e, tr @ [StageOpened (stage_count tr) coordination_stage_name,
                     ModelRequested Structured (coordination_messages request)])"
  by (simp add: routing_step_def ebind_def open_stage_def prepare_coordination_request_apply)

lemma routing_step_result [simp]: "fst (routing_step environ request tr) = decision environ request"
  by (cases "decision environ request") (simp_all add: routing_step_returns routing_step_raises)

lemma delegating_step_returns:
  assumes "handle_coordination_request environ d (stage_count tr) request
             (tr @ [StageOpened (stage_count tr) (agent_stage_name d)]) = (Inr m, tr2)"
  shows "delegating_step environ request d tr = (Inr m, tr2 @ [StageClosed (stage_count tr)])"
proof -
  have "stage_status tr2 (stage_count tr) = Open"
    using gateway_adds_status [OF handle_coordination_request_adds [of "stage_count tr"
          "tr @ [StageOpened (stage_count tr) (agent_stage_name d)]" environ d request]]
      assms by simp
  with assms show ?thesis
    by (simp add: delegating_step_def ebind_def ethen_def open_stage_def close_stage_safely_def)
qed

lemma delegating_step_raises:
  assumes "handle_coordination_request environ d (stage_count tr) request
             (tr @ [StageOpened (stage_count tr) (agent_stage_name d)]) = (Inl e, tr2)"
  shows "delegating_step environ request d tr = (Inl e, tr2)"
  using assms by (simp add: delegating_step_def ebind_def open_stage_def)

lemma delegating_step_result:
  "fst (delegating_step environ request d tr) =
     fst (handle_coordination_request environ d (stage_count tr) request
            (tr @ [StageOpened (stage_count tr) (agent_stage_name d)]))"
proof (cases "handle_coordination_request environ d (stage_count tr) request
            (tr @ [StageOpened (stage_count tr) (agent_stage_name d)])")
  case (Pair r tr2)
  then show ?thesis
    by (cases r) (simp_all add: delegating_step_raises delegating_step_returns)
qed

lemma handle_request_apply:
  "handle_request environ request tr =
     (case routing_step environ request tr of
        (Inl e, tr1) \<Rightarrow> (Inl e, tr1)
      | (Inr d, tr1) \<Rightarrow>
          (case delegating_step environ request d tr1 of
             (Inl e, tr2) \<Rightarrow> (Inl e, tr2)
           | (Inr m, tr2) \<Rightarrow> final_response environ request m tr2))"
  by (simp add: handle_request_def ebind_def split: prod.splits sum.splits)

section \<open>The machine and its executable form\<close>

inductive_cases idleE: "coordinator_step environ request (Idle, tr) c'"

inductive_cases routingE: "coordinator_step environ request (Routing d, tr) c'"

inductive_cases delegatingE: "coordinator_step environ request (Delegating m, tr) c'"

inductive_cases synthesizingE: "coordinator_step environ request (Synthesizing f, tr) c'"

inductive_cases doneE: "coordinator_step environ request (Done f, tr) c'"

inductive_cases abortedE: "coordinator_step environ request (Aborted e, tr) c'"

lemmas phaseE = idleE routingE delegatingE synthesizingE doneE abortedE

lemma enter_simps [simp]:
  "enter k (Inl e, tr) = (Aborted e, tr)" "enter k (Inr x, tr) = (k x, tr)"
  by (simp_all add: enter_def)

lemma enter_eq_iff:
  "enter k outcome = c' \<longleftrightarrow>
     (\<exists>e. outcome = (Inl e, snd c') \<and> fst c' = Aborted e)
   \<or> (\<exists>x. outcome = (Inr x, snd c') \<and> fst c' = k x)"
  by (cases outcome; cases c'; cases "fst outcome") auto

lemma coordinator_step_iff:
  "coordinator_step environ request c c' \<longleftrightarrow> step_of environ request c = Some c'"
proof (cases c)
  case (Pair ph tr)
  show ?thesis
    unfolding Pair
    by (cases ph; cases c')
       (auto simp: enter_eq_iff elim!: phaseE intro: coordinator_step.intros)
qed

lemma coordinator_step_deterministic:
  "coordinator_step environ request c c' \<Longrightarrow> coordinator_step environ request c c'' \<Longrightarrow> c'' = c'"
  by (simp add: coordinator_step_iff)

lemma coordinator_step_rank:
  "coordinator_step environ request c c' \<Longrightarrow> phase_rank (fst c) < phase_rank (fst c')"
  by (induction rule: coordinator_step.induct) simp_all

lemma step_of_final: "step_of environ request c = None \<longleftrightarrow> is_final (fst c)"
  by (cases "(environ, request, c)" rule: step_of.cases) simp_all

lemma final_has_no_step: "is_final (fst c) \<Longrightarrow> \<not> coordinator_step environ request c c'"
  by (simp add: coordinator_step_iff step_of_final [THEN iffD2])

lemma coordinator_step_progress:
  "\<not> is_final (fst c) \<Longrightarrow> \<exists>c'. coordinator_step environ request c c'"
  using step_of_final [of environ request c] by (auto simp: coordinator_step_iff)

lemma is_final_enter_Done [simp]: "is_final (fst (enter Done outcome))"
  by (cases outcome; cases "fst outcome") simp_all

lemma run_for_final [simp]: "is_final (fst c) \<Longrightarrow> run_for n environ request c = c"
  by (cases n) (simp_all add: step_of_final [THEN iffD2])

lemma run_for_reaches: "reaches environ request c (run_for n environ request c)"
proof (induction n arbitrary: c)
  case 0
  show ?case by simp
next
  case (Suc n)
  show ?case
  proof (cases "step_of environ request c")
    case None
    then show ?thesis by simp
  next
    case (Some c')
    then have "coordinator_step environ request c c'"
      by (simp add: coordinator_step_iff)
    with Suc.IH [of c'] Some show ?thesis
      by (simp add: converse_rtranclp_into_rtranclp)
  qed
qed

lemma reaches_final_unique:
  assumes "reaches environ request c c1" and "is_final (fst c1)"
    and "reaches environ request c c2" and "is_final (fst c2)"
  shows "c1 = c2"
  using assms(1,3,2,4)
proof (induction arbitrary: c2 rule: converse_rtranclp_induct)
  case base
  then show ?case
    by (auto elim: converse_rtranclpE dest: final_has_no_step)
next
  case (step a b)
  from step.prems(1) show ?case
  proof (cases rule: converse_rtranclpE)
    case base
    with step.hyps(1) step.prems(3) show ?thesis
      by (auto dest: final_has_no_step)
  next
    case (step b')
    with \<open>coordinator_step environ request a b\<close> have "b' = b"
      by (auto dest: coordinator_step_deterministic)
    with step \<open>is_final (fst c1)\<close> \<open>is_final (fst c2)\<close> step.IH show ?thesis
      by blast
  qed
qed

section \<open>The run is the machine\<close>

lemma run_for_handle_request:
  "run_for 4 environ request (Idle, tr) = result_config (handle_request environ request tr)"
proof -
  obtain r1 tr1 where r1: "routing_step environ request tr = (r1, tr1)"
    by (cases "routing_step environ request tr")
  show ?thesis
  proof (cases r1)
    case (Inl e)
    with r1 show ?thesis
      by (simp add: eval_nat_numeral handle_request_apply result_config_def)
  next
    case (Inr d)
    obtain r2 tr2 where r2: "delegating_step environ request d tr1 = (r2, tr2)"
      by (cases "delegating_step environ request d tr1")
    show ?thesis
    proof (cases r2)
      case (Inl e)
      with r1 r2 Inr show ?thesis
        by (simp add: eval_nat_numeral handle_request_apply result_config_def)
    next
      case m: (Inr m)
      obtain r3 tr3 where "final_response environ request m tr2 = (r3, tr3)"
        by (cases "final_response environ request m tr2")
      with r1 r2 Inr m show ?thesis
        by (cases r3) (simp_all add: eval_nat_numeral handle_request_apply result_config_def)
    qed
  qed
qed

lemma reaches_handle_request:
  "reaches environ request (Idle, tr) (result_config (handle_request environ request tr))"
  using run_for_reaches [of environ request "(Idle, tr)" 4] by (simp add: run_for_handle_request)

lemma result_config_final [simp]: "is_final (fst (result_config outcome))"
  by (simp add: result_config_def)

lemma result_config_simps [simp]:
  "result_config (Inr m, tr) = (Done m, tr)" "result_config (Inl e, tr) = (Aborted e, tr)"
  by (simp_all add: result_config_def)

section \<open>What each step does to the log surfaces\<close>

lemma routing_step_effect:
  "stage_count (snd (routing_step environ request tr)) = Suc (stage_count tr)"
  "i \<noteq> stage_count tr \<Longrightarrow> stage_status (snd (routing_step environ request tr)) i = stage_status tr i"
  "choice_chunks (snd (routing_step environ request tr)) = choice_chunks tr"
  "wf_trace tr \<Longrightarrow> wf_trace (snd (routing_step environ request tr))"
  by (cases "decision environ request";
      simp add: routing_step_returns routing_step_raises stage_status_append wf_trace_append_iff)+

lemma routing_step_status:
  "routing_step environ request tr = (r, tr') \<Longrightarrow>
     stage_status tr' (stage_count tr) = (case r of Inl e \<Rightarrow> Open | Inr d \<Rightarrow> Closed)"
proof (cases "decision environ request")
  case (Inl e)
  assume "routing_step environ request tr = (r, tr')"
  then show ?thesis
    unfolding routing_step_raises [OF Inl] by (auto simp: stage_status_append)
next
  case (Inr d)
  assume "routing_step environ request tr = (r, tr')"
  then show ?thesis
    unfolding routing_step_returns [OF Inr] by (auto simp: stage_status_append)
qed

lemma delegating_step_trace:
  "\<exists>tr2. gateway_adds (stage_count tr) (tr @ [StageOpened (stage_count tr) (agent_stage_name d)]) tr2
     \<and> delegating_step environ request d tr =
         (case fst (delegating_step environ request d tr) of
            Inl e \<Rightarrow> (Inl e, tr2)
          | Inr m \<Rightarrow> (Inr m, tr2 @ [StageClosed (stage_count tr)]))"
proof -
  let ?tr1 = "tr @ [StageOpened (stage_count tr) (agent_stage_name d)]"
  obtain r tr2 where run: "handle_coordination_request environ d (stage_count tr) request ?tr1 = (r, tr2)"
    by (cases "handle_coordination_request environ d (stage_count tr) request ?tr1")
  have "gateway_adds (stage_count tr) ?tr1 tr2"
    using handle_coordination_request_adds [of "stage_count tr" ?tr1 environ d request] run by simp
  moreover have "delegating_step environ request d tr =
         (case fst (delegating_step environ request d tr) of
            Inl e \<Rightarrow> (Inl e, tr2)
          | Inr m \<Rightarrow> (Inr m, tr2 @ [StageClosed (stage_count tr)]))"
    using run by (cases r) (simp_all add: delegating_step_returns delegating_step_raises)
  ultimately show ?thesis by blast
qed

lemma delegating_step_effect:
  "stage_count (snd (delegating_step environ request d tr)) = Suc (stage_count tr)"
  "i \<noteq> stage_count tr \<Longrightarrow> stage_status (snd (delegating_step environ request d tr)) i = stage_status tr i"
  "choice_chunks (snd (delegating_step environ request d tr)) = choice_chunks tr"
  "wf_trace tr \<Longrightarrow> wf_trace (snd (delegating_step environ request d tr))"
proof -
  let ?n = "stage_count tr"
  let ?tr1 = "tr @ [StageOpened ?n (agent_stage_name d)]"
  obtain tr2 where adds: "gateway_adds ?n ?tr1 tr2"
    and run: "delegating_step environ request d tr =
         (case fst (delegating_step environ request d tr) of
            Inl e \<Rightarrow> (Inl e, tr2) | Inr m \<Rightarrow> (Inr m, tr2 @ [StageClosed ?n]))"
    using delegating_step_trace by blast
  have snd_run: "snd (delegating_step environ request d tr) = tr2
      \<or> snd (delegating_step environ request d tr) = tr2 @ [StageClosed ?n]"
    using run by (cases "fst (delegating_step environ request d tr)") (simp_all add: split_pairs)
  have status: "stage_status tr2 j = stage_status ?tr1 j" for j
    using adds by (rule gateway_adds_status)
  show "stage_count (snd (delegating_step environ request d tr)) = Suc ?n"
    using snd_run gateway_adds_count [OF adds] by auto
  show "stage_status (snd (delegating_step environ request d tr)) i = stage_status tr i" if "i \<noteq> ?n"
    using snd_run status [of i] that by auto
  show "choice_chunks (snd (delegating_step environ request d tr)) = choice_chunks tr"
    using snd_run gateway_adds_texts(1) [OF adds] by auto
  show "wf_trace (snd (delegating_step environ request d tr))" if "wf_trace tr"
  proof -
    have "wf_trace ?tr1" "stage_status ?tr1 ?n = Open"
      using that by (simp_all add: wf_trace_snoc_iff)
    then have "wf_trace tr2"
      using adds by (simp add: gateway_adds_protocol(1))
    then show ?thesis
      using snd_run status [of ?n] by (auto simp: wf_trace_snoc_iff)
  qed
qed

lemma delegating_step_status:
  "delegating_step environ request d tr = (r, tr') \<Longrightarrow>
     stage_status tr' (stage_count tr) = (case r of Inl e \<Rightarrow> Open | Inr m \<Rightarrow> Closed)"
proof -
  assume run: "delegating_step environ request d tr = (r, tr')"
  obtain tr2 where adds: "gateway_adds (stage_count tr)
        (tr @ [StageOpened (stage_count tr) (agent_stage_name d)]) tr2"
    and shape: "delegating_step environ request d tr =
         (case fst (delegating_step environ request d tr) of
            Inl e \<Rightarrow> (Inl e, tr2) | Inr m \<Rightarrow> (Inr m, tr2 @ [StageClosed (stage_count tr)]))"
    using delegating_step_trace by blast
  from shape run gateway_adds_status [OF adds, of "stage_count tr"] show ?thesis
    by (cases r) simp_all
qed

section \<open>The invariant is kept\<close>

lemma keeps_stages_refl [simp]: "keeps_stages tr tr"
  by (simp add: keeps_stages_def list_all_iff)

lemma keeps_stages_iff:
  "keeps_stages tr0 tr \<longleftrightarrow> (\<forall>i < stage_count tr0. stage_status tr i = stage_status tr0 i)"
  by (auto simp: keeps_stages_def list_all_iff)

lemma closed_from_iff:
  "closed_from n tr \<longleftrightarrow> (\<forall>i. n \<le> i \<and> i < stage_count tr \<longrightarrow> stage_status tr i = Closed)"
  by (auto simp: closed_from_def list_all_iff)

lemma all_closed_iff: "all_closed tr \<longleftrightarrow> closed_from 0 tr"
  by (simp add: all_closed_def closed_from_def)

lemma closed_from_join:
  "closed_from 0 tr0 \<Longrightarrow> keeps_stages tr0 tr \<Longrightarrow> closed_from (stage_count tr0) tr \<Longrightarrow>
     closed_from 0 tr"
  by (auto simp: closed_from_iff keeps_stages_iff) (metis not_le_imp_less)

lemma surface_step:
  assumes "keeps_stages tr0 tr" and "stage_count tr0 \<le> stage_count tr"
    and "closed_from (stage_count tr0) tr"
    and "stage_count tr' = Suc (stage_count tr)"
    and "\<And>i. i \<noteq> stage_count tr \<Longrightarrow> stage_status tr' i = stage_status tr i"
  shows "keeps_stages tr0 tr'"
    and "stage_status tr' (stage_count tr) = Closed \<Longrightarrow> closed_from (stage_count tr0) tr'"
  using assms by (auto simp: keeps_stages_iff closed_from_iff less_Suc_eq)

lemma coordinator_inv_Idle [simp]: "coordinator_inv tr (Idle, tr) \<longleftrightarrow> check_trace tr"
  by (auto simp: coordinator_inv_def closed_from_iff)

lemma coordinator_inv_count:
  "coordinator_inv tr0 (ph, tr) \<Longrightarrow> \<not> (\<exists>e. ph = Aborted e) \<Longrightarrow>
     stage_count tr = stage_count tr0 + stages_opened ph \<and> closed_from (stage_count tr0) tr"
  by (cases ph) (simp_all add: coordinator_inv_def)

lemma inv_after_surface:
  assumes "coordinator_inv tr0 (ph, tr)" and "stage_count tr = stage_count tr0 + stages_opened ph"
    and "closed_from (stage_count tr0) tr"
    and "wf_trace tr \<Longrightarrow> wf_trace tr'" and "stage_count tr' = Suc (stage_count tr)"
    and "\<And>i. i \<noteq> stage_count tr \<Longrightarrow> stage_status tr' i = stage_status tr i"
  shows "coordinator_inv tr0 (Aborted e, tr')"
    and "stage_status tr' (stage_count tr) = Closed \<Longrightarrow>
           stages_opened ph' = Suc (stages_opened ph) \<Longrightarrow> \<forall>e. ph' \<noteq> Aborted e \<Longrightarrow>
           coordinator_inv tr0 (ph', tr')"
  using assms surface_step [of tr0 tr tr']
  by (cases ph'; simp add: coordinator_inv_def flip: wf_trace_iff_check)+

lemma inv_after_synthesis:
  assumes "coordinator_inv tr0 (Delegating m, tr)"
    and "wf_trace tr \<Longrightarrow> wf_trace tr'" and "stage_count tr' = stage_count tr"
    and "\<And>i. stage_status tr' i = stage_status tr i"
  shows "coordinator_inv tr0 (Aborted e, tr')" and "coordinator_inv tr0 (Synthesizing f, tr')"
  using assms
  by (simp_all add: coordinator_inv_def keeps_stages_iff closed_from_iff flip: wf_trace_iff_check)

lemma coordinator_step_inv:
  assumes "coordinator_step environ request c c'" and "coordinator_inv tr0 c"
  shows "coordinator_inv tr0 c'"
  using assms
proof (induction rule: coordinator_step.induct)
  case (routed tr d tr')
  with inv_after_surface(2) [of tr0 Idle tr tr' "Routing d"]
    routing_step_effect [where environ = environ and request = request and tr = tr]
    routing_step_status [OF routed(1)]
  show ?case by (simp add: coordinator_inv_def)
next
  case (routing_failed tr e tr')
  with inv_after_surface(1) [of tr0 Idle tr tr' e]
    routing_step_effect [where environ = environ and request = request and tr = tr]
  show ?case by (simp add: coordinator_inv_def)
next
  case (delegated d tr m tr')
  with inv_after_surface(2) [of tr0 "Routing d" tr tr' "Delegating m"]
    delegating_step_effect [where environ = environ and request = request and d = d and tr = tr]
    delegating_step_status [OF delegated(1)]
  show ?case by (simp add: coordinator_inv_def)
next
  case (delegation_failed d tr e tr')
  with inv_after_surface(1) [of tr0 "Routing d" tr tr' e]
    delegating_step_effect [where environ = environ and request = request and d = d and tr = tr]
  show ?case by (simp add: coordinator_inv_def)
next
  case (synthesized m tr f tr')
  with inv_after_synthesis(2) [of tr0 m tr tr' f] final_response_wf [of tr environ request m]
    final_response_stages(1,2) [where environ = environ and request = request
      and agent_message = m and tr = tr]
  show ?case by simp
next
  case (synthesis_failed m tr e tr')
  with inv_after_synthesis(1) [of tr0 m tr tr' e] final_response_wf [of tr environ request m]
    final_response_stages(1,2) [where environ = environ and request = request
      and agent_message = m and tr = tr]
  show ?case by simp
next
  case (returned f tr)
  then show ?case by (simp add: coordinator_inv_def)
qed

lemma coordinator_inv_reaches:
  assumes "reaches environ request (Idle, tr0) c" and "check_trace tr0"
  shows "coordinator_inv tr0 c"
  using assms by (induction rule: rtranclp_induct) (simp_all add: coordinator_step_inv)

lemma handle_request_inv:
  "check_trace tr \<Longrightarrow> coordinator_inv tr (result_config (handle_request environ request tr))"
  using reaches_handle_request by (rule coordinator_inv_reaches)

section \<open>What each step sends\<close>

lemma routing_step_views:
  "posts (snd (routing_step environ request tr)) =
     posts tr @ [ModelRequested Structured (coordination_messages request)]"
  "states_set (snd (routing_step environ request tr)) = states_set tr"
  "model_calls (snd (routing_step environ request tr)) =
     model_calls tr @ [ModelRequested Structured (coordination_messages request)]"
  by (cases "decision environ request"; simp add: routing_step_returns routing_step_raises)+

lemma delegating_step_views:
  "posts (snd (delegating_step environ request d tr)) =
     posts (snd (handle_coordination_request environ d (stage_count tr) request
       (tr @ [StageOpened (stage_count tr) (agent_stage_name d)])))"
  "states_set (snd (delegating_step environ request d tr)) =
     states_set (snd (handle_coordination_request environ d (stage_count tr) request
       (tr @ [StageOpened (stage_count tr) (agent_stage_name d)])))"
  "model_calls (snd (delegating_step environ request d tr)) = model_calls tr"
proof -
  let ?tr1 = "tr @ [StageOpened (stage_count tr) (agent_stage_name d)]"
  let ?run = "handle_coordination_request environ d (stage_count tr) request ?tr1"
  obtain r tr2 where run: "?run = (r, tr2)"
    by (cases ?run)
  have step: "snd (delegating_step environ request d tr) = tr2
      \<or> snd (delegating_step environ request d tr) = tr2 @ [StageClosed (stage_count tr)]"
    using run by (cases r) (simp_all add: delegating_step_returns delegating_step_raises)
  have "model_calls tr2 = model_calls ?tr1"
    using handle_coordination_request_adds [of "stage_count tr" ?tr1 environ d request] run
    by (simp add: gateway_adds_model_calls)
  with step run
  show "posts (snd (delegating_step environ request d tr)) = posts (snd ?run)"
    and "states_set (snd (delegating_step environ request d tr)) = states_set (snd ?run)"
    and "model_calls (snd (delegating_step environ request d tr)) = model_calls tr"
    by auto
qed

lemma final_response_views:
  "\<exists>messages. synthesis_messages request agent_message = Inr messages
     \<and> posts (snd (final_response environ request agent_message tr)) =
         posts tr @ [ModelRequested Streaming messages]
     \<and> model_calls (snd (final_response environ request agent_message tr)) =
         model_calls tr @ [ModelRequested Streaming messages]"
  using final_response_trace [of request agent_message environ tr] by auto

lemma handle_request_returns:
  assumes "handle_request environ request tr = (Inr reply, tr')"
  obtains d tr1 m tr2 where "decision environ request = Inr d"
    and "routing_step environ request tr = (Inr d, tr1)"
    and "delegating_step environ request d tr1 = (Inr m, tr2)"
    and "final_response environ request m tr2 = (Inr reply, tr')"
proof -
  obtain d tr1 m tr2 where r1: "routing_step environ request tr = (Inr d, tr1)"
    and r2: "delegating_step environ request d tr1 = (Inr m, tr2)"
    and r3: "final_response environ request m tr2 = (Inr reply, tr')"
    using assms by (auto simp: handle_request_apply split: prod.splits sum.splits)
  moreover from r1 have "decision environ request = Inr d"
    using routing_step_result [of environ request tr] by simp
  ultimately show ?thesis by (rule that [rotated 1])
qed

lemma routing_step_grows: "grows tr (snd (routing_step environ request tr))"
  by (cases "decision environ request") (simp_all add: routing_step_returns routing_step_raises)

lemma delegating_step_grows: "grows tr (snd (delegating_step environ request d tr))"
proof -
  let ?tr1 = "tr @ [StageOpened (stage_count tr) (agent_stage_name d)]"
  obtain tr2 where adds: "gateway_adds (stage_count tr) ?tr1 tr2"
    and run: "delegating_step environ request d tr =
         (case fst (delegating_step environ request d tr) of
            Inl e \<Rightarrow> (Inl e, tr2) | Inr m \<Rightarrow> (Inr m, tr2 @ [StageClosed (stage_count tr)]))"
    using delegating_step_trace by blast
  have "grows tr ?tr1" by simp
  with adds have "grows tr tr2"
    by (blast intro: grows_trans gateway_adds_grows)
  moreover have "grows tr2 (tr2 @ [StageClosed (stage_count tr)])" by simp
  ultimately have "grows tr tr2 \<and> grows tr (tr2 @ [StageClosed (stage_count tr)])"
    by (blast intro: grows_trans)
  with run show ?thesis
    by (cases "fst (delegating_step environ request d tr)") (simp_all add: split_pairs)
qed

lemma handle_request_grows: "grows tr (snd (handle_request environ request tr))"
proof -
  obtain r1 tr1 where r1: "routing_step environ request tr = (r1, tr1)"
    by (cases "routing_step environ request tr")
  have g1: "grows tr tr1"
    using routing_step_grows [of tr environ request] r1 by simp
  show ?thesis
  proof (cases r1)
    case (Inl e)
    with r1 g1 show ?thesis by (simp add: handle_request_apply)
  next
    case (Inr d)
    obtain r2 tr2 where r2: "delegating_step environ request d tr1 = (r2, tr2)"
      by (cases "delegating_step environ request d tr1")
    have g2: "grows tr tr2"
      using delegating_step_grows [of tr1 environ request d] r2 g1 by (auto intro: grows_trans)
    show ?thesis
    proof (cases r2)
      case (Inl e)
      with r1 r2 Inr g2 show ?thesis by (simp add: handle_request_apply)
    next
      case m: (Inr m)
      with r1 r2 Inr g2 final_response_grows [of tr2 environ request m] show ?thesis
        by (auto simp: handle_request_apply intro: grows_trans)
    qed
  qed
qed

section \<open>The example run\<close>

lemma sample_routing [simp]:
  "routing_step sample_env sample_request tr =
     (Inr \<lparr>agent_name = UMS, additional_instructions = None\<rparr>,
      tr @ [StageOpened (stage_count tr) coordination_stage_name,
            ModelRequested Structured (coordination_messages sample_request),
            StageAppended (stage_count tr)
              (routing_note \<lparr>agent_name = UMS, additional_instructions = None\<rparr>),
            StageClosed (stage_count tr)])"
  by (simp add: routing_step_returns)

lemma sample_delegating [simp]:
  "delegating_step sample_env sample_request \<lparr>agent_name = UMS, additional_instructions = None\<rparr> tr =
     (Inr (assistant_message ''Hello''),
      tr @ [StageOpened (stage_count tr)
              (agent_stage_name \<lparr>agent_name = UMS, additional_instructions = None\<rparr>),
            ConversationPosted, StateSet (session_state (JStr ''abc'')),
            ChatPosted (JStr ''abc'') ''create user Alice'',
            StageAppended (stage_count tr) ''Hel'', StageAppended (stage_count tr) ''lo'',
            StageClosed (stage_count tr)])"
  by (simp add: delegating_step_returns sample_first_turn)

lemma sample_run:
  "handle_request sample_env sample_request [] =
     (Inr (assistant_message ''User created.''),
      [StageOpened 0 coordination_stage_name,
       ModelRequested Structured (coordination_messages sample_request),
       StageAppended 0 (routing_note \<lparr>agent_name = UMS, additional_instructions = None\<rparr>),
       StageClosed 0,
       StageOpened 1 (agent_stage_name \<lparr>agent_name = UMS, additional_instructions = None\<rparr>),
       ConversationPosted, StateSet (session_state (JStr ''abc'')),
       ChatPosted (JStr ''abc'') ''create user Alice'',
       StageAppended 1 ''Hel'', StageAppended 1 ''lo'', StageClosed 1,
       ModelRequested Streaming
         [role_content ''system'' FINAL_RESPONSE_SYSTEM_PROMPT,
          composite_entry (last sample_request) (assistant_message ''Hello'')],
       ChoiceAppended ''User '', ChoiceAppended ''created.''])"
  by (simp add: handle_request_apply sample_final_response)

lemma routing_note_examples:
  "routing_note \<lparr>agent_name = UMS, additional_instructions = None\<rparr> =
     ''Routing to: **UMS**\<newline>Instructions: None''"
  "routing_note \<lparr>agent_name = GPA, additional_instructions = Some ''be brief''\<rparr> =
     ''Routing to: **GPA**\<newline>Instructions: be brief''"
  by (simp_all add: routing_note_def)

lemma run_for_add:
  "run_for (m + n) environ request c = run_for n environ request (run_for m environ request c)"
proof (induction m arbitrary: c)
  case 0
  show ?case by simp
next
  case (Suc m)
  show ?case
  proof (cases "step_of environ request c")
    case None
    then have "is_final (fst c)"
      by (simp add: step_of_final)
    with None show ?thesis by simp
  next
    case (Some c')
    then show ?thesis by (simp add: Suc.IH)
  qed
qed

section \<open>Every run is finite\<close>

lemma phase_rank_le: "phase_rank ph \<le> 4"
  by (cases ph) simp_all

lemma phase_rank_final: "phase_rank ph = 4 \<longleftrightarrow> is_final ph"
  by (cases ph) simp_all

lemma run_for_final_after:
  "4 \<le> n + phase_rank (fst c) \<Longrightarrow> is_final (fst (run_for n environ request c))"
proof (induction n arbitrary: c)
  case 0
  then show ?case
    using phase_rank_le [of "fst c"] by (simp flip: phase_rank_final)
next
  case (Suc n)
  show ?case
  proof (cases "step_of environ request c")
    case None
    then show ?thesis by simp (simp add: step_of_final)
  next
    case (Some c')
    then have "phase_rank (fst c) < phase_rank (fst c')"
      using coordinator_step_rank by (simp flip: coordinator_step_iff)
    with Suc.prems have "4 \<le> n + phase_rank (fst c')" by simp
    with Some Suc.IH show ?thesis by simp
  qed
qed

lemma steps_raise_rank:
  "(coordinator_step environ request ^^ n) c c' \<Longrightarrow> n + phase_rank (fst c) \<le> phase_rank (fst c')"
proof (induction n arbitrary: c')
  case 0
  then show ?case by simp
next
  case (Suc n)
  then obtain c1 where "(coordinator_step environ request ^^ n) c c1"
    and "coordinator_step environ request c1 c'"
    by auto
  with Suc.IH [of c1] coordinator_step_rank [of environ request c1 c'] show ?case
    by simp
qed

section \<open>Properties of the coordinator\<close>

text \<open>
  C2. The run is the machine. The final configurations the machine reaches from
  \<open>Idle\<close> are exactly one: \<open>Done\<close> with the message and the trace \<open>handle_request\<close>
  returns, or \<open>Aborted\<close> with the error it raises and the trace it leaves.
\<close>

theorem handle_request_refines_machine:
  "reaches environ request (Idle, tr) c \<and> is_final (fst c) \<longleftrightarrow>
     c = result_config (handle_request environ request tr)"
proof
  assume "reaches environ request (Idle, tr) c \<and> is_final (fst c)"
  then show "c = result_config (handle_request environ request tr)"
    using reaches_final_unique [OF _ _ reaches_handle_request result_config_final] by blast
next
  assume "c = result_config (handle_request environ request tr)"
  then show "reaches environ request (Idle, tr) c \<and> is_final (fst c)"
    using reaches_handle_request [of environ request tr] by simp
qed

theorem handle_request_refines_machine_witness:
  "reaches sample_env sample_request (Idle, []) (Done (assistant_message ''User created.''),
     snd (handle_request sample_env sample_request []))"
  using handle_request_refines_machine [of sample_env sample_request "[]"
      "result_config (handle_request sample_env sample_request [])"]
  by (simp add: sample_run)



text \<open>
  C29. Every configuration of a run keeps the surfaces in order. Started on a trace
  that follows the protocol, every configuration the machine reaches has a trace that
  follows the protocol and leaves the stages of the earlier trace as they were; unless
  the run has aborted, the coordinator has opened as many stages as its phase says
  (none, one, two) and every one of them is closed.
\<close>

theorem run_keeps_surfaces:
  assumes "reaches environ request (Idle, tr0) c" and "check_trace tr0"
  shows "coordinator_inv tr0 c"
  using assms by (rule coordinator_inv_reaches)

theorem run_keeps_surfaces_witness:
  "coordinator_inv [] (Done (assistant_message ''User created.''),
     snd (handle_request sample_env sample_request []))"
  using run_keeps_surfaces [of sample_env sample_request "[]"
      "result_config (handle_request sample_env sample_request [])", OF reaches_handle_request]
  by (simp add: sample_run check_trace_def)

text \<open>
  C4. A run that returns has closed both of its stages. When \<open>handle_request\<close>
  returns on a trace that follows the protocol and has every stage closed, the trace
  it leaves follows the protocol, has two more stages, and has every stage closed.
\<close>

theorem successful_run_closes_stages:
  assumes "check_trace tr" and "all_closed tr"
    and "handle_request environ request tr = (Inr reply, tr')"
  shows "check_trace tr' \<and> all_closed tr' \<and> stage_count tr' = stage_count tr + 2"
proof -
  have inv: "coordinator_inv tr (Done reply, tr')"
    using handle_request_inv [OF assms(1), of environ request] assms(3) by simp
  then have "closed_from (stage_count tr) tr'" "keeps_stages tr tr'"
    by (simp_all add: coordinator_inv_def)
  with assms(2) have "all_closed tr'"
    by (simp add: all_closed_iff closed_from_join)
  with inv show ?thesis
    by (simp add: coordinator_inv_def)
qed

theorem successful_run_closes_stages_witness:
  "all_closed (snd (handle_request sample_env sample_request []))
   \<and> stage_count (snd (handle_request sample_env sample_request [])) = 2"
  using successful_run_closes_stages [of "[]" sample_env sample_request, OF _ _ sample_run]
  by (simp add: sample_run check_trace_def all_closed_def)

text \<open>
  C10. A run that fails before the synthesis leaves a stage open. When the classifier
  raises, the run raises the same error and the coordination stage stays open; when
  the gateway raises, the run raises the same error, the coordination stage is closed
  and the stage of the agent stays open. In both cases the trace still follows the
  protocol, but not every stage is closed: the run has no cleanup on the failing path.
\<close>

theorem failed_run_leaves_stage_open:
  "(decision environ request = Inl e \<longrightarrow>
      fst (handle_request environ request tr) = Inl e
    \<and> stage_status (snd (handle_request environ request tr)) (stage_count tr) = Open
    \<and> \<not> all_closed (snd (handle_request environ request tr)))
   \<and> (\<forall>d tr1. routing_step environ request tr = (Inr d, tr1)
        \<and> fst (delegating_step environ request d tr1) = Inl e \<longrightarrow>
      fst (handle_request environ request tr) = Inl e
    \<and> stage_status (snd (handle_request environ request tr)) (stage_count tr) = Closed
    \<and> stage_status (snd (handle_request environ request tr)) (Suc (stage_count tr)) = Open
    \<and> \<not> all_closed (snd (handle_request environ request tr)))"
proof (intro conjI impI allI)
  assume failed: "decision environ request = Inl e"
  let ?tr' = "snd (handle_request environ request tr)"
  from failed show "fst (handle_request environ request tr) = Inl e"
    by (simp add: handle_request_apply routing_step_raises)
  from failed show "open": "stage_status ?tr' (stage_count tr) = Open"
    by (simp add: handle_request_apply routing_step_raises stage_status_append)
  from failed have "stage_count ?tr' = Suc (stage_count tr)"
    by (simp add: handle_request_apply routing_step_raises)
  with "open" show "\<not> all_closed ?tr'"
    by (auto simp: all_closed_iff closed_from_iff)
next
  fix d tr1
  assume run: "routing_step environ request tr = (Inr d, tr1)
      \<and> fst (delegating_step environ request d tr1) = Inl e"
  let ?tr' = "snd (handle_request environ request tr)"
  obtain tr2 where d2: "delegating_step environ request d tr1 = (Inl e, tr2)"
    using run by (cases "delegating_step environ request d tr1") auto
  have tr': "handle_request environ request tr = (Inl e, tr2)"
    using run d2 by (simp add: handle_request_apply)
  have n1: "stage_count tr1 = Suc (stage_count tr)"
    using routing_step_effect(1) [of environ request tr] run by simp
  have n2: "stage_count tr2 = Suc (stage_count tr1)"
    using delegating_step_effect(1) [of environ request d tr1] d2 by simp
  have "open": "stage_status tr2 (stage_count tr1) = Open"
    using delegating_step_status [OF d2] by simp
  have closed: "stage_status tr2 (stage_count tr) = Closed"
    using delegating_step_effect(2) [of "stage_count tr" tr1 environ request d] d2 n1
      routing_step_status [of environ request tr "Inr d" tr1] run by simp
  show "fst (handle_request environ request tr) = Inl e"
    by (simp add: tr')
  show "stage_status ?tr' (stage_count tr) = Closed"
    by (simp add: tr' closed)
  show "stage_status ?tr' (Suc (stage_count tr)) = Open"
    using "open" n1 by (simp add: tr')
  show "\<not> all_closed ?tr'"
    using "open" n1 n2 by (auto simp: tr' all_closed_iff closed_from_iff)
qed

theorem failed_run_leaves_stage_open_witness:
  "handle_request (sample_env\<lparr>completions_create := \<lambda>messages. Inl ConnectError\<rparr>)
     sample_request [] =
   (Inl ConnectError,
    [StageOpened 0 coordination_stage_name,
     ModelRequested Structured (coordination_messages sample_request)])
   \<and> \<not> all_closed (snd (handle_request
          (sample_env\<lparr>completions_create := \<lambda>messages. Inl ConnectError\<rparr>) sample_request []))"
  using failed_run_leaves_stage_open [of
      "sample_env\<lparr>completions_create := \<lambda>messages. Inl ConnectError\<rparr>" sample_request
      ConnectError "[]"]
  by (simp add: decision_def handle_request_apply routing_step_raises)

text \<open>
  C28. A classifier answer that is not JSON aborts the run before any gateway. When
  the first choice of the classifier's answer is a text \<open>json.loads\<close> rejects, the run
  raises the decoding error; it has opened the coordination stage and sent the one
  structured request, and nothing else: no request to either agent, no state, no
  fragment of an answer.
\<close>

theorem not_json_aborts_before_gateway:
  assumes "completions_create environ (coordination_messages request) = Inr (Some text # rest)"
    and "json_loads environ text = None"
  shows "handle_request environ request tr =
           (Inl JSONDecodeError,
            tr @ [StageOpened (stage_count tr) coordination_stage_name,
                  ModelRequested Structured (coordination_messages request)])
       \<and> ums_calls (snd (handle_request environ request tr)) = ums_calls tr
       \<and> gpa_calls (snd (handle_request environ request tr)) = gpa_calls tr
       \<and> choice_chunks (snd (handle_request environ request tr)) = choice_chunks tr"
proof -
  have "decision environ request = Inl JSONDecodeError"
    using assms by (simp add: decision_def parse_decision_def)
  then show ?thesis
    by (simp add: handle_request_apply routing_step_raises ums_calls_def gpa_calls_def)
qed

theorem not_json_aborts_before_gateway_witness:
  "handle_request (sample_env\<lparr>completions_create := \<lambda>messages. Inr [Some ''not json'']\<rparr>)
     sample_request [] =
   (Inl JSONDecodeError,
    [StageOpened 0 coordination_stage_name,
     ModelRequested Structured (coordination_messages sample_request)])"
  using not_json_aborts_before_gateway [of
      "sample_env\<lparr>completions_create := \<lambda>messages. Inr [Some ''not json'']\<rparr>"
      sample_request "''not json''" "[]" "[]"]
  by (simp add: sample_env_def)

text \<open>
  C35. The answer channel receives the synthesis only. When a run returns, the text
  of the answer channel has grown by exactly the text of the returned message, which
  is an assistant message; routing and delegation append nothing to the answer.
\<close>

theorem answer_is_synthesis_only:
  assumes "handle_request environ request tr = (Inr reply, tr')"
  shows "choice_text tr' = choice_text tr @ or_empty (msg_content reply)
       \<and> msg_role reply = Assistant
       \<and> choice_chunks (snd (routing_step environ request tr)) = choice_chunks tr
       \<and> (\<forall>d tr1. choice_chunks (snd (delegating_step environ request d tr1)) = choice_chunks tr1)"
proof -
  obtain d tr1 m tr2 where r1: "routing_step environ request tr = (Inr d, tr1)"
    and r2: "delegating_step environ request d tr1 = (Inr m, tr2)"
    and r3: "final_response environ request m tr2 = (Inr reply, tr')"
    using assms by (auto simp: handle_request_apply split: prod.splits sum.splits)
  obtain messages and stream :: "chunk stream"
    where "reply = assistant_message (concat (fragments (items stream)))"
    and "tr' = tr2 @ ModelRequested Streaming messages # map ChoiceAppended (fragments (items stream))"
    using final_response_returns [OF r3] by blast
  moreover have "choice_chunks tr2 = choice_chunks tr"
    using routing_step_effect(3) [of environ request tr]
      delegating_step_effect(3) [of environ request d tr1] r1 r2 by simp
  ultimately show ?thesis
    by (simp add: choice_text_def assistant_message_def routing_step_effect delegating_step_effect)
qed

theorem answer_is_synthesis_only_witness:
  "choice_text (snd (handle_request sample_env sample_request [])) = ''User created.''"
  using answer_is_synthesis_only [OF sample_run]
  by (simp add: sample_run choice_text_def)



end
