(* ===== verification/App.thy ===== *)
theory App
  imports Coordinator
begin

text \<open>
  The application shell: \<open>src/task/app.py\<close> and the constructor of
  \<open>MASCoordinator\<close>. The settings are read from the process environment with their
  defaults when the module is loaded; \<open>chat_completion\<close> opens the single choice of the
  response, builds a coordinator from the settings and runs it, and the choice is
  closed when the block is left, whether the run returned or raised. What the
  collaborators answer to a coordinator with given endpoints is the parameter
  \<open>world\<close>. The context manager of the choice belongs to the chat SDK and is modelled
  from its contract: it opens on entry and closes on exit. The application object is
  a registry of handlers by deployment name, served by name. The web server and the
  logging are not modelled. The lemmas show that the answer is written inside the
  scope of the choice on every path and what the settings are.
\<close>

section \<open>Settings\<close>

definition getenv :: "(string \<rightharpoonup> string) \<Rightarrow> string \<Rightarrow> string \<Rightarrow> string" where
  "getenv os_environ key fallback = (case os_environ key of None \<Rightarrow> fallback | Some v \<Rightarrow> v)"

record settings =
  DIAL_ENDPOINT :: string
  DEPLOYMENT_NAME :: string
  UMS_AGENT_ENDPOINT :: string
  LOG_LEVEL :: string

definition load_settings :: "(string \<rightharpoonup> string) \<Rightarrow> settings" where
  "load_settings os_environ =
     \<lparr>DIAL_ENDPOINT = getenv os_environ ''DIAL_ENDPOINT'' ''http://localhost:8080'',
      DEPLOYMENT_NAME = getenv os_environ ''DEPLOYMENT_NAME'' ''gpt-4o'',
      UMS_AGENT_ENDPOINT = getenv os_environ ''UMS_AGENT_ENDPOINT'' ''http://localhost:8042'',
      LOG_LEVEL = getenv os_environ ''LOG_LEVEL'' ''INFO''\<rparr>"

section \<open>The coordinator object\<close>

record coordinator =
  endpoint :: string
  deployment_name :: string
  ums_agent_endpoint :: string

definition MASCoordinator :: "string \<Rightarrow> string \<Rightarrow> string \<Rightarrow> coordinator" where
  "MASCoordinator endpoint_arg deployment_name_arg ums_agent_endpoint_arg =
     \<lparr>endpoint = endpoint_arg,
      deployment_name = deployment_name_arg,
      ums_agent_endpoint = ums_agent_endpoint_arg\<rparr>"

type_synonym world = "coordinator \<Rightarrow> env"

section \<open>The request handler\<close>

definition with_single_choice :: "(trace, 'a) run \<Rightarrow> (trace, 'a) run" where
  "with_single_choice body = ethen (emit ChoiceOpened) (efinally body (emit ChoiceClosed))"

definition chat_completion :: "world \<Rightarrow> settings \<Rightarrow> request \<Rightarrow> (trace, unit) run" where
  "chat_completion world config request =
     with_single_choice
       (ebind (handle_request
                 (world (MASCoordinator (DIAL_ENDPOINT config) (DEPLOYMENT_NAME config)
                           (UMS_AGENT_ENDPOINT config)))
                 request)
          (\<lambda>final_message. returnE ()))"

section \<open>The application object\<close>

text \<open>
  The application is a registry of chat completion handlers by deployment name, and a
  request for a deployment is served by the handler registered first under that name.
  The registry and its serving belong to the chat SDK and are modelled from its
  contract; \<open>app\<close> is the registry the module builds when it is loaded.
\<close>

type_synonym application = "request \<Rightarrow> (trace, unit) run"

record dial_app =
  deployments :: "(string \<times> application) list"

definition DIALApp :: dial_app where
  "DIALApp = \<lparr>deployments = []\<rparr>"

definition add_chat_completion :: "string \<Rightarrow> application \<Rightarrow> dial_app \<Rightarrow> dial_app" where
  "add_chat_completion deployment impl a = a\<lparr>deployments := deployments a @ [(deployment, impl)]\<rparr>"

definition app :: "world \<Rightarrow> settings \<Rightarrow> dial_app" where
  "app world config = add_chat_completion ''mas-coordinator'' (chat_completion world config) DIALApp"

definition serve :: "dial_app \<Rightarrow> string \<Rightarrow> request \<Rightarrow> (trace, unit) run" where
  "serve a deployment request =
     (case map_of (deployments a) deployment of
        None \<Rightarrow> raiseE (HTTPStatusError 404)
      | Some impl \<Rightarrow> impl request)"

section \<open>The protocol of the choice\<close>

fun scope_ok :: "stage_status \<Rightarrow> event \<Rightarrow> bool" where
  "scope_ok s ChoiceOpened \<longleftrightarrow> s = Unopened"
| "scope_ok s ConversationPosted \<longleftrightarrow> True"
| "scope_ok s (ChatPosted c u) \<longleftrightarrow> True"
| "scope_ok s (AgentRequested i) \<longleftrightarrow> True"
| "scope_ok s (ModelRequested m ms) \<longleftrightarrow> True"
| "scope_ok s _ \<longleftrightarrow> s = Open"

fun choice_from :: "stage_status \<Rightarrow> trace \<Rightarrow> bool" where
  "choice_from s [] \<longleftrightarrow> True"
| "choice_from s (e # es) \<longleftrightarrow> scope_ok s e \<and> choice_from (choice_step s e) es"

definition choice_ok :: "trace \<Rightarrow> bool" where
  "choice_ok tr = choice_from Unopened tr"

definition sample_world :: world where
  "sample_world c = sample_env"

section \<open>Settings and their defaults\<close>

lemma getenv_simps [simp]:
  "getenv Map.empty key fallback = fallback"
  "getenv (os_environ(key \<mapsto> v)) key fallback = v"
  "key' \<noteq> key \<Longrightarrow> getenv (os_environ(key' \<mapsto> v)) key fallback = getenv os_environ key fallback"
  by (simp_all add: getenv_def)

lemma load_settings_empty:
  "load_settings Map.empty =
     \<lparr>DIAL_ENDPOINT = ''http://localhost:8080'', DEPLOYMENT_NAME = ''gpt-4o'',
      UMS_AGENT_ENDPOINT = ''http://localhost:8042'', LOG_LEVEL = ''INFO''\<rparr>"
  by (simp add: load_settings_def)

section \<open>The scope of the choice\<close>

lemma choice_from_append:
  "choice_from s (es @ es') \<longleftrightarrow> choice_from s es \<and> choice_from (foldl choice_step s es) es'"
  by (induction es arbitrary: s) simp_all

lemma choice_step_other [simp]: "\<not> is_scope_event e \<Longrightarrow> choice_step s e = s"
  by (cases e) simp_all

lemma foldl_choice_step_other [simp]: "scope_events es = [] \<Longrightarrow> foldl choice_step s es = s"
  by (induction es) (simp_all split: if_splits)

lemma scope_ok_Open [simp]: "\<not> is_scope_event e \<Longrightarrow> scope_ok Open e"
  by (cases e) simp_all

lemma choice_from_open: "scope_events es = [] \<Longrightarrow> choice_from Open es"
  by (induction es) (simp_all split: if_splits)

lemma choice_ok_scoped:
  assumes "choice_ok tr" and "choice_status tr = Unopened" and "scope_events es = []"
  shows "choice_ok (tr @ ChoiceOpened # es @ [ChoiceClosed])"
    and "choice_status (tr @ ChoiceOpened # es @ [ChoiceClosed]) = Closed"
  using assms
  by (simp_all add: choice_ok_def choice_from_append choice_status_def choice_from_open)

lemma with_single_choice_apply:
  "with_single_choice body tr =
     (fst (body (tr @ [ChoiceOpened])), snd (body (tr @ [ChoiceOpened])) @ [ChoiceClosed])"
  by (simp add: with_single_choice_def ethen_def ebind_def efinally_def split: prod.splits)

lemma chat_completion_apply:
  "chat_completion world config request tr =
     (rbind (fst (handle_request (world (MASCoordinator (DIAL_ENDPOINT config)
                (DEPLOYMENT_NAME config) (UMS_AGENT_ENDPOINT config))) request (tr @ [ChoiceOpened])))
        (\<lambda>final_message. Inr ()),
      snd (handle_request (world (MASCoordinator (DIAL_ENDPOINT config)
                (DEPLOYMENT_NAME config) (UMS_AGENT_ENDPOINT config))) request (tr @ [ChoiceOpened]))
        @ [ChoiceClosed])"
  by (simp add: chat_completion_def with_single_choice_apply ebind_def rbind_def
      split: prod.splits sum.splits)

lemma chat_completion_trace:
  "\<exists>es. scope_events es = []
     \<and> snd (chat_completion world config request tr) = tr @ ChoiceOpened # es @ [ChoiceClosed]"
proof -
  let ?environ = "world (MASCoordinator (DIAL_ENDPOINT config) (DEPLOYMENT_NAME config)
      (UMS_AGENT_ENDPOINT config))"
  obtain es where "snd (handle_request ?environ request (tr @ [ChoiceOpened])) =
      (tr @ [ChoiceOpened]) @ es" and "scope_events es = []"
    using handle_request_grows [of "tr @ [ChoiceOpened]" ?environ request]
    by (auto simp: grows_iff)
  then have "scope_events es = []
     \<and> snd (chat_completion world config request tr) = tr @ ChoiceOpened # es @ [ChoiceClosed]"
    by (simp add: chat_completion_apply)
  then show ?thesis ..
qed

lemma sample_handle_request:
  "fst (handle_request sample_env sample_request tr) = Inr (assistant_message ''User created.'')"
  by (simp add: handle_request_apply sample_final_response)

lemma load_settings_update:
  "load_settings (os_environ(''DIAL_ENDPOINT'' \<mapsto> v)) = (load_settings os_environ)\<lparr>DIAL_ENDPOINT := v\<rparr>"
  "load_settings (os_environ(''DEPLOYMENT_NAME'' \<mapsto> v)) = (load_settings os_environ)\<lparr>DEPLOYMENT_NAME := v\<rparr>"
  "load_settings (os_environ(''UMS_AGENT_ENDPOINT'' \<mapsto> v)) =
     (load_settings os_environ)\<lparr>UMS_AGENT_ENDPOINT := v\<rparr>"
  "load_settings (os_environ(''LOG_LEVEL'' \<mapsto> v)) = (load_settings os_environ)\<lparr>LOG_LEVEL := v\<rparr>"
  by (simp_all add: load_settings_def)

section \<open>Serving a deployment\<close>

lemma serve_registered:
  "map_of (deployments a) deployment = None \<Longrightarrow>
     serve (add_chat_completion deployment impl a) deployment = impl"
  "map_of (deployments a) deployment = Some first \<Longrightarrow>
     serve (add_chat_completion deployment impl a) deployment = first"
  "other \<noteq> deployment \<Longrightarrow>
     serve (add_chat_completion deployment impl a) other = serve a other"
  by (auto simp: serve_def add_chat_completion_def map_add_def fun_eq_iff split: option.splits)

lemma serve_app:
  "serve (app world config) ''mas-coordinator'' = chat_completion world config"
  "deployment \<noteq> ''mas-coordinator'' \<Longrightarrow>
     serve (app world config) deployment request tr = (Inl (HTTPStatusError 404), tr)"
  by (simp_all add: app_def serve_def add_chat_completion_def DIALApp_def raiseE_def fun_eq_iff)

section \<open>Properties of the application shell\<close>





text \<open>
  Each setting has its default and its own variable. With no variable set the
  settings are the four defaults; setting one of the four variables changes that
  setting and no other; a variable with another name changes nothing; and the log
  level has no influence on what \<open>chat_completion\<close> does.
\<close>

theorem settings_defaults:
  "load_settings Map.empty =
     \<lparr>DIAL_ENDPOINT = ''http://localhost:8080'', DEPLOYMENT_NAME = ''gpt-4o'',
      UMS_AGENT_ENDPOINT = ''http://localhost:8042'', LOG_LEVEL = ''INFO''\<rparr>
   \<and> load_settings (os_environ(''DEPLOYMENT_NAME'' \<mapsto> v)) =
       (load_settings os_environ)\<lparr>DEPLOYMENT_NAME := v\<rparr>
   \<and> load_settings (os_environ(''UMS_AGENT_ENDPOINT'' \<mapsto> v)) =
       (load_settings os_environ)\<lparr>UMS_AGENT_ENDPOINT := v\<rparr>
   \<and> load_settings (os_environ(''DIAL_ENDPOINT'' \<mapsto> v)) =
       (load_settings os_environ)\<lparr>DIAL_ENDPOINT := v\<rparr>
   \<and> (key \<notin> {''DIAL_ENDPOINT'', ''DEPLOYMENT_NAME'', ''UMS_AGENT_ENDPOINT'', ''LOG_LEVEL''} \<longrightarrow>
        load_settings (os_environ(key \<mapsto> v)) = load_settings os_environ)
   \<and> chat_completion world (config\<lparr>LOG_LEVEL := v\<rparr>) = chat_completion world config"
  by (simp add: load_settings_empty load_settings_update)
     (simp add: load_settings_def chat_completion_def fun_eq_iff)

theorem settings_defaults_witness:
  "UMS_AGENT_ENDPOINT (load_settings [''DEPLOYMENT_NAME'' \<mapsto> ''gpt-4o-mini'']) = ''http://localhost:8042''
   \<and> DEPLOYMENT_NAME (load_settings [''DEPLOYMENT_NAME'' \<mapsto> ''gpt-4o-mini'']) = ''gpt-4o-mini''"
  using settings_defaults [of Map.empty "''gpt-4o-mini''" "''X''"]
  by (simp add: load_settings_empty)

text \<open>
  The application serves the coordinator under one name only. A request for the
  deployment \<open>mas-coordinator\<close> is handled by \<open>chat_completion\<close>, with the settings of
  the module; a request for any other deployment is answered with status 404 and has
  no effect: no choice is opened and nothing is sent.
\<close>

theorem only_the_coordinator_is_served:
  "serve (app world config) deployment request tr =
     (if deployment = ''mas-coordinator'' then chat_completion world config request tr
      else (Inl (HTTPStatusError 404), tr))"
  by (simp add: serve_app)

theorem only_the_coordinator_is_served_witness:
  "serve (app sample_world (load_settings Map.empty)) ''gpt-4o'' sample_request [] =
     (Inl (HTTPStatusError 404), [])
   \<and> fst (serve (app sample_world (load_settings Map.empty)) ''mas-coordinator'' sample_request []) =
       Inr ()"
  using only_the_coordinator_is_served [of sample_world "load_settings Map.empty" "''gpt-4o''"
      sample_request "[]"]
    only_the_coordinator_is_served [of sample_world "load_settings Map.empty" "''mas-coordinator''"
      sample_request "[]"]
  by (simp add: chat_completion_apply sample_world_def sample_handle_request)

end
