(* ===== verification/Conversation.thy ===== *)
theory Conversation
  imports App
begin

text \<open>
  A conversation of several turns. The session of the stateful agent lives in the
  history the caller sends: the caller's transport stores the reply of a run with the
  state the run attached, and the next request is the stored history with the next
  user message. This theory gives the lookup of
  \<open>UMSAgentGateway.__get_ums_conversation_id\<close> a reference definition over the list
  of stored identifiers, states the lookup of the design (the most recent match) and
  says exactly when the two agree; it then models the conversation as a step relation
  over histories (\<open>talks\<close>, with the executable \<open>converse\<close>) and proves, by induction over
  the turns, that a history the system itself has produced carries at most one
  identifier, that the two lookups agree on it, and how many sessions a conversation
  creates.
\<close>

section \<open>The identifiers a history carries\<close>

definition carried_id :: "message \<Rightarrow> json option" where
  "carried_id m = (case message_conversation_id m of Inr (Some v) \<Rightarrow> Some v | _ \<Rightarrow> None)"

definition scans :: "message \<Rightarrow> bool" where
  "scans m = (case message_conversation_id m of Inl e \<Rightarrow> False | Inr found \<Rightarrow> True)"

definition stored_ids :: "request \<Rightarrow> json list" where
  "stored_ids request = List.map_filter carried_id request"

definition first_stored_id :: "request \<Rightarrow> json" where
  "first_stored_id request = (case stored_ids request of [] \<Rightarrow> JNull | v # vs \<Rightarrow> v)"

text \<open>The lookup of the design: the most recent message that carries an identifier wins.\<close>

definition most_recent_conversation_id :: "request \<Rightarrow> json result" where
  "most_recent_conversation_id request = get_ums_conversation_id (rev request)"

definition single_session :: "request \<Rightarrow> bool" where
  "single_session h \<longleftrightarrow>
     list_all scans h \<and> length (stored_ids h) \<le> 1 \<and> JNull \<notin> set (stored_ids h)"

section \<open>What one run does to the session\<close>

definition creations :: "trace \<Rightarrow> nat" where
  "creations tr = count_list (posts tr) ConversationPosted"

definition session_events :: "env \<Rightarrow> request \<Rightarrow> event list" where
  "session_events environ request =
     (case get_ums_conversation_id request of
        Inl e \<Rightarrow> []
      | Inr found \<Rightarrow>
          if found \<noteq> JNull then []
          else (case fst (create_ums_conversation environ []) of
                  Inl e \<Rightarrow> [ConversationPosted]
                | Inr created \<Rightarrow> [ConversationPosted, StateSet (session_state created)]))"

definition run_session_events :: "env \<Rightarrow> request \<Rightarrow> event list" where
  "run_session_events environ request =
     (case decision environ request of
        Inl e \<Rightarrow> []
      | Inr d \<Rightarrow> if agent_name d = UMS then session_events environ request else [])"

definition issues_ids :: "env \<Rightarrow> bool" where
  "issues_ids environ \<longleftrightarrow> fst (create_ums_conversation environ []) \<noteq> Inr JNull"

section \<open>Turns\<close>

type_synonym outcome = "message result \<times> trace"

definition store :: "request \<Rightarrow> message \<Rightarrow> outcome \<Rightarrow> request" where
  "store h u outcome =
     (case fst outcome of
        Inl e \<Rightarrow> h @ [u]
      | Inr reply \<Rightarrow> h @ [u, persisted_reply reply (snd outcome)])"

definition failed :: "outcome \<Rightarrow> bool" where
  "failed outcome = (case fst outcome of Inl e \<Rightarrow> True | Inr reply \<Rightarrow> False)"

definition sessions_created :: "outcome list \<Rightarrow> nat" where
  "sessions_created runs = sum_list (map (\<lambda>outcome. creations (snd outcome)) runs)"

inductive talks :: "(env \<Rightarrow> bool) \<Rightarrow> request \<Rightarrow> outcome list \<Rightarrow> bool"
  for ok :: "env \<Rightarrow> bool" where
  start: "talks ok [] []"
| turn:
    "talks ok h runs \<Longrightarrow> ok environ \<Longrightarrow> msg_role u = User \<Longrightarrow>
     outcome = handle_request environ (h @ [u]) [] \<Longrightarrow>
       talks ok (store h u outcome) (runs @ [outcome])"

fun converse :: "request \<Rightarrow> outcome list \<Rightarrow> (env \<times> message) list \<Rightarrow> request \<times> outcome list" where
  "converse h runs [] = (h, runs)"
| "converse h runs ((environ, u) # script) =
     converse (store h u (handle_request environ (h @ [u]) []))
       (runs @ [handle_request environ (h @ [u]) []]) script"

text \<open>Two conversations of two turns: one that goes well, one whose first run fails.\<close>

definition list_users :: message where
  "list_users = \<lparr>msg_role = User, msg_content = Some ''list users'', msg_custom = None\<rparr>"

definition sample_script :: "(env \<times> message) list" where
  "sample_script = [(sample_env, hd sample_request), (sample_env, list_users)]"

definition failing_script :: "(env \<times> message) list" where
  "failing_script =
     [(sample_env\<lparr>post_chat := \<lambda>conversation_id user_message. Inl ConnectError\<rparr>, hd sample_request),
      (sample_env, list_users)]"

section \<open>The loop of the lookup and its reference\<close>

lemma carried_id_simps [simp]:
  "message_conversation_id m = Inr found \<Longrightarrow> carried_id m = found"
  "message_conversation_id m = Inl e \<Longrightarrow> carried_id m = None"
  by (simp_all add: carried_id_def split: option.splits)

lemma scans_iff: "scans m \<longleftrightarrow> (\<exists>found. message_conversation_id m = Inr found)"
  by (simp add: scans_def split: sum.splits)

lemma scans_carried: "scans m \<Longrightarrow> message_conversation_id m = Inr (carried_id m)"
  by (auto simp: scans_iff)

lemma carries_no_session_iff: "carries_no_session m \<longleftrightarrow> scans m \<and> carried_id m = None"
  by (auto simp: carries_no_session_def scans_iff)

lemma stored_ids_simps [simp]:
  "stored_ids [] = []"
  "stored_ids (m # request) = (case carried_id m of None \<Rightarrow> [] | Some v \<Rightarrow> [v]) @ stored_ids request"
  "stored_ids (request @ request') = stored_ids request @ stored_ids request'"
  "stored_ids (rev request) = rev (stored_ids request)"
  by (simp_all add: stored_ids_def List.map_filter_def rev_map rev_filter split: option.splits)

lemma get_ums_conversation_id_Cons:
  "scans m \<Longrightarrow>
     get_ums_conversation_id (m # rest) =
       (case carried_id m of Some v \<Rightarrow> Inr v | None \<Rightarrow> get_ums_conversation_id rest)"
  by (auto simp: scans_iff)

lemma first_stored_id_simps [simp]:
  "stored_ids request = [] \<Longrightarrow> first_stored_id request = JNull"
  "stored_ids request \<noteq> [] \<Longrightarrow> first_stored_id request = hd (stored_ids request)"
  by (simp_all add: first_stored_id_def split: list.splits)

lemma get_ums_conversation_id_reference:
  "list_all scans request \<Longrightarrow> get_ums_conversation_id request = Inr (first_stored_id request)"
proof (induction request)
  case Nil
  show ?case by simp
next
  case (Cons m request)
  then show ?case
    by (cases "carried_id m"; cases "stored_ids request = []")
       (simp_all add: get_ums_conversation_id_Cons del: get_ums_conversation_id.simps)
qed

lemma most_recent_reference:
  "list_all scans request \<Longrightarrow>
     most_recent_conversation_id request =
       Inr (if stored_ids request = [] then JNull else last (stored_ids request))"
proof -
  assume "list_all scans request"
  then have "list_all scans (rev request)"
    by (simp add: list_all_iff)
  then have "most_recent_conversation_id request = Inr (first_stored_id (rev request))"
    unfolding most_recent_conversation_id_def by (rule get_ums_conversation_id_reference)
  then show ?thesis
    by (cases "stored_ids request = []") (simp_all add: hd_rev)
qed

lemma lookups_agree_iff:
  assumes "list_all scans request"
  shows "most_recent_conversation_id request = get_ums_conversation_id request \<longleftrightarrow>
           stored_ids request = [] \<or> hd (stored_ids request) = last (stored_ids request)"
  using assms
  by (cases "stored_ids request = []")
     (auto simp: most_recent_reference get_ums_conversation_id_reference)

section \<open>The session events of a run\<close>

lemma creations_simps [simp]:
  "creations [] = 0" "creations (tr @ tr') = creations tr + creations tr'"
  "creations (e # tr) = (if e = ConversationPosted then Suc (creations tr) else creations tr)"
  by (auto simp: creations_def)

lemma creations_of_posts: "posts tr' = posts tr @ ps \<Longrightarrow> creations tr' = creations tr + count_list ps ConversationPosted"
  by (simp add: creations_def)

lemma session_events_cases:
  obtains "session_events environ request = []"
        "get_ums_conversation_id request \<noteq> Inr JNull"
  | e where "session_events environ request = [ConversationPosted]"
        "get_ums_conversation_id request = Inr JNull"
        "fst (create_ums_conversation environ []) = Inl e"
  | created where "session_events environ request = [ConversationPosted, StateSet (session_state created)]"
        "get_ums_conversation_id request = Inr JNull"
        "fst (create_ums_conversation environ []) = Inr created"
  by (cases "get_ums_conversation_id request"; cases "fst (create_ums_conversation environ [])")
     (auto simp: session_events_def)

lemma resolve_conversation_effect:
  "snd (resolve_conversation environ request tr) = tr @ session_events environ request"
proof (cases environ request rule: session_events_cases)
  case 1
  then show ?thesis
    by (cases "get_ums_conversation_id request")
       (simp_all add: resolve_conversation_raises resolve_conversation_found)
next
  case (2 e)
  then show ?thesis
    using create_ums_conversation_result [of environ tr "[]"]
    by (simp add: resolve_conversation_create_fails)
next
  case (3 created)
  then show ?thesis
    using create_ums_conversation_result [of environ tr "[]"]
    by (simp add: resolve_conversation_created)
qed

lemma ums_response_session:
  "states_set (snd (ums_response environ stage request instr tr)) =
     states_set tr @ states_set (session_events environ request)"
  "creations (snd (ums_response environ stage request instr tr)) =
     creations tr + creations (session_events environ request)"
proof -
  obtain r tr1 where res: "resolve_conversation environ request tr = (r, tr1)"
    by (cases "resolve_conversation environ request tr")
  then have tr1: "tr1 = tr @ session_events environ request"
    using resolve_conversation_effect [of environ request tr] by simp
  have "states_set (snd (ums_response environ stage request instr tr)) = states_set tr1
      \<and> creations (snd (ums_response environ stage request instr tr)) = creations tr1"
    using res call_ums_agent_views(1,2) [of environ _ "sent_content request instr" stage tr1]
    by (cases r) (auto simp: ums_response_apply creations_def)
  with tr1 show
    "states_set (snd (ums_response environ stage request instr tr)) =
       states_set tr @ states_set (session_events environ request)"
    "creations (snd (ums_response environ stage request instr tr)) =
       creations tr + creations (session_events environ request)"
    by simp_all
qed

lemma gpa_response_session:
  "creations (snd (gpa_response environ stage request instr tr)) = creations tr"
  using gpa_response_views(1) [of environ stage request instr tr] by (simp add: creations_def)

lemma gateway_session:
  "states_set (snd (handle_coordination_request environ d stage request tr)) =
     states_set tr @ states_set (if agent_name d = UMS then session_events environ request else [])"
  "creations (snd (handle_coordination_request environ d stage request tr)) =
     creations tr + creations (if agent_name d = UMS then session_events environ request else [])"
proof -
  show "states_set (snd (handle_coordination_request environ d stage request tr)) =
     states_set tr @ states_set (if agent_name d = UMS then session_events environ request else [])"
    by (cases "agent_name d") (simp_all add: ums_response_session(1) gpa_response_views(2))
  show "creations (snd (handle_coordination_request environ d stage request tr)) =
     creations tr + creations (if agent_name d = UMS then session_events environ request else [])"
    by (cases "agent_name d") (simp_all add: ums_response_session(2) gpa_response_session)
qed

lemma routing_step_session:
  "creations (snd (routing_step environ request tr)) = creations tr"
  using routing_step_views(1) [of environ request tr] by (simp add: creations_def)

lemma delegating_step_session:
  "states_set (snd (delegating_step environ request d tr)) =
     states_set tr @ states_set (if agent_name d = UMS then session_events environ request else [])"
  "creations (snd (delegating_step environ request d tr)) =
     creations tr + creations (if agent_name d = UMS then session_events environ request else [])"
  using delegating_step_views(1,2) [of environ request d tr]
    gateway_session [of environ d "stage_count tr" request
      "tr @ [StageOpened (stage_count tr) (agent_stage_name d)]"]
  by (simp_all add: creations_def)

lemma final_response_session:
  "creations (snd (final_response environ request m tr)) = creations tr"
  using final_response_views [of request m environ tr] by (auto simp: creations_def)

lemma run_session:
  "states_set (snd (handle_request environ request tr)) =
     states_set tr @ states_set (run_session_events environ request)"
  "creations (snd (handle_request environ request tr)) =
     creations tr + creations (run_session_events environ request)"
proof -
  obtain r1 tr1 where r1: "routing_step environ request tr = (r1, tr1)"
    by (cases "routing_step environ request tr")
  then have d: "decision environ request = r1"
    and v1: "states_set tr1 = states_set tr" "creations tr1 = creations tr"
    using routing_step_result [of environ request tr] routing_step_views(2) [of environ request tr]
      routing_step_session [of environ request tr]
    by simp_all
  have "states_set (snd (handle_request environ request tr)) =
       states_set tr @ states_set (run_session_events environ request)
     \<and> creations (snd (handle_request environ request tr)) =
       creations tr + creations (run_session_events environ request)"
  proof (cases r1)
    case (Inl e)
    with r1 d v1 show ?thesis
      by (simp add: handle_request_apply run_session_events_def)
  next
    case (Inr dd)
    obtain r2 tr2 where r2: "delegating_step environ request dd tr1 = (r2, tr2)"
      by (cases "delegating_step environ request dd tr1")
    with Inr r1 d v1 delegating_step_session [of environ request dd tr1] show ?thesis
      by (cases r2)
         (simp_all add: handle_request_apply run_session_events_def final_response_session
            final_response_stages(4))
  qed
  then show "states_set (snd (handle_request environ request tr)) =
       states_set tr @ states_set (run_session_events environ request)"
    and "creations (snd (handle_request environ request tr)) =
       creations tr + creations (run_session_events environ request)"
    by simp_all
qed

lemma session_events_posts:
  "length (posts (session_events environ request)) \<le> 1"
  "length (states_set (session_events environ request)) \<le> 1"
  "length (ums_calls (session_events environ request)) \<le> 1"
  "gpa_calls (session_events environ request) = []"
  by (cases environ request rule: session_events_cases; simp add: ums_calls_def gpa_calls_def)+

lemma ums_response_ums_calls:
  "length (ums_calls (snd (ums_response environ stage request instr tr))) \<le> length (ums_calls tr) + 2"
proof -
  obtain r tr1 where res: "resolve_conversation environ request tr = (r, tr1)"
    by (cases "resolve_conversation environ request tr")
  then have tr1: "tr1 = tr @ session_events environ request"
    using resolve_conversation_effect [of environ request tr] by simp
  have "length (ums_calls (snd (ums_response environ stage request instr tr))) \<le> Suc (length (ums_calls tr1))"
    using res call_ums_agent_views(1) [of environ _ "sent_content request instr" stage tr1]
    by (cases r) (auto simp: ums_response_apply ums_calls_def)
  with tr1 session_events_posts(3) [of environ request] show ?thesis
    by simp
qed

lemma run_session_events_cases:
  obtains (none) "run_session_events environ request = []"
  | (failing) "run_session_events environ request = [ConversationPosted]"
      "get_ums_conversation_id request = Inr JNull"
  | (created) cid where
      "run_session_events environ request = [ConversationPosted, StateSet (session_state cid)]"
      "get_ums_conversation_id request = Inr JNull"
      "fst (create_ums_conversation environ []) = Inr cid"
proof (cases "\<exists>d. decision environ request = Inr d \<and> agent_name d = UMS")
  case False
  then have "run_session_events environ request = []"
    by (auto simp: run_session_events_def split: sum.splits)
  then show thesis by (rule none)
next
  case True
  then have "run_session_events environ request = session_events environ request"
    by (auto simp: run_session_events_def)
  then show thesis
    by (cases environ request rule: session_events_cases) (auto intro: none failing created)
qed

section \<open>What the transport stores\<close>

lemma run_reply:
  assumes "handle_request environ request tr = (Inr reply, tr')"
  shows "msg_role reply = Assistant" and "msg_custom reply = None"
proof -
  from assms obtain d tr1 m tr2 where "final_response environ request m tr2 = (Inr reply, tr')"
    by (rule handle_request_returns)
  then show "msg_role reply = Assistant" and "msg_custom reply = None"
    using final_response_returns by (fastforce simp: assistant_message_def)+
qed

lemma run_fails_when_creation_fails:
  assumes "run_session_events environ request = [ConversationPosted]"
  shows "failed (handle_request environ request tr)"
proof -
  from assms obtain d where d: "decision environ request = Inr d" "agent_name d = UMS"
    and ev: "session_events environ request = [ConversationPosted]"
    by (auto simp: run_session_events_def split: sum.splits if_splits)
  obtain tr1 where r1: "routing_step environ request tr = (Inr d, tr1)"
    using d(1) routing_step_result [of environ request tr]
    by (cases "routing_step environ request tr") simp
  let ?tr1 = "tr1 @ [StageOpened (stage_count tr1) (agent_stage_name d)]"
  from ev obtain e where "get_ums_conversation_id request = Inr JNull"
    and "fst (create_ums_conversation environ ?tr1) = Inl e"
    using create_ums_conversation_result [of environ ?tr1 "[]"]
    by (cases environ request rule: session_events_cases) auto
  then have "fst (delegating_step environ request d tr1) = Inl e"
    using d(2) by (simp add: delegating_step_result ums_response_create_fails)
  with r1 show ?thesis
    by (cases "delegating_step environ request d tr1") (simp add: handle_request_apply failed_def)
qed

lemma persisted_reply_simps [simp]:
  "states_set tr = [] \<Longrightarrow> persisted_reply reply tr = reply"
  "states_set tr = [st] \<Longrightarrow> persisted_reply reply tr = with_state reply st"
  by (simp_all add: persisted_reply_def)

lemma user_message_carries_nothing [simp]:
  "msg_role u = User \<Longrightarrow> scans u" "msg_role u = User \<Longrightarrow> carried_id u = None"
  by (simp_all add: scans_iff)

lemma reply_carries [simp]:
  "msg_custom reply = None \<Longrightarrow> scans reply"
  "msg_custom reply = None \<Longrightarrow> carried_id reply = None"
  "msg_role reply = Assistant \<Longrightarrow> scans (with_state reply (session_state cid))"
  "msg_role reply = Assistant \<Longrightarrow> carried_id (with_state reply (session_state cid)) = Some cid"
  by (simp_all add: scans_iff)

lemma store_failed [simp]: "failed outcome \<Longrightarrow> store h u outcome = h @ [u]"
  by (simp add: store_def failed_def split: sum.splits)

lemma store_returned:
  "fst outcome = Inr reply \<Longrightarrow> store h u outcome = h @ [u, persisted_reply reply (snd outcome)]"
  by (simp add: store_def)

lemma store_next_request:
  "store h u (Inr reply, tr) @ [u'] = next_request (h @ [u]) reply tr u'"
  by (simp add: store_def next_request_def)

text \<open>
  The three things a turn can do to the identifiers of the history: leave them as they
  are, create a session in a run that fails (nothing is stored), or create a session
  and store its identifier.
\<close>

lemma turn_cases:
  assumes "msg_role u = User" and "outcome = handle_request environ (h @ [u]) []"
  obtains
    (kept) "stored_ids (store h u outcome) = stored_ids h"
      "list_all scans (store h u outcome) \<longleftrightarrow> list_all scans h"
      "creations (snd outcome) = 0"
  | (lost) "stored_ids (store h u outcome) = stored_ids h"
      "list_all scans (store h u outcome) \<longleftrightarrow> list_all scans h"
      "creations (snd outcome) = 1" "failed outcome"
      "get_ums_conversation_id (h @ [u]) = Inr JNull"
  | (stored) cid where "stored_ids (store h u outcome) = stored_ids h @ [cid]"
      "list_all scans (store h u outcome) \<longleftrightarrow> list_all scans h"
      "creations (snd outcome) = 1" "\<not> failed outcome"
      "get_ums_conversation_id (h @ [u]) = Inr JNull"
      "fst (create_ums_conversation environ []) = Inr cid"
proof -
  let ?ev = "run_session_events environ (h @ [u])"
  have views: "states_set (snd outcome) = states_set ?ev" "creations (snd outcome) = creations ?ev"
    using run_session [of environ "h @ [u]" "[]"] assms(2) by simp_all
  have reply: "msg_role reply = Assistant \<and> msg_custom reply = None" if "fst outcome = Inr reply" for reply
  proof -
    from that assms(2) have "handle_request environ (h @ [u]) [] = (Inr reply, snd outcome)"
      by (metis prod.collapse)
    then show ?thesis
      using run_reply by blast
  qed
  show thesis
  proof (cases environ "h @ [u]" rule: run_session_events_cases)
    case none
    with views reply assms(1) show thesis
      by (intro kept; cases "fst outcome") (auto simp: store_def)
  next
    case failing
    then have "failed outcome"
      using run_fails_when_creation_fails [of environ "h @ [u]" "[]"] assms(2) by simp
    with failing views assms(1) show thesis
      by (intro lost) simp_all
  next
    case (created cid)
    show thesis
    proof (cases "fst outcome")
      case (Inl e)
      then have "failed outcome" by (simp add: failed_def)
      with created views assms(1) show thesis
        by (intro lost) simp_all
    next
      case (Inr r)
      then have "\<not> failed outcome" by (simp add: failed_def)
      with Inr created views reply [OF Inr] assms(1) show thesis
        by (intro stored [of cid]) (simp_all add: store_def)
    qed
  qed
qed

section \<open>Invariants of a conversation\<close>

lemma single_session_lookup:
  assumes "single_session h" and "msg_role u = User"
  shows "get_ums_conversation_id (h @ [u]) = Inr (first_stored_id h)"
    and "get_ums_conversation_id (h @ [u]) = Inr JNull \<longleftrightarrow> stored_ids h = []"
proof -
  have "list_all scans (h @ [u])"
    using assms by (simp add: single_session_def)
  then have "get_ums_conversation_id (h @ [u]) = Inr (first_stored_id (h @ [u]))"
    by (rule get_ums_conversation_id_reference)
  moreover have "first_stored_id (h @ [u]) = first_stored_id h"
    using assms(2) by (simp add: first_stored_id_def)
  ultimately show "get_ums_conversation_id (h @ [u]) = Inr (first_stored_id h)"
    by simp
  with assms(1) show "get_ums_conversation_id (h @ [u]) = Inr JNull \<longleftrightarrow> stored_ids h = []"
    by (cases "stored_ids h") (auto simp: single_session_def)
qed

lemma issues_idsD:
  "issues_ids environ \<Longrightarrow> fst (create_ums_conversation environ []) = Inr cid \<Longrightarrow> cid \<noteq> JNull"
  by (auto simp: issues_ids_def)

lemma turn_keeps_single_session:
  assumes "single_session h" and "issues_ids environ" and "msg_role u = User"
    and "outcome = handle_request environ (h @ [u]) []"
  shows "single_session (store h u outcome)"
    and "creations (snd outcome) + length (stored_ids h)
           \<le> (if failed outcome then 1 else 0) + length (stored_ids (store h u outcome))"
proof -
  have "single_session (store h u outcome)
      \<and> creations (snd outcome) + length (stored_ids h)
           \<le> (if failed outcome then 1 else 0) + length (stored_ids (store h u outcome))"
    using assms(3,4)
  proof (cases rule: turn_cases)
    case kept
    with assms(1) show ?thesis by (simp add: single_session_def)
  next
    case lost
    with assms(1) show ?thesis by (simp add: single_session_def)
  next
    case (stored cid)
    with assms(1,3) have "stored_ids h = []"
      by (simp add: single_session_lookup(2))
    with stored assms(1) issues_idsD [OF assms(2) stored(6)] show ?thesis
      by (simp add: single_session_def)
  qed
  then show "single_session (store h u outcome)"
    and "creations (snd outcome) + length (stored_ids h)
           \<le> (if failed outcome then 1 else 0) + length (stored_ids (store h u outcome))"
    by simp_all
qed

lemma sessions_created_simps [simp]:
  "sessions_created [] = 0"
  "sessions_created (runs @ [outcome]) = sessions_created runs + creations (snd outcome)"
  by (simp_all add: sessions_created_def)

lemma talks_invariant:
  assumes "talks issues_ids h runs"
  shows "single_session h
       \<and> sessions_created runs \<le> length (filter failed runs) + length (stored_ids h)"
  using assms
proof (induction rule: talks.induct)
  case start
  show ?case by (simp add: single_session_def)
next
  case (turn h runs environ u outcome)
  with turn_keeps_single_session [of h environ u outcome] show ?case
    by (auto split: if_splits)
qed

lemma converse_talks:
  assumes "talks ok h runs" and "list_all (\<lambda>(environ, u). ok environ \<and> msg_role u = User) script"
  shows "talks ok (fst (converse h runs script)) (snd (converse h runs script))"
  using assms
proof (induction h runs script rule: converse.induct)
  case (1 h runs)
  then show ?case by simp
next
  case (2 h runs environ u script)
  from 2(2,3) have "talks ok (store h u (handle_request environ (h @ [u]) []))
      (runs @ [handle_request environ (h @ [u]) []])"
    by (intro talks.turn) simp_all
  with 2 show ?case by simp
qed

lemma session_lost_after_failure:
  assumes "msg_role u = User" and "msg_role u' = User" and "list_all carries_no_session h"
    and "outcome = handle_request environ (h @ [u]) []" and "failed outcome"
    and "decision environ' (store h u outcome @ [u']) = Inr d" and "agent_name d = UMS"
  shows "creations (snd (handle_request environ' (store h u outcome @ [u']) tr)) = Suc (creations tr)"
proof -
  let ?next = "store h u outcome @ [u']"
  have "list_all carries_no_session ?next"
    using assms(1,2,3,5) by simp
  then have "get_ums_conversation_id ?next = Inr JNull"
    by (rule get_ums_conversation_id_none)
  then have "creations (session_events environ' ?next) = 1"
    by (cases environ' ?next rule: session_events_cases) simp_all
  with assms(6,7) show ?thesis
    by (simp add: run_session(2) run_session_events_def)
qed

text \<open>
  An identifier \<open>null\<close> that is stored first is never replaced: the scan stops at it,
  the gateway takes it for no session, and every later turn through the stateful agent
  creates a session again, whatever identifiers were stored in between.
\<close>

lemma null_identifier_is_never_replaced:
  assumes "list_all scans h" and "stored_ids h = JNull # ids" and "msg_role u = User"
    and "decision environ (h @ [u]) = Inr d" and "agent_name d = UMS"
  shows "creations (snd (handle_request environ (h @ [u]) tr)) = Suc (creations tr)"
    and "ids \<noteq> [] \<Longrightarrow> most_recent_conversation_id (h @ [u]) = Inr (last ids)"
proof -
  have scan: "list_all scans (h @ [u])" and ids: "stored_ids (h @ [u]) = JNull # ids"
    using assms(1,2,3) by simp_all
  then have "get_ums_conversation_id (h @ [u]) = Inr JNull"
    by (simp add: get_ums_conversation_id_reference)
  then have "creations (session_events environ (h @ [u])) = 1"
    by (cases environ "h @ [u]" rule: session_events_cases) simp_all
  with assms(4,5) show "creations (snd (handle_request environ (h @ [u]) tr)) = Suc (creations tr)"
    by (simp add: run_session(2) run_session_events_def)
  show "most_recent_conversation_id (h @ [u]) = Inr (last ids)" if "ids \<noteq> []"
    using that ids by (simp add: most_recent_reference [OF scan])
qed

section \<open>The two sample conversations\<close>

lemma sample_issues_ids [simp]: "issues_ids sample_env"
  by (simp add: issues_ids_def)

lemma sample_resolve:
  assumes "list_all scans request"
  shows "\<exists>cid. resolve_conversation sample_env request tr =
           (Inr cid, tr @ session_events sample_env request)"
proof (cases "first_stored_id request = JNull")
  case True
  with assms have "get_ums_conversation_id request = Inr JNull"
    by (simp add: get_ums_conversation_id_reference)
  then show ?thesis
    by (simp add: resolve_conversation_created [where cid = "JStr ''abc''"] session_events_def)
next
  case False
  with assms show ?thesis
    by (simp add: get_ums_conversation_id_reference resolve_conversation_found session_events_def)
qed

lemma sample_turn:
  assumes "list_all scans request" and "request \<noteq> []"
  shows "fst (handle_request sample_env request tr) = Inr (assistant_message ''User created.'')"
proof -
  let ?d = "\<lparr>agent_name = UMS, additional_instructions = None\<rparr>"
  obtain tr1 where r1: "routing_step sample_env request tr = (Inr ?d, tr1)"
    by (simp add: routing_step_returns)
  let ?tr1 = "tr1 @ [StageOpened (stage_count tr1) (agent_stage_name ?d)]"
  obtain cid where "resolve_conversation sample_env request ?tr1 =
      (Inr cid, ?tr1 @ session_events sample_env request)"
    using sample_resolve [OF assms(1)] by blast
  with assms(2) have "fst (ums_response sample_env (stage_count tr1) request None ?tr1) =
      Inr (assistant_message ''Hello'')"
    by (simp add: ums_response_apply)
  then obtain tr2 where r2: "delegating_step sample_env request ?d tr1 = (Inr (assistant_message ''Hello''), tr2)"
    using delegating_step_result [of sample_env request ?d tr1]
    by (cases "delegating_step sample_env request ?d tr1") simp
  have "fst (final_response sample_env request (assistant_message ''Hello'') tr2) =
      Inr (assistant_message ''User created.'')"
    using assms(2) by (simp add: final_response_apply [OF synthesis_messages_nonempty])
  with r1 r2 show ?thesis
    by (simp add: handle_request_apply)
qed

lemma sample_conversation:
  "fst (converse [] [] sample_script) =
     [hd sample_request,
      with_state (assistant_message ''User created.'') (session_state (JStr ''abc'')),
      list_users, assistant_message ''User created.'']"
  by (simp add: sample_script_def store_def sample_turn sample_request_def list_users_def run_session
     run_session_events_def session_events_def assistant_message_def)


lemma failing_env_simps [simp]:
  "decision (sample_env\<lparr>post_chat := f\<rparr>) request = decision sample_env request"
  "create_ums_conversation (sample_env\<lparr>post_chat := f\<rparr>) = create_ums_conversation sample_env"
  "issues_ids (sample_env\<lparr>post_chat := f\<rparr>)"
  by (simp_all add: decision_def parse_decision_def loads_content_def first_choice_def
      create_ums_conversation_apply issues_ids_def fun_eq_iff)

lemma failing_first_run:
  "handle_request (sample_env\<lparr>post_chat := \<lambda>conversation_id user_message. Inl ConnectError\<rparr>)
     sample_request [] =
   (Inl ConnectError,
    [StageOpened 0 coordination_stage_name,
     ModelRequested Structured (coordination_messages sample_request),
     StageAppended 0 (routing_note \<lparr>agent_name = UMS, additional_instructions = None\<rparr>),
     StageClosed 0,
     StageOpened 1 (agent_stage_name \<lparr>agent_name = UMS, additional_instructions = None\<rparr>),
     ConversationPosted, StateSet (session_state (JStr ''abc'')),
     ChatPosted (JStr ''abc'') ''create user Alice''])"
  by (simp add: handle_request_apply routing_step_returns delegating_step_raises
      ums_response_apply resolve_conversation_created [where cid = "JStr ''abc''"]
      call_ums_agent_apply)

lemma failing_conversation:
  "fst (converse [] [] failing_script) =
     [hd sample_request, list_users,
      with_state (assistant_message ''User created.'') (session_state (JStr ''abc''))]"
  "sessions_created (snd (converse [] [] failing_script)) = 2"
  "length (filter failed (snd (converse [] [] failing_script))) = 1"
  using failing_first_run
  by (simp_all add: failing_script_def store_def failed_def sample_turn sample_request_def
      list_users_def run_session run_session_events_def session_events_def assistant_message_def
      sessions_created_def)

section \<open>Properties of a conversation\<close>

text \<open>
  C15. The loop of the lookup equals its reference, and agrees with the design exactly
  when the first and the last stored identifier are the same. On a history whose
  messages can be scanned, \<open>__get_ums_conversation_id\<close> returns the first identifier in
  the list of the identifiers the history stores (\<open>None\<close> when there is none); the
  lookup of the design, which takes the most recent one, returns the same value if and
  only if the history stores no identifier or its first and last one are equal.
\<close>

theorem lookup_equals_reference:
  assumes "list_all scans request"
  shows "get_ums_conversation_id request = Inr (first_stored_id request)
       \<and> (most_recent_conversation_id request = get_ums_conversation_id request \<longleftrightarrow>
            stored_ids request = [] \<or> hd (stored_ids request) = last (stored_ids request))"
  using get_ums_conversation_id_reference [OF assms] lookups_agree_iff [OF assms] by blast

theorem lookup_equals_reference_witness:
  "get_ums_conversation_id returning_request = Inr (JStr ''abc'')
   \<and> most_recent_conversation_id returning_request = Inr (JStr ''xyz'')
   \<and> stored_ids returning_request = [JStr ''abc'', JStr ''xyz'']"
  using lookup_equals_reference [of returning_request]
  by (simp add: returning_request_def assistant_message_def most_recent_conversation_id_def)

text \<open>
  C13. A conversation keeps one session. Every history the system itself produces (the
  caller stores each reply with the state of its run, and every session the agent
  issues has an identifier that is not \<open>null\<close>) can be scanned without an exception
  and stores at most one identifier, which is not \<open>null\<close>: whatever the classifier
  decides from turn to turn and whichever runs fail.
\<close>

theorem conversation_keeps_one_session:
  assumes "talks issues_ids h runs"
  shows "single_session h"
  using talks_invariant [OF assms] by simp

theorem conversation_keeps_one_session_witness:
  "single_session
     [hd sample_request,
      with_state (assistant_message ''User created.'') (session_state (JStr ''abc'')),
      list_users, assistant_message ''User created.'']"
  using conversation_keeps_one_session [OF converse_talks [OF talks.start, of _ sample_script]]
  by (simp add: sample_conversation) (simp add: sample_script_def sample_request_def list_users_def)

text \<open>
  C22. On the histories of a conversation the lookup of the code and the lookup of the
  design agree. For every history the system has produced and every next user message,
  scanning from the oldest message (the code) and taking the most recent match (the
  design) return the same identifier: the question the design leaves open does not
  arise as long as the agent never issues \<open>null\<close>.
\<close>

theorem lookups_agree_on_conversations:
  assumes "talks issues_ids h runs" and "msg_role u = User"
  shows "most_recent_conversation_id (h @ [u]) = get_ums_conversation_id (h @ [u])"
proof -
  from assms(1) have one: "single_session h"
    using talks_invariant by blast
  then have scan: "list_all scans (h @ [u])" and "stored_ids (h @ [u]) = stored_ids h"
    and "length (stored_ids h) \<le> 1"
    using assms(2) by (simp_all add: single_session_def)
  then have "stored_ids (h @ [u]) = [] \<or> (\<exists>v. stored_ids (h @ [u]) = [v])"
    by (cases "stored_ids h") simp_all
  then show ?thesis
    unfolding lookups_agree_iff [OF scan] by auto
qed

theorem lookups_agree_on_conversations_witness:
  "most_recent_conversation_id (fst (converse [] [] sample_script) @ [list_users]) = Inr (JStr ''abc'')
   \<and> get_ums_conversation_id (fst (converse [] [] sample_script) @ [list_users]) = Inr (JStr ''abc'')"
  using lookups_agree_on_conversations [OF converse_talks [OF talks.start, of _ sample_script],
      of list_users]
  by (simp add: sample_conversation)
     (simp add: sample_script_def sample_request_def list_users_def assistant_message_def)

text \<open>
  C23. A conversation creates at most one session more than it has failed runs. Over
  all the runs of a conversation, the number of session creations sent to the agent is
  at most the number of failed runs plus one, and at most one when no run has failed.
\<close>

theorem sessions_created_bound:
  assumes "talks issues_ids h runs"
  shows "sessions_created runs \<le> Suc (length (filter failed runs))
       \<and> (filter failed runs = [] \<longrightarrow> sessions_created runs \<le> 1)"
  using talks_invariant [OF assms] by (auto simp: single_session_def)

theorem sessions_created_bound_witness:
  "sessions_created (snd (converse [] [] failing_script)) = 2
   \<and> length (filter failed (snd (converse [] [] failing_script))) = 1"
  using sessions_created_bound [OF converse_talks [OF talks.start, of _ failing_script]]
  by (simp add: failing_conversation)

text \<open>
  C25. A session created by a run that fails is lost. When a run fails, the caller has
  no reply to store, so the history after it carries no identifier if it carried none
  before; the next run through the stateful agent then creates another session, even
  if the failed run had already created one.
\<close>

theorem failed_turn_loses_session:
  assumes "msg_role u = User" and "msg_role u' = User" and "list_all carries_no_session h"
    and "outcome = handle_request environ (h @ [u]) []" and "failed outcome"
    and "decision environ' (store h u outcome @ [u']) = Inr d" and "agent_name d = UMS"
  shows "creations (snd (handle_request environ' (store h u outcome @ [u']) tr)) = Suc (creations tr)"
  using assms by (rule session_lost_after_failure)

theorem failed_turn_loses_session_witness:
  "creations (snd (handle_request
       (sample_env\<lparr>post_chat := \<lambda>conversation_id user_message. Inl ConnectError\<rparr>)
       sample_request [])) = 1
   \<and> creations (snd (handle_request sample_env (sample_request @ [list_users]) [])) = 1"
  using failed_turn_loses_session [of "hd sample_request" list_users "[]"
      "handle_request (sample_env\<lparr>post_chat := \<lambda>conversation_id user_message. Inl ConnectError\<rparr>)
         sample_request []"
      "sample_env\<lparr>post_chat := \<lambda>conversation_id user_message. Inl ConnectError\<rparr>"
      sample_env "\<lparr>agent_name = UMS, additional_instructions = None\<rparr>" "[]"]
    failing_first_run
  by (simp add: sample_request_def list_users_def failed_def)

end
