(* ===== verification/Cleanup.thy ===== *)
theory Cleanup
  imports Coordinator
begin

text \<open>
  The coordinator the design describes, beside the one the code is. The design asks
  that a log surface is a scoped resource, released on every path out of its phase;
  \<open>src/task/agent.py\<close> closes a stage only when the phase returns. \<open>with_stage\<close> is the
  scoped form (open, run the body, close whether the body returned or raised), and
  \<open>handle_request_scoped\<close> is \<open>handle_request\<close> with its two stages scoped. The lemmas
  say exactly how the two differ: they return the same result on every run, and the
  trace of the scoped run is the trace of the code with the stages it left open closed
  (\<open>repair\<close>); so the code implements the design on every run that reaches the
  synthesis, and on no run that fails before it.
\<close>

section \<open>Stages as scoped resources\<close>

definition with_stage :: "string \<Rightarrow> (nat \<Rightarrow> (trace, 'a) run) \<Rightarrow> (trace, 'a) run" where
  "with_stage name body =
     ebind (open_stage name) (\<lambda>stage. efinally (body stage) (close_stage_safely stage))"

definition routing_scoped :: "env \<Rightarrow> request \<Rightarrow> (trace, coordination_request) run" where
  "routing_scoped environ request =
     with_stage coordination_stage_name (\<lambda>coordination_stage.
       ebind (prepare_coordination_request environ request) (\<lambda>coordination_request.
         ethen (append_content coordination_stage (routing_note coordination_request))
           (returnE coordination_request)))"

definition delegating_scoped :: "env \<Rightarrow> request \<Rightarrow> coordination_request \<Rightarrow> (trace, message) run" where
  "delegating_scoped environ request coordination_request =
     with_stage (agent_stage_name coordination_request) (\<lambda>agent_stage.
       handle_coordination_request environ coordination_request agent_stage request)"

definition handle_request_scoped :: "env \<Rightarrow> request \<Rightarrow> (trace, message) run" where
  "handle_request_scoped environ request =
     ebind (routing_scoped environ request) (\<lambda>coordination_request.
       ebind (delegating_scoped environ request coordination_request) (\<lambda>agent_message.
         final_response environ request agent_message))"

section \<open>The stages a trace leaves open\<close>

definition open_stages :: "trace \<Rightarrow> nat list" where
  "open_stages tr = filter (\<lambda>i. stage_status tr i = Open) [0..<stage_count tr]"

definition repair :: "trace \<Rightarrow> trace" where
  "repair tr = tr @ map StageClosed (open_stages tr)"

section \<open>Open stages\<close>

lemma open_stages_all_closed [simp]: "all_closed tr \<Longrightarrow> open_stages tr = []"
  by (simp add: open_stages_def all_closed_def list_all_iff filter_empty_conv)

lemma repair_all_closed [simp]: "all_closed tr \<Longrightarrow> repair tr = tr"
  by (simp add: repair_def)

lemma repair_id_iff:
  assumes "wf_trace tr"
  shows "repair tr = tr \<longleftrightarrow> all_closed tr"
proof -
  have "stage_status tr i \<noteq> Open \<longleftrightarrow> stage_status tr i = Closed" if "i < stage_count tr" for i
    using stage_status_opened [OF assms that] by (cases "stage_status tr i") simp_all
  then show ?thesis
    by (auto simp: repair_def open_stages_def all_closed_def list_all_iff filter_empty_conv)
qed

lemma filter_upt_single:
  assumes "k < n" and "\<And>i. i < n \<Longrightarrow> P i \<longleftrightarrow> i = k"
  shows "filter P [0..<n] = [k]"
proof -
  have "[0..<n] = [0..<k] @ k # [Suc k..<n]"
    using assms(1) by (metis le_add_diff_inverse less_imp_le_nat upt_add_eq_append upt_conv_Cons zero_le)
  moreover have "filter P [0..<k] = []" and "filter P [Suc k..<n] = []"
    using assms by (auto simp: filter_empty_conv)
  ultimately show ?thesis
    using assms by simp
qed

text \<open>
  One more stage on a trace whose stages are closed: when the new stage is closed too,
  every stage is closed; when it is open, it is the one open stage.
\<close>

lemma one_more_stage:
  assumes "all_closed tr" and "stage_count tr' = Suc (stage_count tr)"
    and "\<And>i. i \<noteq> stage_count tr \<Longrightarrow> stage_status tr' i = stage_status tr i"
  shows "stage_status tr' (stage_count tr) = Closed \<Longrightarrow> all_closed tr'"
    and "stage_status tr' (stage_count tr) = Open \<Longrightarrow> open_stages tr' = [stage_count tr]"
proof -
  have closed: "stage_status tr' i = Closed" if "i < stage_count tr" for i
    using that assms(1,3) by (simp add: all_closed_def list_all_iff)
  show "all_closed tr'" if "stage_status tr' (stage_count tr) = Closed"
    using that closed assms(2) by (auto simp: all_closed_def list_all_iff less_Suc_eq)
  show "open_stages tr' = [stage_count tr]" if "stage_status tr' (stage_count tr) = Open"
    unfolding open_stages_def assms(2)
    using that closed by (intro filter_upt_single) (auto simp: less_Suc_eq)
qed

section \<open>The scoped steps and the steps of the code\<close>

lemma with_stage_apply:
  "with_stage name body tr =
     (fst (body (stage_count tr) (tr @ [StageOpened (stage_count tr) name])),
      snd (close_stage_safely (stage_count tr)
             (snd (body (stage_count tr) (tr @ [StageOpened (stage_count tr) name])))))"
  by (simp add: with_stage_def ebind_def open_stage_def efinally_def close_stage_safely_def
      split: prod.splits)

lemma routing_scoped_apply:
  "decision environ request = Inr d \<Longrightarrow>
     routing_scoped environ request tr = routing_step environ request tr"
  "decision environ request = Inl e \<Longrightarrow>
     routing_scoped environ request tr =
       (Inl e, snd (routing_step environ request tr) @ [StageClosed (stage_count tr)])"
  by (simp_all add: routing_scoped_def with_stage_apply routing_step_returns routing_step_raises
        prepare_coordination_request_apply ebind_def ethen_def returnE_def close_stage_safely_def
        stage_status_append)

lemma delegating_scoped_apply:
  "fst (delegating_step environ request d tr) = Inr m \<Longrightarrow>
     delegating_scoped environ request d tr = delegating_step environ request d tr"
  "fst (delegating_step environ request d tr) = Inl e \<Longrightarrow>
     delegating_scoped environ request d tr =
       (Inl e, snd (delegating_step environ request d tr) @ [StageClosed (stage_count tr)])"
proof -
  let ?tr1 = "tr @ [StageOpened (stage_count tr) (agent_stage_name d)]"
  obtain r tr2 where run: "handle_coordination_request environ d (stage_count tr) request ?tr1 = (r, tr2)"
    by (cases "handle_coordination_request environ d (stage_count tr) request ?tr1")
  have opened: "stage_status tr2 (stage_count tr) = Open"
    using gateway_adds_status [OF handle_coordination_request_adds [of "stage_count tr" ?tr1 environ d request]]
      run by simp
  show "delegating_scoped environ request d tr = delegating_step environ request d tr"
    if "fst (delegating_step environ request d tr) = Inr m"
    using that run opened
    by (cases r)
       (simp_all add: delegating_scoped_def with_stage_apply delegating_step_raises
          delegating_step_returns close_stage_safely_def)
  show "delegating_scoped environ request d tr =
       (Inl e, snd (delegating_step environ request d tr) @ [StageClosed (stage_count tr)])"
    if "fst (delegating_step environ request d tr) = Inl e"
    using that run opened
    by (cases r)
       (simp_all add: delegating_scoped_def with_stage_apply delegating_step_raises
          delegating_step_returns close_stage_safely_def)
qed

section \<open>The scoped run is the run of the code, repaired\<close>

lemma all_closed_cong:
  "stage_count tr' = stage_count tr \<Longrightarrow> (\<And>i. stage_status tr' i = stage_status tr i) \<Longrightarrow>
     all_closed tr' \<longleftrightarrow> all_closed tr"
  by (simp add: all_closed_def)

lemma final_response_all_closed [simp]:
  "all_closed (snd (final_response environ request m tr)) \<longleftrightarrow> all_closed tr"
  by (rule all_closed_cong) (simp_all add: final_response_stages)

lemma repair_step:
  assumes "all_closed tr" and "stage_count tr' = Suc (stage_count tr)"
    and "\<And>i. i \<noteq> stage_count tr \<Longrightarrow> stage_status tr' i = stage_status tr i"
    and "stage_status tr' (stage_count tr) = (case r of Inl e \<Rightarrow> Open | Inr x \<Rightarrow> Closed)"
  shows "repair tr' = (case r of Inl e \<Rightarrow> tr' @ [StageClosed (stage_count tr)] | Inr x \<Rightarrow> tr')"
    and "all_closed (repair tr')"
proof -
  note more = one_more_stage [OF assms(1,2,3)]
  show "repair tr' = (case r of Inl e \<Rightarrow> tr' @ [StageClosed (stage_count tr)] | Inr x \<Rightarrow> tr')"
    using assms(4) more by (cases r) (simp_all add: repair_def)
  moreover have "all_closed (tr' @ [StageClosed (stage_count tr)])"
    using assms(2,3) by (intro one_more_stage(1) [OF assms(1)]) simp_all
  ultimately show "all_closed (repair tr')"
    using assms(4) more(1) by (cases r) simp_all
qed

lemma routing_repairs:
  assumes "all_closed tr"
  shows "routing_scoped environ request tr =
           (fst (routing_step environ request tr), repair (snd (routing_step environ request tr)))"
    and "all_closed (repair (snd (routing_step environ request tr)))"
proof -
  obtain r tr1 where run: "routing_step environ request tr = (r, tr1)"
    by (cases "routing_step environ request tr")
  then have d: "decision environ request = r"
    using routing_step_result [of environ request tr] by simp
  note rep = repair_step [OF assms, of tr1 r]
  have eff: "stage_count tr1 = Suc (stage_count tr)"
      "\<And>i. i \<noteq> stage_count tr \<Longrightarrow> stage_status tr1 i = stage_status tr i"
    using routing_step_effect(1,2) [where environ = environ and request = request and tr = tr] run
    by simp_all
  from run d rep(1) [OF eff routing_step_status [OF run]]
  show "routing_scoped environ request tr =
           (fst (routing_step environ request tr), repair (snd (routing_step environ request tr)))"
    by (cases r) (simp_all add: routing_scoped_apply)
  from run rep(2) [OF eff routing_step_status [OF run]]
  show "all_closed (repair (snd (routing_step environ request tr)))"
    by simp
qed

lemma delegating_repairs:
  assumes "all_closed tr"
  shows "delegating_scoped environ request d tr =
           (fst (delegating_step environ request d tr),
            repair (snd (delegating_step environ request d tr)))"
    and "all_closed (repair (snd (delegating_step environ request d tr)))"
proof -
  obtain r tr1 where run: "delegating_step environ request d tr = (r, tr1)"
    by (cases "delegating_step environ request d tr")
  note rep = repair_step [OF assms, of tr1 r]
  have eff: "stage_count tr1 = Suc (stage_count tr)"
      "\<And>i. i \<noteq> stage_count tr \<Longrightarrow> stage_status tr1 i = stage_status tr i"
    using delegating_step_effect(1,2)
      [where environ = environ and request = request and d = d and tr = tr] run
    by simp_all
  from run rep(1) [OF eff delegating_step_status [OF run]]
  show "delegating_scoped environ request d tr =
           (fst (delegating_step environ request d tr),
            repair (snd (delegating_step environ request d tr)))"
    by (cases r) (simp_all add: delegating_scoped_apply)
  from run rep(2) [OF eff delegating_step_status [OF run]]
  show "all_closed (repair (snd (delegating_step environ request d tr)))"
    by simp
qed

lemma handle_request_scoped_apply:
  "handle_request_scoped environ request tr =
     (case routing_scoped environ request tr of
        (Inl e, tr1) \<Rightarrow> (Inl e, tr1)
      | (Inr d, tr1) \<Rightarrow>
          (case delegating_scoped environ request d tr1 of
             (Inl e, tr2) \<Rightarrow> (Inl e, tr2)
           | (Inr m, tr2) \<Rightarrow> final_response environ request m tr2))"
  by (simp add: handle_request_scoped_def ebind_def split: prod.splits sum.splits)

lemma step_returns_all_closed:
  "all_closed tr \<Longrightarrow> routing_step environ request tr = (Inr d, tr1) \<Longrightarrow> all_closed tr1"
  "all_closed tr \<Longrightarrow> delegating_step environ request d tr = (Inr m, tr2) \<Longrightarrow> all_closed tr2"
proof -
  show "all_closed tr1" if "all_closed tr" and run: "routing_step environ request tr = (Inr d, tr1)"
    using routing_step_status [OF run] run
      routing_step_effect(1,2) [where environ = environ and request = request and tr = tr]
    by (intro one_more_stage(1) [OF that(1)]) simp_all
  show "all_closed tr2" if "all_closed tr" and run: "delegating_step environ request d tr = (Inr m, tr2)"
    using delegating_step_status [OF run] run
      delegating_step_effect(1,2) [where environ = environ and request = request and d = d and tr = tr]
    by (intro one_more_stage(1) [OF that(1)]) simp_all
qed

lemma handle_request_repairs:
  assumes "all_closed tr"
  shows "handle_request_scoped environ request tr =
           (fst (handle_request environ request tr), repair (snd (handle_request environ request tr)))"
    and "all_closed (repair (snd (handle_request environ request tr)))"
proof -
  obtain r1 tr1 where r1: "routing_step environ request tr = (r1, tr1)"
    by (cases "routing_step environ request tr")
  note s1 = routing_repairs [OF assms, of environ request]
  have "handle_request_scoped environ request tr =
           (fst (handle_request environ request tr), repair (snd (handle_request environ request tr)))
      \<and> all_closed (repair (snd (handle_request environ request tr)))"
  proof (cases r1)
    case (Inl e)
    with r1 s1 show ?thesis
      by (simp add: handle_request_scoped_apply handle_request_apply)
  next
    case (Inr d)
    with r1 have closed: "all_closed tr1"
      using step_returns_all_closed(1) [OF assms] by simp
    obtain r2 tr2 where r2: "delegating_step environ request d tr1 = (r2, tr2)"
      by (cases "delegating_step environ request d tr1")
    from Inr r1 r2 s1(1) closed delegating_repairs [OF closed, of environ request d]
      step_returns_all_closed(2) [OF closed, of environ request d]
    show ?thesis
      by (cases r2) (simp_all add: handle_request_scoped_apply handle_request_apply)
  qed
  then show "handle_request_scoped environ request tr =
           (fst (handle_request environ request tr), repair (snd (handle_request environ request tr)))"
    and "all_closed (repair (snd (handle_request environ request tr)))"
    by simp_all
qed

lemma stage_status_closed_others:
  "i \<notin> set js \<Longrightarrow> stage_status (tr @ map StageClosed js) i = stage_status tr i"
  by (induction js rule: rev_induct) (simp_all flip: append_assoc)

lemma wf_close_open:
  "wf_trace tr \<Longrightarrow> distinct js \<Longrightarrow> \<forall>i \<in> set js. stage_status tr i = Open \<Longrightarrow>
     wf_trace (tr @ map StageClosed js)"
  by (induction js rule: rev_induct)
     (simp_all add: wf_trace_snoc_iff stage_status_closed_others flip: append_assoc)

lemma repair_wf: "wf_trace tr \<Longrightarrow> wf_trace (repair tr)"
  by (simp add: repair_def open_stages_def wf_close_open)

lemma run_stage_count:
  "stage_count (snd (handle_request environ request tr)) =
     stage_count tr + (case decision environ request of Inl e \<Rightarrow> 1 | Inr d \<Rightarrow> 2)"
proof -
  obtain r1 tr1 where r1: "routing_step environ request tr = (r1, tr1)"
    by (cases "routing_step environ request tr")
  then have "decision environ request = r1" and "stage_count tr1 = Suc (stage_count tr)"
    using routing_step_result [of environ request tr] routing_step_effect(1) [of environ request tr]
    by simp_all
  note routed = this
  show ?thesis
  proof (cases r1)
    case (Inl e)
    with r1 routed show ?thesis by (simp add: handle_request_apply)
  next
    case (Inr d)
    obtain r2 tr2 where r2: "delegating_step environ request d tr1 = (r2, tr2)"
      by (cases "delegating_step environ request d tr1")
    then have "stage_count tr2 = Suc (stage_count tr1)"
      using delegating_step_effect(1) [of environ request d tr1] by simp
    with Inr r1 r2 routed show ?thesis
      by (cases r2) (simp_all add: handle_request_apply final_response_stages(2))
  qed
qed

lemma repair_stage_count [simp]: "stage_count (repair tr) = stage_count tr"
  by (simp add: repair_def stage_count_def filter_empty_conv)

section \<open>Properties of the scoped coordinator\<close>

text \<open>
  C14. The run of the design is the run of the code with the open stages closed.
  Started on a trace whose stages are closed, the coordinator with scoped stages
  returns what \<open>handle_request\<close> returns and raises what it raises, and its trace is the
  trace \<open>handle_request\<close> leaves followed by the closing of each stage that trace has
  left open.
\<close>

theorem design_is_code_repaired:
  assumes "all_closed tr"
  shows "handle_request_scoped environ request tr =
           (fst (handle_request environ request tr), repair (snd (handle_request environ request tr)))"
  using assms by (rule handle_request_repairs)

theorem design_is_code_repaired_witness:
  "handle_request_scoped (sample_env\<lparr>completions_create := \<lambda>messages. Inl ConnectError\<rparr>)
     sample_request [] =
   (Inl ConnectError,
    [StageOpened 0 coordination_stage_name,
     ModelRequested Structured (coordination_messages sample_request),
     StageClosed 0])"
  using design_is_code_repaired [of "[]"
      "sample_env\<lparr>completions_create := \<lambda>messages. Inl ConnectError\<rparr>" sample_request]
  by (simp add: all_closed_def handle_request_apply routing_step_raises decision_def
      repair_def open_stages_def stage_status_Cons)



text \<open>
  The code implements the design exactly on the runs that leave no stage open.
  Started on a trace that follows the protocol and has every stage closed,
  \<open>handle_request\<close> and the coordinator with scoped stages have the same outcome and the
  same trace if and only if the trace \<open>handle_request\<close> leaves has every stage closed;
  this is so for every run that returns.
\<close>

theorem code_implements_design_iff:
  assumes "check_trace tr" and "all_closed tr"
  shows "(handle_request environ request tr = handle_request_scoped environ request tr \<longleftrightarrow>
            all_closed (snd (handle_request environ request tr)))
       \<and> (\<forall>reply tr'. handle_request environ request tr = (Inr reply, tr') \<longrightarrow>
            handle_request_scoped environ request tr = (Inr reply, tr'))"
proof -
  have inv: "coordinator_inv tr (result_config (handle_request environ request tr))"
    using assms(1) by (rule handle_request_inv)
  then have wf: "wf_trace (snd (handle_request environ request tr))"
    by (cases "handle_request environ request tr"; cases "fst (handle_request environ request tr)")
       (simp_all add: coordinator_inv_def wf_trace_iff_check)
  have "all_closed tr'" if "handle_request environ request tr = (Inr reply, tr')" for reply tr'
    using that inv assms(2) closed_from_join [of tr tr']
    by (simp add: coordinator_inv_def all_closed_iff)
  with handle_request_repairs(1) [OF assms(2), of environ request] repair_id_iff [OF wf]
  show ?thesis
    by (auto simp: prod_eq_iff)
qed

theorem code_implements_design_iff_witness:
  "handle_request_scoped sample_env sample_request [] = handle_request sample_env sample_request []
   \<and> handle_request_scoped (sample_env\<lparr>completions_create := \<lambda>messages. Inl ConnectError\<rparr>)
        sample_request [] \<noteq>
      handle_request (sample_env\<lparr>completions_create := \<lambda>messages. Inl ConnectError\<rparr>)
        sample_request []"
  using code_implements_design_iff [of "[]" sample_env sample_request]
    code_implements_design_iff [of "[]"
      "sample_env\<lparr>completions_create := \<lambda>messages. Inl ConnectError\<rparr>" sample_request]
  by (simp add: check_trace_def all_closed_def sample_run)
     (simp add: handle_request_apply routing_step_raises decision_def stage_status_Cons)

end
