(* ===== verification/Payload.thy ===== *)
theory Payload
  imports Coordinator
begin

text \<open>
  The type of what is sent to the model. The chat interface takes a list of entries,
  each a dictionary with a role out of \<open>system\<close>, \<open>user\<close>, \<open>assistant\<close> and, when it
  has a content, a text as content. \<open>entry_ok\<close> and \<open>payload_ok\<close> say so as executable
  predicates on JSON values. The lemmas show that every entry the adapter
  \<open>__prepare_messages\<close> builds has this type, that the rewriting of the last entry in
  \<open>__final_response\<close> keeps it, and hence that every request a run sends to the model,
  on every path, is a list of well-typed entries that starts with a system entry.
\<close>

section \<open>Well-typed entries\<close>

definition roles :: "string list" where
  "roles = map role_str [System, User, Assistant]"

fun entry_ok :: "json \<Rightarrow> bool" where
  "entry_ok (JObj kvs) \<longleftrightarrow>
     distinct (map fst kvs)
     \<and> (case map_of kvs ''role'' of Some (JStr r) \<Rightarrow> r \<in> set roles | _ \<Rightarrow> False)
     \<and> (case map_of kvs ''content'' of None \<Rightarrow> True | Some (JStr c) \<Rightarrow> True | Some other \<Rightarrow> False)"
| "entry_ok _ \<longleftrightarrow> False"

definition payload_ok :: "json list \<Rightarrow> bool" where
  "payload_ok messages \<longleftrightarrow>
     messages \<noteq> [] \<and> list_all entry_ok messages
     \<and> py_getitem (hd messages) ''role'' = Inr (JStr ''system'')"

fun call_ok :: "event \<Rightarrow> bool" where
  "call_ok (ModelRequested mode messages) \<longleftrightarrow> payload_ok messages"
| "call_ok _ \<longleftrightarrow> True"

section \<open>The adapter builds well-typed entries\<close>

lemma role_str_roles [simp]: "role_str r \<in> set roles"
  by (cases r) (simp_all add: roles_def)

lemma entry_ok_role_content [simp]: "entry_ok (role_content r c) \<longleftrightarrow> r \<in> set roles"
  by (simp add: role_content_def)

lemma entry_ok_message_dict [simp]: "entry_ok (message_dict m)"
  by (cases "msg_content m"; cases "msg_custom m") (simp_all add: message_dict_def)

lemma entry_ok_prepare_entry [simp]: "entry_ok (prepare_entry m)"
  using role_str_roles [of User] by (simp add: prepare_entry_def del: role_str_roles)

lemma payload_ok_prepare_messages [simp]: "payload_ok (prepare_messages request p)"
  using role_str_roles [of System]
  by (simp add: payload_ok_def prepare_messages_def list_all_iff del: role_str_roles)

lemma entry_ok_store_content:
  "entry_ok e \<Longrightarrow> py_store e ''content'' (JStr c) = Inr e' \<Longrightarrow>
     entry_ok e' \<and> py_getitem e' ''role'' = py_getitem e ''role''"
  by (cases e) (auto simp: py_setitem_def distinct_update update_conv' simp del: map_of_eq_Some_iff)

lemma payload_ok_augment_last:
  assumes "payload_ok messages" and "augment_last messages c = Inr messages'"
  shows "payload_ok messages'"
proof -
  from assms obtain v e' where e': "py_store (last messages) ''content'' (JStr v) = Inr e'"
    and messages': "messages' = butlast messages @ [e']"
    by (auto simp: augment_last_def payload_ok_def rbind_def split: sum.splits)
  from assms(1) have "entry_ok (last messages)"
    by (simp add: payload_ok_def list_all_iff)
  with e' have ok: "entry_ok e'" and role: "py_getitem e' ''role'' = py_getitem (last messages) ''role''"
    using entry_ok_store_content by blast+
  show ?thesis
  proof (cases "butlast messages")
    case Nil
    with assms(1) have "last messages = hd messages"
      by (cases messages) (simp_all add: payload_ok_def split: if_splits)
    with Nil ok role assms(1) messages' show ?thesis
      by (simp add: payload_ok_def)
  next
    case (Cons m ms)
    with assms(1) have "hd (butlast messages) = hd messages" and "list_all entry_ok (butlast messages)"
      by (cases messages; auto simp: payload_ok_def list_all_iff dest: in_set_butlastD split: if_splits)+
    with Cons ok assms(1) messages' show ?thesis
      by (simp add: payload_ok_def)
  qed
qed

lemma payload_ok_synthesis_messages:
  "synthesis_messages request agent_message = Inr messages \<Longrightarrow> payload_ok messages"
  unfolding synthesis_messages_def
  by (rule payload_ok_augment_last [OF payload_ok_prepare_messages])

lemma payload_ok_coordination_messages [simp]: "payload_ok (coordination_messages request)"
  by (simp add: coordination_messages_def)

section \<open>Every model call of a run is well typed\<close>

lemma calls_ok_iff: "list_all call_ok tr \<longleftrightarrow> list_all call_ok (model_calls tr)"
  by (induction tr) (auto elim: call_ok.elims is_model_call.elims)

lemma model_calls_of_run:
  obtains (no_synthesis) "model_calls (snd (handle_request environ request tr)) =
      model_calls tr @ [ModelRequested Structured (coordination_messages request)]"
    "\<exists>e. fst (handle_request environ request tr) = Inl e"
  | (synthesis) m messages where "synthesis_messages request m = Inr messages"
      "model_calls (snd (handle_request environ request tr)) =
         model_calls tr @ [ModelRequested Structured (coordination_messages request),
                           ModelRequested Streaming messages]"
proof -
  obtain r1 tr1 where r1: "routing_step environ request tr = (r1, tr1)"
    by (cases "routing_step environ request tr")
  then have v1: "model_calls tr1 =
      model_calls tr @ [ModelRequested Structured (coordination_messages request)]"
    using routing_step_views(3) [of environ request tr] by simp
  show thesis
  proof (cases r1)
    case (Inl e)
    with r1 v1 show thesis
      by (intro no_synthesis) (simp_all add: handle_request_apply)
  next
    case (Inr d)
    obtain r2 tr2 where r2: "delegating_step environ request d tr1 = (r2, tr2)"
      by (cases "delegating_step environ request d tr1")
    then have v2: "model_calls tr2 = model_calls tr1"
      using delegating_step_views(3) [of environ request d tr1] by simp
    show thesis
    proof (cases r2)
      case (Inl e)
      with Inr r1 r2 v1 v2 show thesis
        by (intro no_synthesis) (simp_all add: handle_request_apply)
    next
      case (Inr m)
      obtain messages where "synthesis_messages request m = Inr messages"
        and "model_calls (snd (final_response environ request m tr2)) =
          model_calls tr2 @ [ModelRequested Streaming messages]"
        using final_response_views [of request m environ tr2] by blast
      with Inr \<open>r1 = Inr d\<close> r1 r2 v1 v2 show thesis
        by (intro synthesis [of m messages]) (simp_all add: handle_request_apply)
    qed
  qed
qed

lemma run_calls_ok:
  "list_all call_ok tr \<Longrightarrow> list_all call_ok (snd (handle_request environ request tr))"
  unfolding calls_ok_iff [of tr] calls_ok_iff [of "snd (handle_request environ request tr)"]
  by (cases environ request tr rule: model_calls_of_run)
     (simp_all add: payload_ok_synthesis_messages)

section \<open>Properties of the payload\<close>

text \<open>
  C17. Every request to the model is a well-typed chat payload. The entry the adapter
  builds for a message is a dictionary with distinct keys, one of the three roles and,
  if it has a content, a text as content; the list it builds starts with a system
  entry; and on every path of a run, returning or raising, every request the run has
  sent to the model is such a list, the request of the synthesis with its rewritten
  last entry included.
\<close>

theorem model_payloads_well_typed:
  assumes "list_all call_ok tr"
  shows "list_all call_ok (snd (handle_request environ request tr))
       \<and> payload_ok (prepare_messages request system_prompt)
       \<and> list_all entry_ok (map prepare_entry request)"
  using run_calls_ok [OF assms] by (simp add: list_all_iff)

theorem model_payloads_well_typed_witness:
  "list_all call_ok (snd (handle_request sample_env sample_request []))
   \<and> payload_ok
       [role_content ''system'' FINAL_RESPONSE_SYSTEM_PROMPT,
        composite_entry (last sample_request) (assistant_message ''Hello'')]"
  using model_payloads_well_typed [of "[]" sample_env sample_request]
  by (simp add: sample_run)

end
