(* ===== verification/Phases.thy ===== *)
theory Phases
  imports Coordinator
begin

text \<open>
  The phases of the coordinator as a preorder. The design calls the machine linear,
  with no branching back; here a phase is below another when its rank is, so that the
  order of the library applies to runs: every step moves to a strictly later phase,
  \<open>Idle\<close> is below every phase, the final phases are exactly the greatest ones, and a
  run never comes back to a configuration it has left. Two phases of the same rank (a
  run that is done and one that has aborted, or the same phase with different data)
  are equivalent and not equal, so the order is a preorder and not a linear order.
\<close>

section \<open>The order\<close>

instantiation phase :: preorder
begin

definition less_eq_phase :: "phase \<Rightarrow> phase \<Rightarrow> bool" where
  "less_eq_phase p q \<longleftrightarrow> phase_rank p \<le> phase_rank q"

definition less_phase :: "phase \<Rightarrow> phase \<Rightarrow> bool" where
  "less_phase p q \<longleftrightarrow> phase_rank p < phase_rank q"

instance
  by standard (auto simp: less_eq_phase_def less_phase_def)

end

section \<open>Steps go up\<close>

lemma coordinator_step_later:
  "coordinator_step environ request c c' \<Longrightarrow> fst c < fst c'"
  by (simp add: less_phase_def coordinator_step_rank)

lemma reaches_later: "reaches environ request c c' \<Longrightarrow> fst c \<le> fst c'"
proof (induction rule: rtranclp_induct)
  case base
  show ?case by (rule order_refl)
next
  case (step c' c'')
  from step.hyps(2) have "fst c' < fst c''"
    by (rule coordinator_step_later)
  with step.IH show ?case
    by (rule order_trans [OF _ less_imp_le])
qed

lemma Idle_least [simp]: "Idle \<le> ph"
  by (simp add: less_eq_phase_def)

lemma final_greatest: "is_final ph \<longleftrightarrow> (\<forall>ph'. ph' \<le> ph)"
proof
  assume "is_final ph"
  then show "\<forall>ph'. ph' \<le> ph"
    using phase_rank_le by (simp add: less_eq_phase_def flip: phase_rank_final)
next
  assume "\<forall>ph'. ph' \<le> ph"
  then have "Aborted IndexError \<le> ph" ..
  then show "is_final ph"
    using phase_rank_le [of ph] by (simp add: less_eq_phase_def flip: phase_rank_final)
qed

lemma no_way_back:
  assumes "reaches environ request c c'" and "reaches environ request c' c"
  shows "c' = c"
proof (rule ccontr)
  assume "c' \<noteq> c"
  with assms(1) obtain c1 where "coordinator_step environ request c c1"
    and "reaches environ request c1 c'"
    by (metis converse_rtranclpE)
  then have "fst c < fst c1" and "fst c1 \<le> fst c'"
    by (auto intro: coordinator_step_later reaches_later)
  moreover from assms(2) have "fst c' \<le> fst c"
    by (rule reaches_later)
  ultimately show False
    by (meson less_le_not_le order_trans)
qed

end
