(* ===== verification/JsonText.thy ===== *)
theory JsonText
  imports Fixtures
begin

text \<open>
  The parser behind \<open>json.loads\<close>, which the stream reader applies to every line of the
  event stream (\<open>ums_agent.py\<close>, line 178) and the classifier to the answer of the model
  (\<open>agent.py\<close>, line 134). The library is not part of the repository; it is modelled
  from its documented grammar, in the structure of its decoder: \<open>scanstring\<close> for string
  literals with their escapes, \<open>match_number\<close> for the number pattern, \<open>JSONObject\<close> and
  \<open>JSONArray\<close> for the containers, \<open>scan_once\<close> for a value and \<open>py_loads\<close> for a whole
  text. A text is a list of bytes: a character outside ASCII is its UTF-8 encoding, and
  an escape with four hexadecimal digits is decoded to the UTF-8 bytes of its code point.

  The decoder is recursive on the remaining text, which is not structural; the
  recursion is on a fuel instead, and \<open>py_loads\<close> starts with one more than the length of
  the text. The lemmas show that every scanner consumes input (\<open>consumes\<close>), that this
  fuel is always enough (\<open>fuelled\<close>), that more fuel changes no result (\<open>extends\<close>), and
  that every value returned is well formed (\<open>yields\<close>): a dictionary has distinct keys,
  the last of two equal keys winning. Not modelled: the recursion limit of the
  interpreter and the limit on the digits of an integer, which make \<open>json.loads\<close> raise on
  texts this parser accepts.
\<close>

section \<open>Characters\<close>

abbreviation DQ :: char where "DQ \<equiv> CHR 0x22"

abbreviation BS :: char where "BS \<equiv> CHR 0x5C"

definition is_ws :: "char \<Rightarrow> bool" where
  "is_ws c \<longleftrightarrow> c = CHR '' '' \<or> c = CHR 0x09 \<or> c = CHR 0x0A \<or> c = CHR 0x0D"

definition skip_ws :: "string \<Rightarrow> string" where
  "skip_ws = dropWhile is_ws"

definition is_digit :: "char \<Rightarrow> bool" where
  "is_digit c \<longleftrightarrow> (48::nat) \<le> of_char c \<and> of_char c \<le> (57::nat)"

definition digit_val :: "char \<Rightarrow> nat" where
  "digit_val c = of_char c - 48"

definition int_of_digits :: "string \<Rightarrow> nat" where
  "int_of_digits ds = foldl (\<lambda>n c. 10 * n + digit_val c) 0 ds"

definition hex_val :: "char \<Rightarrow> nat option" where
  "hex_val c =
     (if is_digit c then Some (of_char c - 48)
      else if (97::nat) \<le> of_char c \<and> of_char c \<le> (102::nat) then Some (of_char c - 87)
      else if (65::nat) \<le> of_char c \<and> of_char c \<le> (70::nat) then Some (of_char c - 55)
      else None)"

section \<open>String literals\<close>

fun decode_uXXXX :: "string \<Rightarrow> nat option" where
  "decode_uXXXX (a # b # c # d # rest) =
     (case (hex_val a, hex_val b, hex_val c, hex_val d) of
        (Some x, Some y, Some z, Some w) \<Rightarrow> Some (((x * 16 + y) * 16 + z) * 16 + w)
      | _ \<Rightarrow> None)"
| "decode_uXXXX _ = None"

definition utf8 :: "nat \<Rightarrow> string" where
  "utf8 u =
     (if u < 0x80 then [char_of u]
      else if u < 0x800 then [char_of (0xC0 + u div 64), char_of (0x80 + u mod 64)]
      else if u < 0x10000 then
        [char_of (0xE0 + u div 4096), char_of (0x80 + u div 64 mod 64), char_of (0x80 + u mod 64)]
      else
        [char_of (0xF0 + u div 262144), char_of (0x80 + u div 4096 mod 64),
         char_of (0x80 + u div 64 mod 64), char_of (0x80 + u mod 64)])"

definition BACKSLASH :: "(char \<times> char) list" where
  "BACKSLASH =
     [(DQ, DQ), (BS, BS), (CHR ''/'', CHR ''/''), (CHR ''b'', CHR 0x08), (CHR ''f'', CHR 0x0C),
      (CHR ''n'', CHR 0x0A), (CHR ''r'', CHR 0x0D), (CHR ''t'', CHR 0x09)]"

definition surrogate_pair :: "nat \<Rightarrow> nat \<Rightarrow> nat" where
  "surrogate_pair uni uni2 = 0x10000 + ((uni - 0xD800) * 1024 + (uni2 - 0xDC00))"

fun unescape :: "string \<Rightarrow> (string \<times> nat) option" where
  "unescape [] = None"
| "unescape (esc # cs) =
     (if esc \<noteq> CHR ''u'' then map_option (\<lambda>c. ([c], 1)) (map_of BACKSLASH esc)
      else
        (case decode_uXXXX cs of
           None \<Rightarrow> None
         | Some uni \<Rightarrow>
             if 0xD800 \<le> uni \<and> uni \<le> 0xDBFF \<and> startswith (drop 4 cs) [BS, CHR ''u'']
             then
               (case decode_uXXXX (drop 6 cs) of
                  None \<Rightarrow> None
                | Some uni2 \<Rightarrow>
                    if 0xDC00 \<le> uni2 \<and> uni2 \<le> 0xDFFF
                    then Some (utf8 (surrogate_pair uni uni2), 11)
                    else Some (utf8 uni, 5))
             else Some (utf8 uni, 5)))"

fun scanstring :: "string \<Rightarrow> string \<Rightarrow> (string \<times> string) option" where
  "scanstring chunks [] = None"
| "scanstring chunks (c # cs) =
     (if c = DQ then Some (chunks, cs)
      else if c = BS then
        (case unescape cs of
           None \<Rightarrow> None
         | Some (chars, n) \<Rightarrow> scanstring (chunks @ chars) (drop n cs))
      else if of_char c < (0x20::nat) then None
      else scanstring (chunks @ [c]) cs)"

section \<open>Numbers\<close>

definition integer_part :: "string \<Rightarrow> string" where
  "integer_part s =
     (case s of
        [] \<Rightarrow> []
      | c # cs \<Rightarrow> if c = CHR ''0'' then [c] else if is_digit c then c # takeWhile is_digit cs else [])"

definition fraction_part :: "string \<Rightarrow> string" where
  "fraction_part s =
     (case s of
        [] \<Rightarrow> []
      | c # cs \<Rightarrow> if c = CHR ''.'' \<and> takeWhile is_digit cs \<noteq> [] then c # takeWhile is_digit cs else [])"

definition exponent_part :: "string \<Rightarrow> string" where
  "exponent_part s =
     (case s of
        [] \<Rightarrow> []
      | c # cs \<Rightarrow>
          if c = CHR ''e'' \<or> c = CHR ''E'' then
            (case cs of
               [] \<Rightarrow> []
             | d # ds \<Rightarrow>
                 if (d = CHR ''-'' \<or> d = CHR ''+'') \<and> takeWhile is_digit ds \<noteq> []
                 then c # d # takeWhile is_digit ds
                 else if takeWhile is_digit cs \<noteq> [] then c # takeWhile is_digit cs
                 else [])
          else [])"

definition signed :: "string \<Rightarrow> int" where
  "signed s =
     (case s of
        [] \<Rightarrow> 0
      | c # cs \<Rightarrow>
          if c = CHR ''-'' then - int (int_of_digits cs)
          else if c = CHR ''+'' then int (int_of_digits cs)
          else int (int_of_digits s))"

definition match_number :: "string \<Rightarrow> (json \<times> string) option" where
  "match_number s =
     (let sign = (if startswith s ''-'' then ''-'' else []);
          integer = integer_part (drop (length sign) s);
          s1 = drop (length sign + length integer) s;
          frac = fraction_part s1;
          s2 = drop (length frac) s1;
          exp = exponent_part s2;
          rest = drop (length exp) s2
      in if integer = [] then None
         else if frac = [] \<and> exp = [] then Some (JInt (signed (sign @ integer)), rest)
         else Some (JFloat (signed (sign @ integer @ drop 1 frac))
                      (signed (drop 1 exp) - int (length (drop 1 frac))), rest))"

section \<open>Values\<close>

datatype 'a scan = NoFuel | NoParse | Parsed 'a

type_synonym 'a scanner = "string \<Rightarrow> ('a \<times> string) scan"

definition sbind :: "'a scan \<Rightarrow> ('a \<Rightarrow> 'b scan) \<Rightarrow> 'b scan" where
  "sbind m f = (case m of NoFuel \<Rightarrow> NoFuel | NoParse \<Rightarrow> NoParse | Parsed x \<Rightarrow> f x)"

definition required :: "'a option \<Rightarrow> 'a scan" where
  "required m = (case m of None \<Rightarrow> NoParse | Some x \<Rightarrow> Parsed x)"

definition expect :: "char \<Rightarrow> string \<Rightarrow> string option" where
  "expect c s = (case skip_ws s of [] \<Rightarrow> None | d # rest \<Rightarrow> if d = c then Some rest else None)"

primrec scan_items :: "'a scanner \<Rightarrow> char \<Rightarrow> nat \<Rightarrow> 'a list \<Rightarrow> ('a list) scanner" where
  "scan_items item close 0 acc s = NoFuel"
| "scan_items item close (Suc n) acc s =
     sbind (item s) (\<lambda>(x, rest).
       case skip_ws rest of
         [] \<Rightarrow> NoParse
       | c # r \<Rightarrow>
           if c = close then Parsed (acc @ [x], r)
           else if c = CHR '','' then scan_items item close n (acc @ [x]) (skip_ws r)
           else NoParse)"

definition dict :: "(string \<times> json) list \<Rightarrow> pydict" where
  "dict pairs = foldl (\<lambda>d (k, v). py_setitem d k v) [] pairs"

definition object_member :: "json scanner \<Rightarrow> (string \<times> json) scanner" where
  "object_member scan_once s =
     sbind (required (expect DQ s)) (\<lambda>s1.
       sbind (required (scanstring [] s1)) (\<lambda>(key, s2).
         sbind (required (expect (CHR '':'') s2)) (\<lambda>s3.
           sbind (scan_once (skip_ws s3)) (\<lambda>(v, s4). Parsed ((key, v), s4)))))"

definition JSONObject :: "json scanner \<Rightarrow> nat \<Rightarrow> json scanner" where
  "JSONObject scan_once n s =
     (if startswith (skip_ws s) ''}'' then Parsed (JObj [], drop 1 (skip_ws s))
      else sbind (scan_items (object_member scan_once) (CHR ''}'') n [] (skip_ws s))
             (\<lambda>(pairs, rest). Parsed (JObj (dict pairs), rest)))"

definition JSONArray :: "json scanner \<Rightarrow> nat \<Rightarrow> json scanner" where
  "JSONArray scan_once n s =
     (if startswith (skip_ws s) '']'' then Parsed (JArr [], drop 1 (skip_ws s))
      else sbind (scan_items scan_once (CHR '']'') n [] (skip_ws s))
             (\<lambda>(values, rest). Parsed (JArr values, rest)))"

definition parse_constant :: "string \<Rightarrow> (json \<times> string) option" where
  "parse_constant s =
     (if startswith s ''NaN'' then Some (JConst NaN, drop 3 s)
      else if startswith s ''Infinity'' then Some (JConst PosInfinity, drop 8 s)
      else if startswith s ''-Infinity'' then Some (JConst NegInfinity, drop 9 s)
      else None)"

definition scan_value :: "json scanner \<Rightarrow> nat \<Rightarrow> json scanner" where
  "scan_value scan_once n s =
     (if startswith s [DQ] then
        sbind (required (scanstring [] (drop 1 s))) (\<lambda>(text, rest). Parsed (JStr text, rest))
      else if startswith s ''{'' then JSONObject scan_once n (drop 1 s)
      else if startswith s ''['' then JSONArray scan_once n (drop 1 s)
      else if startswith s ''null'' then Parsed (JNull, drop 4 s)
      else if startswith s ''true'' then Parsed (JBool True, drop 4 s)
      else if startswith s ''false'' then Parsed (JBool False, drop 5 s)
      else case match_number s of
             Some found \<Rightarrow> Parsed found
           | None \<Rightarrow> required (parse_constant s))"

primrec scan_once :: "nat \<Rightarrow> json scanner" where
  "scan_once 0 s = NoFuel"
| "scan_once (Suc n) s = scan_value (scan_once n) n s"

definition py_loads :: "string \<Rightarrow> json option" where
  "py_loads s =
     (case scan_once (Suc (length s)) (skip_ws s) of
        Parsed (obj, rest) \<Rightarrow> if skip_ws rest = [] then Some obj else None
      | _ \<Rightarrow> None)"

section \<open>What a scanner may be relied on for\<close>

definition consumes :: "'a scanner \<Rightarrow> bool" where
  "consumes p \<longleftrightarrow> (\<forall>s x rest. p s = Parsed (x, rest) \<longrightarrow> length rest < length s)"

definition fuelled :: "nat \<Rightarrow> 'a scanner \<Rightarrow> bool" where
  "fuelled k p \<longleftrightarrow> (\<forall>s. length s < k \<longrightarrow> p s \<noteq> NoFuel)"

definition extends :: "'a scanner \<Rightarrow> 'a scanner \<Rightarrow> bool" where
  "extends q p \<longleftrightarrow> (\<forall>s. p s \<noteq> NoFuel \<longrightarrow> q s = p s)"

definition yields :: "('a \<Rightarrow> bool) \<Rightarrow> 'a scanner \<Rightarrow> bool" where
  "yields P p \<longleftrightarrow> (\<forall>s x rest. p s = Parsed (x, rest) \<longrightarrow> P x)"


section \<open>Characters\<close>

lemma skip_ws_simps [simp]:
  "skip_ws [] = []"
  "is_ws c \<Longrightarrow> skip_ws (c # s) = skip_ws s"
  "\<not> is_ws c \<Longrightarrow> skip_ws (c # s) = c # s"
  by (simp_all add: skip_ws_def)

lemma skip_ws_length: "length (skip_ws s) \<le> length s"
  by (simp add: skip_ws_def length_dropWhile_le)

lemma skip_ws_idem [simp]: "skip_ws (skip_ws s) = skip_ws s"
  by (induction s) (simp_all add: skip_ws_def)

lemma skip_ws_Cons: "skip_ws s = c # rest \<Longrightarrow> \<not> is_ws c \<and> length rest < length s"
  unfolding skip_ws_def
  by (metis dropWhile_eq_Cons_conv length_dropWhile_le impossible_Cons linorder_not_less list.size(4) Suc_eq_plus1 not_less_eq_eq order.trans)

lemma expect_shrinks: "expect c s = Some rest \<Longrightarrow> length rest < length s"
  by (auto simp: expect_def split: list.splits if_splits dest: skip_ws_Cons)

lemma expect_Cons [simp]: "\<not> is_ws c \<Longrightarrow> expect c (c # s) = Some s"
  by (simp add: expect_def)

lemma is_ws_literals [simp]:
  "\<not> is_ws DQ" "\<not> is_ws (CHR '':'')" "\<not> is_ws (CHR '','')" "\<not> is_ws (CHR '']'')" "\<not> is_ws (CHR ''}'')"
  "\<not> is_ws (CHR ''['')" "\<not> is_ws (CHR ''{'')" "\<not> is_ws (CHR ''-'')"
  by (simp_all add: is_ws_def)

section \<open>Literals are consumed\<close>

lemma scanstring_shrinks: "scanstring chunks s = Some (text, rest) \<Longrightarrow> length rest < length s"
proof (induction chunks s rule: scanstring.induct)
  case (2 chunks c cs)
  then show ?case
    by (fastforce split: if_splits option.splits prod.splits)
qed simp

lemma match_number_shrinks: "match_number s = Some (v, rest) \<Longrightarrow> length rest < length s"
  by (cases s) (auto simp: match_number_def Let_def integer_part_def split: if_splits)

lemma startswith_Cons:
  "startswith s (c # p) \<longleftrightarrow> (\<exists>rest. s = c # rest \<and> startswith rest p)"
  by (cases s) (auto simp: startswith_def)

lemma drop_startswith: "startswith s p \<Longrightarrow> p \<noteq> [] \<Longrightarrow> length (drop (length p) s) < length s"
  by (cases s) (auto simp: startswith_def)

lemma skip_ws_startswith: "startswith (skip_ws s) [c] \<Longrightarrow> length (drop 1 (skip_ws s)) < length s"
  using skip_ws_length [of s] by (cases "skip_ws s") (auto simp: startswith_def)

lemma parse_constant_shrinks: "parse_constant s = Some (v, rest) \<Longrightarrow> length rest < length s"
  by (auto simp: parse_constant_def split: if_splits dest: drop_startswith)

section \<open>Scanners\<close>

lemma sbind_simps [simp]:
  "sbind NoFuel f = NoFuel" "sbind NoParse f = NoParse" "sbind (Parsed x) f = f x"
  by (simp_all add: sbind_def)

lemma required_simps [simp]: "required None = NoParse" "required (Some x) = Parsed x"
  by (simp_all add: required_def)

lemma required_NoFuel [simp]: "required m \<noteq> NoFuel"
  by (cases m) simp_all

lemma sbind_eq_Parsed_iff: "sbind m f = Parsed y \<longleftrightarrow> (\<exists>x. m = Parsed x \<and> f x = Parsed y)"
  by (cases m) simp_all

lemma sbind_eq_NoFuel_iff: "sbind m f = NoFuel \<longleftrightarrow> m = NoFuel \<or> (\<exists>x. m = Parsed x \<and> f x = NoFuel)"
  by (cases m) simp_all

lemma required_eq_Parsed_iff [simp]: "required m = Parsed x \<longleftrightarrow> m = Some x"
  by (cases m) simp_all

lemma consumesD: "consumes p \<Longrightarrow> p s = Parsed (x, rest) \<Longrightarrow> length rest < length s"
  by (auto simp: consumes_def)

lemma fuelledD: "fuelled k p \<Longrightarrow> length s < k \<Longrightarrow> p s \<noteq> NoFuel"
  by (simp add: fuelled_def)

lemma extendsD: "extends q p \<Longrightarrow> p s \<noteq> NoFuel \<Longrightarrow> q s = p s"
  by (simp add: extends_def)

lemma yieldsD: "yields P p \<Longrightarrow> p s = Parsed (x, rest) \<Longrightarrow> P x"
  by (auto simp: yields_def)

section \<open>The loop over the items of a container\<close>

lemma scan_items_consumes:
  assumes "consumes item"
  shows "scan_items item close n acc s = Parsed (xs, rest) \<Longrightarrow> length rest < length s"
proof (induction n arbitrary: acc s)
  case (Suc n)
  then obtain x s1 where x: "item s = Parsed (x, s1)"
    by (auto simp: sbind_eq_Parsed_iff)
  then have "length s1 < length s"
    using assms by (rule consumesD [rotated])
  moreover obtain c s2 where c: "skip_ws s1 = c # s2"
    using Suc.prems x by (cases "skip_ws s1") simp_all
  moreover have "length s2 < length s1"
    using skip_ws_Cons [OF c] by simp
  moreover have "rest = s2 \<or> length rest < length (skip_ws s2)"
    using Suc.prems x c Suc.IH [of "acc @ [x]" "skip_ws s2"] by (auto split: if_splits)
  then have "length rest \<le> length s2"
    using skip_ws_length [of s2] by auto
  ultimately show ?case by simp
qed simp

lemma scan_items_fuelled:
  assumes "consumes item" and "fuelled k item"
  shows "length s < k \<Longrightarrow> length s < n \<Longrightarrow> scan_items item close n acc s \<noteq> NoFuel"
proof (induction n arbitrary: acc s)
  case (Suc n)
  show ?case
  proof (cases "item s")
    case NoFuel
    with assms(2) Suc.prems(1) show ?thesis by (simp add: fuelled_def)
  next
    case (Parsed found)
    obtain x s1 where found: "found = (x, s1)" by (cases found)
    have l1: "length s1 < length s"
      using assms(1) Parsed found by (auto dest: consumesD)
    show ?thesis
    proof (cases "skip_ws s1")
      case (Cons c s2)
      have "length (skip_ws s2) < length s1"
        using skip_ws_Cons [OF Cons] skip_ws_length [of s2] by linarith
      with l1 Suc.prems have "scan_items item close n (acc @ [x]) (skip_ws s2) \<noteq> NoFuel"
        by (intro Suc.IH) linarith+
      with Parsed found Cons show ?thesis by simp
    qed (simp add: Parsed found)
  qed simp
qed simp

lemma scan_items_extends:
  assumes "extends item' item"
  shows "scan_items item close n acc s \<noteq> NoFuel \<Longrightarrow> scan_items item' close (Suc n) acc s = scan_items item close n acc s"
proof (induction n arbitrary: acc s)
  case (Suc n)
  from Suc.prems have "item s \<noteq> NoFuel"
    by (auto simp: sbind_eq_NoFuel_iff)
  then have i: "item' s = item s"
    using assms by (simp add: extends_def)
  show ?case
  proof (cases "item s")
    case (Parsed found)
    obtain x s1 where found: "found = (x, s1)" by (cases found)
    show ?thesis
    proof (cases "skip_ws s1")
      case (Cons c s2)
      with Suc.prems Parsed found
      have "c \<noteq> close \<Longrightarrow> c = CHR '','' \<Longrightarrow> scan_items item close n (acc @ [x]) (skip_ws s2) \<noteq> NoFuel"
        by simp
      then have "c \<noteq> close \<Longrightarrow> c = CHR '','' \<Longrightarrow>
          scan_items item' close (Suc n) (acc @ [x]) (skip_ws s2) = scan_items item close n (acc @ [x]) (skip_ws s2)"
        by (rule Suc.IH)
      then show ?thesis
        using i Parsed found Cons by (simp del: scan_items.simps add: scan_items.simps(2) [of _ _ "Suc n"] scan_items.simps(2) [of item close n])
    qed (simp add: i Parsed found)
  qed (simp_all add: i)
qed simp

lemma scan_items_yields:
  assumes "yields P item"
  shows "scan_items item close n acc s = Parsed (xs, rest) \<Longrightarrow> list_all P acc \<Longrightarrow> list_all P xs"
proof (induction n arbitrary: acc s)
  case (Suc n)
  then obtain x s1 where x: "item s = Parsed (x, s1)"
    by (auto simp: sbind_eq_Parsed_iff)
  then have "P x"
    using assms by (auto dest: yieldsD)
  with Suc.prems x Suc.IH [of "acc @ [x]"] show ?case
    by (auto split: list.splits if_splits)
qed simp

section \<open>Members, containers and values\<close>

lemma object_member_eq_Parsed_iff:
  "object_member p s = Parsed ((key, v), rest) \<longleftrightarrow>
     (\<exists>s1 s2 s3. expect DQ s = Some s1 \<and> scanstring [] s1 = Some (key, s2)
        \<and> expect (CHR '':'') s2 = Some s3 \<and> p (skip_ws s3) = Parsed (v, rest))"
  by (auto simp: object_member_def sbind_eq_Parsed_iff)

lemma object_member_eq_NoFuel_iff:
  "object_member p s = NoFuel \<longleftrightarrow>
     (\<exists>s1 key s2 s3. expect DQ s = Some s1 \<and> scanstring [] s1 = Some (key, s2)
        \<and> expect (CHR '':'') s2 = Some s3 \<and> p (skip_ws s3) = NoFuel)"
  by (auto simp: object_member_def sbind_eq_NoFuel_iff sbind_eq_Parsed_iff)

lemma object_member_shrinks:
  assumes "expect DQ s = Some s1" and "scanstring [] s1 = Some (key, s2)"
    and "expect (CHR '':'') s2 = Some s3"
  shows "length (skip_ws s3) < length s"
  using expect_shrinks [OF assms(1)] scanstring_shrinks [OF assms(2)] expect_shrinks [OF assms(3)]
    skip_ws_length [of s3]
  by linarith

lemma object_member_consumes: "consumes p \<Longrightarrow> consumes (object_member p)"
  unfolding consumes_def
  by (auto simp: object_member_eq_Parsed_iff dest!: object_member_shrinks) (meson order.strict_trans)

lemma object_member_fuelled: "fuelled k p \<Longrightarrow> fuelled k (object_member p)"
  unfolding fuelled_def
  by (auto simp: object_member_eq_NoFuel_iff dest!: object_member_shrinks)

lemma object_member_extends: "extends q p \<Longrightarrow> extends (object_member q) (object_member p)"
  unfolding extends_def
  by (auto simp: object_member_def sbind_def required_def split: option.splits scan.splits)

lemma object_member_yields: "yields P p \<Longrightarrow> yields (\<lambda>kv. P (snd kv)) (object_member p)"
  unfolding yields_def by (auto simp: object_member_eq_Parsed_iff)

lemma JSONArray_consumes:
  assumes "consumes p" and "JSONArray p n s = Parsed (v, rest)"
  shows "length rest < Suc (length s)"
proof (cases "startswith (skip_ws s) '']''")
  case True
  with assms(2) skip_ws_startswith [OF True] show ?thesis
    by (simp add: JSONArray_def)
next
  case False
  with assms(2) obtain xs where "scan_items p (CHR '']'') n [] (skip_ws s) = Parsed (xs, rest)"
    by (auto simp: JSONArray_def sbind_eq_Parsed_iff)
  from scan_items_consumes [OF assms(1) this] skip_ws_length [of s] show ?thesis
    by simp
qed

lemma JSONObject_consumes:
  assumes "consumes p" and "JSONObject p n s = Parsed (v, rest)"
  shows "length rest < Suc (length s)"
proof (cases "startswith (skip_ws s) ''}''")
  case True
  with assms(2) skip_ws_startswith [OF True] show ?thesis
    by (simp add: JSONObject_def)
next
  case False
  with assms(2) obtain xs where "scan_items (object_member p) (CHR ''}'') n [] (skip_ws s) = Parsed (xs, rest)"
    by (auto simp: JSONObject_def sbind_eq_Parsed_iff)
  from scan_items_consumes [OF object_member_consumes [OF assms(1)] this] skip_ws_length [of s] show ?thesis
    by simp
qed

lemma scan_value_consumes:
  assumes "consumes p"
  shows "consumes (scan_value p n)"
  unfolding consumes_def
proof (intro allI impI)
  fix s v rest
  assume r: "scan_value p n s = Parsed (v, rest)"
  then have "s \<noteq> []"
    by (auto simp: scan_value_def match_number_def Let_def integer_part_def parse_constant_def)
  then have d: "Suc (length (drop 1 s)) = length s"
    by (cases s) simp_all
  show "length rest < length s"
    using r d scanstring_shrinks [of "[]" "drop 1 s" _ rest] JSONObject_consumes [OF assms, of n "drop 1 s" v rest]
      JSONArray_consumes [OF assms, of n "drop 1 s" v rest] match_number_shrinks [of s v rest]
      parse_constant_shrinks [of s v rest]
      drop_startswith [of s "''null''"] drop_startswith [of s "''true''"] drop_startswith [of s "''false''"]
    by (auto simp: scan_value_def sbind_eq_Parsed_iff split: if_splits option.splits)
qed

lemma scan_once_consumes: "consumes (scan_once n)"
proof (induction n)
  case (Suc n)
  from scan_value_consumes [OF this, of n] show ?case
    by (simp add: consumes_def)
qed (simp add: consumes_def)

section \<open>The fuel is enough, and more changes nothing\<close>

lemma scan_value_fuelled:
  assumes "consumes p" and "fuelled n p"
  shows "fuelled (Suc n) (scan_value p n)"
  unfolding fuelled_def
proof (intro allI impI)
  fix s :: string
  assume l: "length s < Suc n"
  have "scan_items p (CHR '']'') n [] (skip_ws (drop 1 s)) \<noteq> NoFuel"
    and "scan_items (object_member p) (CHR ''}'') n [] (skip_ws (drop 1 s)) \<noteq> NoFuel"
    if "s \<noteq> []"
  proof -
    have "length (skip_ws (drop 1 s)) < n"
      using l that skip_ws_length [of "drop 1 s"] by (cases s) simp_all
    then show "scan_items p (CHR '']'') n [] (skip_ws (drop 1 s)) \<noteq> NoFuel"
      and "scan_items (object_member p) (CHR ''}'') n [] (skip_ws (drop 1 s)) \<noteq> NoFuel"
      using scan_items_fuelled [OF assms] scan_items_fuelled [OF object_member_consumes [OF assms(1)] object_member_fuelled [OF assms(2)]]
      by blast+
  qed
  then show "scan_value p n s \<noteq> NoFuel"
    by (cases s) (auto simp: scan_value_def JSONArray_def JSONObject_def sbind_eq_NoFuel_iff
        split: option.splits)
qed

lemma scan_once_fuelled: "fuelled n (scan_once n)"
proof (induction n)
  case (Suc n)
  from scan_value_fuelled [OF scan_once_consumes this] show ?case
    by (simp add: fuelled_def)
qed (simp add: fuelled_def)

lemma scan_value_extends:
  assumes "extends q p" and "scan_value p n s \<noteq> NoFuel"
  shows "scan_value q (Suc n) s = scan_value p n s"
proof -
  have "scan_items q (CHR '']'') (Suc n) [] t = scan_items p (CHR '']'') n [] t"
    if "scan_items p (CHR '']'') n [] t \<noteq> NoFuel" for t
    using assms(1) that by (rule scan_items_extends)
  moreover have "scan_items (object_member q) (CHR ''}'') (Suc n) [] t = scan_items (object_member p) (CHR ''}'') n [] t"
    if "scan_items (object_member p) (CHR ''}'') n [] t \<noteq> NoFuel" for t
    using object_member_extends [OF assms(1)] that by (rule scan_items_extends)
  ultimately show ?thesis
    using assms(2)
    by (auto simp: scan_value_def JSONArray_def JSONObject_def sbind_eq_NoFuel_iff
        simp del: scan_items.simps split: option.splits)
qed

lemma scan_once_Suc: "scan_once n s \<noteq> NoFuel \<Longrightarrow> scan_once (Suc n) s = scan_once n s"
proof (induction n arbitrary: s)
  case (Suc n)
  have "extends (scan_once (Suc n)) (scan_once n)"
    unfolding extends_def using Suc.IH by blast
  from scan_value_extends [OF this, of n s] Suc.prems show ?case
    by simp
qed simp

lemma scan_once_mono: "scan_once n s \<noteq> NoFuel \<Longrightarrow> n \<le> m \<Longrightarrow> scan_once m s = scan_once n s"
  by (induction m) (auto simp: le_Suc_eq scan_once_Suc simp del: scan_once.simps)

lemma scan_once_enough:
  assumes "scan_once m s = Parsed found" and "length s < n"
  shows "scan_once n s = Parsed found"
proof (cases "n \<le> m")
  case True
  from fuelledD [OF scan_once_fuelled assms(2)] True have "scan_once m s = scan_once n s"
    by (rule scan_once_mono)
  with assms(1) show ?thesis by simp
next
  case False
  with assms(1) scan_once_mono [of m s n] show ?thesis by simp
qed

section \<open>The values returned are well formed\<close>

lemma wf_foldl_setitem:
  "wf_json (JObj d) \<Longrightarrow> list_all (\<lambda>kv. wf_json (snd kv)) pairs \<Longrightarrow>
     wf_json (JObj (foldl (\<lambda>d (k, v). py_setitem d k v) d pairs))"
  by (induction pairs arbitrary: d) (auto simp: wf_py_setitem simp del: wf_json.simps)

lemma wf_dict: "list_all (\<lambda>kv. wf_json (snd kv)) pairs \<Longrightarrow> wf_json (JObj (dict pairs))"
  unfolding dict_def by (rule wf_foldl_setitem) simp_all

lemma scan_value_yields:
  assumes "yields wf_json p"
  shows "yields wf_json (scan_value p n)"
  unfolding yields_def
proof (intro allI impI)
  fix s v rest
  assume r: "scan_value p n s = Parsed (v, rest)"
  have "list_all wf_json xs" if "scan_items p (CHR '']'') n [] t = Parsed (xs, rest)" for xs t
    using scan_items_yields [OF assms that] by simp
  moreover have "wf_json (JObj (dict xs))"
    if "scan_items (object_member p) (CHR ''}'') n [] t = Parsed (xs, rest)" for xs t
    using scan_items_yields [OF object_member_yields [OF assms] that] by (intro wf_dict) simp
  moreover have "wf_json (JObj [])"
    by simp
  ultimately show "wf_json v"
    using r
    by (auto simp: scan_value_def JSONArray_def JSONObject_def sbind_eq_Parsed_iff match_number_def Let_def
        parse_constant_def simp del: scan_items.simps wf_json.simps(2) split: if_splits option.splits)
qed

lemma scan_once_yields: "yields wf_json (scan_once n)"
proof (induction n)
  case (Suc n)
  from scan_value_yields [OF this, of n] show ?case
    by (simp add: yields_def)
qed (simp add: yields_def)

lemma py_loads_eq_Some_iff:
  "py_loads s = Some v \<longleftrightarrow>
     (\<exists>rest. scan_once (Suc (length s)) (skip_ws s) = Parsed (v, rest) \<and> skip_ws rest = [])"
  by (auto simp: py_loads_def split: scan.splits if_splits)

lemma py_loads_wf: "py_loads s = Some v \<Longrightarrow> wf_json v"
  using scan_once_yields by (auto simp: py_loads_eq_Some_iff simp del: scan_once.simps dest: yieldsD)

lemma py_loads_fuel:
  assumes "length s < n"
  shows "scan_once n (skip_ws s) \<noteq> NoFuel"
    and "scan_once n (skip_ws s) = scan_once (Suc (length s)) (skip_ws s)"
proof -
  have l: "length (skip_ws s) < Suc (length s)" "length (skip_ws s) < n"
    using assms skip_ws_length [of s] by simp_all
  show "scan_once n (skip_ws s) \<noteq> NoFuel"
    using fuelledD [OF scan_once_fuelled l(2)] .
  show "scan_once n (skip_ws s) = scan_once (Suc (length s)) (skip_ws s)"
    using scan_once_mono [OF fuelledD [OF scan_once_fuelled l(1)], of n] assms by simp
qed

section \<open>Texts that are not JSON\<close>

lemma py_loads_rejects:
  "py_loads ''[DONE]'' = None"
  "py_loads ''trailing garbage'' = None"
  "py_loads ''not json'' = None"
  by (simp_all add: py_loads_def scan_value_def startswith_def JSONArray_def match_number_def
      integer_part_def is_digit_def parse_constant_def is_ws_def eval_nat_numeral Let_def)

section \<open>Properties of the parser\<close>



end
