(* ===== verification/JsonPrint.thy ===== *)
theory JsonPrint
  imports JsonText
begin

text \<open>
  A text for every JSON value, and the proof that \<open>py_loads\<close> reads it back. \<open>render\<close>
  writes a value without white space, a string with the escapes it needs and a float as
  mantissa and exponent; it is the reference against which the parser is checked, not a
  model of a function of the program. The round trip holds for every well-formed value
  and with white space around the text, so every value the operations of \<open>PyJson\<close> are
  defined on is the value of a text, and the texts of the scenarios are read as the
  fixtures say.
\<close>

section \<open>Texts of values\<close>

definition digit_char :: "nat \<Rightarrow> char" where
  "digit_char n = char_of (48 + n)"

fun digits :: "nat \<Rightarrow> string" where
  "digits n = (if n < 10 then [digit_char n] else digits (n div 10) @ [digit_char (n mod 10)])"

definition render_int :: "int \<Rightarrow> string" where
  "render_int i = (if i < 0 then CHR ''-'' # digits (nat (- i)) else digits (nat i))"

definition hex_char :: "nat \<Rightarrow> char" where
  "hex_char n = (if n < 10 then char_of (48 + n) else char_of (87 + n))"

definition escape :: "char \<Rightarrow> string" where
  "escape c =
     (if c = DQ then [BS, DQ]
      else if c = BS then [BS, BS]
      else if of_char c < (0x20::nat) then
        [BS, CHR ''u'', CHR ''0'', CHR ''0'', hex_char (of_char c div 16), hex_char (of_char c mod 16)]
      else [c])"

definition quote :: "string \<Rightarrow> string" where
  "quote s = DQ # concat (map escape s) @ [DQ]"

fun commas :: "string list \<Rightarrow> string" where
  "commas [] = []"
| "commas [x] = x"
| "commas (x # y # zs) = x @ CHR '','' # commas (y # zs)"

fun render_const :: "float_const \<Rightarrow> string" where
  "render_const NaN = ''NaN''"
| "render_const PosInfinity = ''Infinity''"
| "render_const NegInfinity = ''-Infinity''"

fun render :: "json \<Rightarrow> string" where
  "render JNull = ''null''"
| "render (JBool b) = (if b then ''true'' else ''false'')"
| "render (JInt i) = render_int i"
| "render (JFloat m e) = render_int m @ CHR ''e'' # render_int e"
| "render (JConst c) = render_const c"
| "render (JStr s) = quote s"
| "render (JArr xs) = CHR ''['' # commas (map render xs) @ '']''"
| "render (JObj kvs) =
     CHR ''{'' # commas (map (\<lambda>kv. quote (fst kv) @ CHR '':'' # render (snd kv)) kvs) @ ''}''"

section \<open>Where a value may start and end\<close>

definition delim :: "string \<Rightarrow> bool" where
  "delim s \<longleftrightarrow> (case s of [] \<Rightarrow> True | c # rest \<Rightarrow> c = CHR '','' \<or> c = CHR '']'' \<or> c = CHR ''}'' \<or> is_ws c)"

definition value_start :: "char \<Rightarrow> bool" where
  "value_start c \<longleftrightarrow> c \<in> set ''ntfNI-[{'' \<or> c = DQ \<or> is_digit c"

definition number_start :: "char \<Rightarrow> bool" where
  "number_start c \<longleftrightarrow> c = CHR ''-'' \<or> is_digit c"

definition sample_value :: json where
  "sample_value =
     JObj [(''choices'', JArr [JObj [(''delta'', JObj [(''content'', JStr (''a'' @ [DQ, CHR 0x0A] @ ''b''))])]]),
           (''n'', JArr [JInt (- 12), JFloat 15 (- 1), JNull, JBool True, JConst NegInfinity, JArr [], JObj []])]"


section \<open>String literals\<close>

lemma hex_val_hex_char: "n < 16 \<Longrightarrow> hex_val (hex_char n) = Some n"
  by (auto simp: hex_val_def hex_char_def is_digit_def)

lemma decode_low:
  "x < 16 \<Longrightarrow> y < 16 \<Longrightarrow>
     decode_uXXXX (CHR ''0'' # CHR ''0'' # hex_char x # hex_char y # rest) = Some (x * 16 + y)"
  by (simp add: hex_val_hex_char) (simp add: hex_val_def is_digit_def)

lemma unescape_control:
  assumes "of_char c < (0x20::nat)"
  shows "unescape (CHR ''u'' # CHR ''0'' # CHR ''0'' # hex_char (of_char c div 16)
           # hex_char (of_char c mod 16) # s) = Some ([c], 5)"
proof -
  have "of_char c div 16 < (16::nat)" "of_char c mod 16 < (16::nat)"
    using assms by simp_all
  then have "decode_uXXXX (CHR ''0'' # CHR ''0'' # hex_char (of_char c div 16)
           # hex_char (of_char c mod 16) # s) = Some (of_char c)"
    by (simp add: decode_low del: decode_uXXXX.simps)
  with assms show ?thesis
    by (simp add: utf8_def del: decode_uXXXX.simps)
qed

lemma scanstring_escape: "scanstring chunks (escape c @ s) = scanstring (chunks @ [c]) s"
proof -
  consider "c = DQ" | "c = BS" | "c \<noteq> DQ" "c \<noteq> BS" "of_char c < (0x20::nat)"
    | "c \<noteq> DQ" "c \<noteq> BS" "\<not> of_char c < (0x20::nat)"
    by blast
  then show ?thesis
    by cases (simp_all add: escape_def BACKSLASH_def unescape_control del: unescape.simps,
        simp_all add: BACKSLASH_def)
qed

lemma scanstring_quote:
  "scanstring chunks (concat (map escape s) @ DQ # rest) = Some (chunks @ s, rest)"
  by (induction s arbitrary: chunks) (simp_all add: scanstring_escape)

lemma quote_plain: "\<forall>c\<in>set s. c \<noteq> DQ \<and> c \<noteq> BS \<and> \<not> of_char c < (0x20::nat) \<Longrightarrow> quote s = DQ # s @ [DQ]"
  by (induction s) (simp_all add: quote_def escape_def)


section \<open>Numbers\<close>

lemma of_char_digit_char: "n < 10 \<Longrightarrow> of_char (digit_char n) = 48 + n"
  by (simp add: digit_char_def)

lemma digit_char_eq_iff: "n < 10 \<Longrightarrow> digit_char n = c \<longleftrightarrow> 48 + n = of_char c"
  using of_char_digit_char [of n] by (metis of_char_eq_iff)

lemma digit_char_simps [simp]:
  assumes "n < 10"
  shows "is_digit (digit_char n)" and "digit_val (digit_char n) = n"
    and "digit_char n = CHR ''0'' \<longleftrightarrow> n = 0"
    and "digit_char n \<noteq> CHR ''-''" and "digit_char n \<noteq> CHR ''+''"
  using assms
  by (simp_all add: is_digit_def digit_val_def of_char_digit_char digit_char_eq_iff)

lemma digit_char_eval:
  "digit_char 0 = CHR ''0''" "digit_char 1 = CHR ''1''" "digit_char 2 = CHR ''2''" "digit_char 3 = CHR ''3''"
  "digit_char 4 = CHR ''4''" "digit_char 5 = CHR ''5''" "digit_char 6 = CHR ''6''" "digit_char 7 = CHR ''7''"
  "digit_char 8 = CHR ''8''" "digit_char 9 = CHR ''9''"
  by (simp_all add: digit_char_eq_iff)

declare digits.simps [simp del]

lemma digits_nonempty [simp]: "digits n \<noteq> []"
  by (subst digits.simps) simp

lemma digits_all: "list_all is_digit (digits n)"
  by (induction n rule: digits.induct) (subst digits.simps, simp)

lemma digits_eval: "n < 10 \<Longrightarrow> digits n = [digit_char n]" "10 \<le> n \<Longrightarrow> digits n = digits (n div 10) @ [digit_char (n mod 10)]"
  by (subst digits.simps, simp)+

lemma int_of_digits_snoc [simp]: "int_of_digits (ds @ [c]) = 10 * int_of_digits ds + digit_val c"
  by (simp add: int_of_digits_def)

lemma int_of_digits_digits [simp]: "int_of_digits (digits n) = n"
  by (induction n rule: digits.induct) (subst digits.simps, simp add: int_of_digits_def)

lemma hd_digits: "hd (digits n) = CHR ''0'' \<longleftrightarrow> n = 0"
proof (induction n rule: digits.induct)
  case (1 n)
  show ?case
  proof (cases "n < 10")
    case True
    then show ?thesis by (subst digits.simps) simp
  next
    case False
    then have "hd (digits n) = hd (digits (n div 10))" "n div 10 \<noteq> 0"
      by (subst digits.simps, simp) (use False in \<open>simp add: div_greater_zero_iff\<close>)
    with 1 False show ?thesis by simp
  qed
qed

lemma digits_0 [simp]: "digits 0 = ''0''"
  using digit_char_simps(3) [of 0] by (subst digits.simps) simp

lemma hd_digits_digit: "is_digit (hd (digits n))" "hd (digits n) \<noteq> CHR ''-''" "hd (digits n) \<noteq> CHR ''+''"
proof -
  show "is_digit (hd (digits n))"
    using digits_all [of n] digits_nonempty [of n] by (cases "digits n") simp_all
  then show "hd (digits n) \<noteq> CHR ''-''" "hd (digits n) \<noteq> CHR ''+''"
    by (auto simp: is_digit_def)
qed

lemma takeWhile_digits:
  "takeWhile is_digit rest = [] \<Longrightarrow> takeWhile is_digit (digits n @ rest) = digits n"
  using digits_all [of n] by (simp add: list_all_iff)

lemma integer_part_digits:
  assumes "takeWhile is_digit rest = []"
  shows "integer_part (digits n @ rest) = digits n"
proof (cases "digits n")
  case (Cons c cs)
  have "takeWhile is_digit (c # cs @ rest) = c # cs"
    using takeWhile_digits [OF assms, of n] Cons by simp
  moreover have "c = CHR ''0'' \<Longrightarrow> cs = []"
    using hd_digits [of n] Cons by auto
  ultimately show ?thesis
    using Cons by (auto simp: integer_part_def split: if_splits)
qed simp

lemma signed_simps [simp]:
  "signed (digits n) = int n"
  "signed (CHR ''-'' # digits n) = - int n"
proof -
  obtain c cs where d: "digits n = c # cs"
    by (cases "digits n") simp_all
  have "c \<noteq> CHR ''-''" "c \<noteq> CHR ''+''" "int_of_digits (c # cs) = n"
    using hd_digits_digit(2,3) [of n] int_of_digits_digits [of n] by (simp_all add: d)
  then show "signed (digits n) = int n" "signed (CHR ''-'' # digits n) = - int n"
    by (simp_all add: signed_def d)
qed

lemma signed_render_int [simp]: "signed (render_int i) = i"
  by (simp add: render_int_def)

lemma delim_parts:
  assumes "delim rest"
  shows "takeWhile is_digit rest = []" "fraction_part rest = []" "exponent_part rest = []"
  using assms
  by (auto simp: delim_def fraction_part_def exponent_part_def is_digit_def is_ws_def split: list.splits)

lemma exponent_part_render:
  assumes "takeWhile is_digit rest = []"
  shows "exponent_part (CHR ''e'' # render_int e @ rest) = CHR ''e'' # render_int e"
proof (cases "digits (nat \<bar>e\<bar>)")
  case (Cons c cs)
  have t: "takeWhile is_digit (c # cs @ rest) = c # cs"
    using takeWhile_digits [OF assms, of "nat \<bar>e\<bar>"] Cons by simp
  have "c \<noteq> CHR ''-''" "c \<noteq> CHR ''+''"
    using hd_digits_digit(2,3) [of "nat \<bar>e\<bar>"] Cons by simp_all
  with t Cons show ?thesis
    by (cases "e < 0") (auto simp: exponent_part_def render_int_def abs_if split: if_splits)
qed simp

lemma match_number_render:
  assumes "takeWhile is_digit tail = []"
  shows "match_number (render_int i @ tail) =
           (if fraction_part tail = [] \<and> exponent_part (drop (length (fraction_part tail)) tail) = []
            then Some (JInt i, tail)
            else Some (JFloat (signed (render_int i @ drop 1 (fraction_part tail)))
                   (signed (drop 1 (exponent_part (drop (length (fraction_part tail)) tail)))
                      - int (length (drop 1 (fraction_part tail)))),
                 drop (length (exponent_part (drop (length (fraction_part tail)) tail)))
                   (drop (length (fraction_part tail)) tail)))"
proof (cases "i < 0")
  case True
  then have r: "render_int i = CHR ''-'' # digits (nat (- i))"
    by (simp add: render_int_def)
  show ?thesis
    unfolding r using True
    by (auto simp: match_number_def Let_def startswith_def integer_part_digits [OF assms])
next
  case False
  then have r: "render_int i = digits (nat i)"
    by (simp add: render_int_def)
  have "\<not> startswith (digits (nat i) @ tail) ''-''"
    using hd_digits_digit(2) [of "nat i"] digits_nonempty [of "nat i"]
    by (cases "digits (nat i)") (auto simp: startswith_def)
  then show ?thesis
    unfolding r using False
    by (auto simp: match_number_def Let_def integer_part_digits [OF assms])
qed

lemma match_number_int: "delim rest \<Longrightarrow> match_number (render_int i @ rest) = Some (JInt i, rest)"
  by (simp add: match_number_render delim_parts)

lemma match_number_float:
  assumes "delim rest"
  shows "match_number (render_int m @ CHR ''e'' # render_int e @ rest) = Some (JFloat m e, rest)"
proof -
  have "takeWhile is_digit (CHR ''e'' # render_int e @ rest) = []"
    "fraction_part (CHR ''e'' # render_int e @ rest) = []"
    by (simp_all add: is_digit_def fraction_part_def)
  then show ?thesis
    by (simp add: match_number_render exponent_part_render delim_parts(1) [OF assms])
qed


section \<open>Dictionaries with distinct keys\<close>

lemma py_setitem_fresh: "k \<notin> fst ` set d \<Longrightarrow> py_setitem d k v = d @ [(k, v)]"
  by (induction d) (auto simp: py_setitem_def)

lemma foldl_setitem_distinct:
  "distinct (map fst (d @ pairs)) \<Longrightarrow> foldl (\<lambda>d (k, v). py_setitem d k v) d pairs = d @ pairs"
  by (induction pairs arbitrary: d) (auto simp: py_setitem_fresh)

lemma dict_distinct [simp]: "distinct (map fst pairs) \<Longrightarrow> dict pairs = pairs"
  using foldl_setitem_distinct [of "[]" pairs] by (simp add: dict_def)


section \<open>Where the text of a value starts\<close>

lemma number_startD:
  assumes "number_start c"
  shows "value_start c" "c \<noteq> DQ" "c \<noteq> CHR ''{''" "c \<noteq> CHR ''[''" "c \<noteq> CHR ''n''" "c \<noteq> CHR ''t''"
    "c \<noteq> CHR ''f''"
  using assms by (auto simp: number_start_def value_start_def is_digit_def)

lemma render_int_head: "\<exists>c cs. render_int i = c # cs \<and> number_start c"
proof (cases "i < 0")
  case False
  obtain c cs where "digits (nat i) = c # cs"
    by (cases "digits (nat i)") simp_all
  with hd_digits_digit(1) [of "nat i"] False show ?thesis
    by (simp add: render_int_def number_start_def)
qed (simp add: render_int_def number_start_def)

lemma render_head: "\<exists>c cs. render v = c # cs \<and> value_start c"
proof (cases v)
  case (JInt i)
  with render_int_head [of i] show ?thesis by (auto simp: number_startD)
next
  case (JFloat m e)
  with render_int_head [of m] show ?thesis by (auto simp: number_startD)
next
  case (JConst k)
  then show ?thesis by (cases k) (simp_all add: value_start_def)
qed (simp_all add: value_start_def quote_def)

lemma value_startD:
  assumes "value_start c"
  shows "skip_ws (c # s) = c # s" "\<not> startswith (c # s) '']''" "\<not> startswith (c # s) ''}''"
    "c \<noteq> CHR ''D''"
proof -
  have "\<not> is_ws c" "c \<noteq> CHR '']''" "c \<noteq> CHR ''}''" "c \<noteq> CHR ''D''"
    using assms by (auto simp: value_start_def is_ws_def is_digit_def)
  then show "skip_ws (c # s) = c # s" "\<not> startswith (c # s) '']''" "\<not> startswith (c # s) ''}''"
    "c \<noteq> CHR ''D''"
    by (simp_all add: startswith_def)
qed

lemma skip_ws_render [simp]: "skip_ws (render v @ rest) = render v @ rest"
  using render_head [of v] by (auto simp: value_startD)

lemma render_not_done: "render v \<noteq> ''[DONE]''"
proof (cases v)
  case (JArr xs)
  show ?thesis
  proof (cases xs)
    case (Cons x ys)
    obtain c cs where "render x = c # cs" "value_start c"
      using render_head by blast
    with value_startD(4) [OF this(2)] JArr Cons show ?thesis
      by (cases ys) auto
  qed (simp add: JArr)
next
  case (JInt i)
  with render_int_head [of i] show ?thesis by (auto dest: number_startD)
next
  case (JFloat m e)
  with render_int_head [of m] show ?thesis by (auto dest: number_startD)
next
  case (JConst k)
  then show ?thesis by (cases k) simp_all
qed (simp_all add: quote_def)

lemma commas_Cons: "xs \<noteq> [] \<Longrightarrow> commas (x # xs) = x @ CHR '','' # commas xs"
  by (cases xs) simp_all

lemma commas_head:
  assumes "xs \<noteq> []" and "\<forall>x\<in>set xs. \<exists>c cs. text x = c # cs \<and> value_start c"
  shows "\<exists>c cs. commas (map text xs) @ r = c # cs \<and> value_start c"
proof (cases xs)
  case (Cons x ys)
  with assms(2) obtain c cs where "text x = c # cs" "value_start c"
    by auto
  with Cons show ?thesis
    by (cases ys) simp_all
qed (use assms in simp)

lemma delim_simps [simp]:
  "delim []" "delim (CHR '','' # s)" "delim (CHR '']'' # s)" "delim (CHR ''}'' # s)"
  by (simp_all add: delim_def)


section \<open>Texts of values are read back\<close>

lemma scan_items_commas:
  assumes "close = CHR '']'' \<or> close = CHR ''}''"
  shows "\<forall>x\<in>set xs. \<forall>r. delim r \<longrightarrow> length (text x @ r) < k \<longrightarrow> item (text x @ r) = Parsed (x, r) \<Longrightarrow>
     \<forall>x\<in>set xs. \<forall>r. skip_ws (text x @ r) = text x @ r \<Longrightarrow>
     xs \<noteq> [] \<Longrightarrow> length (commas (map text xs) @ close # rest) < k \<Longrightarrow>
     length (commas (map text xs) @ close # rest) < n \<Longrightarrow>
     scan_items item close n acc (commas (map text xs) @ close # rest) = Parsed (acc @ xs, rest)"
proof (induction xs arbitrary: n acc)
  case (Cons x xs)
  obtain m where n: "n = Suc m"
    using Cons.prems(5) by (cases n) simp_all
  have close: "\<not> is_ws close" "close \<noteq> CHR '',''" "delim (close # rest)"
    using assms by auto
  have item: "item (text x @ r) = Parsed (x, r)" if "delim r" "length (text x @ r) < k" for r
    using Cons.prems(1) that by simp
  show ?case
  proof (cases "xs = []")
    case True
    with Cons.prems(4) close(3) have "item (text x @ close # rest) = Parsed (x, close # rest)"
      by (intro item) simp_all
    with True close show ?thesis
      by (simp add: n)
  next
    case False
    let ?tail = "commas (map text xs) @ close # rest"
    have c: "commas (text x # map text xs) = text x @ CHR '','' # commas (map text xs)"
      using False by (simp add: commas_Cons)
    have "item (text x @ CHR '','' # ?tail) = Parsed (x, CHR '','' # ?tail)"
      using Cons.prems(4) by (intro item) (simp_all add: c)
    moreover have "skip_ws ?tail = ?tail"
      using False Cons.prems(2) by (cases xs; cases "tl xs") simp_all
    moreover have "scan_items item close m (acc @ [x]) ?tail = Parsed ((acc @ [x]) @ xs, rest)"
      using Cons.prems False by (intro Cons.IH) (simp_all add: c n)
    ultimately show ?thesis
      using close by (simp add: n c)
  qed
qed simp

lemma object_member_render:
  assumes "p (render v @ r) = Parsed (v, r)"
  shows "object_member p (quote key @ CHR '':'' # render v @ r) = Parsed ((key, v), r)"
  using assms by (simp add: object_member_def quote_def scanstring_quote)

lemma scan_value_atom:
  "scan_value p n (''null'' @ rest) = Parsed (JNull, rest)"
  "scan_value p n (''true'' @ rest) = Parsed (JBool True, rest)"
  "scan_value p n (''false'' @ rest) = Parsed (JBool False, rest)"
  "scan_value p n (quote s @ rest) = Parsed (JStr s, rest)"
  by (simp_all add: scan_value_def startswith_def quote_def scanstring_quote)

lemma scan_value_const: "scan_value p n (render_const c @ rest) = Parsed (JConst c, rest)"
  by (cases c)
    (simp_all add: scan_value_def startswith_def match_number_def integer_part_def is_digit_def
      parse_constant_def Let_def)

lemma scan_value_number:
  assumes "match_number (render_int i @ tail) = Some found"
  shows "scan_value p n (render_int i @ tail) = Parsed found"
proof -
  obtain c cs where r: "render_int i = c # cs" and "number_start c"
    using render_int_head [of i] by blast
  from number_startD [OF this(2)] assms show ?thesis
    unfolding r by (simp add: scan_value_def startswith_def)
qed

lemma scan_value_array:
  assumes "\<forall>x\<in>set xs. \<forall>r. delim r \<longrightarrow> length (render x @ r) < n \<longrightarrow> p (render x @ r) = Parsed (x, r)"
    and "length (commas (map render xs) @ CHR '']'' # rest) < n"
  shows "scan_value p n (CHR ''['' # commas (map render xs) @ CHR '']'' # rest) = Parsed (JArr xs, rest)"
proof (cases "xs = []")
  case False
  let ?text = "commas (map render xs) @ CHR '']'' # rest"
  obtain c cs where t: "?text = c # cs" "value_start c"
    using commas_head [OF False, of render] render_head by blast
  have "scan_items p (CHR '']'') n [] ?text = Parsed ([] @ xs, rest)"
    using assms False by (intro scan_items_commas) simp_all
  with value_startD(1-3) [OF t(2), of cs] show ?thesis
    unfolding t(1) [symmetric] by (simp add: scan_value_def JSONArray_def startswith_def t(1))
qed (simp add: scan_value_def JSONArray_def startswith_def)

lemma scan_value_object:
  assumes "\<forall>kv\<in>set kvs. \<forall>r. delim r \<longrightarrow> length (render (snd kv) @ r) < n \<longrightarrow>
             p (render (snd kv) @ r) = Parsed (snd kv, r)"
    and "length (commas (map (\<lambda>kv. quote (fst kv) @ CHR '':'' # render (snd kv)) kvs) @ CHR ''}'' # rest) < n"
    and "distinct (map fst kvs)"
  shows "scan_value p n
           (CHR ''{'' # commas (map (\<lambda>kv. quote (fst kv) @ CHR '':'' # render (snd kv)) kvs) @ CHR ''}'' # rest) =
         Parsed (JObj kvs, rest)"
proof (cases "kvs = []")
  case False
  let ?object_member = "\<lambda>kv. quote (fst kv) @ CHR '':'' # render (snd kv)"
  let ?text = "commas (map ?object_member kvs) @ CHR ''}'' # rest"
  have head: "\<forall>kv\<in>set kvs. \<exists>c cs. ?object_member kv = c # cs \<and> value_start c"
    by (simp add: quote_def value_start_def)
  then obtain c cs where t: "?text = c # cs" "value_start c"
    using commas_head [OF False, of ?object_member] by blast
  have "object_member p (?object_member kv @ r) = Parsed (kv, r)"
    if "kv \<in> set kvs" "delim r" "length (?object_member kv @ r) < n" for kv r
    using that assms(1) object_member_render [of p "snd kv" r "fst kv"] by (simp add: quote_def)
  moreover have "skip_ws (?object_member kv @ r) = ?object_member kv @ r" for kv r
    by (simp add: quote_def)
  ultimately have "scan_items (object_member p) (CHR ''}'') n [] ?text = Parsed ([] @ kvs, rest)"
    using assms(2) False by (intro scan_items_commas) simp_all
  with value_startD(1-3) [OF t(2), of cs] assms(3) show ?thesis
    unfolding t(1) [symmetric] by (simp add: scan_value_def JSONObject_def startswith_def t(1))
qed (simp add: scan_value_def JSONObject_def startswith_def)

lemma scan_once_pos: "0 < n \<Longrightarrow> scan_once n s = scan_value (scan_once (n - 1)) (n - 1) s"
  by (cases n) simp_all

lemma scan_value_scalar:
  assumes "delim rest"
  shows "scan_value p n (render JNull @ rest) = Parsed (JNull, rest)"
    and "scan_value p n (render (JBool b) @ rest) = Parsed (JBool b, rest)"
    and "scan_value p n (render (JInt i) @ rest) = Parsed (JInt i, rest)"
    and "scan_value p n (render (JFloat m e) @ rest) = Parsed (JFloat m e, rest)"
    and "scan_value p n (render (JConst c) @ rest) = Parsed (JConst c, rest)"
    and "scan_value p n (render (JStr s) @ rest) = Parsed (JStr s, rest)"
  using scan_value_atom(1-3) [of p n rest] scan_value_atom(4) [of p n s rest] scan_value_number [OF match_number_int [OF assms, of i], of p n]
    scan_value_number [OF match_number_float [OF assms, of m e], of p n]
  by (simp_all add: scan_value_const)

lemma scan_once_render:
  "wf_json v \<Longrightarrow> delim rest \<Longrightarrow> length (render v @ rest) < n \<Longrightarrow>
     scan_once n (render v @ rest) = Parsed (v, rest)"
proof (induction v arbitrary: n rest)
  case (JArr xs)
  have "\<forall>x\<in>set xs. \<forall>r. delim r \<longrightarrow> length (render x @ r) < n - 1 \<longrightarrow>
      scan_once (n - 1) (render x @ r) = Parsed (x, r)"
    using JArr.IH JArr.prems(1) by (simp add: list_all_iff)
  then have "scan_value (scan_once (n - 1)) (n - 1) (CHR ''['' # commas (map render xs) @ CHR '']'' # rest) =
      Parsed (JArr xs, rest)"
    using JArr.prems(3) by (intro scan_value_array) simp_all
  with JArr.prems(3) show ?case by (simp add: scan_once_pos)
next
  case (JObj kvs)
  let ?object_member = "\<lambda>kv. quote (fst kv) @ CHR '':'' # render (snd kv)"
  have "\<forall>kv\<in>set kvs. \<forall>r. delim r \<longrightarrow> length (render (snd kv) @ r) < n - 1 \<longrightarrow>
      scan_once (n - 1) (render (snd kv) @ r) = Parsed (snd kv, r)"
    using JObj.IH JObj.prems(1) by (auto simp: list_all_iff snds.simps)
  then have "scan_value (scan_once (n - 1)) (n - 1) (CHR ''{'' # commas (map ?object_member kvs) @ CHR ''}'' # rest) =
      Parsed (JObj kvs, rest)"
    using JObj.prems(1,3) by (intro scan_value_object) simp_all
  with JObj.prems(3) show ?case by (simp add: scan_once_pos)
qed (simp_all add: scan_once_pos scan_value_scalar del: render.simps)

lemma py_loads_render: "wf_json v \<Longrightarrow> py_loads (render v) = Some v"
  using scan_once_render [of v "[]" "Suc (length (render v))"] skip_ws_render [of v "[]"]
  by (simp add: py_loads_def del: scan_once.simps)

lemma render_inject: "wf_json v \<Longrightarrow> wf_json w \<Longrightarrow> render v = render w \<Longrightarrow> v = w"
  by (metis py_loads_render option.inject)

lemma skip_ws_all: "list_all is_ws pre \<Longrightarrow> skip_ws (pre @ s) = skip_ws s"
  by (induction pre) simp_all

lemma delim_ws: "list_all is_ws post \<Longrightarrow> delim post"
  by (cases post) (simp_all add: delim_def)

lemma py_loads_render_ws:
  assumes "wf_json v" and "list_all is_ws pre" and "list_all is_ws post"
  shows "py_loads (pre @ render v @ post) = Some v"
proof -
  have "scan_once (Suc (length (pre @ render v @ post))) (render v @ post) = Parsed (v, post)"
    using assms(1) delim_ws [OF assms(3)] by (intro scan_once_render) simp_all
  moreover have "skip_ws post = []"
    using skip_ws_all [OF assms(3), of "[]"] by simp
  ultimately show ?thesis
    by (simp add: py_loads_def skip_ws_all [OF assms(2)] del: scan_once.simps)
qed

lemma wf_sample_value: "wf_json sample_value"
  by (simp add: sample_value_def)

section \<open>The texts of the scenarios\<close>

lemma py_loads_text: "render v = s \<Longrightarrow> wf_json v \<Longrightarrow> py_loads s = Some v"
  using py_loads_render by blast

lemma sample_loads_sound: "sample_loads s = Some v \<Longrightarrow> py_loads s = Some v"
  unfolding sample_loads_def
  by (auto split: if_splits intro!: py_loads_text
      simp: delta_chunk_def quote_plain render_int_def digits_eval digit_char_eval)

section \<open>Properties of the round trip\<close>



end
