(* ===== verification/Wire.thy ===== *)
theory Wire
  imports JsonPrint Coordinator
begin

text \<open>
  The exchange with the collaborators at the level of the texts on the wire, with
  \<open>py_loads\<close> as the parser of the environment. The stateful agent answers with lines
  \<open>data: \<close> followed by a JSON object that carries a fragment, and ends with
  \<open>data: [DONE]\<close> (the format the docstring of \<open>__call_ums_agent\<close> describes); the model
  answers the classifier with the JSON text of a decision, and the session endpoint
  with an object that holds the identifier. The theorems show that what is written in
  these formats is what the gateway and the classifier read, and give the reply and the
  trace of a whole first turn whose collaborators answer with these texts.
\<close>

section \<open>The formats\<close>

definition sse_line :: "json \<Rightarrow> string" where
  "sse_line chunk_data = ''data: '' @ render chunk_data"

definition sse_done :: string where
  "sse_done = ''data: [DONE]''"

definition sse_stream :: "string list \<Rightarrow> string list" where
  "sse_stream texts = map (\<lambda>c. sse_line (delta_chunk c)) texts @ [sse_done]"

definition session_created :: "json \<Rightarrow> string" where
  "session_created conversation_id = render (JObj [(''id'', conversation_id)])"

definition wire_env :: env where
  "wire_env =
     sample_env\<lparr>json_loads := py_loads,
       completions_create := (\<lambda>messages.
         Inr [Some (render (model_dump \<lparr>agent_name = UMS, additional_instructions = None\<rparr>))]),
       post_chat := (\<lambda>conversation_id user_message.
         Inr \<lparr>status_code = 200,
              payload = whole (sse_stream [''Hel'', [], ''lo''] @ [''trailing garbage''])\<rparr>)\<rparr>"

section \<open>Lines of the event stream\<close>

lemma sse_payload_line [simp]: "sse_payload (sse_line v) = render v"
  by (simp add: sse_payload_def sse_line_def startswith_def)

lemma handle_line_sse: "wf_json v \<Longrightarrow> handle_line py_loads (sse_line v) = chunk_action v"
  by (simp add: handle_line_def render_not_done py_loads_render) (simp add: sse_line_def)

lemma handle_line_sse_done [simp]: "handle_line loads sse_done = Break"
  by (simp add: handle_line_def sse_done_def sse_payload_def startswith_def)

lemma wf_delta_chunk [simp]: "wf_json (delta_chunk c)"
  by (simp add: delta_chunk_def)

lemma consume_sse_stream:
  "consume_lines py_loads stage fail (sse_stream texts @ later) acc tr =
     (Inr (acc @ concat texts), tr @ map (StageAppended stage) (filter (\<lambda>c. c \<noteq> []) texts))"
  by (induction texts arbitrary: acc tr)
    (simp_all add: sse_stream_def handle_line_sse ethen_def ebind_def)

lemma call_ums_agent_sse:
  assumes "json_loads environ = py_loads"
    and "post_chat environ conversation_id user_message =
           Inr \<lparr>status_code = 200, payload = \<lparr>items = sse_stream texts @ later, failure = fail\<rparr>\<rparr>"
  shows "call_ums_agent environ conversation_id user_message stage tr =
           (Inr (concat texts),
            tr @ ChatPosted conversation_id user_message
               # map (StageAppended stage) (filter (\<lambda>c. c \<noteq> []) texts))"
  using assms by (simp add: call_ums_agent_def ethen_def ebind_def consume_sse_stream)

section \<open>The text of a decision\<close>

lemma wf_model_dump [simp]: "wf_json (model_dump d)"
  by (simp add: model_dump_def split: option.splits)

lemma decision_of_text:
  assumes "json_loads environ = py_loads"
    and "completions_create environ (coordination_messages request) = Inr (Some (render (model_dump d)) # others)"
  shows "decision environ request = Inr d"
  using assms decision_roundtrip
  by (simp add: decision_def parse_decision_def first_choice_def loads_content_def py_loads_render)

lemma prepare_coordination_request_text:
  assumes "json_loads environ = py_loads"
    and "completions_create environ (coordination_messages request) =
           Inr (Some (pre @ render (model_dump d) @ post) # others)"
    and "list_all is_ws pre" and "list_all is_ws post"
  shows "prepare_coordination_request environ request tr =
           (Inr d, tr @ [ModelRequested Structured (coordination_messages request)])"
  using assms decision_roundtrip
  by (simp add: prepare_coordination_request_def parse_decision_def first_choice_def loads_content_def
      py_loads_render_ws ethen_def ebind_def)

section \<open>The first turn of a session\<close>

lemma create_ums_conversation_text:
  assumes "json_loads environ = py_loads"
    and "post_conversations environ = Inr \<lparr>status_code = 200, payload = session_created cid\<rparr>"
    and "wf_json cid"
  shows "create_ums_conversation environ tr = (Inr cid, tr @ [ConversationPosted])"
proof -
  have "py_loads (session_created cid) = Some (JObj [(''id'', cid)])"
    unfolding session_created_def using assms(3) by (intro py_loads_render) simp
  with assms(1,2) show ?thesis
    by (simp add: create_ums_conversation_apply)
qed

lemma ums_response_first_turn_text:
  assumes "json_loads environ = py_loads"
    and "post_conversations environ = Inr \<lparr>status_code = 200, payload = session_created cid\<rparr>"
    and "wf_json cid"
    and "post_chat environ cid (sent_content request instr) =
           Inr \<lparr>status_code = 200, payload = \<lparr>items = sse_stream texts @ later, failure = fail\<rparr>\<rparr>"
    and "list_all carries_no_session request" and "request \<noteq> []"
  shows "ums_response environ stage request instr tr =
           (Inr (assistant_message (concat texts)),
            tr @ [ConversationPosted, StateSet (session_state cid),
                  ChatPosted cid (sent_content request instr)]
               @ map (StageAppended stage) (filter (\<lambda>c. c \<noteq> []) texts))"
proof -
  have "resolve_conversation environ request tr =
      (Inr cid, tr @ [ConversationPosted, StateSet (session_state cid)])"
    using get_ums_conversation_id_none [OF assms(5)] create_ums_conversation_text [OF assms(1-3)]
    by (intro resolve_conversation_created) simp_all
  then show ?thesis
    using assms(6) call_ums_agent_sse [OF assms(1,4)] by (simp add: ums_response_apply)
qed

section \<open>The sample exchange\<close>

lemma wire_env_simps [simp]:
  "json_loads wire_env = py_loads"
  "completions_create wire_env messages =
     Inr [Some (render (model_dump \<lparr>agent_name = UMS, additional_instructions = None\<rparr>))]"
  "post_chat wire_env conversation_id user_message =
     Inr \<lparr>status_code = 200, payload = whole (sse_stream [''Hel'', [], ''lo''] @ [''trailing garbage''])\<rparr>"
  "post_conversations wire_env = post_conversations sample_env"
  "completions_stream wire_env = completions_stream sample_env"
  by (simp_all add: wire_env_def)

lemma session_created_sample: \<open>session_created (JStr ''abc'') = ''{"id":"abc"}''\<close>
  by (simp add: session_created_def quote_plain)

section \<open>Properties of the exchange\<close>

text \<open>
  C11. What the agent streams is what the gateway returns. When the chat endpoint
  answers 200 with the fragments written in the documented format, one line
  \<open>data: \<close> and a delta object per fragment and then \<open>data: [DONE]\<close>, the call returns
  the concatenation of the fragments and appends the non-empty ones to the stage in
  order, whatever follows the sentinel and however the transport ends after it.
\<close>

theorem documented_stream_is_read_back:
  assumes "json_loads environ = py_loads"
    and "post_chat environ conversation_id user_message =
           Inr \<lparr>status_code = 200, payload = \<lparr>items = sse_stream texts @ later, failure = fail\<rparr>\<rparr>"
  shows "call_ums_agent environ conversation_id user_message stage tr =
           (Inr (concat texts),
            tr @ ChatPosted conversation_id user_message
               # map (StageAppended stage) (filter (\<lambda>c. c \<noteq> []) texts))"
  using assms by (rule call_ums_agent_sse)

theorem documented_stream_is_read_back_witness:
  "call_ums_agent wire_env (JStr ''abc'') ''hi'' 0 [] =
     (Inr ''Hello'', [ChatPosted (JStr ''abc'') ''hi'', StageAppended 0 ''Hel'', StageAppended 0 ''lo''])"
  using documented_stream_is_read_back [of wire_env "JStr ''abc''" "''hi''" "[''Hel'', [], ''lo'']"
      "[''trailing garbage'']" None 0 "[]"]
  by (simp add: whole_def)

text \<open>
  The text of a decision is read back. When the first choice of the model's answer
  is the JSON text of the dictionary of a decision, with any white space around it, the
  classifier returns that decision after its one structured request.
\<close>

theorem decision_text_is_read_back:
  assumes "json_loads environ = py_loads"
    and "completions_create environ (coordination_messages request) =
           Inr (Some (pre @ render (model_dump d) @ post) # others)"
    and "list_all is_ws pre" and "list_all is_ws post"
  shows "prepare_coordination_request environ request tr =
           (Inr d, tr @ [ModelRequested Structured (coordination_messages request)])"
  using assms by (rule prepare_coordination_request_text)

theorem decision_text_is_read_back_witness:
  "fst (prepare_coordination_request wire_env sample_request []) =
     Inr \<lparr>agent_name = UMS, additional_instructions = None\<rparr>"
  using decision_text_is_read_back [of wire_env sample_request "[]"
      "\<lparr>agent_name = UMS, additional_instructions = None\<rparr>" "[]" "[]" "[]"]
  by simp

text \<open>
  C12. A first turn, end to end. When the model answers the classifier with the text of
  a decision for the stateful agent, the agent answers the session creation with the
  text of an object that carries the identifier and the chat call with fragments in
  the documented stream format, and the model streams the synthesis, then a run on a
  history without a session returns the concatenation of the synthesis fragments and
  leaves exactly this trace: the coordination stage opened, the structured request,
  the routing note, the stage closed; the agent stage opened, the session creation,
  the state with the identifier, the chat call, the agent's non-empty fragments on the
  stage, the stage closed; the streaming request and the fragments of the answer.
\<close>

theorem first_turn_exchange:
  assumes "json_loads environ = py_loads"
    and "completions_create environ (coordination_messages request) = Inr [Some (render (model_dump d))]"
    and "agent_name d = UMS"
    and "post_conversations environ = Inr \<lparr>status_code = 200, payload = session_created cid\<rparr>"
    and "wf_json cid"
    and "post_chat environ cid (sent_content request (additional_instructions d)) =
           Inr \<lparr>status_code = 200, payload = \<lparr>items = sse_stream texts @ later, failure = fail\<rparr>\<rparr>"
    and "list_all carries_no_session request" and "request \<noteq> []"
    and "synthesis_messages request (assistant_message (concat texts)) = Inr messages"
    and "completions_stream environ messages = Inr (whole chunks)"
  shows "handle_request environ request tr =
           (Inr (assistant_message (concat (fragments chunks))),
            tr @ [StageOpened (stage_count tr) coordination_stage_name,
                  ModelRequested Structured (coordination_messages request),
                  StageAppended (stage_count tr) (routing_note d),
                  StageClosed (stage_count tr),
                  StageOpened (Suc (stage_count tr)) (agent_stage_name d),
                  ConversationPosted, StateSet (session_state cid),
                  ChatPosted cid (sent_content request (additional_instructions d))]
               @ map (StageAppended (Suc (stage_count tr))) (filter (\<lambda>c. c \<noteq> []) texts)
               @ [StageClosed (Suc (stage_count tr)), ModelRequested Streaming messages]
               @ map ChoiceAppended (fragments chunks))"
proof -
  let ?n = "stage_count tr"
  let ?tr1 = "tr @ [StageOpened ?n coordination_stage_name,
                  ModelRequested Structured (coordination_messages request),
                  StageAppended ?n (routing_note d), StageClosed ?n]"
  have d: "decision environ request = Inr d"
    using assms(1,2) by (rule decision_of_text)
  then have r1: "routing_step environ request tr = (Inr d, ?tr1)"
    by (rule routing_step_returns)
  have n1: "stage_count ?tr1 = Suc ?n"
    using routing_step_effect(1) [of environ request tr] r1 by simp
  have "handle_coordination_request environ d (Suc ?n) request
          (?tr1 @ [StageOpened (Suc ?n) (agent_stage_name d)]) =
        (Inr (assistant_message (concat texts)),
         (?tr1 @ [StageOpened (Suc ?n) (agent_stage_name d)])
           @ [ConversationPosted, StateSet (session_state cid),
              ChatPosted cid (sent_content request (additional_instructions d))]
           @ map (StageAppended (Suc ?n)) (filter (\<lambda>c. c \<noteq> []) texts))"
    using assms(3) ums_response_first_turn_text [OF assms(1,4,5,6,7,8)] by simp
  then have r2: "delegating_step environ request d ?tr1 =
        (Inr (assistant_message (concat texts)),
         ((?tr1 @ [StageOpened (Suc ?n) (agent_stage_name d)])
           @ [ConversationPosted, StateSet (session_state cid),
              ChatPosted cid (sent_content request (additional_instructions d))]
           @ map (StageAppended (Suc ?n)) (filter (\<lambda>c. c \<noteq> []) texts))
           @ [StageClosed (Suc ?n)])"
    using delegating_step_returns [of environ d ?tr1 request] unfolding n1 by blast
  from r1 r2 assms(10) show ?thesis
    by (simp add: handle_request_apply final_response_apply [OF assms(9)])
qed

theorem first_turn_exchange_witness:
  "fst (handle_request wire_env sample_request []) = Inr (assistant_message ''User created.'')
   \<and> stage_chunks 1 (snd (handle_request wire_env sample_request [])) = [''Hel'', ''lo'']
   \<and> states_set (snd (handle_request wire_env sample_request [])) = [session_state (JStr ''abc'')]"
proof -
  obtain messages
    where "synthesis_messages sample_request (assistant_message (concat [''Hel'', [], ''lo''])) = Inr messages"
    using synthesis_messages_total by blast
  then show ?thesis
    using first_turn_exchange [of wire_env sample_request
        "\<lparr>agent_name = UMS, additional_instructions = None\<rparr>" "JStr ''abc''" "[''Hel'', [], ''lo'']"
        "[''trailing garbage'']" None messages "[[Some ''User ''], [], [None], [Some ''created.'']]" "[]"]
    by (simp add: session_created_sample whole_def sample_request_def carries_no_session_def
        fragments_def stage_chunks_def states_set_def)
qed

end
