(* ===== verification/Requests.thy ===== *)
theory Requests
  imports App Wire
begin

text \<open>
  The arguments of the calls a run sends out. The trace records a request by its kind
  and by what varies from run to run (the messages, the session identifier, the text,
  the instructions); this theory gives each request the arguments the source writes at
  the call: the client and the keyword arguments of the two model calls of \<open>agent.py\<close>
  (lines 76, 118 to 130 and 234 to 238), the constructor of \<open>UMSAgentGateway\<close> and the
  two HTTP requests of \<open>ums_agent.py\<close> (lines 32 to 39, 118 to 119 and 152 to 161),
  and the constructor call of the general-purpose gateway (line 193). \<open>call_of\<close> reads
  an event of the trace as the call it stands for, and \<open>calls\<close> a trace as the list of
  its calls.

  The URL of the chat request formats the session identifier in an f-string, that is
  with Python's \<open>str\<close>. \<open>py_str\<close> is \<open>str\<close> where the JSON value determines it: on
  strings, on \<open>None\<close>, on booleans, on integers of at most 4300 digits and on the three
  float constants. On other floats (the shortest decimal that reads back as the same
  double), on containers (the \<open>repr\<close> of their elements) and on longer integers (an
  exception since Python 3.11) it is not represented, and the call of such a request
  is \<open>None\<close>. The JSON schema of the decision comes from \<open>task/models.py\<close>, which is not
  among the sources; it is a parameter.
\<close>

section \<open>Python's \<open>str\<close> on a value\<close>

fun py_str :: "json \<Rightarrow> string option" where
  "py_str (JStr s) = Some s"
| "py_str JNull = Some ''None''"
| "py_str (JBool b) = Some (if b then ''True'' else ''False'')"
| "py_str (JInt i) = (if length (digits (nat \<bar>i\<bar>)) \<le> 4300 then Some (render_int i) else None)"
| "py_str (JConst NaN) = Some ''nan''"
| "py_str (JConst PosInfinity) = Some ''inf''"
| "py_str (JConst NegInfinity) = Some ''-inf''"
| "py_str (JFloat m e) = None"
| "py_str (JArr xs) = None"
| "py_str (JObj kvs) = None"

section \<open>The gateway object and its requests\<close>

record ums_agent_gateway =
  ums_agent_endpoint' :: string

definition UMSAgentGateway :: "string \<Rightarrow> ums_agent_gateway" where
  "UMSAgentGateway ums_agent_endpoint_arg = \<lparr>ums_agent_endpoint' = ums_agent_endpoint_arg\<rparr>"

text \<open>
  A request of the HTTP client is the method, the URL and the JSON body of the call,
  with the \<open>timeout\<close> argument its client was created with, in seconds: \<open>None\<close> when the
  source passes none and the default of the library applies, as for the creation
  of a session (line 118).
\<close>

record http_request =
  client_timeout :: "nat option"
  http_method :: string
  url :: string
  json_body :: "json option"

definition conversations_request :: "ums_agent_gateway \<Rightarrow> http_request" where
  "conversations_request self =
     \<lparr>client_timeout = None, http_method = ''POST'',
      url = ums_agent_endpoint' self @ ''/conversations'', json_body = None\<rparr>"

definition chat_url :: "ums_agent_gateway \<Rightarrow> json \<Rightarrow> string option" where
  "chat_url self conversation_id =
     map_option (\<lambda>text. ums_agent_endpoint' self @ ''/conversations/'' @ text @ ''/chat'')
       (py_str conversation_id)"

definition chat_body :: "string \<Rightarrow> json" where
  "chat_body user_message =
     JObj [(''message'', JObj [(''role'', JStr ''user''), (''content'', JStr user_message)]),
           (''stream'', JBool True)]"

definition chat_request :: "ums_agent_gateway \<Rightarrow> json \<Rightarrow> string \<Rightarrow> http_request option" where
  "chat_request self conversation_id user_message =
     map_option (\<lambda>target.
         \<lparr>client_timeout = Some 120, http_method = ''POST'', url = target,
          json_body = Some (chat_body user_message)\<rparr>)
       (chat_url self conversation_id)"

section \<open>The model client and its requests\<close>

record dial_client =
  base_url :: string
  api_version :: string

definition AsyncDial :: "string \<Rightarrow> string \<Rightarrow> dial_client" where
  "AsyncDial base_url_arg api_version_arg = \<lparr>base_url = base_url_arg, api_version = api_version_arg\<rparr>"

text \<open>
  A call of \<open>client.chat.completions.create\<close> is the client it is made on and its
  keyword arguments. An argument the source does not pass has the default of the
  library: no \<open>extra_body\<close>, and \<open>stream\<close> false.
\<close>

record completion_request =
  client :: dial_client
  model_arg :: string
  messages_arg :: "json list"
  extra_body_arg :: "json option"
  stream_arg :: bool

definition dial_client_of :: "coordinator \<Rightarrow> dial_client" where
  "dial_client_of self = AsyncDial (endpoint self) ''2025-01-01-preview''"

definition response_format :: "json \<Rightarrow> json" where
  "response_format model_json_schema =
     JObj [(''response_format'',
            JObj [(''type'', JStr ''json_schema''),
                  (''json_schema'', JObj [(''name'', JStr ''response''), (''schema'', model_json_schema)])])]"

definition coordination_call :: "coordinator \<Rightarrow> json \<Rightarrow> json list \<Rightarrow> completion_request" where
  "coordination_call self model_json_schema messages =
     \<lparr>client = dial_client_of self, model_arg = deployment_name self, messages_arg = messages,
      extra_body_arg = Some (response_format model_json_schema), stream_arg = False\<rparr>"

definition synthesis_call :: "coordinator \<Rightarrow> json list \<Rightarrow> completion_request" where
  "synthesis_call self messages =
     \<lparr>client = dial_client_of self, model_arg = deployment_name self, messages_arg = messages,
      extra_body_arg = None, stream_arg = True\<rparr>"

section \<open>A trace as calls\<close>

text \<open>
  What a run sends out is a call of the model, an HTTP request to the stateful agent,
  or the delegation to the general-purpose agent: \<open>GPAGateway(self.endpoint)\<close> and its
  method \<open>response\<close> on the request and the instructions of the decision (\<open>agent.py\<close>,
  lines 193 to 196).
\<close>

datatype outbound =
    Completion completion_request
  | Http http_request
  | Delegated string request "string option"

fun call_of :: "coordinator \<Rightarrow> json \<Rightarrow> request \<Rightarrow> event \<Rightarrow> outbound option" where
  "call_of self model_json_schema request (ModelRequested Structured messages) =
     Some (Completion (coordination_call self model_json_schema messages))"
| "call_of self model_json_schema request (ModelRequested Streaming messages) =
     Some (Completion (synthesis_call self messages))"
| "call_of self model_json_schema request ConversationPosted =
     Some (Http (conversations_request (UMSAgentGateway (ums_agent_endpoint self))))"
| "call_of self model_json_schema request (ChatPosted conversation_id user_message) =
     map_option Http
       (chat_request (UMSAgentGateway (ums_agent_endpoint self)) conversation_id user_message)"
| "call_of self model_json_schema request (AgentRequested instructions) =
     Some (Delegated (endpoint self) request instructions)"
| "call_of self model_json_schema request _ = None"

definition calls :: "coordinator \<Rightarrow> json \<Rightarrow> request \<Rightarrow> trace \<Rightarrow> outbound option list" where
  "calls self model_json_schema request tr = map (call_of self model_json_schema request) (posts tr)"

definition default_coordinator :: coordinator where
  "default_coordinator =
     MASCoordinator (DIAL_ENDPOINT (load_settings Map.empty)) (DEPLOYMENT_NAME (load_settings Map.empty))
       (UMS_AGENT_ENDPOINT (load_settings Map.empty))"

section \<open>What \<open>str\<close> keeps of a value\<close>

lemma render_int_inject [simp]: "render_int i = render_int j \<longleftrightarrow> i = j"
  by (metis signed_render_int)

lemma py_str_text [simp]: "py_str (JStr s) = py_str (JStr t) \<longleftrightarrow> s = t"
  by simp

lemma py_str_small_int: "\<bar>i\<bar> < 10 \<Longrightarrow> py_str (JInt i) = Some (render_int i)"
  by (simp add: digits_eval)

lemma py_str_collides:
  "py_str JNull = py_str (JStr ''None'')"
  "py_str (JBool True) = py_str (JStr ''True'')"
  "py_str (JInt 7) = py_str (JStr ''7'')"
  "py_str (JConst NaN) = py_str (JStr ''nan'')"
  by (simp_all add: render_int_def digits_eval digit_char_eval)

lemma py_str_None_iff:
  "py_str v = None \<longleftrightarrow>
     (\<exists>m e. v = JFloat m e) \<or> (\<exists>xs. v = JArr xs) \<or> (\<exists>kvs. v = JObj kvs)
     \<or> (\<exists>i. v = JInt i \<and> 4300 < length (digits (nat \<bar>i\<bar>)))"
  by (cases v rule: py_str.cases) auto

section \<open>The requests to the stateful agent\<close>

lemma chat_url_text [simp]:
  "chat_url self (JStr s) = Some (ums_agent_endpoint' self @ ''/conversations/'' @ s @ ''/chat'')"
  by (simp add: chat_url_def)

lemma chat_url_eq_iff: "chat_url self a = chat_url self b \<longleftrightarrow> py_str a = py_str b"
  by (cases "py_str a"; cases "py_str b") (simp_all add: chat_url_def)

lemma chat_url_None_iff [simp]: "chat_url self v = None \<longleftrightarrow> py_str v = None"
  by (simp add: chat_url_def)

lemma chat_request_None_iff [simp]: "chat_request self v m = None \<longleftrightarrow> py_str v = None"
  by (simp add: chat_request_def)

lemma chat_request_text:
  "chat_request self (JStr s) m =
     Some \<lparr>client_timeout = Some 120, http_method = ''POST'',
           url = ums_agent_endpoint' self @ ''/conversations/'' @ s @ ''/chat'',
           json_body = Some (chat_body m)\<rparr>"
  by (simp add: chat_request_def)

lemma chat_request_eq_iff:
  "chat_request self a m = chat_request self b n \<longleftrightarrow>
     py_str a = py_str b \<and> (py_str a \<noteq> None \<longrightarrow> m = n)"
  by (cases "py_str a"; cases "py_str b") (auto simp: chat_request_def chat_url_def chat_body_def)

lemma wf_chat_body [simp]: "wf_json (chat_body m)"
  by (simp add: chat_body_def)

lemma chat_body_inject [simp]: "chat_body m = chat_body n \<longleftrightarrow> m = n"
  by (simp add: chat_body_def)

lemma chat_body_fields:
  "rbind (py_getitem (chat_body m) ''message'') (\<lambda>message. py_getitem message ''content'') = Inr (JStr m)"
  "rbind (py_getitem (chat_body m) ''message'') (\<lambda>message. py_getitem message ''role'') = Inr (JStr ''user'')"
  "py_getitem (chat_body m) ''stream'' = Inr (JBool True)"
  by (simp_all add: chat_body_def)

lemma chat_body_reads_back: "py_loads (render (chat_body m)) = Some (chat_body m)"
  by (rule py_loads_render) simp

lemma chat_request_examples:
  "chat_request (UMSAgentGateway e) JNull m =
     Some \<lparr>client_timeout = Some 120, http_method = ''POST'',
           url = e @ ''/conversations/None/chat'', json_body = Some (chat_body m)\<rparr>"
  "chat_request (UMSAgentGateway e) (JStr ''7/../8?x='') m =
     Some \<lparr>client_timeout = Some 120, http_method = ''POST'',
           url = e @ ''/conversations/7/../8?x=/chat'', json_body = Some (chat_body m)\<rparr>"
  "chat_request (UMSAgentGateway e) (JInt 7) m = chat_request (UMSAgentGateway e) (JStr ''7'') m"
  by (simp_all add: chat_request_def chat_url_def UMSAgentGateway_def render_int_def digits_eval
      digit_char_eval)

lemma timeouts_differ:
  "client_timeout (conversations_request self) = None"
  "chat_request self v m = Some r \<Longrightarrow> client_timeout r = Some 120"
  by (auto simp: conversations_request_def chat_request_def)

section \<open>The requests to the model\<close>

lemma wf_response_format [simp]: "wf_json (response_format s) \<longleftrightarrow> wf_json s"
  by (simp add: response_format_def)

lemma model_calls_share_client:
  "client (coordination_call self s ms) = client (synthesis_call self ms')"
  "model_arg (coordination_call self s ms) = model_arg (synthesis_call self ms')"
  by (simp_all add: coordination_call_def synthesis_call_def)

lemma model_calls_differ: "coordination_call self s ms \<noteq> synthesis_call self ms'"
  by (simp add: coordination_call_def synthesis_call_def)

section \<open>Traces as calls\<close>

lemma calls_Nil [simp]: "calls self s request [] = []"
  by (simp add: calls_def posts_def)

lemma calls_append_posts:
  "posts tr' = posts tr @ ps \<Longrightarrow>
     calls self s request tr' = calls self s request tr @ map (call_of self s request) ps"
  by (simp add: calls_def)

lemma length_calls [simp]: "length (calls self s request tr) = length (posts tr)"
  by (simp add: calls_def)

lemmas request_defs =
  coordination_call_def synthesis_call_def dial_client_of_def AsyncDial_def response_format_def
  conversations_request_def chat_request_def chat_url_def chat_body_def UMSAgentGateway_def

lemma default_coordinator_simps [simp]:
  "endpoint default_coordinator = ''http://localhost:8080''"
  "deployment_name default_coordinator = ''gpt-4o''"
  "ums_agent_endpoint default_coordinator = ''http://localhost:8042''"
  by (simp_all add: default_coordinator_def MASCoordinator_def load_settings_def)

end
