(* ===== verification/Spec2Isabelle.thy ===== *)
theory Spec2Isabelle
  imports Conversation Cleanup Payload Phases Requests
begin

text \<open>
  \<^bold>\<open>A verification development for the multi-agent coordinator.\<close>

  The program (\<open>src/task\<close>) is a request router in front of a chat model and two
  downstream agents. For one request it asks the model which agent should answer
  (\<open>MASCoordinator.__prepare_coordination_request\<close>), delegates to that agent while
  streaming its output into a log surface (\<open>__handle_coordination_request\<close>, the
  gateways), and asks the model again to rewrite the agent's answer, streaming the
  result to the caller (\<open>__final_response\<close>). The stateful agent keeps its own
  sessions; the gateway in \<open>src/task/coordination/ums_agent.py\<close> finds the session
  identifier in the conversation history or creates a session, and reads the agent's
  answer from a line-oriented event stream.

  \<^bold>\<open>Theories, in the order of their imports.\<close>
  \<^item> \<open>Prelude\<close>: the exception classes as the datatype \<open>error\<close>, results \<open>error + 'a\<close>
    with \<open>rbind\<close>, computations with effects \<open>('s, 'a) run\<close> with \<open>ebind\<close> (the state
    is returned on the error branch as well), Python's string operations, and the
    lemma collections \<open>run_simps\<close>, \<open>py_simps\<close> and \<open>trace_simps\<close>.
  \<^item> \<open>PyJson\<close>: the values of \<open>json.loads\<close> and Python's operations on them (truth
    value, \<open>in\<close>, subscription, \<open>get\<close>, item assignment, \<open>+=\<close>), each returning the
    exception it raises on an operand of the wrong type; dictionaries keep distinct
    keys under every operation.
  \<^item> \<open>Effects\<close>: the trace of events a run leaves (stages opened, written and
    closed, fragments appended to the answer, state attached, requests sent), its
    views, the operations of the stage helper and of the choice, and the protocol
    \<open>wf_trace\<close> of the log surfaces with its executable form \<open>check_trace\<close>.
  \<^item> \<open>Messages\<close>: the messages of a request and the message adapter
    \<open>prepare_messages\<close> (\<open>__prepare_messages\<close> in \<open>agent.py\<close>).
  \<^item> \<open>Environment\<close>, \<open>Fixtures\<close>: the collaborators outside the sources as the
    record \<open>env\<close>, and the inputs of the specification's scenarios for the witnesses.
  \<^item> \<open>Prompts\<close>: the two system prompts of \<open>prompts.py\<close>, line by line.
  \<^item> \<open>Gateway\<close>: the capability \<open>response\<close> of a gateway as a type, the contract
    \<open>gateway_ok\<close> the coordinator relies on, and what follows from it.
  \<^item> \<open>UmsStream\<close>: the reader of the event stream (\<open>__call_ums_agent\<close>): one
    definition per decision of the loop body, the loop \<open>consume_lines\<close>, its
    refinement to the list functions \<open>stream_fragments\<close> and \<open>stream_outcome\<close>, and
    the order in which the fragments reach the stage.
  \<^item> \<open>UmsGateway\<close>: the session lookup, the session creation and the method
    \<open>response\<close> of \<open>UMSAgentGateway\<close>; the session round trip across two turns.
  \<^item> \<open>GpaGateway\<close>: the gateway of the general-purpose agent, from its contract.
  \<^item> \<open>Classifier\<close>: the decision type, its validation, and
    \<open>prepare_coordination_request\<close>.
  \<^item> \<open>Dispatch\<close>: \<open>handle_coordination_request\<close>; one run talks to one agent.
  \<^item> \<open>Synthesis\<close>: \<open>final_response\<close>, the composite sent to the model and the loop
    over the streamed chunks.
  \<^item> \<open>Coordinator\<close>: \<open>handle_request\<close> as the sequence of its three steps and as a
    machine over the phases of the design, the invariant of the log surfaces, what
    is left behind by a run that fails, and the rank of a phase, by which every
    sequence of steps is finite.
  \<^item> \<open>Phases\<close>: the phases as an instance of the class \<open>preorder\<close>, ordered by
    their rank: a step moves to a strictly later phase, \<open>Idle\<close> is least, the final
    phases are greatest, and no configuration is reached again.
  \<^item> \<open>App\<close>: the settings and their defaults, the constructor of the coordinator,
    \<open>chat_completion\<close> of \<open>app.py\<close> with the single choice as a scoped resource, and
    the application object \<open>app\<close> with its one deployment, served by name.
  \<^item> \<open>Conversation\<close>: the session lookup against its reference (the first stored
    identifier) and against the lookup of the design (the most recent one); a
    conversation as the inductive relation \<open>talks\<close> over the histories the caller
    stores between runs, with the executable \<open>converse\<close>; the invariant
    \<open>single_session\<close> of those histories and the number of sessions created.
  \<^item> \<open>Cleanup\<close>: the coordinator of the design, \<open>handle_request_scoped\<close>, in which
    a stage is a scoped resource (\<open>with_stage\<close>), and \<open>repair\<close>, which closes the
    stages a trace has left open; the code is the design up to \<open>repair\<close>.
  \<^item> \<open>Payload\<close>: the type of a chat payload (\<open>entry_ok\<close>, \<open>payload_ok\<close>) and the
    requests of a run as values of that type.
  \<^item> \<open>JsonText\<close>: the parser \<open>py_loads\<close> behind \<open>json.loads\<close>, in the structure of
    the library's decoder (string literals, the number pattern, objects, arrays), with
    the proofs that it consumes input, never runs out of fuel and returns well-formed
    values.
  \<^item> \<open>JsonPrint\<close>: a text \<open>render\<close> for every value and the round trip
    \<open>py_loads (render v) = Some v\<close>.
  \<^item> \<open>Wire\<close>: the formats on the wire (the event stream of the stateful agent, the
    answer of its session endpoint, the text of a decision), what the gateway and the
    classifier read from them with \<open>py_loads\<close> as the parser, and the whole first turn
    with the stateful agent as one exchange of texts (\<open>first_turn_exchange\<close>).
  \<^item> \<open>Requests\<close>: the arguments of the calls a run sends out, as the sources write
    them: the client and the keyword arguments of the two model calls (\<open>agent.py\<close>,
    lines 76, 118 to 130 and 234 to 238), the constructor of \<open>UMSAgentGateway\<close> and
    the method, URL, JSON body and timeout argument of its two HTTP requests
    (\<open>ums_agent.py\<close>, lines 32 to 39, 118 to 119 and 152 to 161), Python's \<open>str\<close> on
    the session identifier (\<open>py_str\<close>), and \<open>calls\<close>, which reads a trace as the list
    of the calls its events stand for.
  \<^item> This theory: the properties that span the components of one run and of two
    consecutive runs, and the bounds on what one run sends.

  \<^bold>\<open>Conventions.\<close> A Python function that awaits, writes to a stage or to the choice,
  or sends a request is a computation over the trace; what it raises is the \<open>Inl\<close>
  branch of its result, and the trace is kept on that branch, so that what a failed
  run has already written is part of every statement. The collaborators outside
  \<open>src/\<close> (the model client, the HTTP client, \<open>json.loads\<close>, the general-purpose
  agent) are fields of the environment: every theorem holds for every environment,
  and a witness fixes one. An answer that is streamed is the finite list of the items
  that arrive and the failure that ends it, if any; the loops over it are structural
  recursions, so no fuel is needed for them. The development has two fuels. The first is
  the number of steps of \<open>run_for\<close>: four steps reach the end of every run, because each
  step of the machine moves to a later phase and there are four transitions from
  \<open>Idle\<close> to \<open>Done\<close> (\<open>coordinator_terminates\<close>); from a later phase four less its
  rank are enough, and no sequence of steps is longer (\<open>every_run_completes\<close>). A
  conversation has no bound: \<open>talks\<close> is inductive, its properties are proved by rule
  induction, and \<open>converse\<close> computes the runs of a given list of user messages. The
  second fuel is that of the parser: \<open>scan_once\<close> spends one unit per nested value and
  \<open>scan_items\<close> one per item of a container; \<open>py_loads\<close> starts with the length of the
  text plus one, which is enough because every scanner consumes at least one character
  per unit, and more fuel returns the same (\<open>py_loads_is_total\<close>). Python's \<open>None\<close> is \<open>JNull\<close> where
  it is a JSON value and \<open>None\<close> of an option where it is an absent field. Strings are
  HOL strings; a character outside ASCII is written as its UTF-8 bytes.

  \<^bold>\<open>Modelled from the specification.\<close> The sources import four modules that are
  not among them: \<open>task/models.py\<close> (the decision and its validation),
  \<open>task/stage_util.py\<close> (open and close a stage), \<open>task/coordination/gpa.py\<close> (the
  gateway of the general-purpose agent) and the chat SDK (messages, stages, the
  choice, the application object and its table of deployments). They are modelled
  from the contracts the specification gives; the text of the agent's name in a stage
  label is taken to be the value of the enumeration. The caller between two runs
  (\<open>store\<close>, \<open>next_request\<close>) is modelled from the data model of the specification:
  a reply is stored with the state its run attached, and a run that raised leaves the
  user's message without a reply. The coordinator of the design in \<open>Cleanup\<close>
  translates no source line: it is the behaviour the specification asks for, and the
  theorems state how far the code is from it.

  \<^bold>\<open>Not modelled.\<close> The web server started under \<open>__main__\<close> in \<open>app.py\<close> and the
  logging (\<open>task/logging_config.py\<close>, the \<open>logger\<close> calls): input and output only,
  with no effect on a run. Of \<open>json.loads\<close>: the recursion limit of the interpreter
  and the limit on the digits of an integer, on which the library raises an exception
  that is not \<open>JSONDecodeError\<close>, and the value of a float beyond whether it is zero.
  Of the HTTP client and the model client: the libraries themselves. \<open>Requests\<close> has
  the arguments the sources pass to them; the headers, the serialisation of the body,
  the parsing of the URL, the splitting of the answer into lines (\<open>aiter_lines\<close>) and
  what a timeout does are the libraries' and are not represented: an answer is a
  field of the environment, and a timeout is one of the transport failures it may
  return. Of Python's \<open>str\<close>: its result on a float other than the three constants
  (the shortest decimal that reads back as the same double), on a list or a
  dictionary (the \<open>repr\<close> of the elements) and on an integer of more than 4300
  digits (an exception since Python 3.11); the chat request for such an identifier
  is \<open>None\<close> in \<open>Requests\<close>, and the theorems of the components, which record a
  request by its kind, its identifier and its text, hold for it all the same. The
  JSON schema of the decision, which \<open>task/models.py\<close> generates: it is a parameter
  of the structured call. Attachments and nested stages of the SDK, which the
  sources never use. Concurrency between runs, which share no state. With these,
  every statement of the four source files that acts on a run is a definition of the
  development; what is left (the docstrings, the imports, the \<open>logger\<close> calls and
  the start of the server) has no behaviour to state a theorem about.

  \<^bold>\<open>The parser.\<close> The components take the parser as the field \<open>json_loads\<close> of the
  environment, and their theorems hold for every parser; the witnesses of the
  components use the finite table \<open>sample_loads\<close>, which agrees with \<open>py_loads\<close> on its
  texts (\<open>sample_loads_sound\<close>). The theorems of \<open>Wire\<close> fix the parser to \<open>py_loads\<close>,
  which is modelled from the grammar the library documents and not from code of the
  repository.

  \<^bold>\<open>What the lemmas show.\<close> For the stream reader: the loop returns the exact
  concatenation of the fragments before the sentinel, and a line that is valid JSON
  but not an object aborts the stream. For the gateway: one session creation on a
  first turn, none afterwards, the first identifier of the history wins, and the
  session survives the turn. For a conversation: every history it produces stores at
  most one identifier, so the lookup of the code and the lookup of the design agree
  on it; at most one session is created per failed run and one more; a session
  created by a run that fails afterwards is lost. For the adapter: the system entry is first and a user
  message never carries custom content. For the classifier: no decision without a
  text that parses and validates. For the synthesis: the answer channel shows what is
  returned. For the coordinator: the run refines the machine, ends in four steps,
  keeps the protocol of the surfaces, closes both stages when it returns and leaves
  one open when it fails before the synthesis; it is the coordinator of the design
  followed by no repair exactly when it leaves every stage closed; every request it
  sends to the model is a well-typed payload; and one run sends a bounded number of
  requests, and the calls it sends are, argument by argument, the ones
  \<open>calls_of_a_run\<close> lists: the structured call, for the stateful agent the creation
  of a session when none is stored and the chat request with the identifier in its
  URL, otherwise the delegation, and the streaming call. For the phases: they are
  ordered, every step goes up, and nothing is reached twice. For the application shell: the choice is closed on every path, each
  setting has its default and its own variable, and only the deployment
  \<open>mas-coordinator\<close> is served. For the parser: it is total, returns well-formed
  values and reads back the text of every value. For the wire: the fragments the
  agent streams in the documented format are what the gateway returns, the text of
  a decision is the decision the classifier returns, and a first turn in which the
  collaborators answer with these texts gives the reply and the trace of events that
  \<open>first_turn_exchange\<close> writes out in full.
\<close>

section \<open>The requests of a whole run\<close>

lemma run_model_calls:
  assumes "handle_request environ request tr = (Inr reply, tr')"
  shows "\<exists>m messages. synthesis_messages request m = Inr messages
       \<and> model_calls tr' = model_calls tr
           @ [ModelRequested Structured (coordination_messages request),
              ModelRequested Streaming messages]"
proof -
  from assms obtain d tr1 m tr2 where r1: "routing_step environ request tr = (Inr d, tr1)"
    and r2: "delegating_step environ request d tr1 = (Inr m, tr2)"
    and r3: "final_response environ request m tr2 = (Inr reply, tr')"
    by (rule handle_request_returns)
  obtain messages where m: "synthesis_messages request m = Inr messages"
    and "model_calls (snd (final_response environ request m tr2)) =
       model_calls tr2 @ [ModelRequested Streaming messages]"
    using final_response_views [of request m environ tr2] by blast
  moreover have "model_calls tr2 = model_calls tr @ [ModelRequested Structured (coordination_messages request)]"
    using routing_step_views(3) [of environ request tr] delegating_step_views(3) [of environ request d tr1]
      r1 r2 by simp
  ultimately have "synthesis_messages request m = Inr messages
       \<and> model_calls tr' = model_calls tr
           @ [ModelRequested Structured (coordination_messages request),
              ModelRequested Streaming messages]"
    using r3 by simp
  then show ?thesis by blast
qed

lemma first_run_session:
  assumes "handle_request environ request tr = (Inr reply, tr')"
    and "decision environ request = Inr d" and "agent_name d = UMS"
    and "list_all carries_no_session request" and "request \<noteq> []"
  shows "\<exists>cid messages.
           posts tr' = posts tr @ [ModelRequested Structured (coordination_messages request),
             ConversationPosted,
             ChatPosted cid (sent_content request (additional_instructions d)),
             ModelRequested Streaming messages]
         \<and> states_set tr' = states_set tr @ [session_state cid]
         \<and> msg_role reply = Assistant"
proof -
  from assms(1) obtain d' tr1 m tr2 where d': "decision environ request = Inr d'"
    and r1: "routing_step environ request tr = (Inr d', tr1)"
    and r2: "delegating_step environ request d' tr1 = (Inr m, tr2)"
    and r3: "final_response environ request m tr2 = (Inr reply, tr')"
    by (rule handle_request_returns)
  from d' assms(2) have [simp]: "d' = d" by simp
  let ?tr1 = "tr1 @ [StageOpened (stage_count tr1) (agent_stage_name d)]"
  obtain tr2' where gw: "ums_response environ (stage_count tr1) request (additional_instructions d) ?tr1
      = (Inr m, tr2')"
    using r2 delegating_step_result [of environ request d tr1] assms(3)
    by (cases "ums_response environ (stage_count tr1) request (additional_instructions d) ?tr1") simp
  have none: "get_ums_conversation_id request = Inr JNull"
    using assms(4) by (rule get_ums_conversation_id_none)
  obtain cid where p: "posts tr2' = posts ?tr1 @ [ConversationPosted,
        ChatPosted cid (sent_content request (additional_instructions d))]"
    and s: "states_set tr2' = states_set ?tr1 @ [session_state cid]"
    using first_turn_views [OF none assms(5) gw] by blast
  have v1: "posts tr1 = posts tr @ [ModelRequested Structured (coordination_messages request)]"
      "states_set tr1 = states_set tr"
    using routing_step_views(1,2) [of environ request tr] r1 by simp_all
  have v2: "posts tr2 = posts tr2'" "states_set tr2 = states_set tr2'"
    using delegating_step_views(1,2) [of environ request d tr1] r2 gw assms(3) by simp_all
  obtain messages where v3: "posts tr' = posts tr2 @ [ModelRequested Streaming messages]"
    using final_response_views [of request m environ tr2] r3 by auto
  have v4: "states_set tr' = states_set tr2"
    using final_response_stages(4) [of environ request m tr2] r3 by simp
  have "msg_role reply = Assistant"
    using final_response_returns [OF r3] by (auto simp: assistant_message_def)
  with p s v1 v2 v3 v4 show ?thesis
    by (intro exI [of _ cid] exI [of _ messages]) simp
qed

lemma later_run_calls:
  assumes "decision environ request = Inr d" and "agent_name d = UMS"
    and "get_ums_conversation_id request = Inr cid" and "cid \<noteq> JNull" and "request \<noteq> []"
  shows "ums_calls (snd (handle_request environ request tr)) =
           ums_calls tr @ [ChatPosted cid (sent_content request (additional_instructions d))]"
    and "states_set (snd (handle_request environ request tr)) = states_set tr"
proof -
  obtain tr1 where r1: "routing_step environ request tr = (Inr d, tr1)"
    using assms(1) routing_step_result [of environ request tr]
    by (cases "routing_step environ request tr") simp
  let ?tr1 = "tr1 @ [StageOpened (stage_count tr1) (agent_stage_name d)]"
  obtain r2 tr2 where r2: "delegating_step environ request d tr1 = (r2, tr2)"
    by (cases "delegating_step environ request d tr1")
  have v1: "posts tr1 = posts tr @ [ModelRequested Structured (coordination_messages request)]"
      "states_set tr1 = states_set tr"
    using routing_step_views(1,2) [of environ request tr] r1 by simp_all
  have v2: "posts tr2 = posts ?tr1 @ [ChatPosted cid (sent_content request (additional_instructions d))]"
      "states_set tr2 = states_set ?tr1"
    using delegating_step_views(1,2) [of environ request d tr1] r2 assms(2-5)
    by (simp_all add: ums_response_found call_ums_agent_views)
  have final: "ums_calls (snd (final_response environ request m tr2)) = ums_calls tr2
      \<and> states_set (snd (final_response environ request m tr2)) = states_set tr2" for m
    using final_response_views [of request m environ tr2]
      final_response_stages(4) [of environ request m tr2]
    by (auto simp: ums_calls_def)
  have "snd (handle_request environ request tr) = tr2
      \<or> (\<exists>m. snd (handle_request environ request tr) = snd (final_response environ request m tr2))"
  proof (cases r2)
    case (Inl e)
    with r1 r2 show ?thesis by (simp add: handle_request_apply)
  next
    case (Inr m)
    with r1 r2 have "snd (handle_request environ request tr) = snd (final_response environ request m tr2)"
      by (simp add: handle_request_apply)
    then show ?thesis by blast
  qed
  with final v1 v2
  show "ums_calls (snd (handle_request environ request tr)) =
           ums_calls tr @ [ChatPosted cid (sent_content request (additional_instructions d))]"
    and "states_set (snd (handle_request environ request tr)) = states_set tr"
    by (auto simp: ums_calls_def)
qed

lemma gateway_calls_bound:
  "length (ums_calls (snd (handle_coordination_request environ d stage request tr)))
     \<le> length (ums_calls tr) + 2"
  "length (gpa_calls (snd (handle_coordination_request environ d stage request tr)))
     \<le> length (gpa_calls tr) + 1"
proof -
  show "length (ums_calls (snd (handle_coordination_request environ d stage request tr)))
     \<le> length (ums_calls tr) + 2"
    using ums_response_ums_calls [of environ stage request "additional_instructions d" tr]
    by (cases "agent_name d") (simp_all add: gpa_response_calls(1))
  show "length (gpa_calls (snd (handle_coordination_request environ d stage request tr)))
     \<le> length (gpa_calls tr) + 1"
    by (cases "agent_name d") (simp_all add: ums_response_no_gpa_call gpa_response_calls(2))
qed

lemma run_calls_bound:
  "length (ums_calls (snd (handle_request environ request tr))) \<le> length (ums_calls tr) + 2"
  "length (gpa_calls (snd (handle_request environ request tr))) \<le> length (gpa_calls tr) + 1"
proof -
  obtain r1 tr1 where r1: "routing_step environ request tr = (r1, tr1)"
    by (cases "routing_step environ request tr")
  then have v1: "ums_calls tr1 = ums_calls tr" "gpa_calls tr1 = gpa_calls tr"
    using routing_step_views(1) [of environ request tr] by (simp_all add: ums_calls_def gpa_calls_def)
  have v2: "length (ums_calls (snd (delegating_step environ request d tr1))) \<le> length (ums_calls tr) + 2
      \<and> length (gpa_calls (snd (delegating_step environ request d tr1))) \<le> length (gpa_calls tr) + 1" for d
    using gateway_calls_bound [of environ d "stage_count tr1" request
        "tr1 @ [StageOpened (stage_count tr1) (agent_stage_name d)]"] v1
    by (simp add: delegating_step_views(1) ums_calls_def gpa_calls_def)
  have v3: "ums_calls (snd (final_response environ request m tr2)) = ums_calls tr2
      \<and> gpa_calls (snd (final_response environ request m tr2)) = gpa_calls tr2" for m tr2
    using final_response_views [of request m environ tr2] by (auto simp: ums_calls_def gpa_calls_def)
  have "length (ums_calls (snd (handle_request environ request tr))) \<le> length (ums_calls tr) + 2
      \<and> length (gpa_calls (snd (handle_request environ request tr))) \<le> length (gpa_calls tr) + 1"
  proof (cases r1)
    case (Inl e)
    with r1 v1 show ?thesis by (simp add: handle_request_apply)
  next
    case (Inr d)
    with r1 v2 [of d] v3 show ?thesis
      by (cases "delegating_step environ request d tr1";
          cases "fst (delegating_step environ request d tr1)")
         (simp_all add: handle_request_apply)
  qed
  then show "length (ums_calls (snd (handle_request environ request tr))) \<le> length (ums_calls tr) + 2"
    and "length (gpa_calls (snd (handle_request environ request tr))) \<le> length (gpa_calls tr) + 1"
    by simp_all
qed

section \<open>The calls of a whole run\<close>

lemma ums_run_lookup:
  assumes "handle_request environ request tr = (Inr reply, tr')"
    and "decision environ request = Inr d" and "agent_name d = UMS"
  shows "\<exists>stored. get_ums_conversation_id request = Inr stored"
proof -
  from assms(1) obtain d' tr1 m tr2 where d': "decision environ request = Inr d'"
    and r2: "delegating_step environ request d' tr1 = (Inr m, tr2)"
    by (rule handle_request_returns)
  from d' assms(2) have [simp]: "d' = d" by simp
  from r2 delegating_step_result [of environ request d tr1] assms(3) show ?thesis
    by (cases "get_ums_conversation_id request")
      (simp_all add: ums_response_apply resolve_conversation_raises)
qed

lemma ums_run_posts:
  assumes "handle_request environ request tr = (Inr reply, tr')"
    and "decision environ request = Inr d" and "agent_name d = UMS"
    and "get_ums_conversation_id request = Inr stored"
  shows "\<exists>cid messages. (stored \<noteq> JNull \<longrightarrow> cid = stored)
       \<and> posts tr' = posts tr @ ModelRequested Structured (coordination_messages request)
           # (if stored = JNull then [ConversationPosted] else [])
           @ [ChatPosted cid (sent_content request (additional_instructions d)),
              ModelRequested Streaming messages]"
proof -
  from assms(1) obtain d' tr1 m tr2 where d': "decision environ request = Inr d'"
    and r1: "routing_step environ request tr = (Inr d', tr1)"
    and r2: "delegating_step environ request d' tr1 = (Inr m, tr2)"
    and r3: "final_response environ request m tr2 = (Inr reply, tr')"
    by (rule handle_request_returns)
  from d' assms(2) have [simp]: "d' = d" by simp
  let ?tr1 = "tr1 @ [StageOpened (stage_count tr1) (agent_stage_name d)]"
  obtain tr2' where gw: "ums_response environ (stage_count tr1) request (additional_instructions d) ?tr1
      = (Inr m, tr2')"
    using r2 delegating_step_result [of environ request d tr1] assms(3)
    by (cases "ums_response environ (stage_count tr1) request (additional_instructions d) ?tr1") simp
  then have nonempty: "request \<noteq> []"
    by (auto simp: ums_response_apply split: prod.splits sum.splits if_splits)
  have v1: "posts tr1 = posts tr @ [ModelRequested Structured (coordination_messages request)]"
    using routing_step_views(1) [of environ request tr] r1 by simp
  have v2: "posts tr2 = posts tr2'"
    using delegating_step_views(1) [of environ request d tr1] r2 gw assms(3) by simp
  obtain messages where v3: "posts tr' = posts tr2 @ [ModelRequested Streaming messages]"
    using final_response_views [of request m environ tr2] r3 by auto
  have "\<exists>cid. (stored \<noteq> JNull \<longrightarrow> cid = stored)
      \<and> posts tr2' = posts ?tr1 @ (if stored = JNull then [ConversationPosted] else [])
          @ [ChatPosted cid (sent_content request (additional_instructions d))]"
  proof (cases "stored = JNull")
    case True
    with first_turn_views [OF _ nonempty gw] assms(4) show ?thesis by auto
  next
    case False
    with gw assms(4) nonempty call_ums_agent_views(1) [of environ stored
        "sent_content request (additional_instructions d)" "stage_count tr1" ?tr1]
    show ?thesis
      by (auto simp: ums_response_found split: prod.splits sum.splits)
  qed
  with v1 v2 v3 show ?thesis by auto
qed

lemma gpa_run_posts:
  assumes "handle_request environ request tr = (Inr reply, tr')"
    and "decision environ request = Inr d" and "agent_name d \<noteq> UMS"
  shows "\<exists>messages. posts tr' = posts tr @
           [ModelRequested Structured (coordination_messages request),
            AgentRequested (additional_instructions d),
            ModelRequested Streaming messages]"
proof -
  from assms(1) obtain d' tr1 m tr2 where d': "decision environ request = Inr d'"
    and r1: "routing_step environ request tr = (Inr d', tr1)"
    and r2: "delegating_step environ request d' tr1 = (Inr m, tr2)"
    and r3: "final_response environ request m tr2 = (Inr reply, tr')"
    by (rule handle_request_returns)
  from d' assms(2) have [simp]: "d' = d" by simp
  have v1: "posts tr1 = posts tr @ [ModelRequested Structured (coordination_messages request)]"
    using routing_step_views(1) [of environ request tr] r1 by simp
  have v2: "posts tr2 = posts tr1 @ [AgentRequested (additional_instructions d)]"
    using delegating_step_views(1) [of environ request d tr1] r2 assms(3)
    by (cases "agent_name d") (simp_all add: gpa_response_views)
  obtain messages where v3: "posts tr' = posts tr2 @ [ModelRequested Streaming messages]"
    using final_response_views [of request m environ tr2] r3 by auto
  with v1 v2 show ?thesis by auto
qed

lemma run_calls:
  assumes "handle_request environ request tr = (Inr reply, tr')"
  shows "\<exists>d messages between.
      decision environ request = Inr d
    \<and> calls self s request tr' = calls self s request tr
        @ Some (Completion (coordination_call self s (coordination_messages request)))
        # between @ [Some (Completion (synthesis_call self messages))]
    \<and> (agent_name d \<noteq> UMS \<longrightarrow>
         between = [Some (Delegated (endpoint self) request (additional_instructions d))])
    \<and> (agent_name d = UMS \<longrightarrow>
         (\<exists>stored cid. get_ums_conversation_id request = Inr stored
            \<and> (stored \<noteq> JNull \<longrightarrow> cid = stored)
            \<and> between =
                (if stored = JNull
                 then [Some (Http (conversations_request (UMSAgentGateway (ums_agent_endpoint self))))]
                 else [])
                @ [map_option Http (chat_request (UMSAgentGateway (ums_agent_endpoint self)) cid
                     (sent_content request (additional_instructions d)))]))"
proof -
  from assms obtain d where d: "decision environ request = Inr d"
    by (rule handle_request_returns)
  show ?thesis
  proof (cases "agent_name d = UMS")
    case True
    from assms d True have "\<exists>stored. get_ums_conversation_id request = Inr stored"
      by (rule ums_run_lookup)
    then obtain stored where stored: "get_ums_conversation_id request = Inr stored" ..
    from ums_run_posts [OF assms d True stored] obtain cid messages
      where "stored \<noteq> JNull \<longrightarrow> cid = stored"
        and "posts tr' = posts tr @ ModelRequested Structured (coordination_messages request)
           # (if stored = JNull then [ConversationPosted] else [])
           @ [ChatPosted cid (sent_content request (additional_instructions d)),
              ModelRequested Streaming messages]"
      by blast
    with d True stored calls_append_posts [OF this(2), of self s request] show ?thesis
      by (intro exI [of _ d] exI [of _ messages]) auto
  next
    case False
    from gpa_run_posts [OF assms d False] obtain messages
      where "posts tr' = posts tr @
           [ModelRequested Structured (coordination_messages request),
            AgentRequested (additional_instructions d),
            ModelRequested Streaming messages]" ..
    with d False calls_append_posts [OF this, of self s request] show ?thesis
      by (intro exI [of _ d] exI [of _ messages]) auto
  qed
qed

section \<open>Properties of a whole run\<close>

text \<open>
  The requests of a first turn, in order. When the classifier chooses the
  stateful agent for a history without a session and the run returns, the run has
  sent, in this order: the classifier's request, one session creation, one chat call
  with the created identifier and the text of the last message (extended by the
  instructions of the decision only if there are any), and the request of the
  synthesis; it has attached the identifier as state, and its reply is an assistant
  message.
\<close>

theorem first_turn_requests_in_order:
  assumes "handle_request environ request tr = (Inr reply, tr')"
    and "decision environ request = Inr d" and "agent_name d = UMS"
    and "list_all carries_no_session request" and "request \<noteq> []"
  shows "\<exists>cid messages.
           posts tr' = posts tr @ [ModelRequested Structured (coordination_messages request),
             ConversationPosted,
             ChatPosted cid (sent_content request (additional_instructions d)),
             ModelRequested Streaming messages]
         \<and> states_set tr' = states_set tr @ [session_state cid]
         \<and> msg_role reply = Assistant"
  using assms by (rule first_run_session)

theorem first_turn_requests_in_order_witness:
  "posts (snd (handle_request sample_env sample_request [])) =
     [ModelRequested Structured (coordination_messages sample_request),
      ConversationPosted,
      ChatPosted (JStr ''abc'') ''create user Alice'',
      ModelRequested Streaming
        [role_content ''system'' FINAL_RESPONSE_SYSTEM_PROMPT,
         composite_entry (last sample_request) (assistant_message ''Hello'')]]
   \<and> fst (handle_request sample_env sample_request []) = Inr (assistant_message ''User created.'')"
  using first_turn_requests_in_order [OF sample_run, of "\<lparr>agent_name = UMS, additional_instructions = None\<rparr>"]
  by (simp add: sample_run)

text \<open>
  C6. The session survives from one run to the next. After a first run through the
  stateful agent that returns, the caller stores the reply with the state of the run
  and sends the history with the next user message. If the classifier chooses the
  stateful agent again, the second run creates no session and attaches no state: its
  one request to the agent is a chat call with the identifier the first run created
  (provided the agent issued one that is not \<open>null\<close>), whether the second run then
  returns or fails.
\<close>

theorem session_survives_two_runs:
  assumes "handle_request environ request tr = (Inr reply, tr')"
    and "decision environ request = Inr d" and "agent_name d = UMS"
    and "list_all carries_no_session request" and "request \<noteq> []" and "states_set tr = []"
    and "decision environ (next_request request reply tr' user_message) = Inr d2"
    and "agent_name d2 = UMS"
  shows "\<exists>cid. ChatPosted cid (sent_content request (additional_instructions d)) \<in> set (posts tr')
       \<and> (cid \<noteq> JNull \<longrightarrow>
            ums_calls (snd (handle_request environ (next_request request reply tr' user_message) tr2)) =
              ums_calls tr2 @ [ChatPosted cid
                (sent_content (next_request request reply tr' user_message) (additional_instructions d2))]
          \<and> states_set (snd (handle_request environ (next_request request reply tr' user_message) tr2)) =
              states_set tr2)"
proof -
  let ?next = "next_request request reply tr' user_message"
  obtain cid messages where p: "posts tr' = posts tr @ [ModelRequested Structured (coordination_messages request),
             ConversationPosted,
             ChatPosted cid (sent_content request (additional_instructions d)),
             ModelRequested Streaming messages]"
    and s: "states_set tr' = states_set tr @ [session_state cid]"
    and role: "msg_role reply = Assistant"
    using first_run_session [OF assms(1-5)] by blast
  have "persisted_reply reply tr' = with_state reply (session_state cid)"
    using s assms(6) by (simp add: persisted_reply_def)
  then have found: "get_ums_conversation_id ?next = Inr cid"
    using assms(4) role by (simp add: next_request_def get_ums_conversation_id_skip)
  have "?next \<noteq> []"
    by (simp add: next_request_def)
  with found later_run_calls [OF assms(7,8), of cid tr2] p show ?thesis
    by (intro exI [of _ cid]) simp
qed

theorem session_survives_two_runs_witness:
  "ums_calls (snd (handle_request sample_env
      (next_request sample_request (assistant_message ''User created.'')
         (snd (handle_request sample_env sample_request []))
         \<lparr>msg_role = User, msg_content = Some ''list users'', msg_custom = None\<rparr>) [])) =
   [ChatPosted (JStr ''abc'') ''list users'']"
  using session_survives_two_runs [OF sample_run,
      of "\<lparr>agent_name = UMS, additional_instructions = None\<rparr>"
         "\<lparr>msg_role = User, msg_content = Some ''list users'', msg_custom = None\<rparr>"
         "\<lparr>agent_name = UMS, additional_instructions = None\<rparr>" "[]"]
  by (auto simp: sample_run sent_content_def next_request_def)

text \<open>
  C26. One run is bounded: nothing is retried. On every path, returning or raising, a
  run of \<open>handle_request\<close> sends at most two requests to the model, at most one
  session creation and two requests in all to the stateful agent, at most one request
  to the general-purpose agent, opens at most two stages and attaches at most one
  state.
\<close>

theorem run_is_bounded:
  "length (model_calls (snd (handle_request environ request tr))) \<le> length (model_calls tr) + 2
   \<and> creations (snd (handle_request environ request tr)) \<le> creations tr + 1
   \<and> length (ums_calls (snd (handle_request environ request tr))) \<le> length (ums_calls tr) + 2
   \<and> length (gpa_calls (snd (handle_request environ request tr))) \<le> length (gpa_calls tr) + 1
   \<and> stage_count (snd (handle_request environ request tr)) \<le> stage_count tr + 2
   \<and> length (states_set (snd (handle_request environ request tr))) \<le> length (states_set tr) + 1"
proof -
  have "length (model_calls (snd (handle_request environ request tr))) \<le> length (model_calls tr) + 2"
    by (cases environ request tr rule: model_calls_of_run) simp_all
  moreover have "creations (run_session_events environ request) \<le> 1"
    and "length (states_set (run_session_events environ request)) \<le> 1"
    by (cases environ request rule: run_session_events_cases; simp)+
  ultimately show ?thesis
    using run_calls_bound [of environ request tr]
    by (simp add: run_session run_stage_count split: sum.splits)
qed

theorem run_is_bounded_witness:
  "length (model_calls (snd (handle_request sample_env sample_request []))) = 2
   \<and> creations (snd (handle_request sample_env sample_request [])) = 1
   \<and> length (ums_calls (snd (handle_request sample_env sample_request []))) = 2
   \<and> stage_count (snd (handle_request sample_env sample_request [])) = 2
   \<and> length (states_set (snd (handle_request sample_env sample_request []))) = 1"
  using run_is_bounded [of sample_env sample_request "[]"]
  by (simp add: sample_run ums_calls_def)

text \<open>
  C36. The calls of a run follow the protocols of the collaborators. A run that returns
  has sent, in this order and with these arguments: the structured request of the
  classifier, to the client of the coordinator's endpoint, for the coordinator's
  deployment, with the JSON schema of the decision as response format and no stream
  flag; then either one call of the general-purpose gateway built on the coordinator's
  endpoint, with the request and the instructions of the decision, or the requests to
  the stateful agent: a \<open>POST\<close> to \<open>/conversations\<close> without a body and without a timeout
  of its own exactly when the history stores no identifier, and one \<open>POST\<close> to
  \<open>/conversations/{id}/chat\<close> with the timeout of 120 seconds, whose body holds the
  text sent as the content of a user message and the stream flag, and whose identifier
  is the stored one, formatted by \<open>str\<close> and not escaped; and last the streaming request
  of the synthesis, to the same client and deployment, without a response format.
\<close>

theorem calls_of_a_run:
  assumes "handle_request environ request tr = (Inr reply, tr')"
  shows "\<exists>d messages between.
      decision environ request = Inr d
    \<and> calls self model_json_schema request tr' = calls self model_json_schema request tr
        @ Some (Completion
            \<lparr>client = \<lparr>base_url = endpoint self, api_version = ''2025-01-01-preview''\<rparr>,
             model_arg = deployment_name self,
             messages_arg = coordination_messages request,
             extra_body_arg = Some (JObj [(''response_format'',
               JObj [(''type'', JStr ''json_schema''),
                     (''json_schema'', JObj [(''name'', JStr ''response''),
                                             (''schema'', model_json_schema)])])]),
             stream_arg = False\<rparr>)
        # between
        @ [Some (Completion
            \<lparr>client = \<lparr>base_url = endpoint self, api_version = ''2025-01-01-preview''\<rparr>,
             model_arg = deployment_name self, messages_arg = messages,
             extra_body_arg = None, stream_arg = True\<rparr>)]
    \<and> (agent_name d \<noteq> UMS \<longrightarrow>
         between = [Some (Delegated (endpoint self) request (additional_instructions d))])
    \<and> (agent_name d = UMS \<longrightarrow>
         (\<exists>stored cid. get_ums_conversation_id request = Inr stored
            \<and> (stored \<noteq> JNull \<longrightarrow> cid = stored)
            \<and> between =
                (if stored = JNull
                 then [Some (Http \<lparr>client_timeout = None, http_method = ''POST'',
                                   url = ums_agent_endpoint self @ ''/conversations'',
                                   json_body = None\<rparr>)]
                 else [])
                @ [map_option (\<lambda>text. Http
                     \<lparr>client_timeout = Some 120, http_method = ''POST'',
                      url = ums_agent_endpoint self @ ''/conversations/'' @ text @ ''/chat'',
                      json_body = Some (JObj
                        [(''message'', JObj [(''role'', JStr ''user''),
                           (''content'', JStr (sent_content request (additional_instructions d)))]),
                         (''stream'', JBool True)])\<rparr>) (py_str cid)]))"
proof -
  from run_calls [OF assms, of self model_json_schema] obtain d messages between
    where "decision environ request = Inr d"
      and "calls self model_json_schema request tr' = calls self model_json_schema request tr
        @ Some (Completion (coordination_call self model_json_schema (coordination_messages request)))
        # between @ [Some (Completion (synthesis_call self messages))]"
      and "agent_name d \<noteq> UMS \<longrightarrow>
         between = [Some (Delegated (endpoint self) request (additional_instructions d))]"
      and "agent_name d = UMS \<longrightarrow>
         (\<exists>stored cid. get_ums_conversation_id request = Inr stored
            \<and> (stored \<noteq> JNull \<longrightarrow> cid = stored)
            \<and> between =
                (if stored = JNull
                 then [Some (Http (conversations_request (UMSAgentGateway (ums_agent_endpoint self))))]
                 else [])
                @ [map_option Http (chat_request (UMSAgentGateway (ums_agent_endpoint self)) cid
                     (sent_content request (additional_instructions d)))])"
    by blast
  then show ?thesis
    unfolding request_defs option.map_comp comp_def
    by (intro exI [of _ d] exI [of _ messages] exI [of _ between]) (simp cong: if_cong)
qed

theorem calls_of_a_run_witness:
  "calls default_coordinator (JObj []) sample_request (snd (handle_request sample_env sample_request [])) =
     [Some (Completion
        \<lparr>client = \<lparr>base_url = ''http://localhost:8080'', api_version = ''2025-01-01-preview''\<rparr>,
         model_arg = ''gpt-4o'', messages_arg = coordination_messages sample_request,
         extra_body_arg = Some (JObj [(''response_format'',
           JObj [(''type'', JStr ''json_schema''),
                 (''json_schema'', JObj [(''name'', JStr ''response''), (''schema'', JObj [])])])]),
         stream_arg = False\<rparr>),
      Some (Http \<lparr>client_timeout = None, http_method = ''POST'',
                  url = ''http://localhost:8042/conversations'', json_body = None\<rparr>),
      Some (Http \<lparr>client_timeout = Some 120, http_method = ''POST'',
                  url = ''http://localhost:8042/conversations/abc/chat'',
                  json_body = Some (JObj
                    [(''message'', JObj [(''role'', JStr ''user''), (''content'', JStr ''create user Alice'')]),
                     (''stream'', JBool True)])\<rparr>),
      Some (Completion
        \<lparr>client = \<lparr>base_url = ''http://localhost:8080'', api_version = ''2025-01-01-preview''\<rparr>,
         model_arg = ''gpt-4o'',
         messages_arg = [role_content ''system'' FINAL_RESPONSE_SYSTEM_PROMPT,
                         composite_entry (last sample_request) (assistant_message ''Hello'')],
         extra_body_arg = None, stream_arg = True\<rparr>)]"
  using calls_of_a_run [OF sample_run, of default_coordinator "JObj []"]
  by (simp add: sample_run calls_def posts_def request_defs)

end
